(* ===== verification/Prelude.thy ===== *)
theory Prelude
  imports Main
begin

text \<open>
  What the components of the development share: results with errors as values, database
  transactions as state-passing functions that either fail and leave no trace or return a value
  and the new state, tables as lists of rows with lookup and update by key, the lookup laws of a
  keyed table as a locale, the contract of a transition table as a locale, invariants of a
  transition system as a locale, and the few string functions of the JavaScript library the
  sources use.
\<close>

named_theorems tx_simps \<open>unfolding of transaction combinators\<close>
named_theorems row_simps \<open>reads of a table after an update\<close>

type_synonym uuid = nat
type_synonym instant = int

section \<open>Results and transactions\<close>

text \<open>A fallible computation: \<open>Inl\<close> is the thrown error, \<open>Inr\<close> the returned value.\<close>

definition err_bind :: "'e + 'a \<Rightarrow> ('a \<Rightarrow> 'e + 'b) \<Rightarrow> 'e + 'b" where
  "err_bind m k = (case m of Inl e \<Rightarrow> Inl e | Inr x \<Rightarrow> k x)"

lemma err_bind_simps [simp]:
  "err_bind (Inl e) k = Inl e"
  "err_bind (Inr x) k = k x"
  by (simp_all add: err_bind_def)

lemma err_bind_Inr_iff: "err_bind m k = Inr y \<longleftrightarrow> (\<exists>x. m = Inr x \<and> k x = Inr y)"
  by (cases m) auto

lemma err_bind_Inl_iff:
  "err_bind m k = Inl e \<longleftrightarrow> m = Inl e \<or> (\<exists>x. m = Inr x \<and> k x = Inl e)"
  by (cases m) auto

text \<open>
  A transaction over a state \<open>'s\<close>. An error discards every write, as the ROLLBACK of the
  database does: there is no state beside an error.
\<close>

type_synonym ('e, 's, 'a) tx = "'s \<Rightarrow> 'e + 'a \<times> 's"

definition tx_return :: "'a \<Rightarrow> ('e, 's, 'a) tx" where
  "tx_return x s = Inr (x, s)"

definition tx_throw :: "'e \<Rightarrow> ('e, 's, 'a) tx" where
  "tx_throw e s = Inl e"

definition tx_bind :: "('e, 's, 'a) tx \<Rightarrow> ('a \<Rightarrow> ('e, 's, 'b) tx) \<Rightarrow> ('e, 's, 'b) tx" where
  "tx_bind t k s = (case t s of Inl e \<Rightarrow> Inl e | Inr (x, s') \<Rightarrow> k x s')"

definition tx_lift :: "'e + 'a \<Rightarrow> ('e, 's, 'a) tx" where
  "tx_lift m s = (case m of Inl e \<Rightarrow> Inl e | Inr x \<Rightarrow> Inr (x, s))"

text \<open>Running a transaction to its COMMIT or ROLLBACK: after an error the state is the old one.\<close>

definition commit :: "('e, 's, 'a) tx \<Rightarrow> 's \<Rightarrow> ('e + 'a) \<times> 's" where
  "commit t s = (case t s of Inl e \<Rightarrow> (Inl e, s) | Inr (x, s') \<Rightarrow> (Inr x, s'))"

lemma tx_return_apply [simp, tx_simps]: "tx_return x s = Inr (x, s)"
  by (simp add: tx_return_def)

lemma tx_throw_apply [simp, tx_simps]: "tx_throw e s = Inl e"
  by (simp add: tx_throw_def)

lemma tx_lift_simps [simp, tx_simps]:
  "tx_lift (Inl e) s = Inl e"
  "tx_lift (Inr x) s = Inr (x, s)"
  by (simp_all add: tx_lift_def)

lemma tx_bind_Inr_iff:
  "tx_bind t k s = Inr r \<longleftrightarrow> (\<exists>x s'. t s = Inr (x, s') \<and> k x s' = Inr r)"
  by (auto simp: tx_bind_def split: sum.splits prod.splits)

lemma tx_bind_ok [simp]: "t s = Inr (x, s') \<Longrightarrow> tx_bind t k s = k x s'"
  by (simp add: tx_bind_def)

lemma tx_bind_err [simp]: "t s = Inl e \<Longrightarrow> tx_bind t k s = Inl e"
  by (simp add: tx_bind_def)

lemma tx_lift_Inr_iff: "tx_lift m s = Inr (x, s') \<longleftrightarrow> m = Inr x \<and> s' = s"
  by (cases m) auto

lemma snd_commit: "snd (commit t s) = (case t s of Inl e \<Rightarrow> s | Inr (x, s') \<Rightarrow> s')"
  by (simp add: commit_def split: sum.splits prod.splits)

text \<open>An invariant that every successful run keeps is kept by the committed run, error or not.\<close>

lemma commit_invariant:
  assumes "I s" and "\<And>x s'. t s = Inr (x, s') \<Longrightarrow> I s'"
  shows "I (snd (commit t s))"
  using assms by (auto simp: snd_commit split: sum.splits)

section \<open>Tables: lists of rows\<close>

definition get_row :: "('r \<Rightarrow> 'k) \<Rightarrow> 'k \<Rightarrow> 'r list \<Rightarrow> 'r option" where
  "get_row key k rows = find (\<lambda>r. key r = k) rows"

definition set_row :: "('r \<Rightarrow> 'k) \<Rightarrow> 'k \<Rightarrow> 'r \<Rightarrow> 'r list \<Rightarrow> 'r list" where
  "set_row key k new rows = map (\<lambda>r. if key r = k then new else r) rows"

definition unique_keys :: "('r \<Rightarrow> 'k) \<Rightarrow> 'r list \<Rightarrow> bool" where
  "unique_keys key rows \<longleftrightarrow> distinct (map key rows)"

lemma get_row_SomeD:
  "get_row key k rows = Some r \<Longrightarrow> r \<in> set rows \<and> key r = k"
  by (auto simp: get_row_def find_Some_iff)

lemma get_row_None_iff: "get_row key k rows = None \<longleftrightarrow> k \<notin> key ` set rows"
  by (auto simp: get_row_def find_None_iff)

lemma get_row_unique:
  "unique_keys key rows \<Longrightarrow> r \<in> set rows \<Longrightarrow> get_row key (key r) rows = Some r"
  by (induction rows) (auto simp: get_row_def unique_keys_def)

lemma unique_keysD:
  "unique_keys key rows \<Longrightarrow> r \<in> set rows \<Longrightarrow> r' \<in> set rows \<Longrightarrow> key r = key r' \<Longrightarrow> r = r'"
  by (metis get_row_unique option.inject)

lemma set_row_keys:
  "key new = k \<Longrightarrow> map key (set_row key k new rows) = map key rows"
  by (induction rows) (auto simp: set_row_def)

lemma unique_keys_set_row [simp]:
  "key new = k \<Longrightarrow> unique_keys key (set_row key k new rows) = unique_keys key rows"
  by (simp add: unique_keys_def set_row_keys)

lemma set_set_row:
  "set (set_row key k new rows)
     = {r \<in> set rows. key r \<noteq> k} \<union> (if k \<in> key ` set rows then {new} else {})"
  by (auto simp: set_row_def)

lemma get_row_set_row [row_simps]:
  "key new = k \<Longrightarrow> get_row key j (set_row key k new rows)
     = (if j = k then (if k \<in> key ` set rows then Some new else None) else get_row key j rows)"
  by (induction rows) (auto simp: get_row_def set_row_def)

lemma unique_keys_append [simp]:
  "unique_keys key (rows @ [r]) \<longleftrightarrow> unique_keys key rows \<and> key r \<notin> key ` set rows"
  by (auto simp: unique_keys_def)

lemma get_row_append [row_simps]:
  "get_row key j (rows @ [r])
     = (case get_row key j rows of Some x \<Rightarrow> Some x | None \<Rightarrow> if key r = j then Some r else None)"
  by (induction rows) (auto simp: get_row_def)

lemma length_set_row [simp]: "length (set_row key k new rows) = length rows"
  by (simp add: set_row_def)

lemma unique_keys_Nil [simp]: "unique_keys key []"
  by (simp add: unique_keys_def)

section \<open>The contract of a transition table\<close>

text \<open>
  Every aggregate of the services has a table of the moves its status may make. The contract its
  clients use: the terminal predicate names exactly the states without a move, and a run of
  allowed moves that starts in a terminal state never leaves it.
\<close>

locale transition_table =
  fixes moves :: "'s \<Rightarrow> 's list" and terminal :: "'s \<Rightarrow> bool"
  assumes terminal_iff: "terminal s \<longleftrightarrow> moves s = []"
begin

definition can_move :: "'s \<Rightarrow> 's \<Rightarrow> bool" where
  "can_move a b \<longleftrightarrow> b \<in> set (moves a)"

lemma terminal_stuck: "terminal a \<Longrightarrow> \<not> can_move a b"
  by (simp add: can_move_def terminal_iff)

lemma moves_source_not_terminal: "can_move a b \<Longrightarrow> \<not> terminal a"
  using terminal_stuck by blast

text \<open>A history is a list of statuses in which each is an allowed move from the one before.\<close>

fun history :: "'s \<Rightarrow> 's list \<Rightarrow> bool" where
  "history a [] \<longleftrightarrow> True"
| "history a (b # bs) \<longleftrightarrow> can_move a b \<and> history b bs"

lemma history_terminal: "terminal a \<Longrightarrow> history a bs \<Longrightarrow> bs = []"
  by (cases bs) (auto dest: terminal_stuck)

lemma history_append: "history a (bs @ cs) \<longleftrightarrow> history a bs \<and> history (last (a # bs)) cs"
  by (induction bs arbitrary: a) auto

lemma history_terminal_last:
  assumes "history a (bs @ b # cs)" and "terminal b"
  shows "cs = []"
proof -
  from assms(1) have "history b cs" by (simp add: history_append)
  with assms(2) show ?thesis by (rule history_terminal)
qed

end

section \<open>Invariants of a transition system\<close>

inductive reaches :: "('s \<Rightarrow> 's \<Rightarrow> bool) \<Rightarrow> 's \<Rightarrow> 's \<Rightarrow> bool" for step where
  here: "reaches step s s"
| there: "reaches step s t \<Longrightarrow> step t u \<Longrightarrow> reaches step s u"

lemma reaches_trans: "reaches step t u \<Longrightarrow> reaches step s t \<Longrightarrow> reaches step s u"
  by (induction rule: reaches.induct) (auto intro: reaches.intros)

lemma reaches_one: "step s t \<Longrightarrow> reaches step s t"
  by (rule reaches.there [OF reaches.here])

locale invariant_system =
  fixes step :: "'s \<Rightarrow> 's \<Rightarrow> bool" and start :: 's and inv :: "'s \<Rightarrow> bool"
  assumes inv_start: "inv start"
    and inv_step: "inv s \<Longrightarrow> step s t \<Longrightarrow> inv t"
begin

lemma inv_reaches: "reaches step s t \<Longrightarrow> inv s \<Longrightarrow> inv t"
  by (induction rule: reaches.induct) (auto intro: inv_step)

lemma inv_reachable: "reaches step start t \<Longrightarrow> inv t"
  by (rule inv_reaches [OF _ inv_start])

text \<open>A fact every step from a good state keeps is kept by every run from a reachable state.\<close>

lemma stable_reaches:
  assumes "reaches step s t" and "inv s" and "P s"
    and stable: "\<And>a b. inv a \<Longrightarrow> step a b \<Longrightarrow> P a \<Longrightarrow> P b"
  shows "P t"
  using assms(1-3)
proof (induction rule: reaches.induct)
  case (there s t u)
  then have "inv t" by (blast intro: inv_reaches)
  with there show ?case by (blast intro: stable)
qed

end

section \<open>What every successful run of a transaction respects\<close>

text \<open>
  A reflexive and transitive relation on states that every primitive respects is respected by every
  transaction built from them: \<open>keeps s res\<close> says so of the result of a run from \<open>s\<close>.
\<close>

locale tx_relation =
  fixes R :: "'s \<Rightarrow> 's \<Rightarrow> bool"
  assumes R_refl: "R s s" and R_trans: "R s t \<Longrightarrow> R t u \<Longrightarrow> R s u"
begin

definition keeps :: "'s \<Rightarrow> 'e + 'a \<times> 's \<Rightarrow> bool" where
  "keeps s res \<longleftrightarrow> (\<forall>x t. res = Inr (x, t) \<longrightarrow> R s t)"

lemma keepsD: "keeps s (Inr (x, t)) \<Longrightarrow> R s t"
  by (simp add: keeps_def)

lemma keeps_run: "keeps s res \<Longrightarrow> res = Inr (x, t) \<Longrightarrow> R s t"
  by (simp add: keeps_def)

lemma keeps_same [intro]: "keeps s (Inr (x, s))"
  by (simp add: keeps_def R_refl)

lemma keeps_move: "R s t \<Longrightarrow> keeps s (Inr (x, t))"
  by (simp add: keeps_def)

lemma keeps_error [intro]: "keeps s (Inl e)"
  by (simp add: keeps_def)

lemma keeps_return [intro]: "keeps s (tx_return x s)"
  by (simp add: keeps_def R_refl)

lemma keeps_lift [intro]: "keeps s (tx_lift m s)"
  by (cases m) (simp_all add: keeps_def R_refl)

lemma keeps_bind:
  assumes "keeps s (t s)" and "\<And>x u. keeps u (k x u)"
  shows "keeps s (tx_bind t k s)"
  using assms unfolding keeps_def tx_bind_Inr_iff by (blast intro: R_trans)

lemma keeps_commit: "keeps s (t s) \<Longrightarrow> R s (snd (commit t s))"
  by (cases "t s") (auto simp: keeps_def commit_def R_refl)

end

section \<open>Strings\<close>

text \<open>\<open>String.prototype.toLowerCase\<close> on ASCII, a character at a time.\<close>

definition char_code :: "char \<Rightarrow> nat" where
  "char_code c = of_char c"

definition lower_char :: "char \<Rightarrow> char" where
  "lower_char c = (if 65 \<le> char_code c \<and> char_code c \<le> 90 then char_of (char_code c + 32) else c)"

definition to_lower :: "string \<Rightarrow> string" where
  "to_lower s = map lower_char s"

definition is_upper_letter :: "char \<Rightarrow> bool" where
  "is_upper_letter c \<longleftrightarrow> 65 \<le> char_code c \<and> char_code c \<le> 90"

definition is_lower_letter :: "char \<Rightarrow> bool" where
  "is_lower_letter c \<longleftrightarrow> 97 \<le> char_code c \<and> char_code c \<le> 122"

definition is_digit :: "char \<Rightarrow> bool" where
  "is_digit c \<longleftrightarrow> 48 \<le> char_code c \<and> char_code c \<le> 57"

definition is_hex :: "char \<Rightarrow> bool" where
  "is_hex c \<longleftrightarrow> is_digit c \<or> (97 \<le> char_code c \<and> char_code c \<le> 102)"

text \<open>The canonical 8-4-4-4-12 form of a lower-case uuid; the \<open>/i\<close> form lowers first.\<close>

definition is_uuid_lower :: "string \<Rightarrow> bool" where
  "is_uuid_lower s \<longleftrightarrow> length s = 36 \<and>
     list_all (\<lambda>(i, c). if i = 8 \<or> i = 13 \<or> i = 18 \<or> i = 23 then c = CHR ''-'' else is_hex c)
       (zip [0..<36] s)"

definition is_uuid :: "string \<Rightarrow> bool" where
  "is_uuid s \<longleftrightarrow> is_uuid_lower (to_lower s)"

text \<open>\<open>^[A-Z]{3}$\<close>.\<close>

definition is_iso_currency :: "string \<Rightarrow> bool" where
  "is_iso_currency s \<longleftrightarrow> length s = 3 \<and> list_all is_upper_letter s"

text \<open>PostgreSQL \<open>trim\<close>: the spaces at both ends.\<close>

definition pg_trim :: "string \<Rightarrow> string" where
  "pg_trim s = rev (dropWhile (\<lambda>c. c = CHR '' '') (rev (dropWhile (\<lambda>c. c = CHR '' '') s)))"

lemma lower_char_code:
  "65 \<le> char_code c \<Longrightarrow> char_code c \<le> 90 \<Longrightarrow> char_code (lower_char c) = char_code c + 32"
  by (simp add: lower_char_def char_code_def)

lemma lower_char_idem: "lower_char (lower_char c) = lower_char c"
proof (cases "65 \<le> char_code c \<and> char_code c \<le> 90")
  case True
  then have "char_code (lower_char c) = char_code c + 32" by (simp add: lower_char_code)
  then have "\<not> char_code (lower_char c) \<le> 90" using True by simp
  then show ?thesis by (simp add: lower_char_def [of "lower_char c"])
next
  case False
  then have "lower_char c = c" by (auto simp: lower_char_def)
  then show ?thesis by simp
qed

lemma to_lower_idem [simp]: "to_lower (to_lower s) = to_lower s"
  by (simp add: to_lower_def lower_char_idem)

lemma length_to_lower [simp]: "length (to_lower s) = length s"
  by (simp add: to_lower_def)

text \<open>JavaScript numbers as far as the sources look at them: an integral value, or anything else.\<close>

datatype js_number = JInt int | JNonInt

definition max_safe_integer :: int where
  "max_safe_integer = 9007199254740991"

fun is_safe_integer :: "js_number \<Rightarrow> bool" where
  "is_safe_integer (JInt i) \<longleftrightarrow> \<bar>i\<bar> \<le> max_safe_integer"
| "is_safe_integer JNonInt \<longleftrightarrow> False"

end
