(* ===== verification/PaymentModel.thy ===== *)
theory PaymentModel
  imports Prelude
begin

text \<open>
  The data of payment-service: the payment and attempt state machines, the rows of its tables,
  the provider's answers, the events and audit records it writes, its configuration and the
  services it calls, and the database as one record. Row fields carry the column names of
  \<open>payments/payment.types.ts\<close>, \<open>attempts/attempt.types.ts\<close> and the migrations; a nullable column
  is an option; a \<open>bigint\<close> amount is an \<open>int\<close>; a \<open>timestamptz\<close> is the number of milliseconds of the
  database clock. Identifiers drawn from \<open>gen_random_uuid()\<close> or \<open>randomUUID()\<close> are the next
  number of the database record's supply.
\<close>

section \<open>Status machines\<close>

datatype payment_status =
  P_created | P_pending | P_closing | P_succeeded | P_failed | P_cancelled | P_expired

definition TERMINAL_PAYMENT_STATUSES :: "payment_status list" where
  "TERMINAL_PAYMENT_STATUSES = [P_succeeded, P_failed, P_cancelled, P_expired]"

fun payment_allowed :: "payment_status \<Rightarrow> payment_status list" where
  "payment_allowed P_created = [P_pending, P_cancelled, P_expired, P_succeeded, P_failed, P_closing]"
| "payment_allowed P_pending = [P_created, P_succeeded, P_failed, P_cancelled, P_expired, P_closing]"
| "payment_allowed P_closing = [P_succeeded, P_cancelled, P_expired]"
| "payment_allowed P_succeeded = []"
| "payment_allowed P_failed = []"
| "payment_allowed P_cancelled = []"
| "payment_allowed P_expired = []"

definition canTransitionPayment :: "payment_status \<Rightarrow> payment_status \<Rightarrow> bool" where
  "canTransitionPayment from to \<longleftrightarrow> to \<in> set (payment_allowed from)"

definition isTerminalPaymentStatus :: "payment_status \<Rightarrow> bool" where
  "isTerminalPaymentStatus st \<longleftrightarrow> st \<in> set TERMINAL_PAYMENT_STATUSES"

datatype payment_finality = Fin_open | Fin_uncertain | Fin_final

definition paymentFinality :: "payment_status \<Rightarrow> bool \<Rightarrow> payment_finality" where
  "paymentFinality st uncertain =
     (if isTerminalPaymentStatus st then Fin_final
      else if st = P_closing \<or> uncertain then Fin_uncertain else Fin_open)"

datatype attempt_status = A_initiated | A_submitted | A_succeeded | A_failed | A_expired | A_unknown

definition OPEN_ATTEMPT_STATUSES :: "attempt_status list" where
  "OPEN_ATTEMPT_STATUSES = [A_initiated, A_submitted, A_unknown]"

fun attempt_allowed :: "attempt_status \<Rightarrow> attempt_status list" where
  "attempt_allowed A_initiated = [A_submitted, A_failed, A_unknown]"
| "attempt_allowed A_submitted = [A_succeeded, A_failed, A_expired]"
| "attempt_allowed A_succeeded = []"
| "attempt_allowed A_failed = []"
| "attempt_allowed A_expired = []"
| "attempt_allowed A_unknown = [A_submitted, A_succeeded, A_failed]"

definition canTransitionAttempt :: "attempt_status \<Rightarrow> attempt_status \<Rightarrow> bool \<Rightarrow> bool" where
  "canTransitionAttempt from to failureInferred =
     (if from = A_failed \<and> to = A_succeeded then failureInferred else to \<in> set (attempt_allowed from))"

definition isOpenAttemptStatus :: "attempt_status \<Rightarrow> bool" where
  "isOpenAttemptStatus st \<longleftrightarrow> st \<in> set OPEN_ATTEMPT_STATUSES"

text \<open>Finality is ordered: a payment is open, then uncertain, then final.\<close>

fun finality_rank :: "payment_finality \<Rightarrow> nat" where
  "finality_rank Fin_open = 0"
| "finality_rank Fin_uncertain = 1"
| "finality_rank Fin_final = 2"

lemma finality_rank_inj: "finality_rank a = finality_rank b \<Longrightarrow> a = b"
  by (cases a; cases b) simp_all

instantiation payment_finality :: linorder
begin

definition less_eq_payment_finality :: "payment_finality \<Rightarrow> payment_finality \<Rightarrow> bool" where
  "less_eq_payment_finality a b \<longleftrightarrow> finality_rank a \<le> finality_rank b"

definition less_payment_finality :: "payment_finality \<Rightarrow> payment_finality \<Rightarrow> bool" where
  "less_payment_finality a b \<longleftrightarrow> finality_rank a < finality_rank b"

instance
  by standard
    (auto simp: less_eq_payment_finality_def less_payment_finality_def dest: finality_rank_inj)

end

section \<open>Rows\<close>

datatype settled_method = Gateway | Cash
datatype closing_reason = Closing_cancel | Closing_expiry
datatype failure_class = FC_retryable | FC_terminal | FC_ambiguous
datatype fact_source = Src_webhook | Src_status_check
datatype fact_kind = K_capture | K_refund

record party =
  party_type :: string
  party_id :: string

record payment_row =
  pay_id :: uuid
  pay_producer :: string
  pay_paymentRequestId :: string
  pay_sourceType :: string
  pay_sourceId :: string
  pay_payerType :: string
  pay_payerId :: string
  pay_sellerType :: string
  pay_sellerId :: string
  pay_organizationId :: "string option"
  pay_amount :: int
  pay_currency :: string
  pay_description :: "string option"
  pay_reference :: "string option"
  pay_expiresAt :: "instant option"
  pay_status :: payment_status
  pay_statusReason :: "string option"
  pay_settledMethod :: "settled_method option"
  pay_succeededAttemptId :: "uuid option"
  pay_revision :: nat
  pay_createdAt :: instant
  pay_updatedAt :: instant
  pay_closedAt :: "instant option"
  pay_purpose :: "string option"
  pay_beneficiaryUserId :: "string option"
  pay_liveMode :: "bool option"
  pay_closingReason :: "closing_reason option"
  pay_closingSince :: "instant option"

record attempt_row =
  att_id :: uuid
  att_paymentId :: uuid
  att_attemptNumber :: nat
  att_provider :: string
  att_providerTransactionId :: "string option"
  att_status :: attempt_status
  att_failureCode :: "string option"
  att_failureClass :: "failure_class option"
  att_failureInferred :: bool
  att_providerData :: "string option"
  att_initiatedAt :: instant
  att_submittedAt :: "instant option"
  att_completedAt :: "instant option"
  att_liveMode :: "bool option"
  att_failureConfirmedAt :: "instant option"
  att_confirmedFailureCode :: "string option"
  att_resolveAfter :: "instant option"

record fact_row =
  fact_id :: uuid
  fact_provider :: string
  fact_providerTxnId :: string
  fact_kind :: fact_kind
  fact_paymentId :: "uuid option"
  fact_attemptId :: "uuid option"
  fact_amount :: int
  fact_currency :: string
  fact_liveMode :: bool
  fact_source :: fact_source
  fact_webhookEventId :: "uuid option"
  fact_providerOccurredAt :: "instant option"
  fact_observedAt :: instant

record conflict_row =
  conf_id :: uuid
  conf_factId :: uuid
  conf_paymentId :: uuid
  conf_attemptId :: uuid
  conf_provider :: string
  conf_amount :: int
  conf_currency :: string
  conf_source :: fact_source
  conf_webhookEventId :: "uuid option"

record late_row =
  late_id :: uuid
  late_paymentId :: uuid
  late_attemptId :: uuid
  late_source :: fact_source
  late_webhookEventId :: "uuid option"
  late_amount :: int
  late_currency :: string
  late_paymentStatus :: payment_status
  late_factId :: "uuid option"
  late_recordedAt :: instant

record idempotency_row =
  idem_caller :: string
  idem_operation :: string
  idem_key :: string
  idem_requestHash :: string
  idem_responseStatus :: nat
  idem_resourceType :: string
  idem_resourceId :: uuid

datatype webhook_state =
  W_received | W_processing | W_processed | W_ignored | W_unmatched | W_conflict | W_failed

record webhook_event_row =
  wh_id :: uuid
  wh_provider :: string
  wh_providerEventId :: string
  wh_eventType :: string
  wh_rawBody :: string
  wh_receivedAt :: instant
  wh_state :: webhook_state
  wh_outcome :: "string option"
  wh_attempts :: nat
  wh_matchedAttemptId :: "uuid option"
  wh_processedAt :: "instant option"

section \<open>The provider port\<close>

datatype initiate_result =
  Accepted string "string option"
| Rejected failure_class string
| Ambiguous

text \<open>\<open>FetchStatusResult\<close>: the amount is whatever number the adapter read.\<close>

datatype fetch_status =
  St_succeeded js_number string "string option" "instant option"
| St_failed failure_class string
| St_pending
| St_expired
| St_notFound

record provider_caps =
  cap_id :: string
  cap_refunds :: bool
  cap_notFoundIsAuthoritative :: bool
  cap_visibilityLagMs :: int
  cap_timeoutMs :: int
  cap_paymentFatalCodes :: "string list"
  cap_quarantineAcknowledgement :: bool

section \<open>Events and audit records\<close>

datatype actor_type = Act_user | Act_service | Act_provider | Act_system
datatype cause_type =
  C_request | C_webhook_event | C_expiry_sweep | C_attempt_resolver | C_refund_worker | C_capture_reconciler
datatype user_kind = UK_member | UK_owner | UK_operator

record event_ctx =
  ctx_actorType :: actor_type
  ctx_actorId :: "string option"
  ctx_causeType :: cause_type
  ctx_causeId :: "uuid option"
  ctx_correlationId :: "uuid option"
  ctx_userKind :: "user_kind option"

text \<open>
  The id of an event is a version-5 uuid, a hash of the subject and the event name
  (\<open>events/deterministic-id.ts\<close>); the model keeps the hashed pair itself.
\<close>

datatype event_id = Derived uuid string

definition deterministicEventId :: "uuid \<Rightarrow> string \<Rightarrow> event_id" where
  "deterministicEventId subject name = Derived subject name"

datatype pay_extra =
  No_extra
| Extra_failureCode "string option"
| Extra_settled settled_method "instant option"
| Extra_expiresAt "instant option"

record payment_payload =
  pl_paymentId :: uuid
  pl_paymentRequestId :: string
  pl_sourceType :: string
  pl_sourceId :: string
  pl_organizationId :: "string option"
  pl_payer :: party
  pl_seller :: party
  pl_amount :: int
  pl_currency :: string
  pl_status :: payment_status
  pl_revision :: nat
  pl_ctx :: event_ctx
  pl_extra :: pay_extra
  pl_purpose :: "string option"
  pl_beneficiaryUserId :: "string option"
  pl_liveMode :: "bool option"
  pl_producer :: string

record late_payload =
  ll_lateSuccessId :: uuid
  ll_paymentId :: uuid
  ll_paymentRequestId :: string
  ll_producer :: string
  ll_organizationId :: "string option"
  ll_purpose :: "string option"
  ll_attemptId :: uuid
  ll_factId :: "uuid option"
  ll_amount :: int
  ll_currency :: string
  ll_paymentStatus :: payment_status
  ll_recordedAt :: instant
  ll_liveMode :: bool

datatype audit_actor =
  AA_service string
| AA_user string user_kind
| AA_system string

datatype mismatch_reason = MR_amount_mismatch | MR_currency_mismatch | MR_unrecognized_currency

datatype audit_changes =
  Ch_none
| Ch_settled "settled_method option"
| Ch_late uuid uuid uuid int payment_status bool
| Ch_mismatch uuid uuid fact_source js_number mismatch_reason
| Ch_fact_conflict uuid uuid uuid fact_source js_number

record audit_record =
  aud_action :: string
  aud_actor :: audit_actor
  aud_organizationId :: "string option"
  aud_resource :: "string \<times> uuid"
  aud_changes :: audit_changes

datatype outbox_payload =
  Payment_event payment_payload
| Late_success_event late_payload
| Audit_event audit_record

record outbox_row =
  ob_id :: event_id
  ob_name :: string
  ob_payload :: outbox_payload
  ob_correlationId :: "uuid option"
  ob_occurredAt :: instant

section \<open>Quarantined observations and recovery state\<close>

text \<open>A value of a decoded provider message; text is its list of UTF-16 code units.\<close>

datatype raw_value = RV_undefined | RV_null | RV_number js_number | RV_text "nat list" | RV_other string

record raw_evidence =
  ev_present :: bool
  ev_value :: raw_value

datatype currency_shape =
  CS_missing | CS_null | CS_non_string | CS_empty | CS_overlength | CS_unstorable
datatype amount_shape = AS_present | AS_missing | AS_invalid

record quarantine_row =
  qr_id :: uuid
  qr_provider :: string
  qr_source :: fact_source
  qr_webhookEventId :: "uuid option"
  qr_providerEventId :: "string option"
  qr_attemptId :: "uuid option"
  qr_paymentId :: "uuid option"
  qr_providerTxnId :: "nat list option"
  qr_currencyShape :: currency_shape
  qr_currencyEvidence :: "raw_value option"
  qr_amountShape :: amount_shape
  qr_amountEvidence :: "raw_value option"

datatype recovery_status = RS_active | RS_exhausted | RS_refused

record recovery_row =
  rec_factId :: uuid
  rec_attempts :: nat
  rec_workAfter :: "instant option"
  rec_lastFailure :: string
  rec_status :: recovery_status
  rec_endedAt :: "instant option"

section \<open>The database, the errors, the environment\<close>

record pdb =
  now :: instant
  next_uuid :: uuid
  payments :: "payment_row list"
  attempts :: "attempt_row list"
  facts :: "fact_row list"
  conflicts :: "conflict_row list"
  late_successes :: "late_row list"
  idempotency_keys :: "idempotency_row list"
  webhook_events :: "webhook_event_row list"
  quarantines :: "quarantine_row list"
  recovery_states :: "recovery_row list"
  outbox :: "outbox_row list"

definition empty_pdb :: "instant \<Rightarrow> pdb" where
  "empty_pdb t = \<lparr>now = t, next_uuid = 0, payments = [], attempts = [], facts = [], conflicts = [],
     late_successes = [], idempotency_keys = [], webhook_events = [], quarantines = [],
     recovery_states = [], outbox = []\<rparr>"

text \<open>
  \<open>Pay_error\<close> is an HTTP error with its status and stable code, \<open>Db_check\<close> a database guard that
  refused a write (the constraint's name), \<open>Internal\<close> any other thrown error.
\<close>

datatype pay_err = Pay_error nat string | Db_check string | Internal string

type_synonym 'a ptx = "(pay_err, pdb, 'a) tx"

record pay_config =
  cfg_supportedCurrencies :: "string list"
  cfg_maxAttempts :: nat
  cfg_simulation :: bool
  cfg_operations :: "string \<Rightarrow> string list option"
  cfg_allowedPlatforms :: "string \<Rightarrow> string list option"

text \<open>
  What payment-service calls and does not contain: the parsing of a timestamp by the JavaScript
  library (\<open>None\<close> is the invalid date), the text form of a uuid, the SHA-256 request hash of the
  idempotency records (of the operation, the resource path and the body's provider and options), and Organization Service's answer about an organization (its platform,
  no such organization, or an error).
\<close>

record pay_env =
  env_parse_date :: "string \<Rightarrow> instant option"
  env_uuid_text :: "uuid \<Rightarrow> string"
  env_request_hash :: "string \<Rightarrow> string \<Rightarrow> string option \<times> string option \<Rightarrow> string"
  env_resolve_organization :: "string \<Rightarrow> pay_err + string option"

section \<open>The transition tables satisfy the shared contract\<close>

interpretation payment_moves: transition_table payment_allowed isTerminalPaymentStatus
proof
  show "isTerminalPaymentStatus st \<longleftrightarrow> payment_allowed st = []" for st
    by (cases st) (simp_all add: isTerminalPaymentStatus_def TERMINAL_PAYMENT_STATUSES_def)
qed

lemma canTransitionPayment_can_move: "canTransitionPayment a b = payment_moves.can_move a b"
  by (simp add: canTransitionPayment_def payment_moves.can_move_def)

lemma terminal_payment_cases:
  "isTerminalPaymentStatus st \<longleftrightarrow> st = P_succeeded \<or> st = P_failed \<or> st = P_cancelled \<or> st = P_expired"
  by (auto simp: isTerminalPaymentStatus_def TERMINAL_PAYMENT_STATUSES_def)

lemma open_attempt_cases:
  "isOpenAttemptStatus st \<longleftrightarrow> st = A_initiated \<or> st = A_submitted \<or> st = A_unknown"
  by (auto simp: isOpenAttemptStatus_def OPEN_ATTEMPT_STATUSES_def)

end
