(* ===== verification/PaymentStore.thy ===== *)
theory PaymentStore
  imports PaymentModel
begin

text \<open>
  The statements payment-service runs against its database, with what the database itself adds:
  the transition guards, the revision and timestamps of \<open>payment_touch\<close>, the unique keys, the
  evidence guards of the settlement and of a late success (\<open>db/migrations\<close>). A refused statement
  is \<open>Db_check\<close> with the name of the guard or constraint. CHECK constraints that restate what the
  request validators already ensure (lengths, patterns) are left out.
\<close>

section \<open>Reads\<close>

definition find_payment :: "uuid \<Rightarrow> pdb \<Rightarrow> payment_row option" where
  "find_payment i db = get_row pay_id i (payments db)"

definition find_attempt :: "uuid \<Rightarrow> pdb \<Rightarrow> attempt_row option" where
  "find_attempt i db = get_row att_id i (attempts db)"

definition find_fact :: "uuid \<Rightarrow> pdb \<Rightarrow> fact_row option" where
  "find_fact i db = get_row fact_id i (facts db)"

definition find_by_request :: "string \<Rightarrow> string \<Rightarrow> pdb \<Rightarrow> payment_row option" where
  "find_by_request producer requestId db =
     find (\<lambda>p. pay_producer p = producer \<and> pay_paymentRequestId p = requestId) (payments db)"

text \<open>\<open>payment_is_uncertain\<close> of migration 0012, the one definition of uncertainty.\<close>

definition attempt_unsettled :: "attempt_row \<Rightarrow> bool" where
  "attempt_unsettled a \<longleftrightarrow>
     att_status a = A_initiated \<or> att_status a = A_submitted \<or> att_status a = A_unknown \<or>
     (att_status a = A_failed \<and> att_failureInferred a \<and> att_failureConfirmedAt a = None)"

definition payment_is_uncertain :: "pdb \<Rightarrow> uuid \<Rightarrow> bool" where
  "payment_is_uncertain db pid \<longleftrightarrow>
     list_ex (\<lambda>a. att_paymentId a = pid \<and> attempt_unsettled a) (attempts db)"

definition fact_contested :: "pdb \<Rightarrow> uuid \<Rightarrow> bool" where
  "fact_contested db fid \<longleftrightarrow> list_ex (\<lambda>c. conf_factId c = fid) (conflicts db)"

definition fact_has_late_success :: "pdb \<Rightarrow> uuid \<Rightarrow> bool" where
  "fact_has_late_success db fid \<longleftrightarrow> list_ex (\<lambda>l. late_factId l = Some fid) (late_successes db)"

definition capture_facts_of :: "pdb \<Rightarrow> uuid \<Rightarrow> uuid \<Rightarrow> fact_row list" where
  "capture_facts_of db aid pid =
     filter (\<lambda>g. fact_attemptId g = Some aid \<and> fact_paymentId g = Some pid \<and> fact_kind g = K_capture) (facts db)"

section \<open>UPDATE payment\<close>

text \<open>The edges of \<open>payment_status_transition_guard\<close> (0012).\<close>

definition payment_trigger_edges :: "(payment_status \<times> payment_status) list" where
  "payment_trigger_edges =
     [(P_created, P_pending), (P_pending, P_created), (P_pending, P_succeeded), (P_pending, P_failed),
      (P_created, P_cancelled), (P_pending, P_cancelled), (P_created, P_expired), (P_pending, P_expired),
      (P_created, P_succeeded), (P_created, P_failed),
      (P_created, P_closing), (P_pending, P_closing), (P_closing, P_succeeded), (P_closing, P_cancelled),
      (P_closing, P_expired)]"

definition payment_status_transition_guard :: "pdb \<Rightarrow> payment_row \<Rightarrow> payment_row \<Rightarrow> bool" where
  "payment_status_transition_guard db old new \<longleftrightarrow>
     (pay_status old, pay_status new) \<in> set payment_trigger_edges \<and>
     (pay_status old = P_created \<and> pay_status new = P_succeeded \<longrightarrow>
        list_ex (\<lambda>a. Some (att_id a) = pay_succeededAttemptId new \<and> att_paymentId a = pay_id new \<and>
                     att_status a = A_succeeded \<and> att_failureInferred a) (attempts db)) \<and>
     (pay_status old = P_created \<and> pay_status new = P_failed \<longrightarrow>
        list_ex (\<lambda>a. att_paymentId a = pay_id new \<and> att_status a = A_failed \<and> att_failureInferred a \<and>
                     att_failureConfirmedAt a \<noteq> None) (attempts db)) \<and>
     (pay_status new \<in> {P_cancelled, P_expired, P_failed} \<longrightarrow> \<not> payment_is_uncertain db (pay_id new)) \<and>
     (pay_status new = P_closing \<longrightarrow> payment_is_uncertain db (pay_id new) \<and> pay_closingReason new \<noteq> None)"

text \<open>\<open>payment_settlement_capture_evidence_guard\<close> of migration 0024.\<close>

definition settlement_evidence_guard :: "pdb \<Rightarrow> payment_row \<Rightarrow> bool" where
  "settlement_evidence_guard db new \<longleftrightarrow>
     (case pay_succeededAttemptId new of
        None \<Rightarrow> False
      | Some aid \<Rightarrow>
          (case capture_facts_of db aid (pay_id new) of
             [f] \<Rightarrow> fact_amount f = pay_amount new \<and> pg_trim (fact_currency f) = pg_trim (pay_currency new) \<and>
                    \<not> fact_contested db (fact_id f)
           | _ \<Rightarrow> False))"

text \<open>\<open>payment_succeeded_attempt_integrity\<close> (0003) and the settlement checks of 0006.\<close>

definition succeeded_attempt_integrity :: "pdb \<Rightarrow> payment_row \<Rightarrow> payment_row \<Rightarrow> bool" where
  "succeeded_attempt_integrity db old new \<longleftrightarrow>
     (pay_succeededAttemptId new \<noteq> pay_succeededAttemptId old \<longrightarrow>
        pay_succeededAttemptId old = None \<and>
        list_ex (\<lambda>a. Some (att_id a) = pay_succeededAttemptId new \<and> att_paymentId a = pay_id new \<and>
                     att_status a = A_succeeded) (attempts db)) \<and>
     (pay_settledMethod new \<noteq> None \<longrightarrow> pay_status new = P_succeeded) \<and>
     (pay_status new = P_succeeded \<longrightarrow> pay_settledMethod new \<noteq> None) \<and>
     (pay_settledMethod new = Some Gateway \<longrightarrow> pay_succeededAttemptId new \<noteq> None)"

text \<open>\<open>payment_closing_fields_once\<close> and the CHECK \<open>payment_closing_outcome\<close> (0012).\<close>

definition closing_outcome_ok :: "payment_row \<Rightarrow> bool" where
  "closing_outcome_ok p \<longleftrightarrow>
     (case pay_closingReason p of
        None \<Rightarrow> pay_status p \<noteq> P_closing
      | Some Closing_cancel \<Rightarrow> pay_status p \<in> {P_closing, P_succeeded, P_cancelled}
      | Some Closing_expiry \<Rightarrow> pay_status p \<in> {P_closing, P_succeeded, P_expired})"

definition closing_fields_once :: "payment_row \<Rightarrow> payment_row \<Rightarrow> bool" where
  "closing_fields_once old new \<longleftrightarrow>
     pay_closingReason new = pay_closingReason old \<or>
     (pay_closingReason old = None \<and> pay_status old \<in> {P_created, P_pending} \<and> pay_status new = P_closing)"

text \<open>\<open>payment_touch\<close> (0006) and the database time of \<open>closingSince\<close> (0012).\<close>

definition payment_touch :: "pdb \<Rightarrow> payment_row \<Rightarrow> payment_row \<Rightarrow> payment_row" where
  "payment_touch db old new = new\<lparr>
     pay_updatedAt := now db,
     pay_revision := (if pay_status new \<noteq> pay_status old then Suc (pay_revision old) else pay_revision old),
     pay_closingSince := (if pay_status new = P_closing \<and> pay_status old \<noteq> P_closing then Some (now db)
                          else pay_closingSince old)\<rparr>"

definition payment_update_error :: "pdb \<Rightarrow> payment_row \<Rightarrow> payment_row \<Rightarrow> string option" where
  "payment_update_error db old new =
     (if pay_status new \<noteq> pay_status old \<and> \<not> payment_status_transition_guard db old new
        then Some ''payment_status_transition_guard''
      else if pay_status new \<noteq> pay_status old \<and> pay_status new = P_succeeded \<and>
              pay_settledMethod new = Some Gateway \<and> \<not> settlement_evidence_guard db new
        then Some ''payment_settlement_capture_evidence''
      else if \<not> succeeded_attempt_integrity db old new then Some ''payment_succeeded_attempt_integrity''
      else if \<not> closing_fields_once old new \<or> \<not> closing_outcome_ok new then Some ''payment_closing_fields_once''
      else None)"

text \<open>\<open>UPDATE payment SET ... WHERE id = $1 RETURNING *\<close>: the assignments are a row function.\<close>

definition update_payment :: "uuid \<Rightarrow> (payment_row \<Rightarrow> payment_row) \<Rightarrow> payment_row ptx" where
  "update_payment pid assign db =
     (case find_payment pid db of
        None \<Rightarrow> Inl (Internal ''no row returned'')
      | Some old \<Rightarrow>
          (let new = payment_touch db old (assign old) in
           case payment_update_error db old new of
             Some c \<Rightarrow> Inl (Db_check c)
           | None \<Rightarrow> Inr (new, db\<lparr>payments := set_row pay_id pid new (payments db)\<rparr>)))"

section \<open>UPDATE payment_attempt\<close>

definition attempt_trigger_edges :: "(attempt_status \<times> attempt_status) list" where
  "attempt_trigger_edges =
     [(A_initiated, A_submitted), (A_initiated, A_failed), (A_initiated, A_unknown),
      (A_submitted, A_succeeded), (A_submitted, A_failed), (A_submitted, A_expired),
      (A_unknown, A_submitted), (A_unknown, A_succeeded), (A_unknown, A_failed)]"

definition attempt_status_transition_guard :: "attempt_row \<Rightarrow> attempt_row \<Rightarrow> bool" where
  "attempt_status_transition_guard old new \<longleftrightarrow>
     (att_status old, att_status new) \<in> set attempt_trigger_edges \<or>
     (att_status old = A_failed \<and> att_status new = A_succeeded \<and> att_failureInferred old \<and>
      att_failureConfirmedAt old = None)"

text \<open>
  The partial unique indexes: one open and one succeeded attempt per payment (0003, 0006), one
  attempt per provider transaction (0003); the confirmation is set once (0012).
\<close>

definition attempt_indexes_ok :: "pdb \<Rightarrow> attempt_row \<Rightarrow> bool" where
  "attempt_indexes_ok db new \<longleftrightarrow>
     (isOpenAttemptStatus (att_status new) \<longrightarrow>
        \<not> list_ex (\<lambda>a. att_id a \<noteq> att_id new \<and> att_paymentId a = att_paymentId new \<and>
                       isOpenAttemptStatus (att_status a)) (attempts db)) \<and>
     (att_status new = A_succeeded \<longrightarrow>
        \<not> list_ex (\<lambda>a. att_id a \<noteq> att_id new \<and> att_paymentId a = att_paymentId new \<and>
                       att_status a = A_succeeded) (attempts db)) \<and>
     (att_providerTransactionId new \<noteq> None \<longrightarrow>
        \<not> list_ex (\<lambda>a. att_id a \<noteq> att_id new \<and> att_provider a = att_provider new \<and>
                       att_providerTransactionId a = att_providerTransactionId new) (attempts db))"

definition attempt_confirmation_ok :: "attempt_row \<Rightarrow> attempt_row \<Rightarrow> bool" where
  "attempt_confirmation_ok old new \<longleftrightarrow>
     (att_failureConfirmedAt old \<noteq> None \<longrightarrow>
        att_failureConfirmedAt new = att_failureConfirmedAt old \<and>
        att_confirmedFailureCode new = att_confirmedFailureCode old) \<and>
     (att_failureConfirmedAt new \<noteq> None \<longrightarrow> att_status new = A_failed \<and> att_failureInferred new)"

definition attempt_update_error :: "pdb \<Rightarrow> attempt_row \<Rightarrow> attempt_row \<Rightarrow> string option" where
  "attempt_update_error db old new =
     (if att_status new \<noteq> att_status old \<and> \<not> attempt_status_transition_guard old new
        then Some ''payment_attempt_status_transition_guard''
      else if \<not> attempt_confirmation_ok old new then Some ''payment_attempt_confirmation''
      else if \<not> attempt_indexes_ok db new then Some ''payment_attempt_unique''
      else None)"

definition update_attempt :: "uuid \<Rightarrow> (attempt_row \<Rightarrow> attempt_row) \<Rightarrow> attempt_row ptx" where
  "update_attempt aid assign db =
     (case find_attempt aid db of
        None \<Rightarrow> Inl (Internal ''no row returned'')
      | Some old \<Rightarrow>
          (let new = assign old in
           case attempt_update_error db old new of
             Some c \<Rightarrow> Inl (Db_check c)
           | None \<Rightarrow> Inr (new, db\<lparr>attempts := set_row att_id aid new (attempts db)\<rparr>)))"

section \<open>INSERTs\<close>

definition fresh_uuid :: "uuid ptx" where
  "fresh_uuid db = Inr (next_uuid db, db\<lparr>next_uuid := Suc (next_uuid db)\<rparr>)"

text \<open>\<open>payment_attempt_insert_guard\<close> (0012): only for a created payment that nothing may settle.\<close>

definition insert_attempt :: "attempt_row \<Rightarrow> attempt_row ptx" where
  "insert_attempt a db =
     (case find_payment (att_paymentId a) db of
        None \<Rightarrow> Inl (Db_check ''payment_attempt_while_uncertain'')
      | Some p \<Rightarrow>
          if pay_status p \<noteq> P_created \<or> payment_is_uncertain db (att_paymentId a)
            then Inl (Db_check ''payment_attempt_while_uncertain'')
          else if list_ex (\<lambda>b. att_paymentId b = att_paymentId a \<and> att_attemptNumber b = att_attemptNumber a)
                    (attempts db)
            then Inl (Db_check ''payment_attempt_number_unique'')
          else Inr (a, db\<lparr>attempts := attempts db @ [a]\<rparr>))"

text \<open>
  \<open>payment_late_success_fact_guard\<close> (0026) runs before the insert; then ON CONFLICT DO NOTHING on
  the observation key and on the fact key. \<open>None\<close>: nothing was inserted.
\<close>

definition late_success_guard :: "pdb \<Rightarrow> late_row \<Rightarrow> string option" where
  "late_success_guard db l =
     (case late_factId l of
        None \<Rightarrow> Some ''payment_late_success_fact_binding''
      | Some fid \<Rightarrow>
          if \<not> list_ex (\<lambda>f. fact_id f = fid \<and> fact_kind f = K_capture \<and>
                   fact_attemptId f = Some (late_attemptId l) \<and> fact_paymentId f = Some (late_paymentId l) \<and>
                   fact_amount f = late_amount l \<and> pg_trim (fact_currency f) = pg_trim (late_currency l) \<and>
                   \<not> fact_contested db fid) (facts db)
            then Some ''payment_late_success_fact_binding''
          else if (case find_payment (late_paymentId l) db of
                     None \<Rightarrow> True
                   | Some p \<Rightarrow> \<not> isTerminalPaymentStatus (pay_status p) \<or> late_paymentStatus l \<noteq> pay_status p)
            then Some ''payment_late_success_not_final''
          else if list_ex (\<lambda>g. fact_attemptId g = Some (late_attemptId l) \<and> fact_kind g = K_capture \<and>
                   fact_id g \<noteq> fid) (facts db)
            then Some ''payment_late_success_ambiguous_attempt''
          else None)"

definition insert_late_success :: "late_row \<Rightarrow> late_row option ptx" where
  "insert_late_success l db =
     (case late_success_guard db l of
        Some c \<Rightarrow> Inl (Db_check c)
      | None \<Rightarrow>
          if list_ex (\<lambda>k. (late_attemptId k = late_attemptId l \<and> late_source k = late_source l \<and>
                           late_webhookEventId k = late_webhookEventId l) \<or>
                          (late_factId k = late_factId l)) (late_successes db)
            then Inr (None, db)
          else Inr (Some l, db\<lparr>late_successes := late_successes db @ [l]\<rparr>))"

section \<open>The outbox\<close>

text \<open>\<open>OutboxService.enqueue\<close>: INSERT ... ON CONFLICT (id) DO NOTHING on the transaction's client.\<close>

definition enqueue :: "event_id \<Rightarrow> string \<Rightarrow> outbox_payload \<Rightarrow> uuid option \<Rightarrow> unit ptx" where
  "enqueue i name payload corr db =
     (if list_ex (\<lambda>e. ob_id e = i) (outbox db) then Inr ((), db)
      else Inr ((), db\<lparr>outbox := outbox db @ [\<lparr>ob_id = i, ob_name = name, ob_payload = payload,
                        ob_correlationId = corr, ob_occurredAt = now db\<rparr>]\<rparr>))"

definition has_event :: "pdb \<Rightarrow> uuid \<Rightarrow> string \<Rightarrow> bool" where
  "has_event db i name \<longleftrightarrow> list_ex (\<lambda>e. ob_id e = deterministicEventId i name) (outbox db)"

text \<open>\<open>paymentEvent\<close> of \<open>events/payment-events.ts\<close>, built from the row after the transition.\<close>

definition paymentEvent :: "payment_row \<Rightarrow> event_ctx \<Rightarrow> pay_extra \<Rightarrow> payment_payload" where
  "paymentEvent p ctx extra = \<lparr>
     pl_paymentId = pay_id p, pl_paymentRequestId = pay_paymentRequestId p,
     pl_sourceType = pay_sourceType p, pl_sourceId = pay_sourceId p,
     pl_organizationId = pay_organizationId p,
     pl_payer = \<lparr>party_type = pay_payerType p, party_id = pay_payerId p\<rparr>,
     pl_seller = \<lparr>party_type = pay_sellerType p, party_id = pay_sellerId p\<rparr>,
     pl_amount = pay_amount p, pl_currency = pay_currency p, pl_status = pay_status p,
     pl_revision = pay_revision p, pl_ctx = ctx, pl_extra = extra, pl_purpose = pay_purpose p,
     pl_beneficiaryUserId = pay_beneficiaryUserId p, pl_liveMode = pay_liveMode p,
     pl_producer = pay_producer p\<rparr>"

definition emit_payment_event :: "string \<Rightarrow> payment_row \<Rightarrow> event_ctx \<Rightarrow> pay_extra \<Rightarrow> unit ptx" where
  "emit_payment_event name p ctx extra =
     enqueue (deterministicEventId (pay_id p) name) name (Payment_event (paymentEvent p ctx extra))
       (ctx_correlationId ctx)"

definition lateSuccessEvent :: "late_row \<Rightarrow> payment_row \<Rightarrow> late_payload" where
  "lateSuccessEvent l p = \<lparr>
     ll_lateSuccessId = late_id l, ll_paymentId = pay_id p, ll_paymentRequestId = pay_paymentRequestId p,
     ll_producer = pay_producer p, ll_organizationId = pay_organizationId p, ll_purpose = pay_purpose p,
     ll_attemptId = late_attemptId l, ll_factId = late_factId l, ll_amount = late_amount l,
     ll_currency = pg_trim (late_currency l), ll_paymentStatus = late_paymentStatus l,
     ll_recordedAt = late_recordedAt l, ll_liveMode = False\<rparr>"

definition late_event_name :: string where
  "late_event_name = ''payment.late_success.recorded''"

definition emit_late_success_event :: "late_row \<Rightarrow> payment_row \<Rightarrow> event_ctx \<Rightarrow> unit ptx" where
  "emit_late_success_event l p ctx =
     enqueue (deterministicEventId (late_id l) late_event_name) late_event_name
       (Late_success_event (lateSuccessEvent l p)) (ctx_correlationId ctx)"

section \<open>The central audit record\<close>

text \<open>
  \<open>auditActor\<close> of \<open>audit/payment-audit.ts\<close>: an attribution outside the catalog is a thrown error,
  which rolls the whole business transaction back.
\<close>

definition auditActor :: "event_ctx \<Rightarrow> pay_err + audit_actor" where
  "auditActor ctx =
     (case (ctx_actorType ctx, ctx_actorId ctx) of
        (Act_service, Some i) \<Rightarrow> if i \<noteq> '''' then Inr (AA_service i) else Inl (Internal ''payment_audit_actor_not_cataloged'')
      | (Act_user, Some i) \<Rightarrow>
          (case ctx_userKind ctx of
             Some k \<Rightarrow> if i \<noteq> '''' then Inr (AA_user i k) else Inl (Internal ''payment_audit_actor_not_cataloged'')
           | None \<Rightarrow> Inl (Internal ''payment_audit_actor_not_cataloged''))
      | (Act_system, _) \<Rightarrow>
          (case ctx_causeType ctx of
             C_attempt_resolver \<Rightarrow> Inr (AA_system ''payment_attempt_resolver'')
           | C_expiry_sweep \<Rightarrow> Inr (AA_system ''payment_expiry_sweep'')
           | C_refund_worker \<Rightarrow> Inr (AA_system ''payment_refund_worker'')
           | _ \<Rightarrow> Inl (Internal ''payment_audit_actor_not_cataloged''))
      | (Act_provider, _) \<Rightarrow>
          (if ctx_causeType ctx = C_webhook_event then Inr (AA_system ''payment_webhook'')
           else Inl (Internal ''payment_audit_actor_not_cataloged''))
      | _ \<Rightarrow> Inl (Internal ''payment_audit_actor_not_cataloged''))"

definition audit_event_name :: "string \<Rightarrow> string" where
  "audit_event_name action = ''audit.'' @ action"

text \<open>\<open>PaymentAudit.record\<close>.\<close>

definition audit_record_payment :: "string \<Rightarrow> payment_row \<Rightarrow> event_ctx \<Rightarrow> unit ptx" where
  "audit_record_payment action p ctx =
     tx_bind (tx_lift (auditActor ctx)) (\<lambda>actor.
       enqueue (deterministicEventId (pay_id p) (audit_event_name action)) (audit_event_name action)
         (Audit_event \<lparr>aud_action = action, aud_actor = actor, aud_organizationId = pay_organizationId p,
            aud_resource = (''payment'', pay_id p),
            aud_changes = (if action = ''payment.succeeded'' then Ch_settled (pay_settledMethod p) else Ch_none)\<rparr>)
         (ctx_correlationId ctx))"

definition observationActor :: "fact_source \<Rightarrow> string" where
  "observationActor s = (if s = Src_webhook then ''payment_webhook'' else ''payment_status_read'')"

text \<open>\<open>recordLateSuccess\<close>, \<open>recordCaptureMismatch\<close> and \<open>recordFactConflict\<close> of \<open>PaymentAudit\<close>.\<close>

definition audit_late_success :: "late_row \<Rightarrow> uuid \<Rightarrow> payment_row \<Rightarrow> string \<Rightarrow> event_ctx \<Rightarrow> unit ptx" where
  "audit_late_success l fid p actor ctx =
     enqueue (deterministicEventId (late_id l) (audit_event_name ''payment_late_success.recorded''))
       (audit_event_name ''payment_late_success.recorded'')
       (Audit_event \<lparr>aud_action = ''payment_late_success.recorded'', aud_actor = AA_system actor,
          aud_organizationId = pay_organizationId p, aud_resource = (''payment_late_success'', late_id l),
          aud_changes = Ch_late (pay_id p) (late_attemptId l) fid (late_amount l) (late_paymentStatus l)
            (late_amount l = pay_amount p)\<rparr>)
       (ctx_correlationId ctx)"

definition audit_capture_mismatch ::
  "uuid \<Rightarrow> uuid \<Rightarrow> uuid \<Rightarrow> fact_source \<Rightarrow> js_number \<Rightarrow> mismatch_reason \<Rightarrow> string option \<Rightarrow> event_ctx \<Rightarrow> unit ptx" where
  "audit_capture_mismatch fid pid aid src amount reason org ctx =
     enqueue (deterministicEventId fid (audit_event_name ''payment_capture_mismatch.recorded''))
       (audit_event_name ''payment_capture_mismatch.recorded'')
       (Audit_event \<lparr>aud_action = ''payment_capture_mismatch.recorded'', aud_actor = AA_system (observationActor src),
          aud_organizationId = org, aud_resource = (''provider_transaction_fact'', fid),
          aud_changes = Ch_mismatch pid aid src amount reason\<rparr>)
       (ctx_correlationId ctx)"

definition audit_fact_conflict ::
  "uuid \<Rightarrow> uuid \<Rightarrow> uuid \<Rightarrow> uuid \<Rightarrow> fact_source \<Rightarrow> js_number \<Rightarrow> string option \<Rightarrow> event_ctx \<Rightarrow> unit ptx" where
  "audit_fact_conflict cid fid pid aid src amount org ctx =
     enqueue (deterministicEventId cid (audit_event_name ''provider_fact_conflict.recorded''))
       (audit_event_name ''provider_fact_conflict.recorded'')
       (Audit_event \<lparr>aud_action = ''provider_fact_conflict.recorded'',
          aud_actor = AA_system (if src = Src_webhook then ''payment_webhook'' else ''payment_status_read''),
          aud_organizationId = org, aud_resource = (''provider_transaction_fact'', fid),
          aud_changes = Ch_fact_conflict cid pid aid src amount\<rparr>)
       (ctx_correlationId ctx)"

section \<open>Contexts\<close>

definition requestContext :: "actor_type \<Rightarrow> string \<Rightarrow> uuid option \<Rightarrow> user_kind option \<Rightarrow> event_ctx" where
  "requestContext ty i req kind = \<lparr>ctx_actorType = ty, ctx_actorId = Some i, ctx_causeType = C_request,
     ctx_causeId = req, ctx_correlationId = None, ctx_userKind = kind\<rparr>"

definition jobContext :: "cause_type \<Rightarrow> uuid \<Rightarrow> event_ctx" where
  "jobContext cause run = \<lparr>ctx_actorType = Act_system, ctx_actorId = None, ctx_causeType = cause,
     ctx_causeId = Some run, ctx_correlationId = Some run, ctx_userKind = None\<rparr>"

definition webhookContext :: "string \<Rightarrow> uuid \<Rightarrow> event_ctx" where
  "webhookContext provider event = \<lparr>ctx_actorType = Act_provider, ctx_actorId = Some provider,
     ctx_causeType = C_webhook_event, ctx_causeId = Some event, ctx_correlationId = Some event, ctx_userKind = None\<rparr>"

end
