(* ===== verification/PaymentFinality.thy ===== *)
theory PaymentFinality
  imports PaymentStore
begin

text \<open>
  How a payment ends: idempotency reservations, the late success of a capture at finality, the
  completion of a closing payment, the decision after a failed attempt, the producer's cancel and
  the expiry sweep. Every definition is one transaction, or part of one, of
  \<open>payments/payment.service.ts\<close>, \<open>payments/payment-closing.ts\<close>,
  \<open>payments/late-success-at-finality.ts\<close>, \<open>payments/expiry-sweeper.ts\<close>,
  \<open>attempts/attempt.service.ts\<close> and \<open>idempotency/idempotency.service.ts\<close>.
\<close>

section \<open>Idempotency reservations\<close>

datatype reserve_result = Reserved | Replay nat uuid

definition find_reservation :: "string \<Rightarrow> string \<Rightarrow> string \<Rightarrow> pdb \<Rightarrow> idempotency_row option" where
  "find_reservation caller operation key db =
     find (\<lambda>r. idem_caller r = caller \<and> idem_operation r = operation \<and> idem_key r = key)
       (idempotency_keys db)"

definition reserve :: "idempotency_row \<Rightarrow> reserve_result ptx" where
  "reserve r db =
     (case find_reservation (idem_caller r) (idem_operation r) (idem_key r) db of
        None \<Rightarrow> Inr (Reserved, db\<lparr>idempotency_keys := idempotency_keys db @ [r]\<rparr>)
      | Some e \<Rightarrow>
          if idem_requestHash e \<noteq> idem_requestHash r then Inl (Pay_error 422 ''idempotency_key_reused'')
          else Inr (Replay (idem_responseStatus e) (idem_resourceId e), db))"

section \<open>Late successes at finality\<close>

definition FINAL_UNSUCCESSFUL :: "payment_status list" where
  "FINAL_UNSUCCESSFUL = [P_failed, P_cancelled, P_expired]"

text \<open>
  The WHERE clause of \<open>recordQualifyingLateSuccesses\<close>: an uncontested capture fact of the payment,
  in an ISO currency, without a late success, the only capture of its attempt.
\<close>

definition qualifying_fact :: "pdb \<Rightarrow> uuid \<Rightarrow> fact_row \<Rightarrow> bool" where
  "qualifying_fact db pid f \<longleftrightarrow>
     fact_paymentId f = Some pid \<and> fact_kind f = K_capture \<and> is_iso_currency (pg_trim (fact_currency f)) \<and>
     \<not> fact_contested db (fact_id f) \<and> \<not> fact_has_late_success db (fact_id f) \<and>
     \<not> list_ex (\<lambda>g. fact_attemptId f \<noteq> None \<and> fact_attemptId g = fact_attemptId f \<and>
                   fact_kind g = K_capture \<and> fact_id g \<noteq> fact_id f) (facts db)"

definition qualifying_facts :: "pdb \<Rightarrow> uuid \<Rightarrow> uuid option \<Rightarrow> fact_row list" where
  "qualifying_facts db pid onlyFact =
     sort_key fact_observedAt (sort_key fact_id
       (filter (\<lambda>f. qualifying_fact db pid f \<and> (onlyFact = None \<or> onlyFact = Some (fact_id f))) (facts db)))"

definition record_one_late_success ::
  "payment_row \<Rightarrow> event_ctx \<Rightarrow> string option \<Rightarrow> fact_row \<Rightarrow> nat ptx" where
  "record_one_late_success p ctx actor f =
     (case fact_attemptId f of
        None \<Rightarrow> tx_throw (Db_check ''payment_late_success_attemptId_not_null'')
      | Some aid \<Rightarrow>
          tx_bind fresh_uuid (\<lambda>i db.
            tx_bind (insert_late_success
              \<lparr>late_id = i, late_paymentId = pay_id p, late_attemptId = aid, late_source = fact_source f,
               late_webhookEventId = fact_webhookEventId f, late_amount = fact_amount f,
               late_currency = pg_trim (fact_currency f), late_paymentStatus = pay_status p,
               late_factId = Some (fact_id f), late_recordedAt = now db\<rparr>) (\<lambda>inserted.
              case inserted of
                None \<Rightarrow> tx_return 0
              | Some l \<Rightarrow>
                  tx_bind (emit_late_success_event l p ctx) (\<lambda>_.
                  tx_bind (audit_late_success l (fact_id f) p
                     (case actor of Some x \<Rightarrow> x | None \<Rightarrow> observationActor (fact_source f)) ctx) (\<lambda>_.
                  tx_return 1))) db))"

fun record_late_successes ::
  "payment_row \<Rightarrow> event_ctx \<Rightarrow> string option \<Rightarrow> fact_row list \<Rightarrow> nat ptx" where
  "record_late_successes p ctx actor [] = tx_return 0"
| "record_late_successes p ctx actor (f # fs) =
     tx_bind (record_one_late_success p ctx actor f) (\<lambda>n.
     tx_bind (record_late_successes p ctx actor fs) (\<lambda>m. tx_return (n + m)))"

definition recordQualifyingLateSuccesses ::
  "payment_row \<Rightarrow> event_ctx \<Rightarrow> uuid option \<Rightarrow> string option \<Rightarrow> nat ptx" where
  "recordQualifyingLateSuccesses p ctx onlyFact actor db =
     (if pay_status p \<notin> set FINAL_UNSUCCESSFUL then Inr (0, db)
      else record_late_successes p ctx actor (qualifying_facts db (pay_id p) onlyFact) db)"

text \<open>
  The last steps every finality writer shares: the event, the audit record and the late successes
  of the final payment, in the transaction that made it final.
\<close>

definition announce_final :: "string \<Rightarrow> payment_row \<Rightarrow> event_ctx \<Rightarrow> pay_extra \<Rightarrow> unit ptx" where
  "announce_final name p ctx extra =
     tx_bind (emit_payment_event name p ctx extra) (\<lambda>_.
     tx_bind (audit_record_payment name p ctx) (\<lambda>_.
     tx_bind (recordQualifyingLateSuccesses p ctx None None) (\<lambda>_. tx_return ())))"

section \<open>Completion of a closing payment\<close>

definition completeClosingIfResolved :: "uuid \<Rightarrow> event_ctx \<Rightarrow> payment_row option ptx" where
  "completeClosingIfResolved pid resolvedBy db =
     (case find_payment pid db of
        None \<Rightarrow> Inr (None, db)
      | Some p \<Rightarrow>
          if pay_status p \<noteq> P_closing \<or> payment_is_uncertain db pid then Inr (None, db)
          else
            (let to = (if pay_closingReason p = Some Closing_cancel then P_cancelled else P_expired) in
             tx_bind (update_payment pid (\<lambda>r. r\<lparr>pay_status := to, pay_closedAt := Some (now db)\<rparr>)) (\<lambda>closed.
               (if to = P_cancelled
                then
                  let ctx = \<lparr>ctx_actorType = Act_service, ctx_actorId = Some (pay_producer closed),
                             ctx_causeType = ctx_causeType resolvedBy, ctx_causeId = ctx_causeId resolvedBy,
                             ctx_correlationId = ctx_correlationId resolvedBy, ctx_userKind = None\<rparr>
                  in tx_bind (announce_final ''payment.cancelled'' closed ctx No_extra) (\<lambda>_. tx_return (Some closed))
                else
                  let ctx = \<lparr>ctx_actorType = Act_system, ctx_actorId = None, ctx_causeType = C_expiry_sweep,
                             ctx_causeId = ctx_causeId resolvedBy, ctx_correlationId = ctx_correlationId resolvedBy,
                             ctx_userKind = None\<rparr>
                  in tx_bind (announce_final ''payment.expired'' closed ctx (Extra_expiresAt (pay_expiresAt closed)))
                       (\<lambda>_. tx_return (Some closed)))) db))"

section \<open>The payment after a failed attempt\<close>

definition next_status_after_failure ::
  "pay_config \<Rightarrow> provider_caps \<Rightarrow> bool \<Rightarrow> nat \<Rightarrow> string option \<Rightarrow> payment_status" where
  "next_status_after_failure cfg caps uncertain attemptNumber failureCode =
     (let paymentFatal = (case failureCode of None \<Rightarrow> False | Some c \<Rightarrow> c \<in> set (cap_paymentFatalCodes caps));
          limitReached = cfg_maxAttempts cfg \<le> attemptNumber
      in if \<not> uncertain \<and> (paymentFatal \<or> limitReached) then P_failed else P_created)"

definition settlePaymentAfterFailure ::
  "pay_config \<Rightarrow> provider_caps \<Rightarrow> uuid \<Rightarrow> nat \<Rightarrow> string option \<Rightarrow> event_ctx \<Rightarrow> unit ptx" where
  "settlePaymentAfterFailure cfg caps pid attemptNumber failureCode ctx db =
     (case find_payment pid db of
        None \<Rightarrow> Inr ((), db)
      | Some p \<Rightarrow>
          if pay_status p = P_closing
            then tx_bind (completeClosingIfResolved pid ctx) (\<lambda>_. tx_return ()) db
          else if pay_status p \<noteq> P_pending \<and> pay_status p \<noteq> P_created then Inr ((), db)
          else
            (let next = next_status_after_failure cfg caps (payment_is_uncertain db pid) attemptNumber failureCode in
             if next = pay_status p then Inr ((), db)
             else
               tx_bind (update_payment pid (\<lambda>r. r\<lparr>pay_status := next,
                 pay_closedAt := (if next = P_failed then Some (now db) else pay_closedAt r)\<rparr>)) (\<lambda>updated.
               if next = P_failed
                 then announce_final ''payment.failed'' updated ctx (Extra_failureCode failureCode)
                 else tx_return ()) db))"

section \<open>The producer's cancel\<close>

definition cancel_guarded :: "uuid \<Rightarrow> event_ctx \<Rightarrow> payment_row ptx" where
  "cancel_guarded pid ctx db =
     (case find_payment pid db of
        None \<Rightarrow> Inl (Pay_error 404 ''not_found'')
      | Some p \<Rightarrow>
          if pay_status p = P_closing then Inr (p, db)
          else if isTerminalPaymentStatus (pay_status p) \<or> \<not> canTransitionPayment (pay_status p) P_cancelled
            then Inl (Pay_error 409 ''invalid_state_transition'')
          else if payment_is_uncertain db pid
            then update_payment pid (\<lambda>r. r\<lparr>pay_status := P_closing, pay_closingReason := Some Closing_cancel\<rparr>) db
          else
            tx_bind (update_payment pid (\<lambda>r. r\<lparr>pay_status := P_cancelled, pay_closedAt := Some (now db)\<rparr>)) (\<lambda>updated.
            tx_bind (announce_final ''payment.cancelled'' updated ctx No_extra) (\<lambda>_. tx_return updated)) db)"

definition cancel_reservation :: "pay_env \<Rightarrow> uuid \<Rightarrow> string \<Rightarrow> string \<Rightarrow> idempotency_row" where
  "cancel_reservation env pid callerId key = \<lparr>
     idem_caller = ''service:'' @ callerId, idem_operation = ''cancel_payment'', idem_key = key,
     idem_requestHash = env_request_hash env ''cancel_payment''
       (''/payment/payments/'' @ env_uuid_text env pid @ ''/cancel'') (None, None),
     idem_responseStatus = 200, idem_resourceType = ''payment'', idem_resourceId = pid\<rparr>"

text \<open>The returned flag is \<open>replayed\<close>.\<close>

definition cancel :: "pay_env \<Rightarrow> uuid \<Rightarrow> string \<Rightarrow> string \<Rightarrow> event_ctx \<Rightarrow> (payment_row \<times> bool) ptx" where
  "cancel env pid callerId key ctx =
     tx_bind (reserve (cancel_reservation env pid callerId key)) (\<lambda>res.
     case res of
       Replay _ rid \<Rightarrow> (\<lambda>db. case find_payment rid db of
           None \<Rightarrow> Inl (Pay_error 404 ''not_found'')
         | Some p \<Rightarrow> Inr ((p, True), db))
     | Reserved \<Rightarrow> tx_bind (cancel_guarded pid ctx) (\<lambda>p. tx_return (p, False)))"

section \<open>The expiry sweep\<close>

definition sweep_due :: "pdb \<Rightarrow> payment_row \<Rightarrow> bool" where
  "sweep_due db p \<longleftrightarrow> (case pay_expiresAt p of None \<Rightarrow> False | Some t \<Rightarrow> t \<le> now db)"

text \<open>One payment; \<open>skipped\<close> says another transaction holds its row (SKIP LOCKED).\<close>

definition trySweepOne :: "bool \<Rightarrow> uuid \<Rightarrow> event_ctx \<Rightarrow> bool ptx" where
  "trySweepOne skipped pid ctx db =
     (case (if skipped then None else find_payment pid db) of
        None \<Rightarrow> Inr (False, db)
      | Some p \<Rightarrow>
          if \<not> sweep_due db p then Inr (False, db)
          else if pay_status p \<noteq> P_created \<and> pay_status p \<noteq> P_pending then Inr (False, db)
          else if payment_is_uncertain db pid
            then tx_bind (update_payment pid (\<lambda>r. r\<lparr>pay_status := P_closing, pay_closingReason := Some Closing_expiry\<rparr>))
                   (\<lambda>_. tx_return False) db
          else
            tx_bind (update_payment pid (\<lambda>r. r\<lparr>pay_status := P_expired, pay_closedAt := Some (now db)\<rparr>)) (\<lambda>updated.
            tx_bind (announce_final ''payment.expired'' updated ctx (Extra_expiresAt (pay_expiresAt p))) (\<lambda>_.
            tx_return True)) db)"

text \<open>One pass: the scan, then a transaction per payment; a thrown error ends the pass.\<close>

fun sweep_all :: "(uuid \<Rightarrow> bool) \<Rightarrow> event_ctx \<Rightarrow> uuid list \<Rightarrow> pdb \<Rightarrow> (pay_err + nat) \<times> pdb" where
  "sweep_all held ctx [] db = (Inr 0, db)"
| "sweep_all held ctx (i # is) db =
     (case commit (trySweepOne (held i) i ctx) db of
        (Inl e, db') \<Rightarrow> (Inl e, db')
      | (Inr b, db') \<Rightarrow>
          (case sweep_all held ctx is db' of
             (Inl e, db'') \<Rightarrow> (Inl e, db'')
           | (Inr n, db'') \<Rightarrow> (Inr (n + of_bool b), db'')))"

definition sweepOnce :: "(uuid \<Rightarrow> bool) \<Rightarrow> uuid \<Rightarrow> pdb \<Rightarrow> (pay_err + nat) \<times> pdb" where
  "sweepOnce held run db =
     sweep_all held (jobContext C_expiry_sweep run)
       (map pay_id (filter (\<lambda>p. sweep_due db p \<and> (pay_status p = P_created \<or> pay_status p = P_pending))
         (payments db))) db"

end
