(* ===== verification/Quarantine.thy ===== *)
theory Quarantine
  imports PaymentFinality
begin

text \<open>
  Quarantined capture observations (\<open>webhooks/observation-quarantine.ts\<close>): the classification of a
  message's currency and amount as the adapter read them, and the one durable record per
  notification or per status read with the same evidence. Text is its list of UTF-16 code units,
  as JavaScript strings are. The evidence digest is the hashed triple itself, not its SHA-256.
\<close>

section \<open>Text\<close>

definition is_high_surrogate :: "nat \<Rightarrow> bool" where
  "is_high_surrogate u \<longleftrightarrow> 55296 \<le> u \<and> u \<le> 56319"

definition is_low_surrogate :: "nat \<Rightarrow> bool" where
  "is_low_surrogate u \<longleftrightarrow> 56320 \<le> u \<and> u \<le> 57343"

text \<open>Iterating a string by code points: a high and a following low surrogate are one of them.\<close>

fun code_points :: "nat list \<Rightarrow> nat list list" where
  "code_points [] = []"
| "code_points [u] = [[u]]"
| "code_points (u # v # us) =
     (if is_high_surrogate u \<and> is_low_surrogate v then [u, v] # code_points us
      else [u] # code_points (v # us))"

text \<open>\<open>/\u0000|[\uD800-\uDFFF]/u\<close> finds U+0000 or a surrogate that is a code point by itself.\<close>

definition unstorable_text :: "nat list \<Rightarrow> bool" where
  "unstorable_text us \<longleftrightarrow>
     list_ex (\<lambda>p. case p of [u] \<Rightarrow> u = 0 \<or> is_high_surrogate u \<or> is_low_surrogate u | _ \<Rightarrow> False)
       (code_points us)"

definition utf16_units :: "string \<Rightarrow> nat list" where
  "utf16_units s = map char_code s"

section \<open>Classification\<close>

definition rawEvidenceOf :: "(string \<Rightarrow> raw_value option) \<Rightarrow> string \<Rightarrow> raw_evidence" where
  "rawEvidenceOf body key =
     (case body key of None \<Rightarrow> \<lparr>ev_present = False, ev_value = RV_undefined\<rparr>
      | Some v \<Rightarrow> \<lparr>ev_present = True, ev_value = v\<rparr>)"

definition classifyCurrencyEvidence :: "raw_evidence \<Rightarrow> currency_shape option" where
  "classifyCurrencyEvidence e =
     (if \<not> ev_present e \<or> ev_value e = RV_undefined then Some CS_missing
      else case ev_value e of
             RV_null \<Rightarrow> Some CS_null
           | RV_text us \<Rightarrow>
               (if us = [] then Some CS_empty
                else if unstorable_text us then Some CS_unstorable
                else if 16 < length (code_points us) then Some CS_overlength
                else None)
           | _ \<Rightarrow> Some CS_non_string)"

definition classifyAmountEvidence :: "raw_evidence \<Rightarrow> amount_shape" where
  "classifyAmountEvidence e =
     (if \<not> ev_present e \<or> ev_value e = RV_undefined then AS_missing
      else case ev_value e of
             RV_number (JInt i) \<Rightarrow> if is_safe_integer (JInt i) \<and> 1 \<le> i then AS_present else AS_invalid
           | _ \<Rightarrow> AS_invalid)"

text \<open>\<open>fragment\<close>: the evidence as stored, \<open>None\<close> when the message had no value.\<close>

definition evidence_fragment :: "raw_evidence \<Rightarrow> raw_value option" where
  "evidence_fragment e = (if \<not> ev_present e \<or> ev_value e = RV_undefined then None else Some (ev_value e))"

definition textOrNull :: "raw_value \<Rightarrow> nat list option" where
  "textOrNull v = (case v of RV_text us \<Rightarrow> if unstorable_text us then None else Some us | _ \<Rightarrow> None)"

section \<open>The record\<close>

record quarantine_observation =
  qo_provider :: string
  qo_source :: fact_source
  qo_webhookEventId :: "uuid option"
  qo_providerEventId :: "string option"
  qo_attemptId :: "uuid option"
  qo_paymentId :: "uuid option"
  qo_providerTxnId :: raw_value
  qo_currency :: raw_evidence
  qo_amount :: raw_evidence
  qo_currencyShape :: currency_shape

definition evidence_digest :: "quarantine_row \<Rightarrow> nat list option \<times> raw_value option \<times> raw_value option" where
  "evidence_digest r = (qr_providerTxnId r, qr_amountEvidence r, qr_currencyEvidence r)"

text \<open>
  The unique indexes of migration 0027: a notification by its stored event, a status read by its
  attempt and digest.
\<close>

definition quarantine_duplicate :: "quarantine_row \<Rightarrow> quarantine_row \<Rightarrow> bool" where
  "quarantine_duplicate r k \<longleftrightarrow>
     (qr_webhookEventId r \<noteq> None \<and> qr_webhookEventId k = qr_webhookEventId r) \<or>
     (qr_source r = Src_status_check \<and> qr_source k = Src_status_check \<and> qr_attemptId r \<noteq> None \<and>
      qr_attemptId k = qr_attemptId r \<and> evidence_digest k = evidence_digest r)"

definition recordQuarantine :: "quarantine_observation \<Rightarrow> bool ptx" where
  "recordQuarantine qo =
     tx_bind fresh_uuid (\<lambda>i db.
       let r = \<lparr>qr_id = i, qr_provider = qo_provider qo, qr_source = qo_source qo,
                qr_webhookEventId = qo_webhookEventId qo, qr_providerEventId = qo_providerEventId qo,
                qr_attemptId = qo_attemptId qo, qr_paymentId = qo_paymentId qo,
                qr_providerTxnId = textOrNull (qo_providerTxnId qo),
                qr_currencyShape = qo_currencyShape qo,
                qr_currencyEvidence = evidence_fragment (qo_currency qo),
                qr_amountShape = classifyAmountEvidence (qo_amount qo),
                qr_amountEvidence = evidence_fragment (qo_amount qo)\<rparr>
       in if list_ex (quarantine_duplicate r) (quarantines db) then Inr (False, db)
          else Inr (True, db\<lparr>quarantines := quarantines db @ [r]\<rparr>))"

section \<open>Lemmas\<close>

lemma classify_text:
  "classifyCurrencyEvidence \<lparr>ev_present = True, ev_value = RV_text us\<rparr> = None \<longleftrightarrow>
     us \<noteq> [] \<and> \<not> unstorable_text us \<and> length (code_points us) \<le> 16"
  by (auto simp: classifyCurrencyEvidence_def)

lemma classify_None_text:
  "classifyCurrencyEvidence e = None \<Longrightarrow> \<exists>us. ev_value e = RV_text us \<and> us \<noteq> []"
  by (auto simp: classifyCurrencyEvidence_def split: raw_value.splits if_splits)

lemma concat_code_points: "concat (code_points us) = us"
  by (induction us rule: code_points.induct) auto

text \<open>The frame: everything but the quarantine table and the id supply is as it was.\<close>

lemma recordQuarantine_frame:
  assumes "recordQuarantine qo db = Inr (b, db')"
  shows "db' = db\<lparr>next_uuid := next_uuid db', quarantines := quarantines db'\<rparr> \<and>
         next_uuid db' = Suc (next_uuid db) \<and>
         (\<exists>rs. quarantines db' = quarantines db @ rs \<and> length rs = of_bool b)"
  using assms
  by (auto simp: recordQuarantine_def tx_bind_Inr_iff fresh_uuid_def Let_def split: if_splits)

lemma recordQuarantine_total: "\<exists>b db'. recordQuarantine qo db = Inr (b, db')"
  by (auto simp: recordQuarantine_def tx_bind_def fresh_uuid_def Let_def)

lemma recordQuarantine_again:
  assumes "recordQuarantine qo db = Inr (b, db')"
    and "qo_webhookEventId qo \<noteq> None \<or> (qo_source qo = Src_status_check \<and> qo_attemptId qo \<noteq> None)"
  shows "\<exists>db''. recordQuarantine qo db' = Inr (False, db'') \<and> quarantines db'' = quarantines db'"
  using assms
  by (auto simp: recordQuarantine_def tx_bind_def fresh_uuid_def Let_def quarantine_duplicate_def
      evidence_digest_def list_ex_iff split: if_splits)

end
