(* ===== verification/PaymentAttempt.thy ===== *)
theory PaymentAttempt
  imports Quarantine
begin

text \<open>
  The life of an attempt (\<open>attempts/attempt.service.ts\<close>, \<open>attempts/attempt-resolver.ts\<close>): \<open>start\<close>
  with its two transactions around the provider call, the recording of a reported capture as a
  fact, the decision \<open>applyStatus\<close> makes under the payment's lock, the late success it records
  after it, \<open>sync\<close>, and a pass of the resolver. Every transaction is a definition of its own; the
  composed operations run them in the code's order, and what other transactions commit in between
  is the parameter \<open>others\<close>.
\<close>

section \<open>Starting an attempt\<close>

record start_dto =
  sd_provider :: "string option"
  sd_providerOptions :: "string option"

text \<open>\<open>ProviderRegistry.get\<close>: an enabled provider's declared capabilities.\<close>

type_synonym registry = "string \<Rightarrow> provider_caps option"

definition registry_get :: "registry \<Rightarrow> string \<Rightarrow> pay_err + provider_caps" where
  "registry_get reg i = (case reg i of None \<Rightarrow> Inl (Pay_error 422 ''invalid_provider'') | Some c \<Rightarrow> Inr c)"

definition start_prepare :: "pay_config \<Rightarrow> registry \<Rightarrow> start_dto \<Rightarrow> pay_err + (string \<times> provider_caps)" where
  "start_prepare cfg reg dto =
     (let providerId = (case sd_provider dto of Some p \<Rightarrow> p
                        | None \<Rightarrow> if cfg_simulation cfg then ''simulation'' else ''test'')
      in err_bind (registry_get reg providerId) (\<lambda>caps.
           if cap_id caps = ''simulation'' \<and> sd_providerOptions dto \<noteq> None
             then Inl (Pay_error 422 ''provider_options_not_accepted'')
           else Inr (providerId, caps)))"

definition start_reservation :: "pay_env \<Rightarrow> uuid \<Rightarrow> string \<Rightarrow> string \<Rightarrow> start_dto \<Rightarrow> uuid \<Rightarrow> idempotency_row" where
  "start_reservation env pid callerId key dto attemptId = \<lparr>
     idem_caller = ''user:'' @ callerId, idem_operation = ''start_attempt'', idem_key = key,
     idem_requestHash = env_request_hash env ''start_attempt''
       (''/payment/payments/'' @ env_uuid_text env pid @ ''/attempts'') (sd_provider dto, sd_providerOptions dto),
     idem_responseStatus = 201, idem_resourceType = ''payment_attempt'', idem_resourceId = attemptId\<rparr>"

definition payment_isExpired :: "pdb \<Rightarrow> payment_row \<Rightarrow> bool" where
  "payment_isExpired db p \<longleftrightarrow> (case pay_expiresAt p of None \<Rightarrow> False | Some t \<Rightarrow> t \<le> now db)"

definition attempts_of :: "uuid \<Rightarrow> pdb \<Rightarrow> attempt_row list" where
  "attempts_of pid db = filter (\<lambda>a. att_paymentId a = pid) (attempts db)"

definition new_attempt :: "pdb \<Rightarrow> uuid \<Rightarrow> payment_row \<Rightarrow> string \<Rightarrow> attempt_row" where
  "new_attempt db attemptId p providerId = \<lparr>
     att_id = attemptId, att_paymentId = pay_id p, att_attemptNumber = length (attempts_of (pay_id p) db) + 1,
     att_provider = providerId, att_providerTransactionId = None, att_status = A_initiated,
     att_failureCode = None, att_failureClass = None, att_failureInferred = False, att_providerData = None,
     att_initiatedAt = now db, att_submittedAt = None, att_completedAt = None,
     att_liveMode = Some (case pay_liveMode p of Some m \<Rightarrow> m | None \<Rightarrow> False),
     att_failureConfirmedAt = None, att_confirmedFailureCode = None, att_resolveAfter = None\<rparr>"

text \<open>The guards of T1, in the code's order.\<close>

definition start_refusal :: "pdb \<Rightarrow> payment_row \<Rightarrow> pay_err option" where
  "start_refusal db p =
     (if payment_isExpired db p then Some (Pay_error 409 ''payment_expired'')
      else if pay_status p = P_pending then Some (Pay_error 409 ''payment_has_open_attempt'')
      else if pay_status p = P_closing then Some (Pay_error 409 ''payment_uncertain'')
      else if pay_status p \<noteq> P_created then Some (Pay_error 409 ''payment_not_payable'')
      else if list_ex (\<lambda>a. isOpenAttemptStatus (att_status a)) (attempts_of (pay_id p) db)
        then Some (Pay_error 409 ''payment_has_open_attempt'')
      else if payment_is_uncertain db (pay_id p) then Some (Pay_error 409 ''payment_uncertain'')
      else None)"

datatype start_t1 = T1_replay uuid | T1_started payment_row attempt_row

text \<open>T1; the payment it hands to the provider is the row read before its status became pending.\<close>

definition start_T1 ::
  "pay_env \<Rightarrow> string \<Rightarrow> uuid \<Rightarrow> string \<Rightarrow> string \<Rightarrow> start_dto \<Rightarrow> start_t1 ptx" where
  "start_T1 env providerId pid callerId key dto =
     tx_bind fresh_uuid (\<lambda>attemptId.
     tx_bind (reserve (start_reservation env pid callerId key dto attemptId)) (\<lambda>res.
     case res of
       Replay _ rid \<Rightarrow> tx_return (T1_replay rid)
     | Reserved \<Rightarrow> (\<lambda>db.
         case find_payment pid db of
           None \<Rightarrow> Inl (Pay_error 404 ''not_found'')
         | Some p \<Rightarrow>
             (case start_refusal db p of
                Some e \<Rightarrow> Inl e
              | None \<Rightarrow>
                  tx_bind (insert_attempt (new_attempt db attemptId p providerId)) (\<lambda>a.
                  tx_bind (update_payment pid (\<lambda>r. r\<lparr>pay_status := P_pending\<rparr>)) (\<lambda>_.
                  tx_return (T1_started p a))) db))))"

section \<open>The provider's answer to \<open>initiate\<close>\<close>

definition start_T2 ::
  "pay_config \<Rightarrow> provider_caps \<Rightarrow> uuid \<Rightarrow> uuid \<Rightarrow> nat \<Rightarrow> initiate_result \<Rightarrow> event_ctx \<Rightarrow> attempt_row ptx" where
  "start_T2 cfg caps pid aid attemptNumber result ctx db =
     (case find_attempt aid db of
        None \<Rightarrow> Inl (Internal ''attempt row is undefined'')
      | Some current \<Rightarrow>
          if att_status current \<noteq> A_initiated \<and> att_status current \<noteq> A_unknown then Inr (current, db)
          else
            (case result of
               Accepted txn nextAction \<Rightarrow>
                 update_attempt aid (\<lambda>a. a\<lparr>att_status := A_submitted, att_providerTransactionId := Some txn,
                   att_providerData := Some (case nextAction of None \<Rightarrow> ''null'' | Some d \<Rightarrow> d),
                   att_submittedAt := Some (now db)\<rparr>) db
             | Ambiguous \<Rightarrow>
                 if att_status current = A_unknown then Inr (current, db)
                 else update_attempt aid (\<lambda>a. a\<lparr>att_status := A_unknown\<rparr>) db
             | Rejected cls code \<Rightarrow>
                 tx_bind (update_attempt aid (\<lambda>a. a\<lparr>att_status := A_failed, att_failureCode := Some code,
                   att_failureClass := Some cls, att_completedAt := Some (now db)\<rparr>)) (\<lambda>a.
                 tx_bind (settlePaymentAfterFailure cfg caps pid attemptNumber (Some code) ctx) (\<lambda>_.
                 tx_return a)) db))"

text \<open>The whole of \<open>start\<close>; the flag is \<open>replayed\<close>. The provider call may fail: then T2 never runs.\<close>

definition start ::
  "pay_config \<Rightarrow> pay_env \<Rightarrow> registry \<Rightarrow> (payment_row \<Rightarrow> attempt_row \<Rightarrow> string option \<Rightarrow> pay_err + initiate_result) \<Rightarrow>
   (pdb \<Rightarrow> pdb) \<Rightarrow> uuid \<Rightarrow> string \<Rightarrow> string \<Rightarrow> start_dto \<Rightarrow> user_kind option \<Rightarrow> pdb \<Rightarrow>
   (pay_err + attempt_row \<times> bool) \<times> pdb" where
  "start cfg env reg initiate others pid callerId key dto kind db =
     (case start_prepare cfg reg dto of
        Inl e \<Rightarrow> (Inl e, db)
      | Inr (providerId, caps) \<Rightarrow>
          (case commit (start_T1 env providerId pid callerId key dto) db of
             (Inl e, db1) \<Rightarrow> (Inl e, db1)
           | (Inr (T1_replay aid), db1) \<Rightarrow>
               (case find_attempt aid db1 of
                  None \<Rightarrow> (Inl (Pay_error 404 ''not_found''), db1)
                | Some a \<Rightarrow> (Inr (a, True), db1))
           | (Inr (T1_started p a), db1) \<Rightarrow>
               (case initiate p a (sd_providerOptions dto) of
                  Inl e \<Rightarrow> (Inl e, db1)
                | Inr result \<Rightarrow>
                    commit (tx_bind (start_T2 cfg caps (pay_id p) (att_id a) (att_attemptNumber a) result
                                       (requestContext Act_user callerId None kind))
                              (\<lambda>a'. tx_return (a', False))) (others db1))))"

section \<open>Recording a reported capture\<close>

definition js_is :: "js_number \<Rightarrow> int \<Rightarrow> bool" where
  "js_is n i \<longleftrightarrow> n = JInt i"

definition ctx_webhookEventId :: "event_ctx \<Rightarrow> uuid option" where
  "ctx_webhookEventId ctx = (if ctx_causeType ctx = C_webhook_event then ctx_causeId ctx else None)"

definition ctx_source :: "event_ctx \<Rightarrow> fact_source" where
  "ctx_source ctx = (if ctx_webhookEventId ctx \<noteq> None then Src_webhook else Src_status_check)"

definition find_capture :: "string \<Rightarrow> string \<Rightarrow> pdb \<Rightarrow> fact_row option" where
  "find_capture provider txn db =
     find (\<lambda>f. fact_provider f = provider \<and> fact_providerTxnId f = txn \<and> fact_kind f = K_capture) (facts db)"

definition capture_mismatch_reason :: "string \<Rightarrow> string \<Rightarrow> mismatch_reason" where
  "capture_mismatch_reason paymentCurrency currency =
     (if \<not> is_iso_currency currency then MR_unrecognized_currency
      else if paymentCurrency \<noteq> currency then MR_currency_mismatch else MR_amount_mismatch)"

text \<open>A new fact, with the audit record of a capture that differs from its payment.\<close>

definition capture_fact_row ::
  "pdb \<Rightarrow> uuid \<Rightarrow> attempt_row \<Rightarrow> string \<Rightarrow> int \<Rightarrow> string \<Rightarrow> instant option \<Rightarrow> event_ctx \<Rightarrow> fact_row" where
  "capture_fact_row db fid a txn amount currency occurredAt ctx = \<lparr>
     fact_id = fid, fact_provider = att_provider a, fact_providerTxnId = txn, fact_kind = K_capture,
     fact_paymentId = Some (att_paymentId a), fact_attemptId = Some (att_id a), fact_amount = amount,
     fact_currency = currency, fact_liveMode = (case att_liveMode a of Some m \<Rightarrow> m | None \<Rightarrow> False),
     fact_source = ctx_source ctx, fact_webhookEventId = ctx_webhookEventId ctx,
     fact_providerOccurredAt = occurredAt, fact_observedAt = now db\<rparr>"

definition insert_capture_fact ::
  "attempt_row \<Rightarrow> string \<Rightarrow> int \<Rightarrow> string \<Rightarrow> instant option \<Rightarrow> event_ctx \<Rightarrow> uuid ptx" where
  "insert_capture_fact a txn amount currency occurredAt ctx =
     tx_bind fresh_uuid (\<lambda>fid db.
       let f = capture_fact_row db fid a txn amount currency occurredAt ctx;
           db1 = db\<lparr>facts := facts db @ [f]\<rparr>
       in case find_payment (att_paymentId a) db of
            None \<Rightarrow> Inr (fid, db1)
          | Some p \<Rightarrow>
              if pay_amount p \<noteq> amount \<or> pg_trim (pay_currency p) \<noteq> currency
                then tx_bind (audit_capture_mismatch fid (att_paymentId a) (att_id a) (ctx_source ctx) (JInt amount)
                        (capture_mismatch_reason (pg_trim (pay_currency p)) currency) (pay_organizationId p) ctx)
                      (\<lambda>_. tx_return fid) db1
              else Inr (fid, db1))"

definition conflict_same :: "conflict_row \<Rightarrow> conflict_row \<Rightarrow> bool" where
  "conflict_same c k \<longleftrightarrow>
     conf_factId k = conf_factId c \<and> conf_paymentId k = conf_paymentId c \<and> conf_attemptId k = conf_attemptId c \<and>
     conf_amount k = conf_amount c \<and> conf_currency k = conf_currency c \<and> conf_source k = conf_source c \<and>
     conf_webhookEventId k = conf_webhookEventId c"

text \<open>A contradicting observation: kept once (\<open>provider_transaction_fact_conflict_once\<close>), audited with it.\<close>

definition conflict_row_of :: "uuid \<Rightarrow> fact_row \<Rightarrow> attempt_row \<Rightarrow> int \<Rightarrow> string \<Rightarrow> event_ctx \<Rightarrow> conflict_row" where
  "conflict_row_of cid f a amount currency ctx = \<lparr>
     conf_id = cid, conf_factId = fact_id f, conf_paymentId = att_paymentId a, conf_attemptId = att_id a,
     conf_provider = att_provider a, conf_amount = amount, conf_currency = currency,
     conf_source = ctx_source ctx, conf_webhookEventId = ctx_webhookEventId ctx\<rparr>"

definition insert_conflict ::
  "fact_row \<Rightarrow> attempt_row \<Rightarrow> int \<Rightarrow> string \<Rightarrow> event_ctx \<Rightarrow> unit ptx" where
  "insert_conflict f a amount currency ctx =
     tx_bind fresh_uuid (\<lambda>cid db.
       let c = conflict_row_of cid f a amount currency ctx
       in if list_ex (conflict_same c) (conflicts db) then Inr ((), db)
          else audit_fact_conflict cid (fact_id f) (att_paymentId a) (att_id a) (ctx_source ctx) (JInt amount)
                 (case find_payment (att_paymentId a) db of None \<Rightarrow> None | Some p \<Rightarrow> pay_organizationId p) ctx
                 (db\<lparr>conflicts := conflicts db @ [c]\<rparr>))"

definition record_capture_tx ::
  "attempt_row \<Rightarrow> string \<Rightarrow> int \<Rightarrow> string \<Rightarrow> instant option \<Rightarrow> event_ctx \<Rightarrow> uuid ptx" where
  "record_capture_tx a txn amount currency occurredAt ctx db =
     (case find_capture (att_provider a) txn db of
        None \<Rightarrow> insert_capture_fact a txn amount currency occurredAt ctx db
      | Some f \<Rightarrow>
          if fact_paymentId f = Some (att_paymentId a) \<and> fact_attemptId f = Some (att_id a) \<and>
             fact_amount f = amount \<and> fact_currency f = currency
            then Inr (fact_id f, db)
          else tx_bind (insert_conflict f a amount currency ctx) (\<lambda>_. tx_return (fact_id f)) db)"

definition text_evidence :: "string \<Rightarrow> raw_evidence" where
  "text_evidence s = \<lparr>ev_present = True, ev_value = RV_text (utf16_units s)\<rparr>"

definition status_quarantine :: "attempt_row \<Rightarrow> js_number \<Rightarrow> string \<Rightarrow> string option \<Rightarrow> currency_shape \<Rightarrow> quarantine_observation" where
  "status_quarantine a amount currency txn shape = \<lparr>
     qo_provider = att_provider a, qo_source = Src_status_check, qo_webhookEventId = None,
     qo_providerEventId = None, qo_attemptId = Some (att_id a), qo_paymentId = Some (att_paymentId a),
     qo_providerTxnId = (case txn of None \<Rightarrow> RV_null | Some t \<Rightarrow> RV_text (utf16_units t)),
     qo_currency = text_evidence currency, qo_amount = \<lparr>ev_present = True, ev_value = RV_number amount\<rparr>,
     qo_currencyShape = shape\<rparr>"

definition js_or :: "'a option \<Rightarrow> 'a option \<Rightarrow> 'a option" where
  "js_or x y = (case x of Some v \<Rightarrow> Some v | None \<Rightarrow> y)"

text \<open>\<open>recordCaptureFact\<close>: \<open>None\<close> is \<open>null\<close>, no committed fact stands for this observation.\<close>

definition recordCaptureFact ::
  "uuid \<Rightarrow> js_number \<Rightarrow> string \<Rightarrow> string option \<Rightarrow> instant option \<Rightarrow> event_ctx \<Rightarrow> uuid option ptx" where
  "recordCaptureFact aid amount currency txn occurredAt ctx db =
     (case find_attempt aid db of
        None \<Rightarrow> Inr (None, db)
      | Some a \<Rightarrow>
          (case classifyCurrencyEvidence (text_evidence currency) of
             Some shape \<Rightarrow>
               tx_bind (recordQuarantine
                  (status_quarantine a amount currency (js_or txn (att_providerTransactionId a)) shape))
                 (\<lambda>_. tx_return None) db
           | None \<Rightarrow>
               (case js_or txn (att_providerTransactionId a) of
                  None \<Rightarrow> Inr (None, db)
                | Some t \<Rightarrow>
                    if t = '''' then Inr (None, db)
                    else
                      (case amount of
                         JNonInt \<Rightarrow> Inr (None, db)
                       | JInt i \<Rightarrow>
                           if \<not> is_safe_integer (JInt i) \<or> i < 1 then Inr (None, db)
                           else tx_bind (record_capture_tx a t i currency occurredAt ctx)
                                  (\<lambda>fid. tx_return (Some fid)) db))))"

section \<open>The decision\<close>

text \<open>\<open>captureEvidence\<close>: whether the observation is its committed, uncontested fact; the attempt's captures.\<close>

definition captureEvidence :: "pdb \<Rightarrow> uuid \<Rightarrow> uuid \<Rightarrow> js_number \<Rightarrow> string \<Rightarrow> uuid option \<Rightarrow> bool \<times> nat" where
  "captureEvidence db pid aid amount currency factId =
     (case find (\<lambda>f. Some (fact_id f) = factId \<and> fact_kind f = K_capture \<and> fact_attemptId f = Some aid \<and>
                     fact_paymentId f = Some pid) (facts db) of
        None \<Rightarrow> (False, 0)
      | Some f \<Rightarrow> (\<not> fact_contested db (fact_id f) \<and> js_is amount (fact_amount f) \<and>
                    pg_trim (fact_currency f) = currency, length (capture_facts_of db aid pid)))"

datatype late_kind = LK_final | LK_confirmed_failure

record late_observation =
  lo_paymentId :: uuid
  lo_paymentStatus :: payment_status
  lo_amount :: js_number
  lo_currency :: string
  lo_conflict :: late_kind

type_synonym decision = "attempt_row \<times> late_observation option"

definition inferred_unconfirmed :: "attempt_row \<Rightarrow> bool" where
  "inferred_unconfirmed a \<longleftrightarrow>
     att_status a = A_failed \<and> att_failureInferred a \<and> att_failureConfirmedAt a = None"

definition decide_notFound ::
  "pay_config \<Rightarrow> provider_caps \<Rightarrow> payment_row \<Rightarrow> attempt_row \<Rightarrow> event_ctx \<Rightarrow> decision ptx" where
  "decide_notFound cfg caps p a ctx db =
     (if att_status a \<noteq> A_initiated \<and> att_status a \<noteq> A_unknown then Inr ((a, None), db)
      else if \<not> cap_notFoundIsAuthoritative caps then Inr ((a, None), db)
      else
        tx_bind (if att_status a = A_initiated then update_attempt (att_id a) (\<lambda>r. r\<lparr>att_status := A_unknown\<rparr>)
                 else tx_return a) (\<lambda>_.
        tx_bind (update_attempt (att_id a) (\<lambda>r. r\<lparr>att_status := A_failed, att_failureCode := Some ''not_found'',
                   att_failureClass := Some FC_terminal, att_failureInferred := True,
                   att_completedAt := Some (now db)\<rparr>)) (\<lambda>r.
        tx_bind (settlePaymentAfterFailure cfg caps (pay_id p) (att_attemptNumber a) (Some ''not_found'') ctx) (\<lambda>_.
        tx_return (r, None)))) db)"

text \<open>The settlement itself: the attempt, the payment, its event and its audit record.\<close>

definition settle_succeeded :: "payment_row \<Rightarrow> attempt_row \<Rightarrow> event_ctx \<Rightarrow> decision ptx" where
  "settle_succeeded p a ctx db =
     tx_bind (if att_status a = A_initiated then update_attempt (att_id a) (\<lambda>r. r\<lparr>att_status := A_unknown\<rparr>)
              else tx_return a) (\<lambda>_.
     tx_bind (update_attempt (att_id a) (\<lambda>r. r\<lparr>att_status := A_succeeded, att_completedAt := Some (now db)\<rparr>)) (\<lambda>r.
     tx_bind (update_payment (pay_id p) (\<lambda>r. r\<lparr>pay_status := P_succeeded, pay_settledMethod := Some Gateway,
                pay_succeededAttemptId := Some (att_id a), pay_closedAt := Some (now db)\<rparr>)) (\<lambda>settled.
     tx_bind (emit_payment_event ''payment.succeeded'' settled ctx (Extra_settled Gateway (pay_closedAt settled))) (\<lambda>_.
     tx_bind (audit_record_payment ''payment.succeeded'' settled ctx) (\<lambda>_.
     tx_return (r, None)))))) db"

definition late_of :: "payment_row \<Rightarrow> js_number \<Rightarrow> string \<Rightarrow> late_kind \<Rightarrow> late_observation" where
  "late_of p amount currency k = \<lparr>lo_paymentId = pay_id p, lo_paymentStatus = pay_status p, lo_amount = amount,
     lo_currency = currency, lo_conflict = k\<rparr>"

definition decide_succeeded ::
  "payment_row \<Rightarrow> attempt_row \<Rightarrow> js_number \<Rightarrow> string \<Rightarrow> uuid option \<Rightarrow> event_ctx \<Rightarrow> decision ptx" where
  "decide_succeeded p a amount currency factId ctx db =
     (let (verified, captures) = captureEvidence db (pay_id p) (att_id a) amount currency factId in
      if att_status a = A_succeeded then Inr ((a, None), db)
      else if \<not> js_is amount (pay_amount p) \<or> pay_currency p \<noteq> currency then
        (if pay_status p \<in> set FINAL_UNSUCCESSFUL \<and> is_iso_currency currency \<and> verified
           then Inr ((a, Some (late_of p amount currency LK_final)), db)
         else Inl (Pay_error 502 ''provider_error''))
      else if \<not> verified then Inl (Pay_error 502 ''provider_error'')
      else if pay_status p = P_failed \<or> pay_status p = P_cancelled \<or> pay_status p = P_expired \<or> pay_status p = P_succeeded
        then Inr ((a, Some (late_of p amount currency LK_final)), db)
      else if (att_status a = A_failed \<or> att_status a = A_expired) \<and>
              (\<not> att_failureInferred a \<or> att_failureConfirmedAt a \<noteq> None)
        then Inr ((a, Some (late_of p amount currency LK_confirmed_failure)), db)
      else if captures \<noteq> 1 then Inl (Pay_error 502 ''provider_error'')
      else settle_succeeded p a ctx db)"

text \<open>The provider confirms an inferred failure: it is definitive from here on.\<close>

definition confirm_failure ::
  "pay_config \<Rightarrow> provider_caps \<Rightarrow> payment_row \<Rightarrow> attempt_row \<Rightarrow> string \<Rightarrow> event_ctx \<Rightarrow> decision ptx" where
  "confirm_failure cfg caps p a code ctx db =
     tx_bind (update_attempt (att_id a) (\<lambda>r. r\<lparr>att_failureConfirmedAt := Some (now db),
                att_confirmedFailureCode := Some code\<rparr>)) (\<lambda>r.
     tx_bind (settlePaymentAfterFailure cfg caps (pay_id p) (att_attemptNumber a) (Some code) ctx) (\<lambda>_.
     tx_return (r, None))) db"

definition decide_expired ::
  "pay_config \<Rightarrow> provider_caps \<Rightarrow> payment_row \<Rightarrow> attempt_row \<Rightarrow> event_ctx \<Rightarrow> decision ptx" where
  "decide_expired cfg caps p a ctx db =
     (if att_status a = A_succeeded then Inl (Pay_error 409 ''invalid_state_transition'')
      else if inferred_unconfirmed a then confirm_failure cfg caps p a ''expired'' ctx db
      else if att_status a \<noteq> A_submitted then Inr ((a, None), db)
      else
        tx_bind (update_attempt (att_id a) (\<lambda>r. r\<lparr>att_status := A_expired, att_failureCode := Some ''expired'',
                   att_failureClass := Some FC_terminal, att_completedAt := Some (now db)\<rparr>)) (\<lambda>r.
        tx_bind (settlePaymentAfterFailure cfg caps (pay_id p) (att_attemptNumber a) (Some ''expired'') ctx) (\<lambda>_.
        tx_return (r, None))) db)"

definition decide_failed ::
  "pay_config \<Rightarrow> provider_caps \<Rightarrow> payment_row \<Rightarrow> attempt_row \<Rightarrow> failure_class \<Rightarrow> string \<Rightarrow> event_ctx \<Rightarrow> decision ptx" where
  "decide_failed cfg caps p a cls code ctx db =
     (if att_status a = A_succeeded then Inl (Pay_error 409 ''invalid_state_transition'')
      else if inferred_unconfirmed a then confirm_failure cfg caps p a code ctx db
      else if att_status a = A_failed \<or> att_status a = A_expired then Inr ((a, None), db)
      else
        tx_bind (update_attempt (att_id a) (\<lambda>r. r\<lparr>att_status := A_failed, att_failureCode := Some code,
                   att_failureClass := Some cls, att_completedAt := Some (now db)\<rparr>)) (\<lambda>r.
        tx_bind (settlePaymentAfterFailure cfg caps (pay_id p) (att_attemptNumber a) (Some code) ctx) (\<lambda>_.
        tx_return (r, None))) db)"

definition apply_decide ::
  "pay_config \<Rightarrow> provider_caps \<Rightarrow> uuid \<Rightarrow> fetch_status \<Rightarrow> uuid option \<Rightarrow> event_ctx \<Rightarrow> decision ptx" where
  "apply_decide cfg caps aid status factId ctx db =
     (case find_attempt aid db of
        None \<Rightarrow> Inl (Pay_error 404 ''not_found'')
      | Some a \<Rightarrow>
          (case find_payment (att_paymentId a) db of
             None \<Rightarrow> Inl (Internal ''payment row is undefined'')
           | Some p \<Rightarrow>
               (case status of
                  St_pending \<Rightarrow> Inr ((a, None), db)
                | St_notFound \<Rightarrow> decide_notFound cfg caps p a ctx db
                | St_succeeded amount currency _ _ \<Rightarrow> decide_succeeded p a amount currency factId ctx db
                | St_expired \<Rightarrow> decide_expired cfg caps p a ctx db
                | St_failed cls code \<Rightarrow> decide_failed cfg caps p a cls code ctx db)))"

section \<open>The late success after the decision\<close>

definition recordLateSuccess :: "uuid \<Rightarrow> late_observation \<Rightarrow> event_ctx \<Rightarrow> uuid option \<Rightarrow> nat ptx" where
  "recordLateSuccess aid lo ctx factId db =
     (case find_payment (lo_paymentId lo) db of
        None \<Rightarrow> Inl (Internal ''payment row is undefined'')
      | Some p \<Rightarrow>
          if list_ex (\<lambda>g. fact_attemptId g = Some aid \<and> fact_kind g = K_capture \<and> Some (fact_id g) \<noteq> factId) (facts db)
            then Inr (0, db)
          else
            (case lo_amount lo of
               JNonInt \<Rightarrow> Inl (Internal ''invalid input syntax for type bigint'')
             | JInt i \<Rightarrow>
                 tx_bind fresh_uuid (\<lambda>lid.
                 tx_bind (insert_late_success \<lparr>late_id = lid, late_paymentId = lo_paymentId lo, late_attemptId = aid,
                    late_source = ctx_source ctx, late_webhookEventId = ctx_webhookEventId ctx, late_amount = i,
                    late_currency = lo_currency lo, late_paymentStatus = pay_status p, late_factId = factId,
                    late_recordedAt = now db\<rparr>) (\<lambda>inserted.
                 case inserted of
                   None \<Rightarrow> tx_return 0
                 | Some l \<Rightarrow>
                     tx_bind (emit_late_success_event l p ctx) (\<lambda>_.
                     tx_bind (case late_factId l of
                                None \<Rightarrow> tx_return ()
                              | Some fid \<Rightarrow> audit_late_success l fid p (observationActor (ctx_source ctx)) ctx) (\<lambda>_.
                     tx_return 1)))) db))"

section \<open>\<open>applyStatus\<close> and \<open>sync\<close>\<close>

definition status_fact :: "uuid \<Rightarrow> fetch_status \<Rightarrow> event_ctx \<Rightarrow> uuid option ptx" where
  "status_fact aid status ctx =
     (case status of
        St_succeeded amount currency txn at \<Rightarrow> recordCaptureFact aid amount currency txn at ctx
      | _ \<Rightarrow> tx_return None)"

definition applyStatus ::
  "pay_config \<Rightarrow> provider_caps \<Rightarrow> (pdb \<Rightarrow> pdb) \<Rightarrow> uuid \<Rightarrow> fetch_status \<Rightarrow> event_ctx \<Rightarrow> pdb \<Rightarrow>
   (pay_err + attempt_row) \<times> pdb" where
  "applyStatus cfg caps others aid status ctx db =
     (case commit (status_fact aid status ctx) db of
        (Inl e, db1) \<Rightarrow> (Inl e, db1)
      | (Inr factId, db1) \<Rightarrow>
          (case commit (apply_decide cfg caps aid status factId ctx) (others db1) of
             (Inl e, db2) \<Rightarrow> (Inl e, db2)
           | (Inr (a, None), db2) \<Rightarrow> (Inr a, db2)
           | (Inr (a, Some lo), db2) \<Rightarrow>
               (if lo_conflict lo = LK_final
                then (case commit (recordLateSuccess aid lo ctx factId) (others db2) of
                        (Inl e, db3) \<Rightarrow> (Inl e, db3)
                      | (Inr _, db3) \<Rightarrow> (Inl (Pay_error 409 ''invalid_state_transition''), db3))
                else (Inl (Pay_error 409 ''invalid_state_transition''), db2))))"

text \<open>The provider reference of an attempt: its transaction id, else its merchant reference (its own id).\<close>

definition attempt_ref :: "pay_env \<Rightarrow> attempt_row \<Rightarrow> string" where
  "attempt_ref env a = (case att_providerTransactionId a of Some t \<Rightarrow> t | None \<Rightarrow> env_uuid_text env (att_id a))"

type_synonym provider_read = "string \<Rightarrow> string \<Rightarrow> pay_err + fetch_status"

definition sync ::
  "pay_config \<Rightarrow> pay_env \<Rightarrow> registry \<Rightarrow> provider_read \<Rightarrow> (pdb \<Rightarrow> pdb) \<Rightarrow> uuid \<Rightarrow> event_ctx \<Rightarrow> pdb \<Rightarrow>
   (pay_err + attempt_row) \<times> pdb" where
  "sync cfg env reg fetchStatus others aid ctx db =
     (case find_attempt aid db of
        None \<Rightarrow> (Inl (Pay_error 404 ''not_found''), db)
      | Some a \<Rightarrow>
          (case registry_get reg (att_provider a) of
             Inl e \<Rightarrow> (Inl e, db)
           | Inr caps \<Rightarrow>
               (case fetchStatus (att_provider a) (attempt_ref env a) of
                  Inl e \<Rightarrow> (Inl e, db)
                | Inr status \<Rightarrow> applyStatus cfg caps others aid status ctx (others db))))"

section \<open>The resolver\<close>

definition RESOLVER_BATCH :: nat where "RESOLVER_BATCH = 100"
definition LONG_SUBMITTED_MS :: int where "LONG_SUBMITTED_MS = 5 * 60 * 1000"
definition RESOLVE_LEASE_MS :: int where "RESOLVE_LEASE_MS = 5000"

definition lease_free :: "pdb \<Rightarrow> attempt_row \<Rightarrow> bool" where
  "lease_free db a \<longleftrightarrow> (case att_resolveAfter a of None \<Rightarrow> True | Some t \<Rightarrow> t \<le> now db)"

definition payment_open :: "pdb \<Rightarrow> uuid \<Rightarrow> bool" where
  "payment_open db pid \<longleftrightarrow>
     list_ex (\<lambda>p. pay_id p = pid \<and> pay_status p \<in> {P_created, P_pending, P_closing}) (payments db)"

definition resolver_due :: "pdb \<Rightarrow> attempt_row \<Rightarrow> bool" where
  "resolver_due db a \<longleftrightarrow>
     (att_status a = A_unknown \<or> att_status a = A_initiated \<or>
      (att_status a = A_submitted \<and>
         (case att_submittedAt a of None \<Rightarrow> False | Some t \<Rightarrow> t < now db - LONG_SUBMITTED_MS)) \<or>
      (inferred_unconfirmed a \<and> payment_open db (att_paymentId a))) \<and>
     lease_free db a"

definition resolver_scan :: "pdb \<Rightarrow> attempt_row list" where
  "resolver_scan db = take RESOLVER_BATCH (sort_key att_initiatedAt (filter (resolver_due db) (attempts db)))"

text \<open>The claim: one conditional statement; \<open>False\<close> when another claimed the attempt or it left its state.\<close>

definition claim_attempt :: "uuid \<Rightarrow> bool ptx" where
  "claim_attempt aid db =
     (case find_attempt aid db of
        None \<Rightarrow> Inr (False, db)
      | Some a \<Rightarrow>
          if (att_status a \<in> {A_initiated, A_submitted, A_unknown} \<or> inferred_unconfirmed a) \<and> lease_free db a
            then tx_bind (update_attempt aid (\<lambda>r. r\<lparr>att_resolveAfter := Some (now db + RESOLVE_LEASE_MS)\<rparr>))
                   (\<lambda>_. tx_return True) db
          else Inr (False, db))"

text \<open>One attempt of a pass: whether it counts as resolved. \<open>wall\<close> is the process clock.\<close>

definition resolve_one ::
  "pay_config \<Rightarrow> pay_env \<Rightarrow> registry \<Rightarrow> provider_read \<Rightarrow> instant \<Rightarrow> (pdb \<Rightarrow> pdb) \<Rightarrow> uuid \<Rightarrow> attempt_row \<Rightarrow> pdb \<Rightarrow> bool \<times> pdb" where
  "resolve_one cfg env reg fetchStatus wall others run a db =
     (case reg (att_provider a) of
        None \<Rightarrow> (False, db)
      | Some caps \<Rightarrow>
          if att_status a = A_initiated \<and> wall - att_initiatedAt a < cap_timeoutMs caps + cap_visibilityLagMs caps
            then (False, db)
          else
            (case commit (claim_attempt (att_id a)) db of
               (Inl e, db1) \<Rightarrow> (False, db1)
             | (Inr claimed, db1) \<Rightarrow>
                 if \<not> claimed then (False, db1)
                 else
                   (case fetchStatus (att_provider a) (attempt_ref env a) of
                      Inl e \<Rightarrow> (False, db1)
                    | Inr status \<Rightarrow>
                        (case applyStatus cfg caps others (att_id a) status (jobContext C_attempt_resolver run) (others db1) of
                           (Inl e, db2) \<Rightarrow> (False, db2)
                         | (Inr _, db2) \<Rightarrow>
                             (\<not> (att_status a = A_failed \<and> (status = St_notFound \<or> status = St_pending)), db2)))))"

fun resolve_all ::
  "pay_config \<Rightarrow> pay_env \<Rightarrow> registry \<Rightarrow> provider_read \<Rightarrow> instant \<Rightarrow> (pdb \<Rightarrow> pdb) \<Rightarrow> uuid \<Rightarrow> attempt_row list \<Rightarrow> pdb \<Rightarrow> nat \<times> pdb" where
  "resolve_all cfg env reg fetchStatus wall others run [] db = (0, db)"
| "resolve_all cfg env reg fetchStatus wall others run (a # as) db =
     (let (r, db1) = resolve_one cfg env reg fetchStatus wall others run a db;
          (n, db2) = resolve_all cfg env reg fetchStatus wall others run as db1
      in (of_bool r + n, db2))"

text \<open>\<open>drainOnce\<close>; \<open>running\<close> says a pass of this instance is still in flight.\<close>

definition resolver_drainOnce ::
  "pay_config \<Rightarrow> pay_env \<Rightarrow> registry \<Rightarrow> provider_read \<Rightarrow> instant \<Rightarrow> (pdb \<Rightarrow> pdb) \<Rightarrow> uuid \<Rightarrow> bool \<Rightarrow> pdb \<Rightarrow> nat \<times> pdb" where
  "resolver_drainOnce cfg env reg fetchStatus wall others run running db =
     (if running then (0, db)
      else resolve_all cfg env reg fetchStatus wall others run (resolver_scan db) db)"

end
