(* ===== verification/PaymentCreate.thy ===== *)
theory PaymentCreate
  imports PaymentFinality
begin

text \<open>
  Creating a payment (\<open>PaymentService.create\<close> in \<open>payments/payment.service.ts\<close>, the purposes of
  \<open>payments/payment.types.ts\<close>, \<open>authorization/organization-scope.service.ts\<close>): the checks in the
  code's order, the replay of an identical request, and the insert with its event and audit record.
  The request has already passed the validation of its DTO.
\<close>

section \<open>The request\<close>

record create_dto =
  dto_paymentRequestId :: string
  dto_sourceType :: string
  dto_sourceId :: string
  dto_payer :: party
  dto_seller :: party
  dto_organizationId :: "string option"
  dto_amount :: int
  dto_currency :: string
  dto_expiresAt :: "string option"
  dto_description :: "string option"
  dto_reference :: "string option"
  dto_purpose :: "string option"
  dto_beneficiaryUserId :: "string option"

definition ACCEPTED_PURPOSES :: "string list" where
  "ACCEPTED_PURPOSES = [''organization_subscription'', ''direct_purchase'', ''assisted_settlement'',
     ''recovery_settlement'', ''non_entitlement'']"

definition ORGANIZATION_PAYER_PURPOSES :: "string list" where
  "ORGANIZATION_PAYER_PURPOSES = [''assisted_settlement'', ''recovery_settlement'']"

definition CORE_V2_LIVE_MODE :: bool where
  "CORE_V2_LIVE_MODE = False"

definition bad_request :: pay_err where
  "bad_request = Pay_error 400 ''invalid_payment_request''"

text \<open>A JavaScript string used as a condition: absent and empty are both false.\<close>

definition truthy :: "string option \<Rightarrow> string option" where
  "truthy s = (case s of Some t \<Rightarrow> if t = '''' then None else Some t | None \<Rightarrow> None)"

section \<open>Grants, pairing, scope\<close>

definition organizationPayerGrant :: "string \<Rightarrow> string \<Rightarrow> string option" where
  "organizationPayerGrant purpose payerType =
     (if \<not> (payerType = ''organization'' \<or> purpose \<in> set ORGANIZATION_PAYER_PURPOSES) then None
      else if purpose = ''assisted_settlement'' then Some ''payment.create.assisted_settlement''
      else if purpose = ''recovery_settlement'' then Some ''payment.create.recovery_settlement''
      else Some ''payment.create.organization_payer'')"

definition assertPurposePairing :: "string \<Rightarrow> party \<Rightarrow> string option \<Rightarrow> pay_err + unit" where
  "assertPurposePairing purpose payer beneficiary =
     (let mismatch = Inl (Pay_error 422 ''payer_purpose_mismatch'') in
      if (party_type payer = ''organization'') \<noteq> (purpose \<in> set ORGANIZATION_PAYER_PURPOSES) then mismatch
      else if (purpose = ''organization_subscription'' \<or> purpose = ''direct_purchase'') \<and> party_type payer \<noteq> ''user''
        then mismatch
      else if purpose = ''direct_purchase'' \<or> purpose = ''assisted_settlement'' then
        (case beneficiary of
           None \<Rightarrow> Inl bad_request
         | Some b \<Rightarrow> if purpose = ''direct_purchase'' \<and> b \<noteq> party_id payer then mismatch else Inr ())
      else if beneficiary \<noteq> None then Inl bad_request
      else Inr ())"

definition has_operation :: "pay_config \<Rightarrow> string \<Rightarrow> string \<Rightarrow> bool" where
  "has_operation cfg producer op = (case cfg_operations cfg producer of None \<Rightarrow> False | Some ops \<Rightarrow> op \<in> set ops)"

definition assertInScope :: "pay_config \<Rightarrow> pay_env \<Rightarrow> string \<Rightarrow> string \<Rightarrow> pay_err + unit" where
  "assertInScope cfg env caller org =
     err_bind (env_resolve_organization env org) (\<lambda>ref.
       case (cfg_allowedPlatforms cfg caller, ref) of
         (Some allowed, Some platform) \<Rightarrow>
           if platform \<in> set allowed then Inr () else Inl (Pay_error 403 ''organization_not_permitted'')
       | _ \<Rightarrow> Inl (Pay_error 403 ''organization_not_permitted''))"

section \<open>Identical requests\<close>

definition isIdenticalSnapshot ::
  "payment_row \<Rightarrow> string \<Rightarrow> create_dto \<Rightarrow> party \<Rightarrow> party \<Rightarrow> string option \<Rightarrow> instant option \<Rightarrow> bool" where
  "isIdenticalSnapshot p producer dto payer seller org expires \<longleftrightarrow>
     pay_producer p = producer \<and>
     pay_sourceType p = dto_sourceType dto \<and> pay_sourceId p = dto_sourceId dto \<and>
     pay_payerType p = party_type payer \<and> pay_payerId p = party_id payer \<and>
     pay_sellerType p = party_type seller \<and> pay_sellerId p = party_id seller \<and>
     pay_organizationId p = org \<and> pay_amount p = dto_amount dto \<and> pay_currency p = dto_currency dto \<and>
     pay_description p = dto_description dto \<and> pay_reference p = dto_reference dto \<and>
     pay_purpose p = dto_purpose dto \<and> pay_beneficiaryUserId p = dto_beneficiaryUserId dto \<and>
     pay_expiresAt p = expires"

section \<open>The checks before the transaction\<close>

definition normalize_organization :: "create_dto \<Rightarrow> pay_err + (party \<times> string option)" where
  "normalize_organization dto =
     (let org = map_option to_lower (truthy (dto_organizationId dto)) in
      if party_type (dto_seller dto) = ''organization'' then
        (if \<not> is_uuid (party_id (dto_seller dto)) then Inl bad_request
         else
           (let sid = to_lower (party_id (dto_seller dto)) in
            if org \<noteq> None \<and> org \<noteq> Some sid then Inl bad_request
            else Inr (\<lparr>party_type = party_type (dto_seller dto), party_id = sid\<rparr>, Some sid)))
      else Inr (dto_seller dto, org))"

definition normalize_payer :: "create_dto \<Rightarrow> string option \<Rightarrow> pay_err + (party \<times> string option)" where
  "normalize_payer dto org =
     (if party_type (dto_payer dto) = ''organization'' then
        (if \<not> is_uuid (party_id (dto_payer dto)) then Inl bad_request
         else
           (let pid = to_lower (party_id (dto_payer dto)) in
            if org \<noteq> None \<and> org \<noteq> Some pid then Inl bad_request
            else Inr (\<lparr>party_type = party_type (dto_payer dto), party_id = pid\<rparr>, Some pid)))
      else Inr (dto_payer dto, org))"

definition parse_expiry :: "pay_env \<Rightarrow> create_dto \<Rightarrow> pay_err + instant option" where
  "parse_expiry env dto =
     (case truthy (dto_expiresAt dto) of
        None \<Rightarrow> Inr None
      | Some s \<Rightarrow> (case env_parse_date env s of None \<Rightarrow> Inl bad_request | Some t \<Rightarrow> Inr (Some t)))"

datatype create_plan =
  Answer_replay payment_row
| Insert_plan party party "string option" "instant option" string

definition plan_with_purpose ::
  "pay_config \<Rightarrow> pay_env \<Rightarrow> string \<Rightarrow> create_dto \<Rightarrow> party \<Rightarrow> string option \<Rightarrow> instant option \<Rightarrow> string \<Rightarrow> pdb \<Rightarrow> pay_err + create_plan" where
  "plan_with_purpose cfg env producer dto seller org0 expires purpose db =
     (if purpose \<notin> set ACCEPTED_PURPOSES then Inl bad_request
      else if (case organizationPayerGrant purpose (party_type (dto_payer dto)) of
                 None \<Rightarrow> False | Some g \<Rightarrow> \<not> has_operation cfg producer g)
        then Inl (Pay_error 403 ''operation_not_permitted'')
      else err_bind (assertPurposePairing purpose (dto_payer dto) (dto_beneficiaryUserId dto)) (\<lambda>_.
           err_bind (normalize_payer dto org0) (\<lambda>(payer, org).
           case org of
             None \<Rightarrow> Inr (Insert_plan payer seller None expires purpose)
           | Some org_id \<Rightarrow>
               (case find_by_request producer (dto_paymentRequestId dto) db of
                  Some prior \<Rightarrow>
                    if isIdenticalSnapshot prior producer dto payer seller org expires then Inr (Answer_replay prior)
                    else Inl (Pay_error 409 ''payment_request_conflict'')
                | None \<Rightarrow> err_bind (assertInScope cfg env producer org_id)
                             (\<lambda>_. Inr (Insert_plan payer seller org expires purpose))))))"

definition create_prepare :: "pay_config \<Rightarrow> pay_env \<Rightarrow> string \<Rightarrow> create_dto \<Rightarrow> pdb \<Rightarrow> pay_err + create_plan" where
  "create_prepare cfg env producer dto db =
     (if dto_currency dto \<notin> set (cfg_supportedCurrencies cfg) then Inl (Pay_error 422 ''unsupported_currency'')
      else if party_type (dto_payer dto) = party_type (dto_seller dto) \<and> party_id (dto_payer dto) = party_id (dto_seller dto)
        then Inl bad_request
      else err_bind (normalize_organization dto) (\<lambda>(seller, org).
           err_bind (parse_expiry env dto) (\<lambda>expires.
           case dto_purpose dto of
             None \<Rightarrow>
               (case find_by_request producer (dto_paymentRequestId dto) db of
                  Some prior \<Rightarrow>
                    if pay_purpose prior = None \<and> isIdenticalSnapshot prior producer dto (dto_payer dto) seller org expires
                      then Inr (Answer_replay prior) else Inl bad_request
                | None \<Rightarrow> Inl bad_request)
           | Some purpose \<Rightarrow> plan_with_purpose cfg env producer dto seller org expires purpose db)))"

section \<open>The transaction\<close>

definition new_payment ::
  "pdb \<Rightarrow> uuid \<Rightarrow> string \<Rightarrow> create_dto \<Rightarrow> party \<Rightarrow> party \<Rightarrow> string option \<Rightarrow> instant option \<Rightarrow> string \<Rightarrow> payment_row" where
  "new_payment db i producer dto payer seller org expires purpose = \<lparr>
     pay_id = i, pay_producer = producer, pay_paymentRequestId = dto_paymentRequestId dto,
     pay_sourceType = dto_sourceType dto, pay_sourceId = dto_sourceId dto,
     pay_payerType = party_type payer, pay_payerId = party_id payer,
     pay_sellerType = party_type seller, pay_sellerId = party_id seller, pay_organizationId = org,
     pay_amount = dto_amount dto, pay_currency = dto_currency dto, pay_description = dto_description dto,
     pay_reference = dto_reference dto, pay_expiresAt = expires, pay_status = P_created, pay_statusReason = None,
     pay_settledMethod = None, pay_succeededAttemptId = None, pay_revision = 0, pay_createdAt = now db,
     pay_updatedAt = now db, pay_closedAt = None, pay_purpose = Some purpose,
     pay_beneficiaryUserId = dto_beneficiaryUserId dto, pay_liveMode = Some CORE_V2_LIVE_MODE,
     pay_closingReason = None, pay_closingSince = None\<rparr>"

text \<open>INSERT with the savepoint: a unique violation is answered from the row that is there.\<close>

definition create_tx ::
  "string \<Rightarrow> create_dto \<Rightarrow> party \<Rightarrow> party \<Rightarrow> string option \<Rightarrow> instant option \<Rightarrow> string \<Rightarrow> (payment_row \<times> bool) ptx" where
  "create_tx producer dto payer seller org expires purpose db =
     (case find_by_request producer (dto_paymentRequestId dto) db of
        Some existing \<Rightarrow>
          if isIdenticalSnapshot existing producer dto payer seller org expires then Inr ((existing, True), db)
          else Inl (Pay_error 409 ''payment_request_conflict'')
      | None \<Rightarrow>
          tx_bind fresh_uuid (\<lambda>i db1.
            let p = new_payment db1 i producer dto payer seller org expires purpose;
                ctx = requestContext Act_service producer None None
            in tx_bind (emit_payment_event ''payment.created'' p ctx No_extra) (\<lambda>_.
               tx_bind (audit_record_payment ''payment.created'' p ctx) (\<lambda>_.
               tx_return (p, False))) (db1\<lparr>payments := payments db1 @ [p]\<rparr>)) db)"

text \<open>\<open>create\<close> with what other transactions commit between the checks and the insert.\<close>

definition create_payment ::
  "pay_config \<Rightarrow> pay_env \<Rightarrow> (pdb \<Rightarrow> pdb) \<Rightarrow> string \<Rightarrow> create_dto \<Rightarrow> pdb \<Rightarrow> (pay_err + payment_row \<times> bool) \<times> pdb" where
  "create_payment cfg env others producer dto db =
     (case create_prepare cfg env producer dto db of
        Inl e \<Rightarrow> (Inl e, db)
      | Inr (Answer_replay p) \<Rightarrow> (Inr (p, True), db)
      | Inr (Insert_plan payer seller org expires purpose) \<Rightarrow>
          commit (create_tx producer dto payer seller org expires purpose) (others db))"

section \<open>Lemmas\<close>

lemma isIdenticalSnapshot_new_payment:
  "dto_purpose dto = Some purpose \<Longrightarrow>
     isIdenticalSnapshot (new_payment db i producer dto payer seller org expires purpose)
       producer dto payer seller org expires"
  by (simp add: isIdenticalSnapshot_def new_payment_def)

lemma plan_purpose_accepted:
  "plan_with_purpose cfg env producer dto seller org0 expires purpose db = Inr r \<Longrightarrow> purpose \<in> set ACCEPTED_PURPOSES"
  by (auto simp: plan_with_purpose_def split: if_splits)

lemma plan_grant_held:
  assumes "plan_with_purpose cfg env producer dto seller org0 expires purpose db = Inr r"
    and "organizationPayerGrant purpose (party_type (dto_payer dto)) = Some g"
  shows "has_operation cfg producer g"
  using assms by (auto simp: plan_with_purpose_def split: if_splits)

lemma plan_pairing:
  assumes "plan_with_purpose cfg env producer dto seller org0 expires purpose db = Inr r"
  shows "assertPurposePairing purpose (dto_payer dto) (dto_beneficiaryUserId dto) = Inr ()"
  using assms by (auto simp: plan_with_purpose_def err_bind_Inr_iff split: if_splits)

lemma assertInScope_Inr:
  "assertInScope cfg env caller org = Inr () \<longleftrightarrow>
     (\<exists>platform allowed. env_resolve_organization env org = Inr (Some platform) \<and>
        cfg_allowedPlatforms cfg caller = Some allowed \<and> platform \<in> set allowed)"
proof (cases "env_resolve_organization env org")
  case (Inr ref)
  then show ?thesis
    by (cases "cfg_allowedPlatforms cfg caller"; cases ref) (auto simp: assertInScope_def)
qed (simp add: assertInScope_def)

end
