(* ===== verification/CaptureRecovery.thy ===== *)
theory CaptureRecovery
  imports PaymentFinality
begin

text \<open>
  The durable completion of lost capture processing (\<open>payments/capture-reconciler.ts\<close>, migration
  0026): the eligible facts of a pass, the per-fact transaction, the bounded retry state with its
  waits, and the infrastructure pauses of the worker.
\<close>

section \<open>Bounds\<close>

definition CAPTURE_RECONCILE_BATCH :: nat where "CAPTURE_RECONCILE_BATCH = 100"
definition CAPTURE_RECOVERY_MAX_ATTEMPTS :: nat where "CAPTURE_RECOVERY_MAX_ATTEMPTS = 12"

definition captureRecoveryWaitSeconds :: "nat \<Rightarrow> nat" where
  "captureRecoveryWaitSeconds attempt = 2 ^ attempt"

definition captureInfrastructurePauseMs :: "nat \<Rightarrow> int" where
  "captureInfrastructurePauseMs consecutive = min 900000 (30000 * 2 ^ (max consecutive 1 - 1))"

section \<open>Classification of a failure\<close>

datatype recovery_failure = RF_infrastructure | RF_permanent | RF_transient | RF_unknown

text \<open>What \<open>failureFacts\<close> of the kit reads from an error: its SQLSTATE or driver code, and its kind.\<close>

record failure_facts =
  ff_code :: "string option"
  ff_kind :: "string option"

definition INFRASTRUCTURE_KINDS :: "string list" where
  "INFRASTRUCTURE_KINDS = [''db_connect_timeout'', ''db_connection_lost'', ''db_unavailable'', ''db_auth_failed'',
     ''network_unreachable'']"

definition TRANSIENT_STATES :: "string list" where
  "TRANSIENT_STATES = [''40001'', ''40P01'', ''55P03'', ''57014'', ''25P03'']"

definition starts_with :: "string \<Rightarrow> string \<Rightarrow> bool" where
  "starts_with pre s \<longleftrightarrow> take (length pre) s = pre"

definition classifyCaptureRecoveryFailure :: "failure_facts \<Rightarrow> recovery_failure" where
  "classifyCaptureRecoveryFailure e =
     (if (case ff_kind e of None \<Rightarrow> False | Some k \<Rightarrow> k \<in> set INFRASTRUCTURE_KINDS) \<or>
         (case ff_code e of None \<Rightarrow> False
          | Some c \<Rightarrow> starts_with ''08'' c \<or> starts_with ''53'' c \<or> starts_with ''57P'' c)
        then RF_infrastructure
      else if (case ff_code e of None \<Rightarrow> False | Some c \<Rightarrow> c \<in> set TRANSIENT_STATES) then RF_transient
      else if (case ff_code e of None \<Rightarrow> False | Some c \<Rightarrow> starts_with ''23'' c) then RF_permanent
      else RF_unknown)"

section \<open>The facts of a pass\<close>

definition recovery_eligible :: "pdb \<Rightarrow> fact_row \<Rightarrow> bool" where
  "recovery_eligible db f \<longleftrightarrow>
     fact_kind f = K_capture \<and>
     (case fact_paymentId f of
        None \<Rightarrow> False
      | Some pid \<Rightarrow> (case find_payment pid db of None \<Rightarrow> False | Some p \<Rightarrow> pay_status p \<in> set FINAL_UNSUCCESSFUL)) \<and>
     is_iso_currency (pg_trim (fact_currency f)) \<and>
     \<not> fact_contested db (fact_id f) \<and> \<not> fact_has_late_success db (fact_id f) \<and>
     \<not> list_ex (\<lambda>g. fact_attemptId f \<noteq> None \<and> fact_attemptId g = fact_attemptId f \<and>
                   fact_kind g = K_capture \<and> fact_id g \<noteq> fact_id f) (facts db)"

definition find_recovery :: "uuid \<Rightarrow> pdb \<Rightarrow> recovery_row option" where
  "find_recovery fid db = get_row rec_factId fid (recovery_states db)"

definition recovery_due :: "pdb \<Rightarrow> fact_row \<Rightarrow> bool" where
  "recovery_due db f \<longleftrightarrow>
     (case find_recovery (fact_id f) db of
        None \<Rightarrow> True
      | Some s \<Rightarrow> rec_status s = RS_active \<and> (case rec_workAfter s of None \<Rightarrow> False | Some t \<Rightarrow> t \<le> now db))"

text \<open>ORDER BY: never tried first, then the oldest due, then the id.\<close>

definition recovery_order :: "pdb \<Rightarrow> fact_row \<Rightarrow> instant" where
  "recovery_order db f =
     (case find_recovery (fact_id f) db of
        Some s \<Rightarrow> (case rec_workAfter s of Some t \<Rightarrow> t | None \<Rightarrow> fact_observedAt f)
      | None \<Rightarrow> fact_observedAt f)"

definition recovery_tried :: "pdb \<Rightarrow> fact_row \<Rightarrow> nat" where
  "recovery_tried db f = (if find_recovery (fact_id f) db = None then 0 else 1)"

definition recovery_seen :: "pdb \<Rightarrow> fact_row \<Rightarrow> nat" where
  "recovery_seen db f = (case find_recovery (fact_id f) db of None \<Rightarrow> 0 | Some s \<Rightarrow> rec_attempts s)"

definition recovery_scan :: "pdb \<Rightarrow> (fact_row \<times> nat) list" where
  "recovery_scan db =
     map (\<lambda>f. (f, recovery_seen db f))
       (take CAPTURE_RECONCILE_BATCH
         (sort_key (recovery_tried db) (sort_key (recovery_order db) (sort_key fact_id
           (filter (\<lambda>f. recovery_eligible db f \<and> recovery_due db f) (facts db))))))"

section \<open>One fact\<close>

datatype fact_outcome = Recorded nat | No_effect

text \<open>\<open>skipped\<close>: another transaction holds the payment's row (SKIP LOCKED).\<close>

definition processFact :: "bool \<Rightarrow> uuid \<Rightarrow> uuid \<Rightarrow> event_ctx \<Rightarrow> fact_outcome ptx" where
  "processFact skipped fid pid ctx db =
     (case (if skipped then None else find_payment pid db) of
        None \<Rightarrow> Inr (Recorded 0, db)
      | Some p \<Rightarrow>
          tx_bind (recordQualifyingLateSuccesses p ctx (Some fid) (Some ''payment_capture_reconciler'')) (\<lambda>n db'.
            if 0 < n then Inr (Recorded n, db')
            else if list_ex (\<lambda>f. fact_id f = fid \<and> recovery_eligible db' f) (facts db') then Inr (No_effect, db')
            else Inr (Recorded 0, db')) db)"

section \<open>The retry state\<close>

definition recovery_verdict :: "nat \<Rightarrow> recovery_failure \<Rightarrow> recovery_status" where
  "recovery_verdict n failure =
     (if failure = RF_permanent then RS_refused
      else if CAPTURE_RECOVERY_MAX_ATTEMPTS \<le> n then RS_exhausted else RS_active)"

definition recovery_row_after :: "pdb \<Rightarrow> uuid \<Rightarrow> nat \<Rightarrow> string \<Rightarrow> recovery_failure \<Rightarrow> recovery_row" where
  "recovery_row_after db fid seen code failure =
     (let st = recovery_verdict (seen + 1) failure in
      \<lparr>rec_factId = fid, rec_attempts = seen + 1,
       rec_workAfter = (if st = RS_active then Some (now db + 1000 * int (captureRecoveryWaitSeconds (seen + 1))) else None),
       rec_lastFailure = code, rec_status = st, rec_endedAt = (if st = RS_active then None else Some (now db))\<rparr>)"

text \<open>
  \<open>countAttempt\<close>: INSERT ... ON CONFLICT DO UPDATE WHERE the row still has the attempts this pass
  saw and is active. An error of the statement is logged and ignored, so the model is total.
\<close>

definition countAttempt :: "uuid \<Rightarrow> nat \<Rightarrow> string \<Rightarrow> recovery_failure \<Rightarrow> pdb \<Rightarrow> pdb" where
  "countAttempt fid seen code failure db =
     (let row = recovery_row_after db fid seen code failure in
      case find_recovery fid db of
        None \<Rightarrow> db\<lparr>recovery_states := recovery_states db @ [row]\<rparr>
      | Some s \<Rightarrow>
          if rec_attempts s = seen \<and> rec_status s = RS_active
            then db\<lparr>recovery_states := set_row rec_factId fid row (recovery_states db)\<rparr>
          else db)"

definition failure_code_text :: "recovery_failure \<Rightarrow> string" where
  "failure_code_text f = (case f of RF_permanent \<Rightarrow> ''permanent_refusal'' | RF_transient \<Rightarrow> ''transient_failure''
     | _ \<Rightarrow> ''unknown_failure'')"

section \<open>A pass\<close>

record reconciler =
  rc_running :: bool
  rc_consecutive :: nat
  rc_pausedUntil :: instant
  rc_passes :: nat

definition infrastructureFailure :: "instant \<Rightarrow> reconciler \<Rightarrow> reconciler" where
  "infrastructureFailure wall w = w\<lparr>rc_consecutive := rc_consecutive w + 1,
     rc_pausedUntil := wall + captureInfrastructurePauseMs (rc_consecutive w + 1)\<rparr>"

definition recovered :: "reconciler \<Rightarrow> reconciler" where
  "recovered w = w\<lparr>rc_consecutive := 0, rc_pausedUntil := 0\<rparr>"

text \<open>
  What the database did to a fact's transaction: ran it, or failed it with an error whose facts
  are given (a lost connection, a serialization failure, a guard). A guard the model itself runs
  into is a check violation (SQLSTATE 23514).
\<close>

datatype fate = Runs bool | Fails failure_facts

definition guard_facts :: "pay_err \<Rightarrow> failure_facts" where
  "guard_facts e = (case e of Db_check _ \<Rightarrow> \<lparr>ff_code = Some ''23514'', ff_kind = None\<rparr>
     | _ \<Rightarrow> \<lparr>ff_code = None, ff_kind = None\<rparr>)"

text \<open>The loop over the batch. It stops at an infrastructure failure, which counts against no fact.\<close>

fun reconcile_facts ::
  "(uuid \<Rightarrow> fate) \<Rightarrow> instant \<Rightarrow> event_ctx \<Rightarrow> (fact_row \<times> nat) list \<Rightarrow> reconciler \<Rightarrow> pdb \<Rightarrow> nat \<times> reconciler \<times> pdb" where
  "reconcile_facts fates wall ctx [] w db = (0, w, db)"
| "reconcile_facts fates wall ctx ((f, seen) # rest) w db =
     (let fid = fact_id f;
          run = (case fates fid of
                   Fails err \<Rightarrow> (Inl err, db)
                 | Runs skipped \<Rightarrow>
                     (case fact_paymentId f of
                        None \<Rightarrow> (Inr (Recorded 0), db)
                      | Some pid \<Rightarrow>
                          (case commit (processFact skipped fid pid ctx) db of
                             (Inl e, db') \<Rightarrow> (Inl (guard_facts e), db')
                           | (Inr r, db') \<Rightarrow> (Inr r, db'))))
      in case run of
           (Inr (Recorded n), db') \<Rightarrow>
             (let (m, w', db'') = reconcile_facts fates wall ctx rest w db' in (n + m, w', db''))
         | (Inr No_effect, db') \<Rightarrow> reconcile_facts fates wall ctx rest w (countAttempt fid seen ''no_effect'' RF_transient db')
         | (Inl err, db') \<Rightarrow>
             (let failure = classifyCaptureRecoveryFailure err in
              if failure = RF_infrastructure then (0, infrastructureFailure wall w, db')
              else reconcile_facts fates wall ctx rest w (countAttempt fid seen (failure_code_text failure) failure db')))"

datatype pass_result = Pass nat | Paused | Pass_error failure_facts

text \<open>\<open>reconcileOnce\<close>: \<open>scan\<close> is the fate of the selection; \<open>ended\<close> the process clock after the loop.\<close>

definition reconcileOnce ::
  "(uuid \<Rightarrow> fate) \<Rightarrow> failure_facts option \<Rightarrow> instant \<Rightarrow> instant \<Rightarrow> uuid \<Rightarrow> reconciler \<Rightarrow> pdb \<Rightarrow> pass_result \<times> reconciler \<times> pdb" where
  "reconcileOnce fates scan wall ended run w db =
     (if rc_running w then (Pass 0, w, db)
      else if wall < rc_pausedUntil w then (Paused, w, db)
      else
        (case scan of
           Some err \<Rightarrow>
             if classifyCaptureRecoveryFailure err \<noteq> RF_infrastructure then (Pass_error err, w, db)
             else (Pass 0, infrastructureFailure wall w, db)
         | None \<Rightarrow>
             (let (n, w1, db1) = reconcile_facts fates wall (jobContext C_capture_reconciler run) (recovery_scan db) w db;
                  w2 = (if 0 < rc_consecutive w1 \<and> rc_pausedUntil w1 \<le> ended then recovered w1 else w1)
              in (Pass n, w2\<lparr>rc_passes := rc_passes w2 + 1\<rparr>, db1))))"

section \<open>Lemmas\<close>

lemma recovery_wait_total: "sum_list (map captureRecoveryWaitSeconds [1..<12]) = 4094"
  by (simp add: captureRecoveryWaitSeconds_def upt_rec)

lemma infrastructure_pause_bounds:
  "30000 \<le> captureInfrastructurePauseMs n \<and> captureInfrastructurePauseMs n \<le> 900000"
proof -
  have "(1::int) \<le> 2 ^ (max n 1 - 1)" by (rule one_le_power) simp
  then show ?thesis by (simp add: captureInfrastructurePauseMs_def)
qed

lemma infrastructure_pause_mono:
  "m \<le> n \<Longrightarrow> captureInfrastructurePauseMs m \<le> captureInfrastructurePauseMs n"
  unfolding captureInfrastructurePauseMs_def
  by (intro min.mono order_refl mult_left_mono power_increasing) auto

text \<open>A fact's counter never goes down, and a terminal state is kept by every count.\<close>

lemma countAttempt_other:
  "find_recovery j (countAttempt fid seen code failure db)
     = (if j = fid then find_recovery fid (countAttempt fid seen code failure db) else find_recovery j db)"
  by (auto simp: countAttempt_def find_recovery_def Let_def recovery_row_after_def row_simps
      split: option.splits if_splits)

lemma countAttempt_terminal_kept:
  assumes "find_recovery fid db = Some s" and "rec_status s \<noteq> RS_active"
  shows "find_recovery fid (countAttempt i seen code failure db) = Some s"
proof (cases "i = fid")
  case True
  with assms show ?thesis by (simp add: countAttempt_def Let_def)
next
  case False
  with assms show ?thesis by (simp add: countAttempt_other [of fid])
qed

lemma countAttempt_stale:
  assumes "find_recovery fid db = Some s" and "rec_attempts s \<noteq> seen"
  shows "countAttempt fid seen code failure db = db"
  using assms by (simp add: countAttempt_def Let_def)

lemma find_recovery_key: "find_recovery fid db = Some s \<Longrightarrow> fid \<in> rec_factId ` set (recovery_states db)"
  by (auto simp: find_recovery_def dest!: get_row_SomeD)

lemma countAttempt_fresh:
  assumes "recovery_seen db f = seen"
    and "\<forall>s. find_recovery (fact_id f) db = Some s \<longrightarrow> rec_status s = RS_active"
  shows "find_recovery (fact_id f) (countAttempt (fact_id f) seen code failure db)
           = Some (recovery_row_after db (fact_id f) seen code failure)"
proof (cases "find_recovery (fact_id f) db")
  case None
  then show ?thesis
    by (simp add: countAttempt_def Let_def find_recovery_def row_simps) (simp add: recovery_row_after_def Let_def)
next
  case (Some s)
  with assms have "rec_attempts s = seen" "rec_status s = RS_active" by (auto simp: recovery_seen_def)
  with Some find_recovery_key [OF Some] show ?thesis
    by (simp add: countAttempt_def Let_def find_recovery_def row_simps recovery_row_after_def)
qed

end
