(* ===== verification/PaymentInvariant.thy ===== *)
theory PaymentInvariant
  imports PaymentAttempt PaymentCreate CaptureRecovery
begin

text \<open>
  What a reachable database of payment-service satisfies, in four parts (keys and references, the
  coherence of a payment with its attempts, the truth of the outbox, the late successes), and what
  each database primitive does to them. The proofs about whole transactions are in
  \<open>PaymentPreserve\<close>.
\<close>

section \<open>The invariant\<close>

text \<open>Keys are unique and drawn from the supply; references resolve.\<close>

definition keys_ok :: "pdb \<Rightarrow> bool" where
  "keys_ok db \<longleftrightarrow>
     unique_keys pay_id (payments db) \<and> unique_keys att_id (attempts db) \<and> unique_keys fact_id (facts db) \<and>
     (\<forall>p \<in> set (payments db). pay_id p < next_uuid db) \<and>
     (\<forall>a \<in> set (attempts db). att_id a < next_uuid db \<and> att_paymentId a \<in> pay_id ` set (payments db)) \<and>
     (\<forall>f \<in> set (facts db). fact_id f < next_uuid db \<and> (fact_paymentId f \<noteq> None \<longrightarrow> fact_attemptId f \<noteq> None)) \<and>
     (\<forall>l \<in> set (late_successes db). late_id l < next_uuid db) \<and>
     (\<forall>e \<in> set (outbox db). \<forall>i n. ob_id e = Derived i n \<longrightarrow> i < next_uuid db)"

text \<open>An attempt's failure flags: only a failure is inferred, only an inferred failure is confirmed.\<close>

definition attempt_ok :: "attempt_row \<Rightarrow> bool" where
  "attempt_ok a \<longleftrightarrow>
     (att_failureInferred a \<longrightarrow> att_status a = A_failed \<or> att_status a = A_succeeded) \<and>
     (att_failureConfirmedAt a \<noteq> None \<longrightarrow> att_status a = A_failed \<and> att_failureInferred a)"

text \<open>
  A payment and the set of its attempts: at most one may still settle it, it succeeded exactly when
  one of them did, and its status says which kind of attempt is left.
\<close>

definition life :: "payment_row \<Rightarrow> attempt_row set \<Rightarrow> bool" where
  "life p as \<longleftrightarrow>
     (\<forall>a \<in> as. attempt_ok a) \<and>
     (\<forall>a \<in> as. \<forall>b \<in> as. attempt_unsettled a \<longrightarrow> attempt_unsettled b \<longrightarrow> a = b) \<and>
     (\<forall>a \<in> as. att_status a = A_succeeded \<longrightarrow>
        pay_status p = P_succeeded \<and> pay_succeededAttemptId p = Some (att_id a)) \<and>
     (pay_status p = P_succeeded \<longrightarrow>
        pay_settledMethod p = Some Gateway \<and> (\<exists>a \<in> as. att_status a = A_succeeded)) \<and>
     (pay_status p \<noteq> P_succeeded \<longrightarrow> pay_settledMethod p = None \<and> pay_succeededAttemptId p = None) \<and>
     (isTerminalPaymentStatus (pay_status p) \<longrightarrow> (\<forall>a \<in> as. \<not> attempt_unsettled a)) \<and>
     (pay_status p = P_closing \<longrightarrow> (\<exists>a \<in> as. attempt_unsettled a)) \<and>
     (pay_status p = P_created \<longrightarrow> (\<forall>a \<in> as. \<not> isOpenAttemptStatus (att_status a))) \<and>
     (pay_status p = P_pending \<longrightarrow> (\<exists>a \<in> as. isOpenAttemptStatus (att_status a))) \<and>
     (pay_status p = P_created \<or> pay_status p = P_pending \<longrightarrow> pay_closingReason p = None) \<and>
     closing_outcome_ok p"

definition attempt_set :: "pdb \<Rightarrow> uuid \<Rightarrow> attempt_row set" where
  "attempt_set db pid = {a \<in> set (attempts db). att_paymentId a = pid}"

definition life_ok :: "pdb \<Rightarrow> bool" where
  "life_ok db \<longleftrightarrow> (\<forall>p \<in> set (payments db). life p (attempt_set db (pay_id p)))"

text \<open>A succeeded payment is settled by exactly the money of a capture fact of its own attempt.\<close>

definition settled_ok :: "pdb \<Rightarrow> bool" where
  "settled_ok db \<longleftrightarrow>
     (\<forall>p \<in> set (payments db). pay_status p = P_succeeded \<longrightarrow>
        (\<exists>f \<in> set (facts db). fact_kind f = K_capture \<and> fact_paymentId f = Some (pay_id p) \<and>
           fact_attemptId f = pay_succeededAttemptId p \<and> fact_amount f = pay_amount p \<and>
           pg_trim (fact_currency f) = pg_trim (pay_currency p)))"

text \<open>The final statuses and the events that announce them.\<close>

fun status_event :: "payment_status \<Rightarrow> string option" where
  "status_event P_succeeded = Some ''payment.succeeded''"
| "status_event P_failed = Some ''payment.failed''"
| "status_event P_cancelled = Some ''payment.cancelled''"
| "status_event P_expired = Some ''payment.expired''"
| "status_event _ = None"

definition payment_events_ok :: "pdb \<Rightarrow> payment_row \<Rightarrow> bool" where
  "payment_events_ok db p \<longleftrightarrow>
     has_event db (pay_id p) ''payment.created'' \<and>
     (\<forall>st nm. status_event st = Some nm \<longrightarrow> (has_event db (pay_id p) nm \<longleftrightarrow> pay_status p = st))"

text \<open>An outbox row about a payment carries that payment's own identity, amount and currency.\<close>

definition event_row_ok :: "pdb \<Rightarrow> outbox_row \<Rightarrow> bool" where
  "event_row_ok db e \<longleftrightarrow>
     (\<forall>pl. ob_payload e = Payment_event pl \<longrightarrow>
        (\<exists>p \<in> set (payments db). pay_id p = pl_paymentId pl \<and> ob_id e = Derived (pay_id p) (ob_name e) \<and>
           pl_amount pl = pay_amount p \<and> pl_currency pl = pay_currency p \<and>
           pl_producer pl = pay_producer p \<and> pl_paymentRequestId pl = pay_paymentRequestId p \<and>
           (\<forall>st nm. status_event st = Some nm \<longrightarrow> ob_name e = nm \<longrightarrow> pl_status pl = st)))"

definition events_ok :: "pdb \<Rightarrow> bool" where
  "events_ok db \<longleftrightarrow>
     unique_keys ob_id (outbox db) \<and>
     (\<forall>p \<in> set (payments db). payment_events_ok db p) \<and>
     (\<forall>e \<in> set (outbox db). event_row_ok db e)"

text \<open>
  A late success is one fact's, equal to it, on a payment that ended some other way or through
  another capture; it is announced once.
\<close>

definition late_row_ok :: "pdb \<Rightarrow> late_row \<Rightarrow> bool" where
  "late_row_ok db l \<longleftrightarrow>
     (\<exists>f \<in> set (facts db). late_factId l = Some (fact_id f) \<and> fact_kind f = K_capture \<and>
        fact_attemptId f = Some (late_attemptId l) \<and> fact_paymentId f = Some (late_paymentId l) \<and>
        fact_amount f = late_amount l \<and> pg_trim (fact_currency f) = pg_trim (late_currency l)) \<and>
     (\<exists>p \<in> set (payments db). pay_id p = late_paymentId l \<and> isTerminalPaymentStatus (pay_status p) \<and>
        late_paymentStatus l = pay_status p) \<and>
     has_event db (late_id l) late_event_name"

definition lates_ok :: "pdb \<Rightarrow> bool" where
  "lates_ok db \<longleftrightarrow>
     unique_keys late_factId (late_successes db) \<and> unique_keys late_id (late_successes db) \<and>
     (\<forall>l \<in> set (late_successes db). late_row_ok db l)"

definition pinv :: "pdb \<Rightarrow> bool" where
  "pinv db \<longleftrightarrow> keys_ok db \<and> life_ok db \<and> settled_ok db \<and> events_ok db \<and> lates_ok db"

lemma pinv_empty: "pinv (empty_pdb t)"
  by (simp add: pinv_def keys_ok_def life_ok_def settled_ok_def events_ok_def lates_ok_def empty_pdb_def)

section \<open>The primitives, on success\<close>

lemma find_payment_SomeD: "find_payment pid db = Some p \<Longrightarrow> p \<in> set (payments db) \<and> pay_id p = pid"
  unfolding find_payment_def by (rule get_row_SomeD)

lemma find_attempt_SomeD: "find_attempt aid db = Some a \<Longrightarrow> a \<in> set (attempts db) \<and> att_id a = aid"
  unfolding find_attempt_def by (rule get_row_SomeD)

lemma find_payment_in:
  "keys_ok db \<Longrightarrow> p \<in> set (payments db) \<Longrightarrow> find_payment (pay_id p) db = Some p"
  by (simp add: keys_ok_def find_payment_def get_row_unique)

lemma find_attempt_in:
  "keys_ok db \<Longrightarrow> a \<in> set (attempts db) \<Longrightarrow> find_attempt (att_id a) db = Some a"
  by (simp add: keys_ok_def find_attempt_def get_row_unique)

lemma uncertain_iff: "payment_is_uncertain db pid \<longleftrightarrow> (\<exists>a \<in> attempt_set db pid. attempt_unsettled a)"
  by (auto simp: payment_is_uncertain_def attempt_set_def list_ex_iff)

lemma update_payment_Inr:
  "update_payment pid f db = Inr (new, db') \<longleftrightarrow>
     (\<exists>old. find_payment pid db = Some old \<and> new = payment_touch db old (f old) \<and>
            payment_update_error db old new = None \<and>
            db' = db\<lparr>payments := set_row pay_id pid new (payments db)\<rparr>)"
  by (auto simp: update_payment_def Let_def split: option.splits)

lemma update_attempt_Inr:
  "update_attempt aid f db = Inr (new, db') \<longleftrightarrow>
     (\<exists>old. find_attempt aid db = Some old \<and> new = f old \<and> attempt_update_error db old new = None \<and>
            db' = db\<lparr>attempts := set_row att_id aid new (attempts db)\<rparr>)"
  by (auto simp: update_attempt_def Let_def split: option.splits)

lemma payment_touch_simps [simp]:
  "pay_id (payment_touch db old new) = pay_id new"
  "pay_status (payment_touch db old new) = pay_status new"
  "pay_amount (payment_touch db old new) = pay_amount new"
  "pay_currency (payment_touch db old new) = pay_currency new"
  "pay_producer (payment_touch db old new) = pay_producer new"
  "pay_paymentRequestId (payment_touch db old new) = pay_paymentRequestId new"
  "pay_succeededAttemptId (payment_touch db old new) = pay_succeededAttemptId new"
  "pay_settledMethod (payment_touch db old new) = pay_settledMethod new"
  "pay_closingReason (payment_touch db old new) = pay_closingReason new"
  "pay_closedAt (payment_touch db old new) = pay_closedAt new"
  "pay_organizationId (payment_touch db old new) = pay_organizationId new"
  "pay_expiresAt (payment_touch db old new) = pay_expiresAt new"
  by (simp_all add: payment_touch_def)

lemma fresh_uuid_Inr [simp]:
  "fresh_uuid db = Inr (i, db') \<longleftrightarrow> i = next_uuid db \<and> db' = db\<lparr>next_uuid := Suc (next_uuid db)\<rparr>"
  by (auto simp: fresh_uuid_def)

text \<open>An enqueue adds at most the one row, and its event is there afterwards.\<close>

definition outbox_row_of :: "event_id \<Rightarrow> string \<Rightarrow> outbox_payload \<Rightarrow> uuid option \<Rightarrow> pdb \<Rightarrow> outbox_row" where
  "outbox_row_of i name payload corr db =
     \<lparr>ob_id = i, ob_name = name, ob_payload = payload, ob_correlationId = corr, ob_occurredAt = now db\<rparr>"

definition enqueued :: "event_id \<Rightarrow> string \<Rightarrow> outbox_payload \<Rightarrow> uuid option \<Rightarrow> pdb \<Rightarrow> pdb" where
  "enqueued i name payload corr db =
     (if i \<in> ob_id ` set (outbox db) then db
      else db\<lparr>outbox := outbox db @ [outbox_row_of i name payload corr db]\<rparr>)"

lemma enqueue_Inr: "enqueue i name payload corr db = Inr ((), enqueued i name payload corr db)"
  by (auto simp: enqueue_def enqueued_def outbox_row_of_def list_ex_iff image_iff)

lemma has_event_iff: "has_event db i name \<longleftrightarrow> Derived i name \<in> ob_id ` set (outbox db)"
  unfolding has_event_def list_ex_iff deterministicEventId_def by (force simp: image_iff)

lemma has_event_enqueued [simp]:
  "has_event (enqueued (Derived i name) n payload corr db) j m \<longleftrightarrow> has_event db j m \<or> (j = i \<and> m = name)"
  by (auto simp: has_event_iff enqueued_def outbox_row_of_def)

lemma enqueued_select [simp]:
  "payments (enqueued i n pl c db) = payments db" "attempts (enqueued i n pl c db) = attempts db"
  "facts (enqueued i n pl c db) = facts db" "conflicts (enqueued i n pl c db) = conflicts db"
  "late_successes (enqueued i n pl c db) = late_successes db" "next_uuid (enqueued i n pl c db) = next_uuid db"
  "idempotency_keys (enqueued i n pl c db) = idempotency_keys db" "now (enqueued i n pl c db) = now db"
  "webhook_events (enqueued i n pl c db) = webhook_events db" "quarantines (enqueued i n pl c db) = quarantines db"
  "recovery_states (enqueued i n pl c db) = recovery_states db"
  by (simp_all add: enqueued_def)

lemma unique_enqueued [simp]:
  "unique_keys ob_id (outbox (enqueued i n pl c db)) = unique_keys ob_id (outbox db)"
  by (simp add: enqueued_def outbox_row_of_def)

section \<open>Parts of the database an invariant does not read\<close>

lemma attempt_set_select [simp]:
  "attempt_set (db\<lparr>payments := ps\<rparr>) pid = attempt_set db pid"
  "attempt_set (db\<lparr>facts := fs\<rparr>) pid = attempt_set db pid"
  "attempt_set (db\<lparr>outbox := ob\<rparr>) pid = attempt_set db pid"
  "attempt_set (db\<lparr>next_uuid := n\<rparr>) pid = attempt_set db pid"
  "attempt_set (db\<lparr>late_successes := ls\<rparr>) pid = attempt_set db pid"
  "attempt_set (db\<lparr>conflicts := cs\<rparr>) pid = attempt_set db pid"
  "attempt_set (db\<lparr>idempotency_keys := is\<rparr>) pid = attempt_set db pid"
  "attempt_set (db\<lparr>webhook_events := ws\<rparr>) pid = attempt_set db pid"
  "attempt_set (db\<lparr>quarantines := qs\<rparr>) pid = attempt_set db pid"
  "attempt_set (db\<lparr>recovery_states := rs\<rparr>) pid = attempt_set db pid"
  "attempt_set (db\<lparr>now := t\<rparr>) pid = attempt_set db pid"
  "attempt_set (enqueued i nm pl c db) pid = attempt_set db pid"
  by (simp_all add: attempt_set_def)

lemma set_outbox_enqueued:
  "set (outbox (enqueued i n pl c db))
     = set (outbox db) \<union> (if i \<in> ob_id ` set (outbox db) then {} else {outbox_row_of i n pl c db})"
  by (simp add: enqueued_def)

end
