(* ===== verification/PaymentPreserve.thy ===== *)
theory PaymentPreserve
  imports PaymentInvariant
begin

text \<open>
  Every transaction of the payment core keeps the invariant. First the two UPDATEs and the late
  success, each against the parts of the invariant; then the transactions, from these.
\<close>

section \<open>Frames\<close>

lemma keys_ok_mono:
  "keys_ok db \<Longrightarrow> next_uuid db \<le> n \<Longrightarrow> keys_ok (db\<lparr>next_uuid := n\<rparr>)"
  by (fastforce simp: keys_ok_def)

lemma has_event_select [simp]:
  "has_event (db\<lparr>payments := ps\<rparr>) = has_event db" "has_event (db\<lparr>attempts := as\<rparr>) = has_event db"
  "has_event (db\<lparr>facts := fs\<rparr>) = has_event db" "has_event (db\<lparr>next_uuid := n\<rparr>) = has_event db"
  "has_event (db\<lparr>late_successes := ls\<rparr>) = has_event db" "has_event (db\<lparr>conflicts := cs\<rparr>) = has_event db"
  by (simp_all add: has_event_def fun_eq_iff)

text \<open>The part of the invariant that does not read the attempts.\<close>

definition ledger_ok :: "pdb \<Rightarrow> bool" where
  "ledger_ok db \<longleftrightarrow> settled_ok db \<and> events_ok db \<and> lates_ok db"

lemma pinv_split: "pinv db \<longleftrightarrow> keys_ok db \<and> life_ok db \<and> ledger_ok db"
  by (auto simp: pinv_def ledger_ok_def)

lemma ledger_attempts [simp]: "ledger_ok (db\<lparr>attempts := as\<rparr>) = ledger_ok db"
  by (simp add: ledger_ok_def settled_ok_def events_ok_def payment_events_ok_def event_row_ok_def lates_ok_def
      late_row_ok_def)

lemma pinv_other [simp]:
  "pinv (db\<lparr>idempotency_keys := is\<rparr>) = pinv db" "pinv (db\<lparr>webhook_events := ws\<rparr>) = pinv db"
  "pinv (db\<lparr>quarantines := qs\<rparr>) = pinv db" "pinv (db\<lparr>recovery_states := rs\<rparr>) = pinv db"
  "pinv (db\<lparr>conflicts := cs\<rparr>) = pinv db" "pinv (db\<lparr>now := t\<rparr>) = pinv db"
  by (simp_all add: pinv_def keys_ok_def life_ok_def settled_ok_def events_ok_def payment_events_ok_def
      event_row_ok_def lates_ok_def late_row_ok_def has_event_def attempt_set_def)

lemma pinv_next_uuid: "pinv db \<Longrightarrow> next_uuid db \<le> n \<Longrightarrow> pinv (db\<lparr>next_uuid := n\<rparr>)"
  by (auto simp: pinv_def keys_ok_mono life_ok_def settled_ok_def events_ok_def payment_events_ok_def
      event_row_ok_def lates_ok_def late_row_ok_def)

section \<open>UPDATE payment\<close>

definition same_identity :: "payment_row \<Rightarrow> payment_row \<Rightarrow> bool" where
  "same_identity p q \<longleftrightarrow> pay_id q = pay_id p \<and> pay_amount q = pay_amount p \<and> pay_currency q = pay_currency p \<and>
     pay_producer q = pay_producer p \<and> pay_paymentRequestId q = pay_paymentRequestId p"

definition life_except :: "uuid \<Rightarrow> pdb \<Rightarrow> bool" where
  "life_except pid db \<longleftrightarrow> (\<forall>p \<in> set (payments db). pay_id p \<noteq> pid \<longrightarrow> life p (attempt_set db (pay_id p)))"

definition events_except :: "uuid \<Rightarrow> pdb \<Rightarrow> bool" where
  "events_except pid db \<longleftrightarrow> unique_keys ob_id (outbox db) \<and>
     (\<forall>p \<in> set (payments db). pay_id p \<noteq> pid \<longrightarrow> payment_events_ok db p) \<and>
     (\<forall>e \<in> set (outbox db). event_row_ok db e)"

definition no_final_events :: "pdb \<Rightarrow> uuid \<Rightarrow> bool" where
  "no_final_events db pid \<longleftrightarrow> (\<forall>st nm. status_event st = Some nm \<longrightarrow> \<not> has_event db pid nm)"

lemma status_event_terminal: "status_event st = Some nm \<Longrightarrow> isTerminalPaymentStatus st"
  by (cases st) (simp_all add: terminal_payment_cases)

lemma status_event_ex: "isTerminalPaymentStatus st \<Longrightarrow> \<exists>nm. status_event st = Some nm"
  by (cases st) (simp_all add: terminal_payment_cases)

lemma status_event_inj: "status_event a = Some nm \<Longrightarrow> status_event b = Some nm \<Longrightarrow> a = b"
  by (cases a; cases b) auto

text \<open>The row \<open>old\<close> of payment \<open>pid\<close> became \<open>new\<close>, nothing else changed.\<close>

definition replaced :: "pdb \<Rightarrow> uuid \<Rightarrow> payment_row \<Rightarrow> payment_row \<Rightarrow> pdb \<Rightarrow> bool" where
  "replaced db pid old new db1 \<longleftrightarrow> keys_ok db \<and> find_payment pid db = Some old \<and> same_identity old new \<and>
     db1 = db\<lparr>payments := set_row pay_id pid new (payments db)\<rparr>"

lemma replaced_ids:
  "replaced db pid old new db1 \<Longrightarrow> pay_id old = pid \<and> pay_id new = pid \<and> old \<in> set (payments db)"
  by (auto simp: replaced_def dest!: find_payment_SomeD simp: same_identity_def)

lemma replaced_set:
  "replaced db pid old new db1 \<Longrightarrow> set (payments db1) = insert new {p \<in> set (payments db). pay_id p \<noteq> pid}"
  using replaced_ids [of db pid old new db1] by (auto simp: replaced_def set_set_row)

lemma replaced_only:
  "replaced db pid old new db1 \<Longrightarrow> p \<in> set (payments db) \<Longrightarrow> pay_id p = pid \<Longrightarrow> p = old"
  using replaced_ids [of db pid old new db1] by (auto simp: replaced_def keys_ok_def dest: unique_keysD)

lemma replaced_rest:
  "replaced db pid old new db1 \<Longrightarrow> attempts db1 = attempts db \<and> facts db1 = facts db \<and> outbox db1 = outbox db \<and>
     late_successes db1 = late_successes db \<and> next_uuid db1 = next_uuid db \<and> has_event db1 = has_event db \<and>
     attempt_set db1 = attempt_set db"
  by (auto simp: replaced_def fun_eq_iff)

lemma replaced_keys:
  assumes "replaced db pid old new db1" shows "keys_ok db1"
proof -
  note ids = replaced_ids [OF assms]
  have "pay_id ` set (payments db1) = pay_id ` set (payments db)"
    using ids unfolding replaced_set [OF assms] by force
  moreover have "unique_keys pay_id (payments db1)"
    using assms ids by (simp add: replaced_def keys_ok_def)
  moreover have "\<forall>p \<in> set (payments db1). pay_id p < next_uuid db"
    using assms ids by (auto simp: replaced_set [OF assms]) (auto simp: replaced_def keys_ok_def)
  ultimately show ?thesis
    using assms replaced_rest [OF assms] by (simp add: keys_ok_def replaced_def)
qed

lemma replaced_find:
  assumes "replaced db pid old new db1" shows "find_payment pid db1 = Some new"
  using find_payment_in [OF replaced_keys [OF assms], of new] replaced_ids [OF assms] replaced_set [OF assms] by simp

lemma replaced_life_except:
  "replaced db pid old new db1 \<Longrightarrow> life_except pid db \<Longrightarrow> life_except pid db1"
  using replaced_set [of db pid old new db1] replaced_ids [of db pid old new db1]
    replaced_rest [of db pid old new db1] by (auto simp: life_except_def)

lemma replaced_life_ok:
  "replaced db pid old new db1 \<Longrightarrow> life_except pid db \<Longrightarrow> life new (attempt_set db pid) \<Longrightarrow> life_ok db1"
  using replaced_set [of db pid old new db1] replaced_ids [of db pid old new db1]
    replaced_rest [of db pid old new db1] by (auto simp: life_except_def life_ok_def)

lemma replaced_row_ok:
  assumes r: "replaced db pid old new db1" and ok: "event_row_ok db e"
  shows "event_row_ok db1 e"
  unfolding event_row_ok_def
proof (intro allI impI)
  fix pl
  assume "ob_payload e = Payment_event pl"
  with ok obtain p where p: "p \<in> set (payments db)" "pay_id p = pl_paymentId pl" "ob_id e = Derived (pay_id p) (ob_name e)"
    "pl_amount pl = pay_amount p" "pl_currency pl = pay_currency p" "pl_producer pl = pay_producer p"
    "pl_paymentRequestId pl = pay_paymentRequestId p"
    and st: "\<forall>st nm. status_event st = Some nm \<longrightarrow> ob_name e = nm \<longrightarrow> pl_status pl = st"
    unfolding event_row_ok_def by blast
  let ?q = "if pay_id p = pid then new else p"
  have "?q \<in> set (payments db1)" using p(1) by (simp add: replaced_set [OF r])
  moreover have "same_identity p ?q"
    using r replaced_only [OF r p(1)] by (auto simp: replaced_def same_identity_def)
  ultimately show "\<exists>q \<in> set (payments db1). pay_id q = pl_paymentId pl \<and> ob_id e = Derived (pay_id q) (ob_name e) \<and>
      pl_amount pl = pay_amount q \<and> pl_currency pl = pay_currency q \<and> pl_producer pl = pay_producer q \<and>
      pl_paymentRequestId pl = pay_paymentRequestId q \<and>
      (\<forall>st nm. status_event st = Some nm \<longrightarrow> ob_name e = nm \<longrightarrow> pl_status pl = st)"
    using p st by (intro bexI [of _ ?q]) (simp_all add: same_identity_def)
qed

lemma replaced_events_ok_eq:
  "replaced db pid old new db1 \<Longrightarrow> payment_events_ok db1 p = payment_events_ok db p"
  using replaced_rest [of db pid old new db1] by (simp add: payment_events_ok_def)

lemma replaced_events_except:
  assumes r: "replaced db pid old new db1" and e: "events_except pid db"
  shows "events_except pid db1"
  using e replaced_row_ok [OF r] replaced_events_ok_eq [OF r] replaced_rest [OF r]
  by (auto simp: events_except_def replaced_set [OF r] replaced_ids [OF r])

lemma replaced_lates:
  assumes r: "replaced db pid old new db1" and "lates_ok db" and "\<not> isTerminalPaymentStatus (pay_status old)"
  shows "lates_ok db1"
proof -
  have "late_row_ok db1 l" if "late_row_ok db l" for l
  proof -
    from that obtain p where p: "p \<in> set (payments db)" "pay_id p = late_paymentId l"
      "isTerminalPaymentStatus (pay_status p)" "late_paymentStatus l = pay_status p"
      by (auto simp: late_row_ok_def)
    with assms(3) have "pay_id p \<noteq> pid" using replaced_only [OF r p(1)] by auto
    with p have "\<exists>p \<in> set (payments db1). pay_id p = late_paymentId l \<and> isTerminalPaymentStatus (pay_status p) \<and>
        late_paymentStatus l = pay_status p"
      by (auto simp: replaced_set [OF r])
    with that replaced_rest [OF r] show ?thesis by (simp add: late_row_ok_def)
  qed
  with assms(2) replaced_rest [OF r] show ?thesis by (auto simp: lates_ok_def)
qed

definition settled_by_fact :: "pdb \<Rightarrow> payment_row \<Rightarrow> bool" where
  "settled_by_fact db p \<longleftrightarrow>
     (\<exists>f \<in> set (facts db). fact_kind f = K_capture \<and> fact_paymentId f = Some (pay_id p) \<and>
        fact_attemptId f = pay_succeededAttemptId p \<and> fact_amount f = pay_amount p \<and>
        pg_trim (fact_currency f) = pg_trim (pay_currency p))"

lemma replaced_settled:
  assumes r: "replaced db pid old new db1" and "settled_ok db"
    and "pay_status new = P_succeeded \<Longrightarrow> settled_by_fact db new"
  shows "settled_ok db1"
  using assms(2,3) replaced_rest [OF r]
  by (auto simp: settled_ok_def replaced_set [OF r] settled_by_fact_def)

text \<open>A status change between two statuses that are not final: no event, nothing else to do.\<close>

lemma replaced_open_ledger:
  assumes r: "replaced db pid old new db1" and l: "ledger_ok db"
    and nt: "\<not> isTerminalPaymentStatus (pay_status old)" "\<not> isTerminalPaymentStatus (pay_status new)"
  shows "ledger_ok db1"
proof -
  note ids = replaced_ids [OF r]
  have ev: "events_ok db" using l by (simp add: ledger_ok_def)
  then have old: "payment_events_ok db old" using ids by (simp add: events_ok_def)
  have "payment_events_ok db new"
    unfolding payment_events_ok_def
  proof (intro conjI allI impI)
    show "has_event db (pay_id new) ''payment.created''" using old ids by (simp add: payment_events_ok_def)
    show "has_event db (pay_id new) nm \<longleftrightarrow> pay_status new = st" if nm: "status_event st = Some nm" for st nm
    proof -
      have "isTerminalPaymentStatus st" using nm by (rule status_event_terminal)
      then have "pay_status old \<noteq> st" "pay_status new \<noteq> st" using nt by metis+
      moreover have "has_event db pid nm \<longleftrightarrow> pay_status old = st"
        using old nm ids unfolding payment_events_ok_def by blast
      ultimately show ?thesis using ids by simp
    qed
  qed
  then have "\<forall>p \<in> set (payments db1). payment_events_ok db1 p"
    using ev by (simp add: replaced_set [OF r] replaced_events_ok_eq [OF r] events_ok_def)
  then have "events_ok db1"
    using ev replaced_row_ok [OF r] replaced_rest [OF r] by (simp add: events_ok_def)
  moreover have "settled_ok db1"
    using l nt by (intro replaced_settled [OF r]) (auto simp: ledger_ok_def terminal_payment_cases)
  moreover have "lates_ok db1" using l nt by (intro replaced_lates [OF r]) (auto simp: ledger_ok_def)
  ultimately show ?thesis by (simp add: ledger_ok_def)
qed

section \<open>UPDATE payment_attempt\<close>

lemma attempt_set_update:
  assumes "find_attempt aid db = Some old" "att_id new = aid" "att_paymentId new = att_paymentId old"
    and "keys_ok db"
  shows "attempt_set (db\<lparr>attempts := set_row att_id aid new (attempts db)\<rparr>) pid
    = (if pid = att_paymentId old then insert new {a \<in> attempt_set db pid. att_id a \<noteq> aid} else attempt_set db pid)"
proof -
  from assms(1) have old: "old \<in> set (attempts db)" "att_id old = aid" by (auto dest: find_attempt_SomeD)
  have S: "set (set_row att_id aid new (attempts db)) = {a \<in> set (attempts db). att_id a \<noteq> aid} \<union> {new}"
    using old by (auto simp: set_set_row)
  show ?thesis
  proof (cases "pid = att_paymentId old")
    case True
    then show ?thesis using assms(3) by (auto simp: attempt_set_def S)
  next
    case False
    have "att_id a \<noteq> aid" if "a \<in> set (attempts db)" "att_paymentId a = pid" for a
      using unique_keysD [of att_id "attempts db" a old] that old False assms(4) by (auto simp: keys_ok_def)
    then show ?thesis using False assms(3) by (auto simp: attempt_set_def S)
  qed
qed

lemma update_attempt_keys:
  assumes "find_attempt aid db = Some old" "att_id new = aid" "att_paymentId new = att_paymentId old" "keys_ok db"
  shows "keys_ok (db\<lparr>attempts := set_row att_id aid new (attempts db)\<rparr>)"
proof -
  from assms have "old \<in> set (attempts db)" "att_id old = aid" by (auto dest: find_attempt_SomeD)
  with assms show ?thesis by (auto simp: keys_ok_def set_set_row)
qed

lemma update_attempt_life_except:
  assumes "find_attempt aid db = Some old" "att_id new = aid" "att_paymentId new = att_paymentId old" "keys_ok db"
    and "life_except (att_paymentId old) db"
  shows "life_except (att_paymentId old) (db\<lparr>attempts := set_row att_id aid new (attempts db)\<rparr>)"
  using assms(5) attempt_set_update [OF assms(1-4)] by (auto simp: life_except_def)

lemma life_ok_except: "life_ok db \<Longrightarrow> life_except pid db"
  by (simp add: life_ok_def life_except_def)

lemma life_except_ok:
  "life_except pid db \<Longrightarrow> find_payment pid db = Some p \<Longrightarrow> keys_ok db \<Longrightarrow> life p (attempt_set db pid) \<Longrightarrow> life_ok db"
  unfolding life_except_def life_ok_def keys_ok_def
  by (metis find_payment_SomeD unique_keysD)

lemma life_at:
  "life_ok db \<Longrightarrow> find_payment pid db = Some p \<Longrightarrow> life p (attempt_set db pid)"
  by (auto simp: life_ok_def dest: find_payment_SomeD)

lemma find_payment_attempts [simp]: "find_payment pid (db\<lparr>attempts := as\<rparr>) = find_payment pid db"
  by (simp add: find_payment_def)

lemma find_attempt_set_row:
  "find_attempt aid db = Some old \<Longrightarrow> att_id new = aid \<Longrightarrow>
     find_attempt aid (db\<lparr>attempts := set_row att_id aid new (attempts db)\<rparr>) = Some new"
  using get_row_SomeD [of att_id aid "attempts db" old]
  by (simp add: find_attempt_def row_simps) (metis imageI)

section \<open>Side records: audit, late successes\<close>

definition payment_names :: "string set" where
  "payment_names = {''payment.created'', ''payment.succeeded'', ''payment.failed'', ''payment.cancelled'',
     ''payment.expired''}"

lemma status_event_name: "status_event st = Some nm \<Longrightarrow> nm \<in> payment_names"
  by (cases st) (auto simp: payment_names_def)

lemma audit_name_not_payment: "audit_event_name a \<notin> payment_names"
  by (simp add: audit_event_name_def payment_names_def)

lemma payment_name_not_audit: "audit_event_name a = n \<Longrightarrow> n \<notin> payment_names"
  using audit_name_not_payment by blast

lemma late_name_not_payment: "late_event_name \<notin> payment_names"
  by (simp add: late_event_name_def payment_names_def)

text \<open>\<open>db'\<close> has what \<open>db\<close> has, and beside it only side records: no payment event, no changed row.\<close>

definition quiet :: "pdb \<Rightarrow> pdb \<Rightarrow> bool" where
  "quiet db db' \<longleftrightarrow>
     payments db' = payments db \<and> attempts db' = attempts db \<and> facts db' = facts db \<and> now db' = now db \<and>
     next_uuid db \<le> next_uuid db' \<and> (keys_ok db \<longrightarrow> keys_ok db') \<and> (keys_ok db \<and> lates_ok db \<longrightarrow> lates_ok db') \<and>
     (unique_keys ob_id (outbox db) \<longrightarrow> unique_keys ob_id (outbox db')) \<and>
     (\<forall>i. \<forall>n \<in> payment_names. has_event db' i n = has_event db i n) \<and>
     (\<forall>e \<in> set (outbox db'). e \<in> set (outbox db) \<or> (\<forall>pl. ob_payload e \<noteq> Payment_event pl))"

lemma quiet_refl [simp]: "quiet db db"
  by (simp add: quiet_def)

lemma quiet_trans: "quiet a b \<Longrightarrow> quiet b c \<Longrightarrow> quiet a c"
  unfolding quiet_def by (intro conjI) (simp_all, blast+)

lemma quiet_select:
  "quiet db db' \<Longrightarrow> payments db' = payments db \<and> attempts db' = attempts db \<and> facts db' = facts db \<and>
     attempt_set db' = attempt_set db"
  by (auto simp: quiet_def attempt_set_def fun_eq_iff)

lemma quiet_find:
  "quiet db db' \<Longrightarrow> find_payment pid db' = find_payment pid db"
  "quiet db db' \<Longrightarrow> find_attempt aid db' = find_attempt aid db"
  by (simp_all add: find_payment_def find_attempt_def quiet_def)

lemma quiet_keys: "quiet db db' \<Longrightarrow> keys_ok db \<Longrightarrow> keys_ok db'"
  by (simp add: quiet_def)

lemma quiet_events_ok_eq: "quiet db db' \<Longrightarrow> payment_events_ok db' p = payment_events_ok db p"
  unfolding payment_events_ok_def quiet_def
  by (metis insertI1 payment_names_def status_event_name)

lemma quiet_row_ok:
  assumes q: "quiet db db'" and ok: "\<forall>e \<in> set (outbox db). event_row_ok db e" and e: "e \<in> set (outbox db')"
  shows "event_row_ok db' e"
proof -
  consider "e \<in> set (outbox db)" | "\<forall>pl. ob_payload e \<noteq> Payment_event pl" using q e unfolding quiet_def by blast
  then show ?thesis
  proof cases
    case 1
    with ok have "event_row_ok db e" by blast
    with quiet_select [OF q] show ?thesis by (simp add: event_row_ok_def)
  qed (simp add: event_row_ok_def)
qed

lemma quiet_unique: "quiet db db' \<Longrightarrow> unique_keys ob_id (outbox db) \<Longrightarrow> unique_keys ob_id (outbox db')"
  by (simp add: quiet_def)

lemma quiet_lates: "quiet db db' \<Longrightarrow> keys_ok db \<Longrightarrow> lates_ok db \<Longrightarrow> lates_ok db'"
  by (simp add: quiet_def)

lemma quiet_events:
  assumes q: "quiet db db'" and "events_ok db"
  shows "events_ok db'"
proof -
  have ps: "payments db' = payments db" using quiet_select [OF q] by blast
  from assms(2) show ?thesis
    unfolding events_ok_def ps
    using quiet_unique [OF q] quiet_row_ok [OF q] by (simp add: quiet_events_ok_eq [OF q])
qed

lemma quiet_ledger:
  assumes q: "quiet db db'" and "keys_ok db" "ledger_ok db"
  shows "ledger_ok db'"
proof -
  have "payments db' = payments db" "facts db' = facts db" using quiet_select [OF q] by blast+
  then have "settled_ok db' = settled_ok db" by (simp only: settled_ok_def)
  with assms quiet_events [OF q] quiet_lates [OF q] show ?thesis by (simp add: ledger_ok_def)
qed

lemma quiet_life:
  assumes q: "quiet db db'" shows "life_ok db' = life_ok db"
proof -
  have "payments db' = payments db" "attempt_set db' = attempt_set db" using quiet_select [OF q] by blast+
  then show ?thesis by (simp only: life_ok_def)
qed

lemma quiet_life_except:
  assumes q: "quiet db db'" shows "life_except pid db' = life_except pid db"
proof -
  have "payments db' = payments db" "attempt_set db' = attempt_set db" using quiet_select [OF q] by blast+
  then show ?thesis by (simp only: life_except_def)
qed

lemma quiet_pinv: "quiet db db' \<Longrightarrow> pinv db \<Longrightarrow> pinv db'"
  by (simp add: pinv_split quiet_keys quiet_ledger quiet_life)

lemma quiet_fresh: "quiet db (db\<lparr>next_uuid := Suc (next_uuid db)\<rparr>)"
  by (simp add: quiet_def keys_ok_mono lates_ok_def late_row_ok_def)

lemma enqueued_keys: "i < next_uuid db \<Longrightarrow> keys_ok db \<Longrightarrow> keys_ok (enqueued (Derived i n) m pl c db)"
  by (auto simp: keys_ok_def set_outbox_enqueued outbox_row_of_def)

lemma enqueued_lates: "lates_ok db \<Longrightarrow> lates_ok (enqueued (Derived i n) m pl c db)"
  by (auto simp: lates_ok_def late_row_ok_def)

lemma quiet_enqueued:
  assumes "i < next_uuid db" "n \<notin> payment_names" "\<forall>x. pl \<noteq> Payment_event x"
  shows "quiet db (enqueued (Derived i n) m pl c db)"
  using assms unfolding quiet_def
  by (auto simp: enqueued_keys enqueued_lates set_outbox_enqueued outbox_row_of_def)

lemma audit_record_payment_Inr:
  "audit_record_payment action p ctx db = Inr (u, db') \<Longrightarrow>
     \<exists>r. db' = enqueued (Derived (pay_id p) (audit_event_name action)) (audit_event_name action) (Audit_event r)
                (ctx_correlationId ctx) db"
  by (auto simp: audit_record_payment_def tx_bind_Inr_iff tx_lift_Inr_iff enqueue_Inr deterministicEventId_def)

lemma audit_record_payment_quiet:
  assumes "audit_record_payment action p ctx db = Inr (u, db')" "pay_id p < next_uuid db"
  shows "quiet db db'"
  using audit_record_payment_Inr [OF assms(1)] assms(2) audit_name_not_payment
  by (auto intro: quiet_enqueued)

text \<open>What the guard of a late success has checked when the row is inserted.\<close>

lemma late_guard_None:
  assumes "late_success_guard db l = None"
  shows "\<exists>f \<in> set (facts db). late_factId l = Some (fact_id f) \<and> fact_kind f = K_capture \<and>
           fact_attemptId f = Some (late_attemptId l) \<and> fact_paymentId f = Some (late_paymentId l) \<and>
           fact_amount f = late_amount l \<and> pg_trim (fact_currency f) = pg_trim (late_currency l)"
    and "\<exists>p. find_payment (late_paymentId l) db = Some p \<and> isTerminalPaymentStatus (pay_status p) \<and>
           late_paymentStatus l = pay_status p"
proof -
  obtain fid where fid: "late_factId l = Some fid"
    using assms by (cases "late_factId l") (simp_all add: late_success_guard_def)
  show "\<exists>f \<in> set (facts db). late_factId l = Some (fact_id f) \<and> fact_kind f = K_capture \<and>
           fact_attemptId f = Some (late_attemptId l) \<and> fact_paymentId f = Some (late_paymentId l) \<and>
           fact_amount f = late_amount l \<and> pg_trim (fact_currency f) = pg_trim (late_currency l)"
    using assms fid by (auto simp: late_success_guard_def list_ex_iff split: if_splits)
  show "\<exists>p. find_payment (late_paymentId l) db = Some p \<and> isTerminalPaymentStatus (pay_status p) \<and>
           late_paymentStatus l = pay_status p"
    using assms fid by (cases "find_payment (late_paymentId l) db")
      (auto simp: late_success_guard_def split: if_splits)
qed

lemma insert_late_success_Inr:
  "insert_late_success l db = Inr (r, db') \<longleftrightarrow> late_success_guard db l = None \<and>
     (let dup = (\<exists>k \<in> set (late_successes db). (late_attemptId k = late_attemptId l \<and> late_source k = late_source l \<and>
                    late_webhookEventId k = late_webhookEventId l) \<or> late_factId k = late_factId l)
      in if dup then r = None \<and> db' = db
         else r = Some l \<and> db' = db\<lparr>late_successes := late_successes db @ [l]\<rparr>)"
  by (auto simp: insert_late_success_def list_ex_iff Let_def split: option.splits)

lemma late_insert_quiet:
  assumes guard: "late_success_guard db l = None"
    and fresh: "\<forall>k \<in> set (late_successes db0). late_factId k \<noteq> late_factId l"
    and db: "db = db0\<lparr>next_uuid := Suc i\<rparr>" and i: "i = next_uuid db0" and lid: "late_id l = i"
  shows "quiet db0 (enqueued (Derived i late_event_name) late_event_name (Late_success_event pl) c
           (db\<lparr>late_successes := late_successes db @ [l]\<rparr>))" (is "quiet db0 ?db'")
proof -
  let ?m = "db\<lparr>late_successes := late_successes db @ [l]\<rparr>"
  have keys: "keys_ok ?db'" if "keys_ok db0"
  proof (rule enqueued_keys)
    show "i < next_uuid ?m" by (simp add: db)
    show "keys_ok ?m" using keys_ok_mono [OF that, of "Suc i"] i lid by (simp add: keys_ok_def db)
  qed
  have row: "late_row_ok ?db' l"
    using late_guard_None [OF guard] find_payment_SomeD lid
    unfolding late_row_ok_def by (fastforce simp: db)
  have old: "late_row_ok ?db' k" if "late_row_ok db0 k" for k
    using that by (simp add: late_row_ok_def db)
  have lates: "lates_ok ?db'" if k: "keys_ok db0" and l: "lates_ok db0"
  proof -
    have "\<forall>x \<in> set (late_successes db0). late_id x < next_uuid db0" using k by (simp add: keys_ok_def)
    then have "i \<notin> late_id ` set (late_successes db0)" using i by auto
    moreover have "late_factId l \<notin> late_factId ` set (late_successes db0)" using fresh by force
    ultimately show ?thesis
      using l row old lid by (simp add: lates_ok_def db)
  qed
  show ?thesis
    unfolding quiet_def
    using keys lates late_name_not_payment i
    by (auto simp: db set_outbox_enqueued outbox_row_of_def)
qed

text \<open>A recorded late success, its event and (in both writers) its audit record leave the rest alone.\<close>

lemma audit_late_success_quiet:
  "audit_late_success l fid p actor ctx db = Inr (u, db') \<Longrightarrow> late_id l < next_uuid db \<Longrightarrow> quiet db db'"
  by (auto simp: audit_late_success_def enqueue_Inr deterministicEventId_def
      intro!: quiet_enqueued audit_name_not_payment)

lemma emit_late_success_event_Inr:
  "emit_late_success_event l p ctx db = Inr (u, db') \<longleftrightarrow>
     db' = enqueued (Derived (late_id l) late_event_name) late_event_name (Late_success_event (lateSuccessEvent l p))
             (ctx_correlationId ctx) db"
  by (auto simp: emit_late_success_event_def enqueue_Inr deterministicEventId_def)

lemma late_write_quiet:
  assumes "insert_late_success l (db0\<lparr>next_uuid := Suc (next_uuid db0)\<rparr>) = Inr (Some l', db1)"
    and "late_id l = next_uuid db0" and "emit_late_success_event l' p ctx db1 = Inr (u, db2)"
  shows "quiet db0 db2 \<and> late_id l' < next_uuid db2"
proof -
  let ?db = "db0\<lparr>next_uuid := Suc (next_uuid db0)\<rparr>"
  from assms(1) have l': "l' = l" and guard: "late_success_guard ?db l = None"
    and db1: "db1 = ?db\<lparr>late_successes := late_successes ?db @ [l]\<rparr>"
    and fresh: "\<forall>k \<in> set (late_successes db0). late_factId k \<noteq> late_factId l"
    by (auto simp: insert_late_success_Inr Let_def split: if_splits)
  show ?thesis
    using assms(3) late_insert_quiet [OF guard fresh refl refl assms(2)] assms(2)
    by (auto simp: emit_late_success_event_Inr l' db1 assms(2))
qed

lemma record_one_late_success_quiet:
  assumes "record_one_late_success p ctx actor f db = Inr (n, db')"
  shows "quiet db db'"
proof -
  let ?db = "db\<lparr>next_uuid := Suc (next_uuid db)\<rparr>"
  obtain aid where aid: "fact_attemptId f = Some aid"
    using assms by (cases "fact_attemptId f") (auto simp: record_one_late_success_def)
  define l where "l = \<lparr>late_id = next_uuid db, late_paymentId = pay_id p, late_attemptId = aid,
    late_source = fact_source f, late_webhookEventId = fact_webhookEventId f, late_amount = fact_amount f,
    late_currency = pg_trim (fact_currency f), late_paymentStatus = pay_status p,
    late_factId = Some (fact_id f), late_recordedAt = now ?db\<rparr>"
  from assms obtain ins db1 where ins: "insert_late_success l ?db = Inr (ins, db1)"
    and rest: "(case ins of None \<Rightarrow> tx_return 0
       | Some l \<Rightarrow> tx_bind (emit_late_success_event l p ctx) (\<lambda>_.
           tx_bind (audit_late_success l (fact_id f) p
             (case actor of Some x \<Rightarrow> x | None \<Rightarrow> observationActor (fact_source f)) ctx) (\<lambda>_. tx_return 1))) db1
       = Inr (n, db')"
    by (auto simp: record_one_late_success_def aid tx_bind_Inr_iff l_def simp del: One_nat_def)
  show ?thesis
  proof (cases ins)
    case None
    with ins rest have "db' = ?db" by (auto simp: insert_late_success_Inr Let_def split: if_splits)
    then show ?thesis by (simp add: quiet_fresh)
  next
    case (Some l')
    with rest obtain u db2 u' where e: "emit_late_success_event l' p ctx db1 = Inr (u, db2)"
      and a: "audit_late_success l' (fact_id f) p
             (case actor of Some x \<Rightarrow> x | None \<Rightarrow> observationActor (fact_source f)) ctx db2 = Inr (u', db')"
      by (auto simp: tx_bind_Inr_iff)
    have "late_id l = next_uuid db" by (simp add: l_def)
    from late_write_quiet [OF ins [unfolded Some] this e] have q: "quiet db db2" "late_id l' < next_uuid db2" by auto
    from q(1) audit_late_success_quiet [OF a q(2)] show ?thesis by (rule quiet_trans)
  qed
qed

lemma record_late_successes_quiet:
  "record_late_successes p ctx actor fs db = Inr (n, db') \<Longrightarrow> quiet db db'"
  by (induction fs arbitrary: n db db')
    (auto simp: tx_bind_Inr_iff intro: quiet_trans [OF record_one_late_success_quiet])

lemma recordQualifyingLateSuccesses_quiet:
  "recordQualifyingLateSuccesses p ctx o1 o2 db = Inr (n, db') \<Longrightarrow> quiet db db'"
  by (auto simp: recordQualifyingLateSuccesses_def record_late_successes_quiet split: if_splits)

section \<open>Reaching a final status\<close>

lemma emit_payment_event_Inr:
  "emit_payment_event nm p ctx extra db = Inr (u, db') \<longleftrightarrow>
     db' = enqueued (Derived (pay_id p) nm) nm (Payment_event (paymentEvent p ctx extra)) (ctx_correlationId ctx) db"
  by (auto simp: emit_payment_event_def enqueue_Inr deterministicEventId_def)

text \<open>The event of a final status repairs the one payment whose events were behind.\<close>

lemma emit_final_ledger:
  assumes e: "emit_payment_event nm p ctx extra db = Inr (u, db')"
    and p: "p \<in> set (payments db)" and keys: "keys_ok db" and nm: "status_event (pay_status p) = Some nm"
    and ev: "events_except (pay_id p) db" and no: "no_final_events db (pay_id p)"
    and cr: "has_event db (pay_id p) ''payment.created''" and "settled_ok db" "lates_ok db"
  shows "ledger_ok db' \<and> keys_ok db'"
proof -
  have db': "db' = enqueued (Derived (pay_id p) nm) nm (Payment_event (paymentEvent p ctx extra))
      (ctx_correlationId ctx) db" (is "_ = enqueued ?i nm ?pl ?c db")
    using e by (simp add: emit_payment_event_Inr)
  have fresh: "?i \<notin> ob_id ` set (outbox db)"
    using no nm unfolding no_final_events_def has_event_iff by blast
  have has: "has_event db' j n \<longleftrightarrow> has_event db j n \<or> (j = pay_id p \<and> n = nm)" for j n
    by (simp add: db')
  have other: "payment_events_ok db' q" if "q \<in> set (payments db)" "pay_id q \<noteq> pay_id p" for q
    using ev that by (auto simp: events_except_def payment_events_ok_def has)
  have self: "payment_events_ok db' q" if "q \<in> set (payments db)" "pay_id q = pay_id p" for q
  proof -
    have "q = p" using that p keys unique_keysD [of pay_id "payments db" q p] by (simp add: keys_ok_def)
    moreover have "payment_events_ok db' p"
      unfolding payment_events_ok_def
    proof (intro conjI allI impI)
      show "has_event db' (pay_id p) ''payment.created''" using cr by (simp add: has)
      fix st n
      assume n: "status_event st = Some n"
      then have "\<not> has_event db (pay_id p) n" using no by (simp add: no_final_events_def)
      moreover have "n = nm \<longleftrightarrow> pay_status p = st" using n nm status_event_inj [OF nm, of st] by auto
      ultimately show "has_event db' (pay_id p) n \<longleftrightarrow> pay_status p = st" by (simp add: has)
    qed
    ultimately show ?thesis by simp
  qed
  have new: "event_row_ok db' (outbox_row_of ?i nm ?pl ?c db)"
    unfolding event_row_ok_def
  proof (intro allI impI)
    fix pl
    assume "ob_payload (outbox_row_of ?i nm ?pl ?c db) = Payment_event pl"
    then have pl: "pl = paymentEvent p ctx extra" by (simp add: outbox_row_of_def)
    have "pay_status p = st" if "status_event st = Some nm" for st
      using status_event_inj [OF nm that] .
    then show "\<exists>q \<in> set (payments db'). pay_id q = pl_paymentId pl \<and>
        ob_id (outbox_row_of ?i nm ?pl ?c db) = Derived (pay_id q) (ob_name (outbox_row_of ?i nm ?pl ?c db)) \<and>
        pl_amount pl = pay_amount q \<and> pl_currency pl = pay_currency q \<and> pl_producer pl = pay_producer q \<and>
        pl_paymentRequestId pl = pay_paymentRequestId q \<and>
        (\<forall>st n. status_event st = Some n \<longrightarrow> ob_name (outbox_row_of ?i nm ?pl ?c db) = n \<longrightarrow> pl_status pl = st)"
      using p by (intro bexI [of _ p]) (auto simp: pl paymentEvent_def outbox_row_of_def db')
  qed
  have rows: "\<forall>e \<in> set (outbox db). event_row_ok db' e"
    using ev by (simp add: events_except_def event_row_ok_def db')
  have "events_ok db'"
    unfolding events_ok_def
    using other self rows new ev fresh by (auto simp: db' set_outbox_enqueued events_except_def)
  moreover have "settled_ok db'" using \<open>settled_ok db\<close> by (simp add: settled_ok_def db')
  moreover have "lates_ok db'" using \<open>lates_ok db\<close> unfolding db' by (rule enqueued_lates)
  moreover have "pay_id p < next_uuid db" using keys p by (simp add: keys_ok_def)
  then have "keys_ok db'" unfolding db' using keys by (rule enqueued_keys)
  ultimately show ?thesis by (simp add: ledger_ok_def)
qed

text \<open>The parts of a ledger that a payment about to end has.\<close>

lemma ledger_open_parts:
  assumes "ledger_ok db" "find_payment pid db = Some p" "\<not> isTerminalPaymentStatus (pay_status p)"
  shows "events_except pid db" "no_final_events db pid" "has_event db pid ''payment.created''"
proof -
  have p: "p \<in> set (payments db)" "pay_id p = pid" using find_payment_SomeD [OF assms(2)] by auto
  have ev: "events_ok db" using assms(1) by (simp add: ledger_ok_def)
  then have pe: "payment_events_ok db p" using p by (simp add: events_ok_def)
  show "events_except pid db" using ev by (simp add: events_ok_def events_except_def)
  show "has_event db pid ''payment.created''" using pe p by (simp add: payment_events_ok_def)
  have "\<not> has_event db pid nm" if "status_event st = Some nm" for st nm
    using pe p that assms(3) status_event_terminal [OF that] unfolding payment_events_ok_def by metis
  then show "no_final_events db pid" by (auto simp: no_final_events_def)
qed

lemma find_payment_payments: "find_payment pid db = Some p \<Longrightarrow> keys_ok db \<Longrightarrow> pay_id p < next_uuid db"
  by (auto simp: keys_ok_def dest: find_payment_SomeD)

lemma replaced_final:
  assumes r: "replaced db pid old new db1" and l: "ledger_ok db"
    and nt: "\<not> isTerminalPaymentStatus (pay_status old)" and nm: "status_event (pay_status new) = Some nm"
    and st: "pay_status new = P_succeeded \<Longrightarrow> settled_by_fact db new"
    and e: "emit_payment_event nm new ctx extra db1 = Inr (u, db2)"
  shows "ledger_ok db2 \<and> keys_ok db2"
proof (rule emit_final_ledger [OF e _ replaced_keys [OF r] nm])
  have old: "find_payment pid db = Some old" using r by (simp add: replaced_def)
  note parts = ledger_open_parts [OF l old nt] and ids = replaced_ids [OF r] and rest = replaced_rest [OF r]
  show "new \<in> set (payments db1)" by (simp add: replaced_set [OF r])
  show "events_except (pay_id new) db1" using replaced_events_except [OF r parts(1)] ids by simp
  show "no_final_events db1 (pay_id new)" using parts(2) ids rest by (simp add: no_final_events_def)
  show "has_event db1 (pay_id new) ''payment.created''" using parts(3) ids rest by simp
  show "settled_ok db1" using l st by (intro replaced_settled [OF r]) (simp_all add: ledger_ok_def)
  show "lates_ok db1" using l nt by (intro replaced_lates [OF r]) (simp_all add: ledger_ok_def)
qed

lemma emit_payment_event_select:
  "emit_payment_event nm p ctx extra db = Inr (u, db') \<Longrightarrow>
     payments db' = payments db \<and> attempts db' = attempts db \<and> facts db' = facts db \<and> next_uuid db' = next_uuid db"
  by (simp add: emit_payment_event_Inr)

lemma same_rows_life:
  assumes "payments db' = payments db" "attempts db' = attempts db" shows "life_ok db' = life_ok db"
proof -
  have "attempt_set db' = attempt_set db" using assms by (simp add: attempt_set_def fun_eq_iff)
  with assms show ?thesis by (simp only: life_ok_def)
qed

lemma announce_final_pinv:
  assumes r: "replaced db pid old new db1" and l: "ledger_ok db"
    and nt: "\<not> isTerminalPaymentStatus (pay_status old)" and nm: "status_event (pay_status new) = Some nm"
    and ns: "pay_status new \<noteq> P_succeeded"
    and life: "life_except pid db" "life new (attempt_set db pid)"
    and a: "announce_final nm new ctx extra db1 = Inr (u, db2)"
  shows "pinv db2"
proof -
  from a obtain u1 dbe u2 dba n where e: "emit_payment_event nm new ctx extra db1 = Inr (u1, dbe)"
    and au: "audit_record_payment nm new ctx dbe = Inr (u2, dba)"
    and rq: "recordQualifyingLateSuccesses new ctx None None dba = Inr (n, db2)"
    by (auto simp: announce_final_def tx_bind_Inr_iff)
  have le: "ledger_ok dbe" "keys_ok dbe" using replaced_final [OF r l nt nm _ e] ns by auto
  have "life_ok dbe"
    using replaced_life_ok [OF r life] same_rows_life [of dbe db1] emit_payment_event_select [OF e] by simp
  with le have pe: "pinv dbe" by (simp add: pinv_split)
  have "pay_id new < next_uuid dbe"
    using replaced_keys [OF r] find_payment_payments [OF replaced_find [OF r]] emit_payment_event_select [OF e] by simp
  then have "quiet dbe dba" by (rule audit_record_payment_quiet [OF au])
  then show ?thesis using recordQualifyingLateSuccesses_quiet [OF rq] pe by (blast intro: quiet_pinv)
qed

lemma update_payment_replaced:
  "update_payment pid f db = Inr (new, db1) \<Longrightarrow> keys_ok db \<Longrightarrow> (\<And>r. same_identity r (f r)) \<Longrightarrow>
     \<exists>old. find_payment pid db = Some old \<and> new = payment_touch db old (f old) \<and> replaced db pid old new db1 \<and>
           payment_update_error db old new = None"
  by (auto simp: update_payment_Inr replaced_def same_identity_def)

end
