(* ===== verification/PaymentSteps.thy ===== *)
theory PaymentSteps
  imports PaymentPreserve
begin

text \<open>
  The transactions of the payment core keep \<open>pinv\<close>: the outcome of an attempt (a failure, a
  confirmation, an expiry, a success), the completion of a closing payment, cancel, the sweep, the
  start of an attempt, the recording of facts and late successes.
\<close>

section \<open>A payment and the attempts left to it\<close>

lemma open_unsettled: "isOpenAttemptStatus (att_status a) \<Longrightarrow> attempt_unsettled a"
  by (auto simp: open_attempt_cases attempt_unsettled_def)

text \<open>Right after an attempt stopped being open, before the payment has been decided.\<close>

definition settling :: "payment_row \<Rightarrow> attempt_row set \<Rightarrow> bool" where
  "settling p S \<longleftrightarrow>
     (\<forall>a \<in> S. attempt_ok a \<and> att_status a \<noteq> A_succeeded \<and> \<not> isOpenAttemptStatus (att_status a)) \<and>
     (\<forall>a \<in> S. \<forall>b \<in> S. attempt_unsettled a \<longrightarrow> attempt_unsettled b \<longrightarrow> a = b) \<and>
     \<not> isTerminalPaymentStatus (pay_status p) \<and> pay_settledMethod p = None \<and> pay_succeededAttemptId p = None \<and>
     (pay_status p = P_closing \<longleftrightarrow> pay_closingReason p \<noteq> None)"

lemma status_cases:
  "\<not> isTerminalPaymentStatus st \<longleftrightarrow> st = P_created \<or> st = P_pending \<or> st = P_closing"
  by (cases st) (simp_all add: terminal_payment_cases)

lemma life_attempt_ok: "life p S \<Longrightarrow> a \<in> S \<Longrightarrow> attempt_ok a"
  by (simp add: life_def)

lemma life_one: "life p S \<Longrightarrow> a \<in> S \<Longrightarrow> b \<in> S \<Longrightarrow> attempt_unsettled a \<Longrightarrow> attempt_unsettled b \<Longrightarrow> a = b"
  by (simp add: life_def)

lemma life_success:
  "life p S \<Longrightarrow> a \<in> S \<Longrightarrow> att_status a = A_succeeded \<Longrightarrow>
     pay_status p = P_succeeded \<and> pay_succeededAttemptId p = Some (att_id a)"
  by (simp add: life_def)

lemma life_status:
  "life p S \<Longrightarrow> pay_status p = P_succeeded \<Longrightarrow> pay_settledMethod p = Some Gateway \<and> (\<exists>a \<in> S. att_status a = A_succeeded)"
  "life p S \<Longrightarrow> pay_status p = P_closing \<Longrightarrow> \<exists>a \<in> S. attempt_unsettled a"
  "life p S \<Longrightarrow> pay_status p = P_pending \<Longrightarrow> \<exists>a \<in> S. isOpenAttemptStatus (att_status a)"
  "life p S \<Longrightarrow> pay_status p = P_created \<Longrightarrow> a \<in> S \<Longrightarrow> \<not> isOpenAttemptStatus (att_status a)"
  "life p S \<Longrightarrow> isTerminalPaymentStatus (pay_status p) \<Longrightarrow> a \<in> S \<Longrightarrow> \<not> attempt_unsettled a"
  "life p S \<Longrightarrow> pay_status p \<noteq> P_succeeded \<Longrightarrow> pay_settledMethod p = None \<and> pay_succeededAttemptId p = None"
  by (simp_all add: life_def)

lemma life_unsettled_open:
  "life p S \<Longrightarrow> a \<in> S \<Longrightarrow> attempt_unsettled a \<Longrightarrow> \<not> isTerminalPaymentStatus (pay_status p)"
  by (auto simp: life_def)

lemma life_fail:
  assumes l: "life p S" and a: "a \<in> S" "attempt_unsettled a"
    and a': "attempt_ok a'" "\<not> isOpenAttemptStatus (att_status a')" "att_status a' \<noteq> A_succeeded"
  shows "settling p (insert a' {x \<in> S. att_id x \<noteq> att_id a})"
proof -
  have nt: "\<not> isTerminalPaymentStatus (pay_status p)" using life_unsettled_open [OF l a] .
  have settled: "\<not> attempt_unsettled x" if "x \<in> S" "att_id x \<noteq> att_id a" for x
    using life_one [OF l] a that by blast
  have ok: "attempt_ok x \<and> att_status x \<noteq> A_succeeded" if "x \<in> S" for x
    using life_attempt_ok [OF l that] life_success [OF l that] nt by (auto simp: terminal_payment_cases)
  have "pay_settledMethod p = None \<and> pay_succeededAttemptId p = None \<and>
      (pay_status p = P_closing \<longleftrightarrow> pay_closingReason p \<noteq> None)"
    using l nt unfolding life_def closing_outcome_ok_def status_cases by (auto split: option.splits)
  then show ?thesis
    unfolding settling_def using nt settled ok a' open_unsettled by auto
qed

lemma settling_keep:
  assumes "settling p S" "pay_status q = P_created" "pay_status p = P_created \<or> pay_status p = P_pending"
    "pay_settledMethod q = pay_settledMethod p" "pay_succeededAttemptId q = pay_succeededAttemptId p"
    "pay_closingReason q = pay_closingReason p"
  shows "life q S"
  using assms by (auto simp: settling_def life_def terminal_payment_cases closing_outcome_ok_def)

lemma settling_closing:
  assumes "settling p S" "pay_status p = P_closing" "\<exists>a \<in> S. attempt_unsettled a"
  shows "life p S"
  using assms
  by (auto simp: settling_def life_def terminal_payment_cases closing_outcome_ok_def split: closing_reason.splits)

lemma settling_final:
  assumes s: "settling p S" and "\<forall>a \<in> S. \<not> attempt_unsettled a"
    and "pay_status q = P_failed \<and> pay_closingReason p = None \<or>
         pay_status q = P_cancelled \<and> pay_closingReason p = Some Closing_cancel \<or>
         pay_status q = P_expired \<and> pay_closingReason p = Some Closing_expiry"
    and "pay_settledMethod q = pay_settledMethod p" "pay_succeededAttemptId q = pay_succeededAttemptId p"
    "pay_closingReason q = pay_closingReason p"
  shows "life q S"
  using assms by (auto simp: settling_def life_def terminal_payment_cases closing_outcome_ok_def)

text \<open>An attempt replaced by one of the same kind.\<close>

lemma life_swap:
  assumes l: "life p S" and a: "a \<in> S" and u: "\<forall>x \<in> S. att_id x = att_id a \<longrightarrow> x = a"
    and a': "att_id a' = att_id a" "attempt_ok a'" "attempt_unsettled a' = attempt_unsettled a"
      "isOpenAttemptStatus (att_status a') = isOpenAttemptStatus (att_status a)"
      "att_status a' = A_succeeded \<longleftrightarrow> att_status a = A_succeeded"
  shows "life p (insert a' {x \<in> S. att_id x \<noteq> att_id a})"
proof -
  let ?T = "insert a' {x \<in> S. att_id x \<noteq> att_id a}"
  have toT: "\<exists>y \<in> ?T. attempt_unsettled y = attempt_unsettled x \<and> att_id y = att_id x \<and>
      isOpenAttemptStatus (att_status y) = isOpenAttemptStatus (att_status x) \<and>
      (att_status y = A_succeeded \<longleftrightarrow> att_status x = A_succeeded)" if "x \<in> S" for x
    using u a' that by (cases "att_id x = att_id a") auto
  have fromS: "\<exists>x \<in> S. attempt_unsettled y = attempt_unsettled x \<and> att_id y = att_id x \<and>
      isOpenAttemptStatus (att_status y) = isOpenAttemptStatus (att_status x) \<and>
      (att_status y = A_succeeded \<longleftrightarrow> att_status x = A_succeeded) \<and> attempt_ok y" if "y \<in> ?T" for y
  proof (cases "y = a'")
    case True
    with a a' show ?thesis by (intro bexI [of _ a]) simp_all
  next
    case False
    with that have "y \<in> S" by simp
    moreover from this l have "attempt_ok y" by (simp add: life_def)
    ultimately show ?thesis by blast
  qed
  have pair: "x = a" if "x \<in> S" "attempt_unsettled x" "attempt_unsettled a" for x
    using life_one [OF l] a that by blast
  have two: "x = y" if "x \<in> S" "y \<in> S" "attempt_unsettled x" "attempt_unsettled y" for x y
    using life_one [OF l] that by blast
  have one: "y = z" if "y \<in> ?T" "z \<in> ?T" "attempt_unsettled y" "attempt_unsettled z" for y z
    using that pair two a'(3) by auto
  show ?thesis
    unfolding life_def
  proof (intro conjI)
    show "\<forall>x \<in> ?T. attempt_ok x" using fromS by blast
    show "\<forall>x \<in> ?T. \<forall>y \<in> ?T. attempt_unsettled x \<longrightarrow> attempt_unsettled y \<longrightarrow> x = y" using one by blast
    show "\<forall>x \<in> ?T. att_status x = A_succeeded \<longrightarrow> pay_status p = P_succeeded \<and> pay_succeededAttemptId p = Some (att_id x)"
    proof (intro ballI impI)
      fix y assume "y \<in> ?T" "att_status y = A_succeeded"
      with fromS obtain x where "x \<in> S" "att_status x = A_succeeded" "att_id y = att_id x" by blast
      with life_success [OF l] show "pay_status p = P_succeeded \<and> pay_succeededAttemptId p = Some (att_id y)" by simp
    qed
    show "pay_status p = P_succeeded \<longrightarrow> pay_settledMethod p = Some Gateway \<and> (\<exists>x \<in> ?T. att_status x = A_succeeded)"
      using toT life_status(1) [OF l] by blast
    show "isTerminalPaymentStatus (pay_status p) \<longrightarrow> (\<forall>x \<in> ?T. \<not> attempt_unsettled x)"
      using fromS life_status(5) [OF l] by blast
    show "pay_status p = P_closing \<longrightarrow> (\<exists>x \<in> ?T. attempt_unsettled x)"
      using toT life_status(2) [OF l] by blast
    show "pay_status p = P_created \<longrightarrow> (\<forall>x \<in> ?T. \<not> isOpenAttemptStatus (att_status x))"
      using fromS life_status(4) [OF l] by blast
    show "pay_status p = P_pending \<longrightarrow> (\<exists>x \<in> ?T. isOpenAttemptStatus (att_status x))"
      using toT life_status(3) [OF l] by blast
  qed (use l in \<open>simp_all add: life_def\<close>)
qed

text \<open>An unsettled attempt succeeds and takes its payment with it.\<close>

lemma life_succeed:
  assumes l: "life p S" and a: "a \<in> S" "attempt_unsettled a"
    and a': "att_id a' = att_id a" "att_status a' = A_succeeded" "attempt_ok a'"
    and q: "pay_status q = P_succeeded" "pay_settledMethod q = Some Gateway"
      "pay_succeededAttemptId q = Some (att_id a)" "pay_closingReason q = pay_closingReason p"
  shows "life q (insert a' {x \<in> S. att_id x \<noteq> att_id a})"
proof -
  have nt: "\<not> isTerminalPaymentStatus (pay_status p)" using life_unsettled_open [OF l a] .
  have settled: "\<not> attempt_unsettled x" if "x \<in> S" "att_id x \<noteq> att_id a" for x
    using life_one [OF l] a that by blast
  have ok: "attempt_ok x \<and> att_status x \<noteq> A_succeeded" if "x \<in> S" for x
    using life_attempt_ok [OF l that] life_success [OF l that] nt by (auto simp: terminal_payment_cases)
  have "\<not> attempt_unsettled a'" using a' by (auto simp: attempt_unsettled_def)
  then show ?thesis
    unfolding life_def closing_outcome_ok_def
    using q settled ok a' by (auto simp: terminal_payment_cases split: option.splits closing_reason.splits)
qed

section \<open>Deciding the payment\<close>

lemma same_identity_touch [simp]:
  "same_identity r (payment_touch db r q) = same_identity r q"
  by (simp add: same_identity_def)

text \<open>The state between an attempt's update and the payment's decision.\<close>

definition halfway :: "pdb \<Rightarrow> uuid \<Rightarrow> payment_row \<Rightarrow> bool" where
  "halfway db pid p \<longleftrightarrow> keys_ok db \<and> ledger_ok db \<and> life_except pid db \<and> find_payment pid db = Some p \<and>
     settling p (attempt_set db pid)"

lemma halfway_done: "halfway db pid p \<Longrightarrow> life p (attempt_set db pid) \<Longrightarrow> pinv db"
  unfolding halfway_def pinv_split by (blast intro: life_except_ok)

lemma halfway_final:
  assumes h: "halfway db pid p" and un: "\<not> payment_is_uncertain db pid"
    and u: "update_payment pid f db = Inr (new, db1)" and a: "announce_final nm new ctx extra db1 = Inr (v, db2)"
    and f: "\<And>r. same_identity r (f r)"
    and st: "pay_status (f p) = P_failed \<and> pay_closingReason p = None \<or>
         pay_status (f p) = P_cancelled \<and> pay_closingReason p = Some Closing_cancel \<or>
         pay_status (f p) = P_expired \<and> pay_closingReason p = Some Closing_expiry"
    and fk: "pay_settledMethod (f p) = pay_settledMethod p" "pay_succeededAttemptId (f p) = pay_succeededAttemptId p"
      "pay_closingReason (f p) = pay_closingReason p"
    and nm: "status_event (pay_status (f p)) = Some nm"
  shows "pinv db2"
proof -
  have keys: "keys_ok db" and led: "ledger_ok db" and le: "life_except pid db" and p: "find_payment pid db = Some p"
    and s: "settling p (attempt_set db pid)" using h by (auto simp: halfway_def)
  from update_payment_replaced [OF u keys f] p
  have new: "new = payment_touch db p (f p)" and r: "replaced db pid p new db1" by auto
  have "\<forall>a \<in> attempt_set db pid. \<not> attempt_unsettled a" using un by (auto simp: uncertain_iff)
  then have life: "life new (attempt_set db pid)"
    using st fk by (intro settling_final [OF s]) (simp_all add: new)
  show ?thesis
  proof (rule announce_final_pinv [OF r led _ _ _ le life a])
    show "\<not> isTerminalPaymentStatus (pay_status p)" using s by (simp add: settling_def)
    show "status_event (pay_status new) = Some nm" using nm by (simp add: new)
    show "pay_status new \<noteq> P_succeeded" using st by (auto simp: new)
  qed
qed

lemma completeClosing_halfway:
  assumes h: "halfway db pid p" and cl: "pay_status p = P_closing"
    and c: "completeClosingIfResolved pid ctx db = Inr (r, db')"
  shows "pinv db'"
proof (cases "payment_is_uncertain db pid")
  case True
  have p: "find_payment pid db = Some p" and s: "settling p (attempt_set db pid)" using h by (auto simp: halfway_def)
  have "db' = db" using c p True by (simp add: completeClosingIfResolved_def)
  moreover have "life p (attempt_set db pid)" using settling_closing [OF s cl] True by (auto simp: uncertain_iff)
  ultimately show ?thesis using halfway_done [OF h] by simp
next
  case False
  have p: "find_payment pid db = Some p" and s: "settling p (attempt_set db pid)" using h by (auto simp: halfway_def)
  obtain cr where cr: "pay_closingReason p = Some cr" using s cl by (auto simp: settling_def)
  show ?thesis
  proof (cases cr)
    case Closing_cancel
    with c p False cl cr obtain new db1 u ctx' where
      "update_payment pid (\<lambda>r. r\<lparr>pay_status := P_cancelled, pay_closedAt := Some (now db)\<rparr>) db = Inr (new, db1)"
      "announce_final ''payment.cancelled'' new ctx' No_extra db1 = Inr (u, db')"
      by (auto simp: completeClosingIfResolved_def Let_def tx_bind_Inr_iff)
    then show ?thesis
      by (rule halfway_final [OF h False]) (simp_all add: same_identity_def Closing_cancel cr)
  next
    case Closing_expiry
    with c p False cl cr obtain new db1 u ctx' ex where
      "update_payment pid (\<lambda>r. r\<lparr>pay_status := P_expired, pay_closedAt := Some (now db)\<rparr>) db = Inr (new, db1)"
      "announce_final ''payment.expired'' new ctx' ex db1 = Inr (u, db')"
      by (auto simp: completeClosingIfResolved_def Let_def tx_bind_Inr_iff)
    then show ?thesis
      by (rule halfway_final [OF h False]) (simp_all add: same_identity_def Closing_expiry cr)
  qed
qed

lemma settle_after_failure_pinv:
  assumes h: "halfway db pid p"
    and s: "settlePaymentAfterFailure cfg caps pid n code ctx db = Inr (u, db')"
  shows "pinv db'"
proof -
  have keys: "keys_ok db" and led: "ledger_ok db" and le: "life_except pid db" and p: "find_payment pid db = Some p"
    and st: "settling p (attempt_set db pid)" using h by (auto simp: halfway_def)
  have st0: "pay_status p = P_created \<or> pay_status p = P_pending \<or> pay_status p = P_closing"
    using st unfolding settling_def status_cases by blast
  define nxt where "nxt = next_status_after_failure cfg caps (payment_is_uncertain db pid) n code"
  consider (closing) "pay_status p = P_closing" | (same) "pay_status p \<noteq> P_closing" "nxt = pay_status p"
    | (change) "pay_status p \<noteq> P_closing" "nxt \<noteq> pay_status p" by blast
  then show ?thesis
  proof cases
    case closing
    with s p obtain r where "completeClosingIfResolved pid ctx db = Inr (r, db')"
      by (auto simp: settlePaymentAfterFailure_def tx_bind_Inr_iff)
    then show ?thesis by (rule completeClosing_halfway [OF h closing])
  next
    case same
    with s p st0 have "db' = db" by (auto simp: settlePaymentAfterFailure_def nxt_def)
    moreover have "pay_status p = P_created"
      using same st0 by (auto simp: nxt_def next_status_after_failure_def split: if_splits)
    then have "life p (attempt_set db pid)" using settling_keep [OF st] by simp
    ultimately show ?thesis using halfway_done [OF h] by simp
  next
    case change
    let ?f = "\<lambda>r. r\<lparr>pay_status := nxt, pay_closedAt := (if nxt = P_failed then Some (now db) else pay_closedAt r)\<rparr>"
    from s p st0 change obtain new db1 where
      u: "update_payment pid ?f db = Inr (new, db1)"
      and rest: "(if nxt = P_failed then announce_final ''payment.failed'' new ctx (Extra_failureCode code)
                  else tx_return ()) db1 = Inr (u, db')"
      by (auto simp: settlePaymentAfterFailure_def tx_bind_Inr_iff Let_def nxt_def [symmetric])
    have reason: "pay_closingReason p = None" using st change by (auto simp: settling_def)
    have "nxt = P_failed \<or> nxt = P_created" by (simp add: nxt_def next_status_after_failure_def Let_def)
    then consider (fail) "nxt = P_failed" | (created) "nxt = P_created" by blast
    then show ?thesis
    proof cases
      case fail
      then have un: "\<not> payment_is_uncertain db pid"
        by (auto simp: nxt_def next_status_after_failure_def Let_def split: if_splits)
      show ?thesis
        by (rule halfway_final [OF h un u, of "''payment.failed''" ctx "Extra_failureCode code"])
          (use rest fail reason in \<open>simp_all add: same_identity_def\<close>)
    next
      case created
      then have db1: "db1 = db'" using rest by simp
      from update_payment_replaced [OF u keys] p
      have new: "new = payment_touch db p (?f p)" and r: "replaced db pid p new db'"
        by (auto simp: same_identity_def db1)
      have "life new (attempt_set db pid)"
        using created change(1) st0 by (intro settling_keep [OF st]) (auto simp: new)
      then have "life_ok db'" by (rule replaced_life_ok [OF r le])
      moreover have "ledger_ok db'"
        using st0 created by (intro replaced_open_ledger [OF r led]) (auto simp: new terminal_payment_cases)
      ultimately show ?thesis using replaced_keys [OF r] by (simp add: pinv_split)
    qed
  qed
qed

section \<open>The update of an attempt\<close>

lemma attempt_in_set:
  "find_attempt aid db = Some a \<Longrightarrow> a \<in> attempt_set db (att_paymentId a) \<and> att_id a = aid"
  by (auto simp: attempt_set_def dest: find_attempt_SomeD)

lemma attempt_set_unique:
  assumes "keys_ok db" "find_attempt aid db = Some a" "x \<in> attempt_set db pid" "att_id x = aid"
  shows "x = a"
  using assms find_attempt_SomeD [OF assms(2)] unique_keysD [of att_id "attempts db" x a]
  by (simp add: attempt_set_def keys_ok_def)

lemma pinv_attempt_ok: "pinv db \<Longrightarrow> a \<in> set (attempts db) \<Longrightarrow> attempt_ok a"
proof -
  assume inv: "pinv db" and a: "a \<in> set (attempts db)"
  then obtain p where p: "p \<in> set (payments db)" "pay_id p = att_paymentId a"
    by (auto simp: pinv_split keys_ok_def)
  then have "life p (attempt_set db (att_paymentId a))" using inv by (auto simp: pinv_split life_ok_def)
  then show ?thesis by (rule life_attempt_ok) (simp add: attempt_set_def a)
qed

text \<open>An unsettled attempt is no longer open, and did not succeed: the payment is to be decided.\<close>

lemma fail_step:
  assumes inv: "pinv db" and a: "find_attempt aid db = Some a" and p: "find_payment (att_paymentId a) db = Some p"
    and u: "update_attempt aid f db = Inr (new, db1)"
    and id: "att_id (f a) = att_id a" "att_paymentId (f a) = att_paymentId a"
    and un: "attempt_unsettled a"
    and new: "attempt_ok (f a)" "\<not> isOpenAttemptStatus (att_status (f a))" "att_status (f a) \<noteq> A_succeeded"
  shows "halfway db1 (att_paymentId a) p"
proof -
  have keys: "keys_ok db" and led: "ledger_ok db" and life: "life_ok db" using inv by (auto simp: pinv_split)
  have aid: "att_id a = aid" "a \<in> attempt_set db (att_paymentId a)" using attempt_in_set [OF a] by auto
  have db1: "db1 = db\<lparr>attempts := set_row att_id aid (f a) (attempts db)\<rparr>" using u a by (simp add: update_attempt_Inr)
  have ids: "att_id (f a) = aid" "att_paymentId (f a) = att_paymentId a" using id aid by auto
  have "settling p (insert (f a) {x \<in> attempt_set db (att_paymentId a). att_id x \<noteq> att_id a})"
    by (rule life_fail [OF life_at [OF life p] aid(2) un new])
  then have "settling p (attempt_set db1 (att_paymentId a))"
    using attempt_set_update [OF a ids keys] aid by (simp add: db1)
  then show ?thesis
    using update_attempt_keys [OF a ids keys] update_attempt_life_except [OF a ids keys life_ok_except [OF life]] led p
    by (simp add: halfway_def db1)
qed

text \<open>An attempt replaced by one of the same kind keeps the whole invariant.\<close>

lemma swap_step:
  assumes inv: "pinv db" and a: "find_attempt aid db = Some a"
    and u: "update_attempt aid f db = Inr (new, db1)"
    and id: "att_id (f a) = att_id a" "att_paymentId (f a) = att_paymentId a"
    and k: "attempt_ok (f a)" "attempt_unsettled (f a) = attempt_unsettled a"
      "isOpenAttemptStatus (att_status (f a)) = isOpenAttemptStatus (att_status a)"
      "att_status (f a) = A_succeeded \<longleftrightarrow> att_status a = A_succeeded"
  shows "pinv db1 \<and> find_attempt aid db1 = Some (f a) \<and> new = f a \<and> payments db1 = payments db \<and> facts db1 = facts db"
proof -
  have keys: "keys_ok db" and led: "ledger_ok db" and life: "life_ok db" using inv by (auto simp: pinv_split)
  have aid: "att_id a = aid" "a \<in> attempt_set db (att_paymentId a)" using attempt_in_set [OF a] by auto
  have db1: "db1 = db\<lparr>attempts := set_row att_id aid (f a) (attempts db)\<rparr>" and nw: "new = f a"
    using u a by (simp_all add: update_attempt_Inr)
  have ids: "att_id (f a) = aid" "att_paymentId (f a) = att_paymentId a" using id aid by auto
  obtain p where p: "find_payment (att_paymentId a) db = Some p"
    using keys find_attempt_SomeD [OF a] find_payment_in [OF keys] by (auto simp: keys_ok_def)
  have keys1: "keys_ok db1" using update_attempt_keys [OF a ids keys] by (simp add: db1)
  have "\<forall>x \<in> attempt_set db (att_paymentId a). att_id x = att_id a \<longrightarrow> x = a"
    using attempt_set_unique [OF keys a] aid by blast
  from life_swap [OF life_at [OF life p] aid(2) this id(1) k]
  have "life p (attempt_set db1 (att_paymentId a))"
    using attempt_set_update [OF a ids keys] aid by (simp add: db1)
  moreover have "life_except (att_paymentId a) db1"
    using update_attempt_life_except [OF a ids keys life_ok_except [OF life]] by (simp add: db1)
  ultimately have "life_ok db1" using p keys1 by (intro life_except_ok) (simp_all add: db1)
  with keys1 led find_attempt_set_row [OF a ids(1)] nw show ?thesis by (simp add: pinv_split db1)
qed

text \<open>The move of an initiated attempt to unknown that \<open>notFound\<close> and a success make first.\<close>

lemma to_unknown_step:
  assumes inv: "pinv db" and a: "find_attempt aid db = Some a"
    and u: "(if att_status a = A_initiated then update_attempt aid (\<lambda>r. r\<lparr>att_status := A_unknown\<rparr>) else tx_return a) db
      = Inr (x, db1)"
  shows "pinv db1 \<and> payments db1 = payments db \<and> facts db1 = facts db \<and>
    (\<exists>a1. find_attempt aid db1 = Some a1 \<and> att_paymentId a1 = att_paymentId a \<and> att_id a1 = att_id a \<and>
       att_status a1 = (if att_status a = A_initiated then A_unknown else att_status a) \<and>
       att_failureInferred a1 = att_failureInferred a \<and> att_failureConfirmedAt a1 = att_failureConfirmedAt a)"
proof (cases "att_status a = A_initiated")
  case True
  have ok: "attempt_ok a" using pinv_attempt_ok [OF inv] find_attempt_SomeD [OF a] by blast
  have "update_attempt aid (\<lambda>r. r\<lparr>att_status := A_unknown\<rparr>) db = Inr (x, db1)" using u True by simp
  from swap_step [OF inv a this] ok True show ?thesis
    by (auto simp: attempt_ok_def attempt_unsettled_def open_attempt_cases)
next
  case False
  with inv a u show ?thesis by simp
qed

section \<open>\<open>applyStatus\<close> decides\<close>

lemma find_payment_same: "payments db1 = payments db \<Longrightarrow> find_payment i db1 = find_payment i db"
  by (simp add: find_payment_def)

lemma decide_notFound_pinv:
  assumes inv: "pinv db" and a: "find_attempt aid db = Some a" and p: "find_payment (att_paymentId a) db = Some p"
    and d: "decide_notFound cfg caps p a ctx db = Inr (r, db')"
  shows "pinv db'"
proof (cases "(att_status a = A_initiated \<or> att_status a = A_unknown) \<and> cap_notFoundIsAuthoritative caps")
  case False
  then have "db' = db" using d by (auto simp: decide_notFound_def split: if_splits)
  with inv show ?thesis by simp
next
  case True
  have ids: "att_id a = aid" "pay_id p = att_paymentId a"
    using attempt_in_set [OF a] find_payment_SomeD [OF p] by auto
  have c: "(att_status a \<noteq> A_initiated \<and> att_status a \<noteq> A_unknown) = False" "cap_notFoundIsAuthoritative caps = True"
    using True by auto
  from d obtain x db1 new db2 u where
    s1: "(if att_status a = A_initiated then update_attempt aid (\<lambda>r. r\<lparr>att_status := A_unknown\<rparr>) else tx_return a) db = Inr (x, db1)"
    and s2: "update_attempt aid (\<lambda>r. r\<lparr>att_status := A_failed, att_failureCode := Some ''not_found'',
                   att_failureClass := Some FC_terminal, att_failureInferred := True,
                   att_completedAt := Some (now db)\<rparr>) db1 = Inr (new, db2)"
    and s3: "settlePaymentAfterFailure cfg caps (att_paymentId a) (att_attemptNumber a) (Some ''not_found'') ctx db2 = Inr (u, db')"
    unfolding decide_notFound_def c ids by (simp only: if_False simp_thms tx_bind_Inr_iff tx_return_apply sum.inject prod.inject) blast
  from to_unknown_step [OF inv a s1] obtain a1 where i1: "pinv db1" and a1: "find_attempt aid db1 = Some a1"
    "att_paymentId a1 = att_paymentId a"
    and st: "att_status a1 = (if att_status a = A_initiated then A_unknown else att_status a)"
    and ps: "payments db1 = payments db" by blast
  have st1: "att_status a1 = A_unknown" using st True by (cases "att_status a = A_initiated") simp_all
  have p1: "find_payment (att_paymentId a1) db1 = Some p" using p a1(2) find_payment_same [OF ps] by simp
  have "halfway db2 (att_paymentId a1) p"
    by (rule fail_step [OF i1 a1(1) p1 s2]) (simp_all add: attempt_unsettled_def st1 attempt_ok_def open_attempt_cases)
  then show ?thesis using s3 a1(2) by (auto intro: settle_after_failure_pinv)
qed

lemma confirm_failure_pinv:
  assumes inv: "pinv db" and a: "find_attempt aid db = Some a" and p: "find_payment (att_paymentId a) db = Some p"
    and i: "inferred_unconfirmed a" and d: "confirm_failure cfg caps p a code ctx db = Inr (r, db')"
  shows "pinv db'"
proof -
  have ids: "att_id a = aid" "pay_id p = att_paymentId a"
    using attempt_in_set [OF a] find_payment_SomeD [OF p] by auto
  from d ids obtain new db2 u where
    s2: "update_attempt aid (\<lambda>r. r\<lparr>att_failureConfirmedAt := Some (now db), att_confirmedFailureCode := Some code\<rparr>) db = Inr (new, db2)"
    and s3: "settlePaymentAfterFailure cfg caps (att_paymentId a) (att_attemptNumber a) (Some code) ctx db2 = Inr (u, db')"
    by (auto simp: confirm_failure_def tx_bind_Inr_iff)
  have "halfway db2 (att_paymentId a) p"
    using i by (intro fail_step [OF inv a p s2])
      (auto simp: attempt_unsettled_def inferred_unconfirmed_def attempt_ok_def open_attempt_cases)
  then show ?thesis using s3 by (rule settle_after_failure_pinv)
qed

text \<open>An open attempt ends without a success (a rejection, a failure, an expiry).\<close>

lemma open_ends_pinv:
  assumes inv: "pinv db" and a: "find_attempt aid db = Some a" and p: "find_payment (att_paymentId a) db = Some p"
    and o: "isOpenAttemptStatus (att_status a)"
    and u: "update_attempt aid f db = Inr (new, db2)"
    and f: "att_id (f a) = att_id a" "att_paymentId (f a) = att_paymentId a" "att_status (f a) = A_failed \<or> att_status (f a) = A_expired"
      "att_failureInferred (f a) = att_failureInferred a" "att_failureConfirmedAt (f a) = att_failureConfirmedAt a"
    and s: "settlePaymentAfterFailure cfg caps (att_paymentId a) n code ctx db2 = Inr (v, db')"
  shows "pinv db'"
proof -
  have ok: "attempt_ok a" using pinv_attempt_ok [OF inv] find_attempt_SomeD [OF a] by blast
  have "halfway db2 (att_paymentId a) p"
    using o f ok by (intro fail_step [OF inv a p u f(1,2) open_unsettled [OF o]])
      (auto simp: attempt_ok_def open_attempt_cases)
  then show ?thesis using s by (rule settle_after_failure_pinv)
qed

lemma decide_expired_pinv:
  assumes inv: "pinv db" and a: "find_attempt aid db = Some a" and p: "find_payment (att_paymentId a) db = Some p"
    and d: "decide_expired cfg caps p a ctx db = Inr (r, db')"
  shows "pinv db'"
proof -
  have ids: "att_id a = aid" "pay_id p = att_paymentId a"
    using attempt_in_set [OF a] find_payment_SomeD [OF p] by auto
  consider "inferred_unconfirmed a" "confirm_failure cfg caps p a ''expired'' ctx db = Inr (r, db')" | "db' = db"
    | "att_status a = A_submitted" "\<not> inferred_unconfirmed a"
    using d by (auto simp: decide_expired_def split: if_splits)
  then show ?thesis
  proof cases
    case 3
    with d ids obtain new db2 u where
      uu: "update_attempt aid (\<lambda>r. r\<lparr>att_status := A_expired, att_failureCode := Some ''expired'',
                   att_failureClass := Some FC_terminal, att_completedAt := Some (now db)\<rparr>) db = Inr (new, db2)"
      and ss: "settlePaymentAfterFailure cfg caps (att_paymentId a) (att_attemptNumber a) (Some ''expired'') ctx db2 = Inr (u, db')"
      by (auto simp: decide_expired_def tx_bind_Inr_iff)
    with 3 show ?thesis by (intro open_ends_pinv [OF inv a p _ uu _ _ _ _ _ ss]) (auto simp: open_attempt_cases)
  qed (use confirm_failure_pinv [OF inv a p] inv in auto)
qed

lemma decide_failed_pinv:
  assumes inv: "pinv db" and a: "find_attempt aid db = Some a" and p: "find_payment (att_paymentId a) db = Some p"
    and d: "decide_failed cfg caps p a cls code ctx db = Inr (r, db')"
  shows "pinv db'"
proof -
  have ids: "att_id a = aid" "pay_id p = att_paymentId a"
    using attempt_in_set [OF a] find_payment_SomeD [OF p] by auto
  consider "inferred_unconfirmed a" "confirm_failure cfg caps p a code ctx db = Inr (r, db')" | "db' = db"
    | "isOpenAttemptStatus (att_status a)" "\<not> inferred_unconfirmed a"
    using d by (cases "att_status a") (auto simp: decide_failed_def open_attempt_cases split: if_splits)
  then show ?thesis
  proof cases
    case 3
    then have "att_status a \<noteq> A_succeeded" "att_status a \<noteq> A_failed" "att_status a \<noteq> A_expired"
      by (auto simp: open_attempt_cases)
    with 3 d ids obtain new db2 u where
      uu: "update_attempt aid (\<lambda>r. r\<lparr>att_status := A_failed, att_failureCode := Some code,
                   att_failureClass := Some cls, att_completedAt := Some (now db)\<rparr>) db = Inr (new, db2)"
      and ss: "settlePaymentAfterFailure cfg caps (att_paymentId a) (att_attemptNumber a) (Some code) ctx db2 = Inr (u, db')"
      by (auto simp: decide_failed_def tx_bind_Inr_iff)
    with 3 show ?thesis by (intro open_ends_pinv [OF inv a p _ uu _ _ _ _ _ ss]) auto
  qed (use confirm_failure_pinv [OF inv a p] inv in auto)
qed

end
