(* ===== verification/PaymentSystem.thy ===== *)
theory PaymentSystem
  imports PaymentSteps
begin

text \<open>
  More transactions that keep \<open>pinv\<close>: the settlement and the whole decision of \<open>applyStatus\<close>, the two
  transactions of \<open>start\<close>, cancel, and the expiry of one payment.
\<close>

section \<open>The settlement\<close>

lemma settled_by_guard:
  assumes "payment_update_error db old new = None" "pay_status new = P_succeeded" "pay_status old \<noteq> P_succeeded"
    "pay_settledMethod new = Some Gateway"
  shows "settled_by_fact db new"
proof -
  have "settlement_evidence_guard db new"
    using assms by (auto simp: payment_update_error_def split: if_splits)
  then obtain aid f where aid: "pay_succeededAttemptId new = Some aid"
    and f: "capture_facts_of db aid (pay_id new) = [f]" "fact_amount f = pay_amount new"
      "pg_trim (fact_currency f) = pg_trim (pay_currency new)"
    by (auto simp: settlement_evidence_guard_def split: option.splits list.splits)
  have "f \<in> set (capture_facts_of db aid (pay_id new))" using f(1) by simp
  then show ?thesis
    unfolding settled_by_fact_def using aid f(2,3) by (intro bexI [of _ f]) (simp_all add: capture_facts_of_def)
qed

lemma settle_succeeded_pinv:
  assumes inv: "pinv db" and a: "find_attempt aid db = Some a" and p: "find_payment (att_paymentId a) db = Some p"
    and un: "attempt_unsettled a" and d: "settle_succeeded p a ctx db = Inr (r, db')"
  shows "pinv db'"
proof -
  have ids: "att_id a = aid" "pay_id p = att_paymentId a"
    using attempt_in_set [OF a] find_payment_SomeD [OF p] by auto
  let ?fa = "\<lambda>r. r\<lparr>att_status := A_succeeded, att_completedAt := Some (now db)\<rparr>"
  let ?fp = "\<lambda>r. r\<lparr>pay_status := P_succeeded, pay_settledMethod := Some Gateway,
                pay_succeededAttemptId := Some aid, pay_closedAt := Some (now db)\<rparr>"
  from d obtain x db1 a2 db2 new db3 u db4 u' where
    s1: "(if att_status a = A_initiated then update_attempt aid (\<lambda>r. r\<lparr>att_status := A_unknown\<rparr>) else tx_return a) db = Inr (x, db1)"
    and s2: "update_attempt aid ?fa db1 = Inr (a2, db2)"
    and s3: "update_payment (att_paymentId a) ?fp db2 = Inr (new, db3)"
    and s4: "emit_payment_event ''payment.succeeded'' new ctx (Extra_settled Gateway (pay_closedAt new)) db3 = Inr (u, db4)"
    and s5: "audit_record_payment ''payment.succeeded'' new ctx db4 = Inr (u', db')"
    unfolding settle_succeeded_def ids
    by (simp only: tx_bind_Inr_iff tx_return_apply sum.inject prod.inject) blast
  from to_unknown_step [OF inv a s1] obtain a1 where i1: "pinv db1" and a1: "find_attempt aid db1 = Some a1"
    and pid1: "att_paymentId a1 = att_paymentId a" and ps: "payments db1 = payments db"
    and st: "att_status a1 = (if att_status a = A_initiated then A_unknown else att_status a)"
      "att_failureInferred a1 = att_failureInferred a" "att_failureConfirmedAt a1 = att_failureConfirmedAt a" by blast
  have un1: "attempt_unsettled a1" using un st by (auto simp: attempt_unsettled_def)
  have aid1: "att_id a1 = aid" "a1 \<in> attempt_set db1 (att_paymentId a)" using attempt_in_set [OF a1] pid1 by auto
  have p1: "find_payment (att_paymentId a) db1 = Some p" using p find_payment_same [OF ps] by simp
  have keys1: "keys_ok db1" and led1: "ledger_ok db1" and life1: "life_ok db1" using i1 by (auto simp: pinv_split)
  have db2: "db2 = db1\<lparr>attempts := set_row att_id aid (?fa a1) (attempts db1)\<rparr>"
    using s2 a1 by (simp add: update_attempt_Inr)
  have fid: "att_id (?fa a1) = aid" "att_paymentId (?fa a1) = att_paymentId a1" using aid1 by simp_all
  have keys2: "keys_ok db2" using update_attempt_keys [OF a1 fid keys1] by (simp add: db2)
  have le2: "life_except (att_paymentId a) db2"
    using update_attempt_life_except [OF a1 fid keys1 life_ok_except [OF life1]] pid1 by (simp add: db2)
  have led2: "ledger_ok db2" using led1 by (simp add: db2)
  have p2: "find_payment (att_paymentId a) db2 = Some p" using p1 by (simp add: db2)
  have S: "attempt_set db2 (att_paymentId a) = insert (?fa a1) {x \<in> attempt_set db1 (att_paymentId a). att_id x \<noteq> att_id a1}"
    using attempt_set_update [OF a1 fid keys1, of "att_paymentId a"] pid1 aid1 by (simp add: db2)
  have fp: "same_identity r (?fp r)" for r by (simp add: same_identity_def)
  from update_payment_replaced [OF s3 keys2 fp] p2
  have new: "new = payment_touch db2 p (?fp p)" and r: "replaced db2 (att_paymentId a) p new db3"
    and ok: "payment_update_error db2 p new = None" by auto
  have lp: "life p (attempt_set db1 (att_paymentId a))" by (rule life_at [OF life1 p1])
  have nt: "\<not> isTerminalPaymentStatus (pay_status p)" by (rule life_unsettled_open [OF lp aid1(2) un1])
  have ns: "pay_status p \<noteq> P_succeeded" using nt by (auto simp: terminal_payment_cases)
  have "attempt_ok a1" using pinv_attempt_ok [OF i1] find_attempt_SomeD [OF a1] by blast
  then have "attempt_ok (?fa a1)" using un1 by (auto simp: attempt_ok_def attempt_unsettled_def)
  then have life: "life new (attempt_set db2 (att_paymentId a))"
    unfolding S by (intro life_succeed [OF lp aid1(2) un1]) (simp_all add: new aid1)
  have "ledger_ok db4 \<and> keys_ok db4"
    by (rule replaced_final [OF r led2 nt _ _ s4]) (use settled_by_guard [OF ok] ns in \<open>simp_all add: new\<close>)
  moreover have "life_ok db4"
    using replaced_life_ok [OF r le2 life] same_rows_life [of db4 db3] emit_payment_event_select [OF s4] by simp
  ultimately have "pinv db4" by (simp add: pinv_split)
  moreover have "pay_id new < next_uuid db4"
    using replaced_keys [OF r] find_payment_payments [OF replaced_find [OF r]] emit_payment_event_select [OF s4]
      replaced_ids [OF r] by simp
  ultimately show ?thesis using audit_record_payment_quiet [OF s5] quiet_pinv by blast
qed

lemma decide_succeeded_pinv:
  assumes inv: "pinv db" and a: "find_attempt aid db = Some a" and p: "find_payment (att_paymentId a) db = Some p"
    and d: "decide_succeeded p a amount currency factId ctx db = Inr (r, db')"
  shows "pinv db'"
proof (cases "db' = db")
  case True
  with inv show ?thesis by simp
next
  case False
  with d have s: "settle_succeeded p a ctx db = Inr (r, db')" and st: "att_status a \<noteq> A_succeeded"
    and nt: "\<not> isTerminalPaymentStatus (pay_status p)"
    and f: "att_status a = A_failed \<or> att_status a = A_expired \<Longrightarrow> att_failureInferred a \<and> att_failureConfirmedAt a = None"
    by (auto simp: decide_succeeded_def terminal_payment_cases split: prod.splits if_splits)
  have "attempt_ok a" using pinv_attempt_ok [OF inv] find_attempt_SomeD [OF a] by blast
  with st f have "attempt_unsettled a"
    by (cases "att_status a") (auto simp: attempt_unsettled_def attempt_ok_def)
  then show ?thesis using settle_succeeded_pinv [OF inv a p _ s] by simp
qed

lemma apply_decide_pinv:
  assumes inv: "pinv db" and d: "apply_decide cfg caps aid status factId ctx db = Inr (r, db')"
  shows "pinv db'"
proof -
  obtain a where a: "find_attempt aid db = Some a"
    using d by (cases "find_attempt aid db") (simp_all add: apply_decide_def)
  obtain p where p: "find_payment (att_paymentId a) db = Some p"
    using d a by (cases "find_payment (att_paymentId a) db") (simp_all add: apply_decide_def)
  show ?thesis
    using d a p inv decide_notFound_pinv [OF inv a p] decide_succeeded_pinv [OF inv a p]
      decide_expired_pinv [OF inv a p] decide_failed_pinv [OF inv a p]
    by (cases status) (auto simp: apply_decide_def)
qed

section \<open>Starting an attempt\<close>

lemma payment_of_attempt:
  assumes "pinv db" "find_attempt aid db = Some a"
  shows "\<exists>p. find_payment (att_paymentId a) db = Some p"
proof -
  have keys: "keys_ok db" using assms(1) by (simp add: pinv_split)
  then show ?thesis using find_attempt_SomeD [OF assms(2)] find_payment_in [OF keys] by (auto simp: keys_ok_def)
qed

lemma start_T2_pinv:
  assumes inv: "pinv db" and a: "find_attempt aid db = Some a" and pid: "att_paymentId a = pid"
    and t: "start_T2 cfg caps pid aid n result ctx db = Inr (r, db')"
  shows "pinv db'"
proof (cases "att_status a = A_initiated \<or> att_status a = A_unknown")
  case False
  with t a have "db' = db" by (auto simp: start_T2_def)
  with inv show ?thesis by simp
next
  case True
  have ok: "attempt_ok a" using pinv_attempt_ok [OF inv] find_attempt_SomeD [OF a] by blast
  have o: "isOpenAttemptStatus (att_status a)" using True by (auto simp: open_attempt_cases)
  obtain p where p: "find_payment (att_paymentId a) db = Some p"
    using payment_of_attempt [OF inv a] by blast
  show ?thesis
  proof (cases result)
    case (Accepted txn nextAction)
    with t a True obtain x where
      "update_attempt aid (\<lambda>a. a\<lparr>att_status := A_submitted, att_providerTransactionId := Some txn,
                   att_providerData := Some (case nextAction of None \<Rightarrow> ''null'' | Some d \<Rightarrow> d),
                   att_submittedAt := Some (now db)\<rparr>) db = Inr (x, db')" by (auto simp: start_T2_def)
    from swap_step [OF inv a this] ok o show ?thesis
      by (auto simp: attempt_ok_def attempt_unsettled_def open_attempt_cases)
  next
    case (Rejected cls code)
    with t a True obtain x db1 u where
      u: "update_attempt aid (\<lambda>a. a\<lparr>att_status := A_failed, att_failureCode := Some code,
                   att_failureClass := Some cls, att_completedAt := Some (now db)\<rparr>) db = Inr (x, db1)"
      and s: "settlePaymentAfterFailure cfg caps pid n (Some code) ctx db1 = Inr (u, db')"
      by (auto simp: start_T2_def tx_bind_Inr_iff)
    show ?thesis by (rule open_ends_pinv [OF inv a p o u _ _ _ _ _ s [folded pid]]) simp_all
  next
    case Ambiguous
    show ?thesis
    proof (cases "att_status a = A_unknown")
      case True
      with t a Ambiguous inv show ?thesis by (simp add: start_T2_def)
    next
      case False
      with t a True Ambiguous obtain x where "update_attempt aid (\<lambda>a. a\<lparr>att_status := A_unknown\<rparr>) db = Inr (x, db')"
        by (auto simp: start_T2_def)
      from swap_step [OF inv a this] ok o show ?thesis
        by (auto simp: attempt_ok_def attempt_unsettled_def open_attempt_cases)
    qed
  qed
qed

lemma reserve_pinv: "reserve r db = Inr (x, db') \<Longrightarrow> pinv db \<Longrightarrow> pinv db' \<and> next_uuid db' = next_uuid db"
  by (auto simp: reserve_def split: option.splits if_splits)

lemma life_start:
  assumes "life p S" "pay_status p = P_created" "\<not> (\<exists>x \<in> S. attempt_unsettled x)"
    and "att_status a = A_initiated" "attempt_ok a"
    and "pay_status q = P_pending" "pay_settledMethod q = pay_settledMethod p"
      "pay_succeededAttemptId q = pay_succeededAttemptId p" "pay_closingReason q = pay_closingReason p"
  shows "life q (insert a S)"
  using assms unfolding life_def
  by (auto simp: terminal_payment_cases open_attempt_cases closing_outcome_ok_def)

lemma start_T1_pinv:
  assumes inv: "pinv db" and t: "start_T1 env prov pid caller key dto db = Inr (r, db')"
  shows "pinv db'"
proof -
  let ?i = "next_uuid db"
  from t obtain res db2 where res: "reserve (start_reservation env pid caller key dto ?i) (db\<lparr>next_uuid := Suc ?i\<rparr>) = Inr (res, db2)"
    and rest: "(case res of Replay _ rid \<Rightarrow> tx_return (T1_replay rid)
     | Reserved \<Rightarrow> (\<lambda>db. case find_payment pid db of
           None \<Rightarrow> Inl (Pay_error 404 ''not_found'')
         | Some p \<Rightarrow> (case start_refusal db p of Some e \<Rightarrow> Inl e
              | None \<Rightarrow> tx_bind (insert_attempt (new_attempt db ?i p prov)) (\<lambda>a.
                  tx_bind (update_payment pid (\<lambda>r. r\<lparr>pay_status := P_pending\<rparr>)) (\<lambda>_.
                  tx_return (T1_started p a))) db))) db2 = Inr (r, db')"
    by (auto simp: start_T1_def tx_bind_Inr_iff)
  have i2: "pinv db2" "next_uuid db2 = Suc ?i" using reserve_pinv [OF res] pinv_next_uuid [OF inv, of "Suc ?i"] by auto
  show ?thesis
  proof (cases res)
    case Replay
    with rest i2 show ?thesis by simp
  next
    case Reserved
    from rest obtain p where p: "find_payment pid db2 = Some p"
      by (cases "find_payment pid db2") (simp_all add: Reserved)
    have none: "start_refusal db2 p = None" using rest p by (cases "start_refusal db2 p") (simp_all add: Reserved)
    let ?a = "new_attempt db2 ?i p prov" and ?f = "\<lambda>r. r\<lparr>pay_status := P_pending\<rparr>"
    from rest obtain a db3 new where ins: "insert_attempt ?a db2 = Inr (a, db3)"
      and upd: "update_payment pid ?f db3 = Inr (new, db')"
      by (auto simp: Reserved p none tx_bind_Inr_iff)
    have pid: "pay_id p = pid" using find_payment_SomeD [OF p] by simp
    have ap: "att_paymentId ?a = pid" "att_id ?a = ?i" "att_status ?a = A_initiated" "attempt_ok ?a"
      by (simp_all add: new_attempt_def pid attempt_ok_def)
    from ins p have db3: "db3 = db2\<lparr>attempts := attempts db2 @ [?a]\<rparr>" and cr: "pay_status p = P_created"
      and nu: "\<not> payment_is_uncertain db2 pid"
      by (auto simp: insert_attempt_def ap split: if_splits)
    have keys2: "keys_ok db2" and led2: "ledger_ok db2" and life2: "life_ok db2" using i2 by (auto simp: pinv_split)
    have fresh: "?i \<notin> att_id ` set (attempts db2)"
    proof -
      have "attempts db2 = attempts db" using res by (auto simp: reserve_def split: option.splits if_splits)
      moreover have "\<forall>a \<in> set (attempts db). att_id a < ?i" using inv by (simp add: pinv_split keys_ok_def)
      ultimately show ?thesis by auto
    qed
    have "pid \<in> pay_id ` set (payments db2)" using find_payment_SomeD [OF p] by force
    then have keys3: "keys_ok db3"
      using keys2 fresh ap i2(2) by (simp add: keys_ok_def db3)
    have S: "attempt_set db3 j = (if j = pid then insert ?a (attempt_set db2 j) else attempt_set db2 j)" for j
      using ap by (auto simp: attempt_set_def db3)
    have "payments db3 = payments db2" by (simp add: db3)
    then have le3: "life_except pid db3" using life2 by (simp add: life_except_def life_ok_def S)
    have p3: "find_payment pid db3 = Some p" using p by (simp add: db3)
    from update_payment_replaced [OF upd keys3] p3
    have new: "new = payment_touch db3 p (?f p)" and r: "replaced db3 pid p new db'"
      by (auto simp: same_identity_def)
    have lp: "life p (attempt_set db2 pid)" by (rule life_at [OF life2 p])
    have "life new (insert ?a (attempt_set db2 pid))"
      by (rule life_start [OF lp cr nu [unfolded uncertain_iff] ap(3,4)]) (simp_all add: new)
    then have "life_ok db'" by (intro replaced_life_ok [OF r le3]) (simp add: S)
    moreover have "ledger_ok db'"
      using led2 cr by (intro replaced_open_ledger [OF r]) (auto simp: new db3 terminal_payment_cases)
    ultimately show ?thesis using replaced_keys [OF r] by (simp add: pinv_split)
  qed
qed

section \<open>Cancel, expiry, completion\<close>

lemma life_to_closing:
  assumes l: "life p S" and st: "pay_status p = P_created \<or> pay_status p = P_pending" and un: "\<exists>x \<in> S. attempt_unsettled x"
    and q: "pay_status q = P_closing" "pay_settledMethod q = pay_settledMethod p"
      "pay_succeededAttemptId q = pay_succeededAttemptId p" "pay_closingReason q = Some cr"
  shows "life q S"
proof -
  have "pay_status p \<noteq> P_succeeded" using st by auto
  then have "pay_settledMethod p = None" "pay_succeededAttemptId p = None" "\<forall>a \<in> S. att_status a \<noteq> A_succeeded"
    using life_status(6) [OF l] life_success [OF l] by auto
  then show ?thesis
    unfolding life_def using q un life_attempt_ok [OF l] life_one [OF l]
    by (simp add: terminal_payment_cases closing_outcome_ok_def split: closing_reason.splits)
qed

lemma life_to_final:
  assumes l: "life p S" and st: "pay_status p = P_created \<or> pay_status p = P_pending" and un: "\<not> (\<exists>x \<in> S. attempt_unsettled x)"
    and q: "isTerminalPaymentStatus (pay_status q)" "pay_status q \<noteq> P_succeeded" "pay_settledMethod q = pay_settledMethod p"
      "pay_succeededAttemptId q = pay_succeededAttemptId p" "pay_closingReason q = pay_closingReason p"
  shows "life q S"
proof -
  have "pay_status p \<noteq> P_succeeded" using st by auto
  then have "pay_settledMethod p = None" "pay_succeededAttemptId p = None" "\<forall>a \<in> S. att_status a \<noteq> A_succeeded"
    using life_status(6) [OF l] life_success [OF l] by auto
  moreover have "pay_closingReason p = None" using l st by (simp add: life_def)
  moreover have "pay_status q \<notin> {P_closing, P_created, P_pending}" using q(1) by (auto simp: terminal_payment_cases)
  ultimately show ?thesis
    unfolding life_def using q un life_attempt_ok [OF l] life_one [OF l]
    by (simp add: closing_outcome_ok_def)
qed

lemma to_closing_pinv:
  assumes inv: "pinv db" and p: "find_payment pid db = Some p" and st: "pay_status p = P_created \<or> pay_status p = P_pending"
    and un: "payment_is_uncertain db pid"
    and u: "update_payment pid (\<lambda>r. r\<lparr>pay_status := P_closing, pay_closingReason := Some cr\<rparr>) db = Inr (new, db')"
  shows "pinv db'"
proof -
  have keys: "keys_ok db" and led: "ledger_ok db" and lok: "life_ok db" using inv by (auto simp: pinv_split)
  from update_payment_replaced [OF u keys] p
  have new: "new = payment_touch db p (p\<lparr>pay_status := P_closing, pay_closingReason := Some cr\<rparr>)"
    and r: "replaced db pid p new db'" by (auto simp: same_identity_def)
  have "life new (attempt_set db pid)"
    by (rule life_to_closing [OF life_at [OF lok p] st un [unfolded uncertain_iff]]) (simp_all add: new)
  then have "life_ok db'" by (rule replaced_life_ok [OF r life_ok_except [OF lok]])
  moreover have "ledger_ok db'"
    using st by (intro replaced_open_ledger [OF r led]) (auto simp: new terminal_payment_cases)
  ultimately show ?thesis using replaced_keys [OF r] by (simp add: pinv_split)
qed

lemma to_final_pinv:
  assumes inv: "pinv db" and p: "find_payment pid db = Some p" and st: "pay_status p = P_created \<or> pay_status p = P_pending"
    and un: "\<not> payment_is_uncertain db pid"
    and u: "update_payment pid (\<lambda>r. r\<lparr>pay_status := fin, pay_closedAt := t\<rparr>) db = Inr (new, db1)"
    and a: "announce_final nm new ctx extra db1 = Inr (v, db')"
    and nm: "status_event fin = Some nm" and ns: "fin \<noteq> P_succeeded"
  shows "pinv db'"
proof -
  have keys: "keys_ok db" and led: "ledger_ok db" and lok: "life_ok db" using inv by (auto simp: pinv_split)
  from update_payment_replaced [OF u keys] p
  have new: "new = payment_touch db p (p\<lparr>pay_status := fin, pay_closedAt := t\<rparr>)"
    and r: "replaced db pid p new db1" by (auto simp: same_identity_def)
  have fin: "isTerminalPaymentStatus fin" using nm by (rule status_event_terminal)
  have life: "life new (attempt_set db pid)"
    using fin ns by (intro life_to_final [OF life_at [OF lok p] st un [unfolded uncertain_iff]]) (simp_all add: new)
  show ?thesis
    by (rule announce_final_pinv [OF r led _ _ _ life_ok_except [OF lok] life a])
      (use st nm ns in \<open>auto simp: new terminal_payment_cases\<close>)
qed

lemma cancel_guarded_pinv:
  assumes inv: "pinv db" and c: "cancel_guarded pid ctx db = Inr (r, db')"
  shows "pinv db'"
proof -
  obtain p where p: "find_payment pid db = Some p"
    using c by (cases "find_payment pid db") (simp_all add: cancel_guarded_def)
  consider "db' = db" | "\<not> isTerminalPaymentStatus (pay_status p)" "pay_status p \<noteq> P_closing"
    using c p by (auto simp: cancel_guarded_def split: if_splits)
  then show ?thesis
  proof cases
    case 2
    then have st: "pay_status p = P_created \<or> pay_status p = P_pending" by (auto simp: status_cases)
    have ok: "canTransitionPayment (pay_status p) P_cancelled" using st by (auto simp: canTransitionPayment_def)
    show ?thesis
    proof (cases "payment_is_uncertain db pid")
      case True
      with c p 2 ok have "update_payment pid (\<lambda>r. r\<lparr>pay_status := P_closing, pay_closingReason := Some Closing_cancel\<rparr>) db = Inr (r, db')"
        by (simp add: cancel_guarded_def)
      then show ?thesis by (rule to_closing_pinv [OF inv p st True])
    next
      case False
      with c p 2 ok obtain db1 u where
        u: "update_payment pid (\<lambda>r. r\<lparr>pay_status := P_cancelled, pay_closedAt := Some (now db)\<rparr>) db = Inr (r, db1)"
        and a: "announce_final ''payment.cancelled'' r ctx No_extra db1 = Inr (u, db')"
        by (auto simp: cancel_guarded_def tx_bind_Inr_iff)
      show ?thesis by (rule to_final_pinv [OF inv p st False u a]) simp_all
    qed
  qed (use inv in simp)
qed

lemma cancel_pinv:
  assumes inv: "pinv db" and c: "cancel env pid caller key ctx db = Inr (r, db')"
  shows "pinv db'"
proof -
  from c obtain res db1 where res: "reserve (cancel_reservation env pid caller key) db = Inr (res, db1)"
    and rest: "(case res of Replay _ rid \<Rightarrow> (\<lambda>db. case find_payment rid db of None \<Rightarrow> Inl (Pay_error 404 ''not_found'')
         | Some p \<Rightarrow> Inr ((p, True), db))
     | Reserved \<Rightarrow> tx_bind (cancel_guarded pid ctx) (\<lambda>p. tx_return (p, False))) db1 = Inr (r, db')"
    by (auto simp: cancel_def tx_bind_Inr_iff)
  have i1: "pinv db1" using reserve_pinv [OF res inv] by simp
  show ?thesis
    using rest i1 cancel_guarded_pinv [OF i1]
    by (cases res) (auto simp: tx_bind_Inr_iff split: option.splits)
qed

lemma trySweepOne_pinv:
  assumes inv: "pinv db" and c: "trySweepOne skipped pid ctx db = Inr (r, db')"
  shows "pinv db'"
proof (cases "db' = db")
  case False
  obtain p where sk: "\<not> skipped" and p: "find_payment pid db = Some p"
    using c False by (cases skipped; cases "find_payment pid db") (simp_all add: trySweepOne_def)
  have due: "sweep_due db p" using c p sk False by (auto simp: trySweepOne_def split: if_splits)
  have st: "pay_status p = P_created \<or> pay_status p = P_pending"
    using c p sk due False by (auto simp: trySweepOne_def split: if_splits)
  show ?thesis
  proof (cases "payment_is_uncertain db pid")
    case True
    with c p sk due st obtain x where
      "update_payment pid (\<lambda>r. r\<lparr>pay_status := P_closing, pay_closingReason := Some Closing_expiry\<rparr>) db = Inr (x, db')"
      by (auto simp: trySweepOne_def tx_bind_Inr_iff)
    then show ?thesis by (rule to_closing_pinv [OF inv p st True])
  next
    case un: False
    with c p sk due st obtain x db1 u where
      u: "update_payment pid (\<lambda>r. r\<lparr>pay_status := P_expired, pay_closedAt := Some (now db)\<rparr>) db = Inr (x, db1)"
      and a: "announce_final ''payment.expired'' x ctx (Extra_expiresAt (pay_expiresAt p)) db1 = Inr (u, db')"
      by (auto simp: trySweepOne_def tx_bind_Inr_iff)
    show ?thesis by (rule to_final_pinv [OF inv p st un u a]) simp_all
  qed
qed (use inv in simp)

end
