(* ===== verification/PaymentReach.thy ===== *)
theory PaymentReach
  imports PaymentSystem
begin

text \<open>
  The payment core as a transition system: every committed transaction of payment-service that can
  touch a payment, an attempt, a fact or a late success, with any parameters, is a step. The
  invariant \<open>pinv\<close> holds in every reachable database, and the shared contract of an invariant
  system is interpreted on these steps.
\<close>

section \<open>Creating a payment\<close>

lemma event_row_ok_payments:
  assumes "event_row_ok db e" "set (payments db) \<subseteq> set (payments db')"
  shows "event_row_ok db' e"
  using assms unfolding event_row_ok_def by blast

lemma no_rows_for_fresh:
  assumes "keys_ok db" "next_uuid db \<le> i"
  shows "attempt_set db i = {}" "\<not> has_event db i n"
proof -
  have "att_paymentId a < i" if "a \<in> set (attempts db)" for a
  proof -
    obtain p where "p \<in> set (payments db)" "att_paymentId a = pay_id p"
      using assms(1) \<open>a \<in> set (attempts db)\<close> unfolding keys_ok_def by blast
    moreover from this have "pay_id p < next_uuid db" using assms(1) unfolding keys_ok_def by blast
    ultimately show ?thesis using assms(2) by simp
  qed
  then show "attempt_set db i = {}" unfolding attempt_set_def by blast
  have "ob_id e \<noteq> Derived i n" if "e \<in> set (outbox db)" for e
  proof
    assume "ob_id e = Derived i n"
    then have "i < next_uuid db" using assms(1) that unfolding keys_ok_def by blast
    then show False using assms(2) by simp
  qed
  then show "\<not> has_event db i n" by (auto simp: has_event_iff) (metis (no_types))
qed

lemma life_created: "pay_status p = P_created \<Longrightarrow> pay_settledMethod p = None \<Longrightarrow> pay_succeededAttemptId p = None \<Longrightarrow>
    pay_closingReason p = None \<Longrightarrow> life p {}"
  by (simp add: life_def terminal_payment_cases closing_outcome_ok_def)

lemma insert_payment_pinv:
  assumes inv: "pinv db" and i: "i = next_uuid db" and p: "pay_id p = i" "pay_status p = P_created"
      "pay_settledMethod p = None" "pay_succeededAttemptId p = None" "pay_closingReason p = None"
    and db1: "db1 = db\<lparr>next_uuid := Suc i, payments := payments db @ [p]\<rparr>"
    and e: "emit_payment_event ''payment.created'' p ctx No_extra db1 = Inr (u, db2)"
  shows "pinv db2"
proof -
  have keys: "keys_ok db" and led: "ledger_ok db" and lok: "life_ok db" using inv by (auto simp: pinv_split)
  have ids: "\<forall>q \<in> set (payments db). pay_id q < i" using keys i by (simp add: keys_ok_def)
  have fresh: "i \<notin> pay_id ` set (payments db)" using ids by auto
  have db2: "db2 = enqueued (Derived i ''payment.created'') ''payment.created''
      (Payment_event (paymentEvent p ctx No_extra)) (ctx_correlationId ctx) db1" (is "_ = enqueued ?i ?n ?pl ?c db1")
    using e p by (simp add: emit_payment_event_Inr)
  have keys1: "keys_ok db1"
    using keys_ok_mono [OF keys, of "Suc i"] i fresh p(1) by (auto simp: keys_ok_def db1)
  then have keys2: "keys_ok db2" unfolding db2 by (intro enqueued_keys) (simp add: db1)
  have att: "attempt_set db2 = attempt_set db" by (simp add: db2 db1 attempt_set_def fun_eq_iff)
  have ps: "set (payments db2) = insert p (set (payments db))" by (simp add: db2 db1)
  have "life p (attempt_set db i)" using no_rows_for_fresh(1) [OF keys] i p by (simp add: life_created)
  then have life2: "life_ok db2" using lok p(1) by (simp add: life_ok_def ps att)
  have has: "has_event db2 j n \<longleftrightarrow> has_event db j n \<or> (j = i \<and> n = ''payment.created'')" for j n
    by (simp add: db2 db1)
  have ev: "events_ok db" using led by (simp add: ledger_ok_def)
  have old: "payment_events_ok db2 q" if "q \<in> set (payments db)" for q
  proof -
    have "pay_id q \<noteq> i" using ids that by auto
    then show ?thesis using ev that by (simp add: events_ok_def payment_events_ok_def has)
  qed
  have new: "payment_events_ok db2 p"
    unfolding payment_events_ok_def
  proof (intro conjI allI impI)
    fix st nm
    assume st: "status_event st = Some nm"
    then have "nm \<noteq> ''payment.created''" "st \<noteq> P_created" by (cases st; auto)+
    then show "has_event db2 (pay_id p) nm \<longleftrightarrow> pay_status p = st"
      using no_rows_for_fresh(2) [OF keys] i p by (simp add: has)
  qed (simp add: has p)
  have "event_row_ok db2 (outbox_row_of ?i ?n ?pl ?c db1)"
    unfolding event_row_ok_def
  proof (intro allI impI)
    fix pl
    assume "ob_payload (outbox_row_of ?i ?n ?pl ?c db1) = Payment_event pl"
    then have pl: "pl = paymentEvent p ctx No_extra" by (simp add: outbox_row_of_def)
    have "\<not> (status_event st = Some ''payment.created'')" for st by (cases st) simp_all
    then show "\<exists>q \<in> set (payments db2). pay_id q = pl_paymentId pl \<and>
        ob_id (outbox_row_of ?i ?n ?pl ?c db1) = Derived (pay_id q) (ob_name (outbox_row_of ?i ?n ?pl ?c db1)) \<and>
        pl_amount pl = pay_amount q \<and> pl_currency pl = pay_currency q \<and> pl_producer pl = pay_producer q \<and>
        pl_paymentRequestId pl = pay_paymentRequestId q \<and>
        (\<forall>st nm. status_event st = Some nm \<longrightarrow> ob_name (outbox_row_of ?i ?n ?pl ?c db1) = nm \<longrightarrow> pl_status pl = st)"
      by (intro bexI [of _ p]) (auto simp: pl paymentEvent_def outbox_row_of_def p ps)
  qed
  moreover have "event_row_ok db2 e" if "e \<in> set (outbox db)" for e
  proof (rule event_row_ok_payments)
    show "event_row_ok db e" using ev that unfolding events_ok_def by blast
    show "set (payments db) \<subseteq> set (payments db2)" unfolding ps by blast
  qed
  moreover have "set (outbox db2) \<subseteq> insert (outbox_row_of ?i ?n ?pl ?c db1) (set (outbox db))"
    by (auto simp: db2 set_outbox_enqueued db1)
  ultimately have "\<forall>e \<in> set (outbox db2). event_row_ok db2 e" by blast
  moreover have "unique_keys ob_id (outbox db2)" using ev by (simp add: db2 db1 events_ok_def)
  ultimately have "events_ok db2" using old new by (simp add: events_ok_def ps)
  moreover have "facts db2 = facts db" by (simp add: db2 db1)
  then have "settled_ok db2" using led p(2) by (simp add: ledger_ok_def settled_ok_def ps)
  moreover have "lates_ok db2"
  proof -
    have l: "lates_ok db" using led by (simp add: ledger_ok_def)
    have fs: "facts db2 = facts db" by (simp add: db2 db1)
    have "late_row_ok db2 x" if "late_row_ok db x" for x
      using that unfolding late_row_ok_def ps fs has by blast
    moreover have "late_successes db2 = late_successes db" by (simp add: db2 db1)
    ultimately show ?thesis using l by (simp add: lates_ok_def)
  qed
  ultimately show ?thesis using keys2 life2 by (simp add: pinv_split ledger_ok_def)
qed

lemma create_tx_pinv:
  assumes inv: "pinv db" and c: "create_tx producer dto payer seller org expires purpose db = Inr (r, db')"
  shows "pinv db'"
proof (cases "find_by_request producer (dto_paymentRequestId dto) db")
  case (Some e)
  with c inv show ?thesis by (auto simp: create_tx_def split: if_splits)
next
  case None
  let ?i = "next_uuid db" and ?ctx = "requestContext Act_service producer None None"
  let ?p = "new_payment (db\<lparr>next_uuid := Suc ?i\<rparr>) ?i producer dto payer seller org expires purpose"
  from c None obtain u db2 u' where
    e: "emit_payment_event ''payment.created'' ?p ?ctx No_extra (db\<lparr>next_uuid := Suc ?i, payments := payments db @ [?p]\<rparr>) = Inr (u, db2)"
    and a: "audit_record_payment ''payment.created'' ?p ?ctx db2 = Inr (u', db')"
    by (auto simp: create_tx_def tx_bind_Inr_iff Let_def)
  have "pinv db2" by (rule insert_payment_pinv [OF inv refl _ _ _ _ _ refl e]) (simp_all add: new_payment_def)
  moreover have "pay_id ?p < next_uuid db2"
    using emit_payment_event_select [OF e] by (simp add: new_payment_def)
  ultimately show ?thesis using audit_record_payment_quiet [OF a] quiet_pinv by blast
qed

section \<open>Facts and their conflicts\<close>

lemma append_fact_pinv:
  assumes inv: "pinv db" and i: "fact_id f = next_uuid db" and b: "fact_paymentId f \<noteq> None \<longrightarrow> fact_attemptId f \<noteq> None"
  shows "pinv (db\<lparr>next_uuid := Suc (next_uuid db), facts := facts db @ [f]\<rparr>)" (is "pinv ?db'")
proof -
  have keys: "keys_ok db" and led: "ledger_ok db" and lok: "life_ok db" using inv by (auto simp: pinv_split)
  have "\<forall>g \<in> set (facts db). fact_id g < next_uuid db" using keys by (simp add: keys_ok_def)
  then have "fact_id f \<notin> fact_id ` set (facts db)" using i by auto
  then have "keys_ok ?db'" using keys_ok_mono [OF keys, of "Suc (next_uuid db)"] i b by (simp add: keys_ok_def)
  moreover have "settled_ok ?db'" using led by (auto simp: ledger_ok_def settled_ok_def)
  moreover have "events_ok ?db'"
    using led by (simp add: ledger_ok_def events_ok_def payment_events_ok_def event_row_ok_def)
  moreover have "late_row_ok ?db' l" if "late_row_ok db l" for l
    using that by (auto simp: late_row_ok_def)
  then have "lates_ok ?db'" using led by (auto simp: ledger_ok_def lates_ok_def)
  moreover have "life_ok ?db'" using lok by (simp add: life_ok_def)
  ultimately show ?thesis by (simp add: pinv_split ledger_ok_def)
qed

lemma audit_mismatch_quiet:
  "audit_capture_mismatch fid pid aid src amt reason org ctx db = Inr (u, db') \<Longrightarrow> fid < next_uuid db \<Longrightarrow> quiet db db'"
  by (auto simp: audit_capture_mismatch_def enqueue_Inr deterministicEventId_def
      intro!: quiet_enqueued audit_name_not_payment)

lemma audit_conflict_quiet:
  "audit_fact_conflict cid fid pid aid src amt org ctx db = Inr (u, db') \<Longrightarrow> cid < next_uuid db \<Longrightarrow> quiet db db'"
  by (auto simp: audit_fact_conflict_def enqueue_Inr deterministicEventId_def
      intro!: quiet_enqueued audit_name_not_payment)

lemma insert_capture_fact_pinv:
  assumes inv: "pinv db" and c: "insert_capture_fact a txn amount currency at ctx db = Inr (r, db')"
  shows "pinv db'"
proof -
  define f where "f = capture_fact_row (db\<lparr>next_uuid := Suc (next_uuid db)\<rparr>) (next_uuid db) a txn amount currency at ctx"
  let ?db1 = "db\<lparr>next_uuid := Suc (next_uuid db), facts := facts db @ [f]\<rparr>"
  have f: "fact_id f = next_uuid db" by (simp add: f_def capture_fact_row_def)
  have i1: "pinv ?db1" by (rule append_fact_pinv [OF inv f]) (simp add: f_def capture_fact_row_def)
  consider "db' = ?db1"
    | reason org u where "audit_capture_mismatch (next_uuid db) (att_paymentId a) (att_id a) (ctx_source ctx) (JInt amount)
        reason org ctx ?db1 = Inr (u, db')"
    using c by (auto simp: insert_capture_fact_def tx_bind_Inr_iff Let_def f_def [symmetric] split: option.splits if_splits)
  then show ?thesis
  proof cases
    case 2
    from audit_mismatch_quiet [OF this] have "quiet ?db1 db'" by simp
    then show ?thesis by (rule quiet_pinv [OF _ i1])
  qed (use i1 in simp)
qed

lemma insert_conflict_pinv:
  assumes inv: "pinv db" and c: "insert_conflict f a amount currency ctx db = Inr (r, db')"
  shows "pinv db'"
proof -
  let ?db = "db\<lparr>next_uuid := Suc (next_uuid db)\<rparr>"
  have i: "pinv ?db" using pinv_next_uuid [OF inv, of "Suc (next_uuid db)"] by simp
  let ?c = "conflict_row_of (next_uuid db) f a amount currency ctx"
  let ?dc = "?db\<lparr>conflicts := conflicts ?db @ [?c]\<rparr>"
  let ?org = "case find_payment (att_paymentId a) ?db of None \<Rightarrow> None | Some p \<Rightarrow> pay_organizationId p"
  consider "db' = ?db" | "audit_fact_conflict (next_uuid db) (fact_id f) (att_paymentId a) (att_id a) (ctx_source ctx)
      (JInt amount) ?org ctx ?dc = Inr (r, db')"
    using c unfolding insert_conflict_def tx_bind_Inr_iff Let_def
    by (cases "list_ex (conflict_same ?c) (conflicts ?db)") simp_all
  then show ?thesis
  proof cases
    case 2
    from audit_conflict_quiet [OF this] have "quiet ?dc db'" by simp
    moreover have "pinv ?dc" using i by simp
    ultimately show ?thesis by (rule quiet_pinv)
  qed (use i in simp)
qed

lemma record_capture_tx_pinv:
  "pinv db \<Longrightarrow> record_capture_tx a txn amount currency at ctx db = Inr (r, db') \<Longrightarrow> pinv db'"
  by (auto simp: record_capture_tx_def tx_bind_Inr_iff split: option.splits if_splits
      dest: insert_capture_fact_pinv insert_conflict_pinv)

lemma recordQuarantine_pinv:
  assumes "pinv db" "recordQuarantine qo db = Inr (b, db')"
  shows "pinv db'"
proof -
  note fr = recordQuarantine_frame [OF assms(2)]
  have "pinv (db\<lparr>next_uuid := next_uuid db'\<rparr>)" using fr by (intro pinv_next_uuid [OF assms(1)]) simp
  then have "pinv (db\<lparr>next_uuid := next_uuid db', quarantines := quarantines db'\<rparr>)" by simp
  with fr show ?thesis by metis
qed

lemma recordCaptureFact_pinv:
  assumes "pinv db" "recordCaptureFact aid amount currency txn at ctx db = Inr (r, db')"
  shows "pinv db'"
  using assms
  by (auto simp: recordCaptureFact_def tx_bind_Inr_iff split: option.splits if_splits js_number.splits
      dest: record_capture_tx_pinv recordQuarantine_pinv)

section \<open>Late successes, recovery, claims\<close>

lemma recordLateSuccess_pinv:
  assumes inv: "pinv db" and c: "recordLateSuccess aid lo ctx factId db = Inr (n, db')"
  shows "pinv db'"
proof (cases "db' = db")
  case False
  let ?db = "db\<lparr>next_uuid := Suc (next_uuid db)\<rparr>"
  obtain p where p: "find_payment (lo_paymentId lo) db = Some p"
    using c by (cases "find_payment (lo_paymentId lo) db") (simp_all add: recordLateSuccess_def)
  obtain i where am: "lo_amount lo = JInt i"
    using c p False by (cases "lo_amount lo") (auto simp: recordLateSuccess_def split: if_splits)
  define l where "l = \<lparr>late_id = next_uuid db, late_paymentId = lo_paymentId lo, late_attemptId = aid,
    late_source = ctx_source ctx, late_webhookEventId = ctx_webhookEventId ctx, late_amount = i,
    late_currency = lo_currency lo, late_paymentStatus = pay_status p, late_factId = factId, late_recordedAt = now db\<rparr>"
  have lid: "late_id l = next_uuid db" by (simp add: l_def)
  obtain ins db1 where ins: "insert_late_success l ?db = Inr (ins, db1)"
    and rest: "(case ins of None \<Rightarrow> tx_return 0
       | Some l \<Rightarrow> tx_bind (emit_late_success_event l p ctx) (\<lambda>_.
           tx_bind (case late_factId l of None \<Rightarrow> tx_return ()
                    | Some fid \<Rightarrow> audit_late_success l fid p (observationActor (ctx_source ctx)) ctx)
             (\<lambda>_. tx_return 1))) db1 = Inr (n, db')"
    using c p am False
    by (auto simp: recordLateSuccess_def tx_bind_Inr_iff l_def [symmetric] simp del: One_nat_def split: if_splits)
  show ?thesis
  proof (cases ins)
    case None
    with ins rest have "db' = ?db" by (auto simp: insert_late_success_Inr Let_def split: if_splits)
    then show ?thesis using pinv_next_uuid [OF inv, of "Suc (next_uuid db)"] by simp
  next
    case (Some l')
    with rest obtain u db2 u' where e: "emit_late_success_event l' p ctx db1 = Inr (u, db2)"
      and a: "(case late_factId l' of None \<Rightarrow> tx_return ()
                    | Some fid \<Rightarrow> audit_late_success l' fid p (observationActor (ctx_source ctx)) ctx) db2 = Inr (u', db')"
      by (auto simp: tx_bind_Inr_iff)
    from late_write_quiet [OF ins [unfolded Some] lid e] have q: "quiet db db2" "late_id l' < next_uuid db2" by auto
    have "quiet db2 db'" using a q(2) by (auto split: option.splits intro: audit_late_success_quiet)
    with q(1) have "quiet db db'" by (rule quiet_trans)
    then show ?thesis by (rule quiet_pinv [OF _ inv])
  qed
qed (use inv in simp)

lemma processFact_pinv:
  assumes "pinv db" "processFact skipped fid pid ctx db = Inr (r, db')"
  shows "pinv db'"
  using assms
  by (auto simp: processFact_def tx_bind_Inr_iff split: option.splits if_splits
      intro: quiet_pinv recordQualifyingLateSuccesses_quiet)

lemma countAttempt_pinv: "pinv db \<Longrightarrow> pinv (countAttempt fid seen code failure db)"
  by (simp add: countAttempt_def Let_def split: option.splits)

lemma claim_attempt_pinv:
  assumes inv: "pinv db" and c: "claim_attempt aid db = Inr (r, db')"
  shows "pinv db'"
proof (cases "db' = db")
  case False
  then obtain a x where a: "find_attempt aid db = Some a"
    and u: "update_attempt aid (\<lambda>r. r\<lparr>att_resolveAfter := Some (now db + RESOLVE_LEASE_MS)\<rparr>) db = Inr (x, db')"
    using c by (auto simp: claim_attempt_def tx_bind_Inr_iff split: option.splits if_splits)
  have "attempt_ok a" using pinv_attempt_ok [OF inv] find_attempt_SomeD [OF a] by blast
  with swap_step [OF inv a u] show ?thesis by (simp add: attempt_ok_def attempt_unsettled_def)
qed (use inv in simp)

end
