(* ===== verification/PaymentWebhook.thy ===== *)
theory PaymentWebhook
  imports PaymentAttempt CaptureRecovery
begin

text \<open>
  The webhook pipeline (\<open>webhooks/webhook.service.ts\<close>) and its bounded retrier
  (\<open>webhooks/webhook-retrier.ts\<close>): verify, store once per provider event, process, mark. The
  definitions are those of a service without the optional refund and dispute modules (production):
  their notifications are stored and ignored. The provider adapter, the hash of a body, and the
  text of a uuid are parameters.
\<close>

section \<open>Messages\<close>

record parsed_body =
  pb_providerEventId :: string
  pb_type :: string
  pb_reference :: string
  pb_amount :: "js_number option"
  pb_currency :: "string option"
  pb_failureCode :: "string option"
  pb_failureClass :: "string option"
  pb_providerTransactionId :: "string option"
  pb_providerOccurredAt :: "instant option"
  pb_rawCurrency :: "raw_evidence option"
  pb_rawAmount :: "raw_evidence option"

datatype verify_result = Sig_invalid | Sig_malformed | Sig_parsed parsed_body

definition QUARANTINE_OUTCOME :: string where "QUARANTINE_OUTCOME = ''quarantined_invalid_currency''"
definition UNMATCHED_FACT_GRACE_MS :: int where "UNMATCHED_FACT_GRACE_MS = 5 * 60000"
definition WEBHOOK_RETRY_MAX_ATTEMPTS :: nat where "WEBHOOK_RETRY_MAX_ATTEMPTS = 10"

definition CONFLICT_CODES :: "string list" where
  "CONFLICT_CODES = [''provider_error'', ''invalid_state_transition'']"

definition toStatus :: "parsed_body \<Rightarrow> fetch_status option" where
  "toStatus pb =
     (if pb_type pb = ''payment.succeeded'' then
        (case (pb_amount pb, pb_currency pb) of
           (Some n, Some c) \<Rightarrow> Some (St_succeeded n c (pb_providerTransactionId pb) (pb_providerOccurredAt pb))
         | _ \<Rightarrow> None)
      else if pb_type pb = ''payment.failed'' then
        Some (St_failed (if pb_failureClass pb = Some ''retryable'' then FC_retryable else FC_terminal)
          (case pb_failureCode pb of Some c \<Rightarrow> c | None \<Rightarrow> ''unknown''))
      else if pb_type pb = ''payment.expired'' then Some St_expired
      else None)"

section \<open>The stored event\<close>

definition find_event :: "uuid \<Rightarrow> pdb \<Rightarrow> webhook_event_row option" where
  "find_event i db = get_row wh_id i (webhook_events db)"

definition find_provider_event :: "string \<Rightarrow> string \<Rightarrow> pdb \<Rightarrow> webhook_event_row option" where
  "find_provider_event provider eventId db =
     find (\<lambda>w. wh_provider w = provider \<and> wh_providerEventId w = eventId) (webhook_events db)"

text \<open>Transaction A: the deduplicated insert; \<open>None\<close> when the provider's event is stored already.\<close>

definition store_event :: "string \<Rightarrow> string \<Rightarrow> string \<Rightarrow> string \<Rightarrow> webhook_event_row option ptx" where
  "store_event provider eventId eventType rawBody db =
     (case find_provider_event provider eventId db of
        Some _ \<Rightarrow> Inr (None, db)
      | None \<Rightarrow>
          tx_bind fresh_uuid (\<lambda>i db1.
            let w = \<lparr>wh_id = i, wh_provider = provider, wh_providerEventId = eventId, wh_eventType = eventType,
                     wh_rawBody = rawBody, wh_receivedAt = now db1, wh_state = W_received, wh_outcome = None,
                     wh_attempts = 0, wh_matchedAttemptId = None, wh_processedAt = None\<rparr>
            in Inr (Some w, db1\<lparr>webhook_events := webhook_events db1 @ [w]\<rparr>)) db)"

definition marked :: "instant \<Rightarrow> webhook_state \<Rightarrow> string option \<Rightarrow> uuid option \<Rightarrow> webhook_event_row \<Rightarrow> webhook_event_row" where
  "marked t st outcome attempt w = w\<lparr>wh_state := st, wh_outcome := outcome, wh_attempts := wh_attempts w + 1,
     wh_processedAt := (if st \<in> {W_processed, W_ignored, W_conflict} then Some t else wh_processedAt w),
     wh_matchedAttemptId := js_or attempt (wh_matchedAttemptId w)\<rparr>"

definition markState :: "uuid \<Rightarrow> webhook_state \<Rightarrow> string option \<Rightarrow> uuid option \<Rightarrow> pdb \<Rightarrow> pdb" where
  "markState i st outcome attempt db =
     (case find_event i db of
        None \<Rightarrow> db
      | Some w \<Rightarrow> db\<lparr>webhook_events := set_row wh_id i (marked (now db) st outcome attempt w) (webhook_events db)\<rparr>)"

text \<open>Scoped to the provider whose signature was verified.\<close>

definition findAttemptByReference :: "pay_env \<Rightarrow> string \<Rightarrow> string \<Rightarrow> pdb \<Rightarrow> attempt_row option" where
  "findAttemptByReference env provider reference db =
     find (\<lambda>a. att_provider a = provider \<and>
             (att_providerTransactionId a = Some reference \<or> env_uuid_text env (att_id a) = reference)) (attempts db)"

section \<open>A verified movement that names no attempt\<close>

definition unmatched_due :: "pdb \<Rightarrow> uuid \<Rightarrow> bool" where
  "unmatched_due db i \<longleftrightarrow>
     list_ex (\<lambda>w. wh_id w = i \<and> wh_receivedAt w \<le> now db - UNMATCHED_FACT_GRACE_MS) (webhook_events db)"

definition unmatched_fact_row :: "pdb \<Rightarrow> uuid \<Rightarrow> uuid \<Rightarrow> string \<Rightarrow> fact_kind \<Rightarrow> string \<Rightarrow> int \<Rightarrow> string \<Rightarrow> instant option \<Rightarrow> fact_row" where
  "unmatched_fact_row db fid eventId provider kind txn amount currency at = \<lparr>
     fact_id = fid, fact_provider = provider, fact_providerTxnId = txn, fact_kind = kind, fact_paymentId = None,
     fact_attemptId = None, fact_amount = amount, fact_currency = currency, fact_liveMode = False,
     fact_source = Src_webhook, fact_webhookEventId = Some eventId, fact_providerOccurredAt = at,
     fact_observedAt = now db\<rparr>"

definition insert_unmatched :: "uuid \<Rightarrow> string \<Rightarrow> fact_kind \<Rightarrow> string \<Rightarrow> int \<Rightarrow> string \<Rightarrow> instant option \<Rightarrow> uuid option ptx" where
  "insert_unmatched eventId provider kind txn amount currency at db =
     (case find (\<lambda>f. fact_provider f = provider \<and> fact_providerTxnId f = txn \<and> fact_kind f = kind) (facts db) of
        Some f \<Rightarrow> Inr (Some (fact_id f), db)
      | None \<Rightarrow>
          tx_bind fresh_uuid (\<lambda>fid db1.
            Inr (Some fid, db1\<lparr>facts := facts db1 @ [unmatched_fact_row db1 fid eventId provider kind txn amount currency at]\<rparr>)) db)"

definition recordUnmatchedFact :: "uuid \<Rightarrow> string \<Rightarrow> fact_kind \<Rightarrow> parsed_body \<Rightarrow> uuid option ptx" where
  "recordUnmatchedFact eventId provider kind pb db =
     (case (pb_providerTransactionId pb, pb_amount pb, pb_currency pb) of
        (Some txn, Some (JInt i), Some currency) \<Rightarrow>
          if txn = '''' \<or> \<not> is_safe_integer (JInt i) \<or> i < 1 \<or> \<not> unmatched_due db eventId then Inr (None, db)
          else insert_unmatched eventId provider kind txn i currency (pb_providerOccurredAt pb) db
      | _ \<Rightarrow> Inr (None, db))"

section \<open>Processing\<close>

definition quarantineAnswer :: "provider_caps \<Rightarrow> nat" where
  "quarantineAnswer caps = (if cap_quarantineAcknowledgement caps then 200 else 500)"

definition currency_evidence :: "parsed_body \<Rightarrow> raw_evidence" where
  "currency_evidence pb =
     (case pb_rawCurrency pb of Some e \<Rightarrow> e
      | None \<Rightarrow> \<lparr>ev_present = (pb_currency pb \<noteq> None),
                 ev_value = (case pb_currency pb of None \<Rightarrow> RV_undefined | Some c \<Rightarrow> RV_text (utf16_units c))\<rparr>)"

definition amount_evidence :: "parsed_body \<Rightarrow> raw_evidence" where
  "amount_evidence pb =
     (case pb_rawAmount pb of Some e \<Rightarrow> e
      | None \<Rightarrow> \<lparr>ev_present = (pb_amount pb \<noteq> None),
                 ev_value = (case pb_amount pb of None \<Rightarrow> RV_undefined | Some n \<Rightarrow> RV_number n)\<rparr>)"

definition quarantine_write :: "uuid \<Rightarrow> provider_caps \<Rightarrow> parsed_body \<Rightarrow> currency_shape \<Rightarrow> attempt_row option \<Rightarrow> bool ptx" where
  "quarantine_write eventId caps pb shape attempt =
     tx_bind (recordQuarantine \<lparr>qo_provider = cap_id caps, qo_source = Src_webhook, qo_webhookEventId = Some eventId,
        qo_providerEventId = Some (pb_providerEventId pb), qo_attemptId = map_option att_id attempt,
        qo_paymentId = map_option att_paymentId attempt,
        qo_providerTxnId = (case pb_providerTransactionId pb of None \<Rightarrow> RV_undefined | Some t \<Rightarrow> RV_text (utf16_units t)),
        qo_currency = currency_evidence pb, qo_amount = amount_evidence pb, qo_currencyShape = shape\<rparr>) (\<lambda>created db.
       Inr (created, markState eventId W_conflict (Some QUARANTINE_OUTCOME) (map_option att_id attempt) db))"

definition webhook_quarantine :: "pay_env \<Rightarrow> uuid \<Rightarrow> provider_caps \<Rightarrow> parsed_body \<Rightarrow> currency_shape \<Rightarrow> pdb \<Rightarrow> nat \<times> pdb" where
  "webhook_quarantine env eventId caps pb shape db =
     (let attempt = findAttemptByReference env (cap_id caps) (pb_reference pb) db in
      case commit (quarantine_write eventId caps pb shape attempt) db of
        (Inr _, db') \<Rightarrow> (quarantineAnswer caps, db')
      | (Inl _, db') \<Rightarrow> (500, markState eventId W_failed (Some ''transient_error'') None db'))"

definition process_matched ::
  "pay_config \<Rightarrow> provider_caps \<Rightarrow> (pdb \<Rightarrow> pdb) \<Rightarrow> uuid \<Rightarrow> attempt_row \<Rightarrow> fetch_status \<Rightarrow> pdb \<Rightarrow> nat \<times> pdb" where
  "process_matched cfg caps others eventId a status db =
     (case applyStatus cfg caps others (att_id a) status (webhookContext (cap_id caps) eventId) db of
        (Inr _, db') \<Rightarrow> (200, markState eventId W_processed None (Some (att_id a)) db')
      | (Inl (Pay_error n code), db') \<Rightarrow>
          (if code \<in> set CONFLICT_CODES then (200, markState eventId W_conflict (Some code) (Some (att_id a)) db')
           else (500, markState eventId W_failed (Some ''transient_error'') (Some (att_id a)) db'))
      | (Inl _, db') \<Rightarrow> (500, markState eventId W_failed (Some ''transient_error'') (Some (att_id a)) db'))"

definition process_unmatched ::
  "pay_env \<Rightarrow> provider_caps \<Rightarrow> uuid \<Rightarrow> parsed_body \<Rightarrow> fetch_status \<Rightarrow> pdb \<Rightarrow> nat \<times> pdb" where
  "process_unmatched env caps eventId pb status db =
     (let (res, db') = (case status of
              St_succeeded _ _ _ _ \<Rightarrow> commit (recordUnmatchedFact eventId (cap_id caps) K_capture pb) db
            | _ \<Rightarrow> (Inr None, db));
          outcome = (case res of Inr (Some fid) \<Rightarrow> Some (''unmatched_fact:'' @ env_uuid_text env fid) | _ \<Rightarrow> None)
      in (200, markState eventId W_unmatched outcome None db'))"

definition process_body ::
  "pay_config \<Rightarrow> pay_env \<Rightarrow> provider_caps \<Rightarrow> (pdb \<Rightarrow> pdb) \<Rightarrow> uuid \<Rightarrow> parsed_body \<Rightarrow> pdb \<Rightarrow> nat \<times> pdb" where
  "process_body cfg env caps others eventId pb db =
     (case (if pb_type pb = ''payment.succeeded'' then classifyCurrencyEvidence (currency_evidence pb) else None) of
        Some shape \<Rightarrow> webhook_quarantine env eventId caps pb shape db
      | None \<Rightarrow>
          if starts_with ''refund.'' (pb_type pb)
            then (200, markState eventId W_ignored (Some ''refunds_not_enabled'') None db)
          else if starts_with ''payment.dispute.'' (pb_type pb)
            then (200, markState eventId W_ignored (Some ''disputes_not_enabled'') None db)
          else
            (case toStatus pb of
               None \<Rightarrow> (200, markState eventId W_ignored (Some (''unknown_event_type:'' @ pb_type pb)) None db)
             | Some status \<Rightarrow>
                 (case findAttemptByReference env (cap_id caps) (pb_reference pb) db of
                    None \<Rightarrow> process_unmatched env caps eventId pb status db
                  | Some a \<Rightarrow> process_matched cfg caps others eventId a status db)))"

definition process_parsed ::
  "pay_config \<Rightarrow> pay_env \<Rightarrow> provider_caps \<Rightarrow> (pdb \<Rightarrow> pdb) \<Rightarrow> uuid \<Rightarrow> parsed_body option \<Rightarrow> pdb \<Rightarrow> nat \<times> pdb" where
  "process_parsed cfg env caps others eventId parsed db =
     (case parsed of
        None \<Rightarrow> (200, markState eventId W_failed (Some ''malformed_body'') None db)
      | Some pb \<Rightarrow> process_body cfg env caps others eventId pb db)"

text \<open>\<open>receive\<close>: the HTTP status and the database. \<open>bodyHash\<close> is the SHA-256 of the raw body.\<close>

definition receive ::
  "pay_config \<Rightarrow> pay_env \<Rightarrow> provider_caps \<Rightarrow> (string \<Rightarrow> string) \<Rightarrow> (pdb \<Rightarrow> pdb) \<Rightarrow> string \<Rightarrow> verify_result \<Rightarrow> pdb \<Rightarrow> nat \<times> pdb" where
  "receive cfg env caps bodyHash others rawBody verified db =
     (if verified = Sig_invalid then (401, db)
      else
        (let parsed = (case verified of Sig_parsed pb \<Rightarrow> Some pb | _ \<Rightarrow> None);
             eventType = (case parsed of Some pb \<Rightarrow> pb_type pb | None \<Rightarrow> ''unknown'');
             eventId = (case parsed of Some pb \<Rightarrow> pb_providerEventId pb | None \<Rightarrow> ''unparseable:'' @ bodyHash rawBody)
         in case commit (store_event (cap_id caps) eventId eventType rawBody) db of
              (Inl _, db1) \<Rightarrow> (500, db1)
            | (Inr (Some w), db1) \<Rightarrow> process_parsed cfg env caps others (wh_id w) parsed (others db1)
            | (Inr None, db1) \<Rightarrow>
                (case find_provider_event (cap_id caps) eventId db1 of
                   None \<Rightarrow> (500, db1)
                 | Some w \<Rightarrow>
                     if wh_state w = W_conflict \<and> wh_outcome w = Some QUARANTINE_OUTCOME then (quarantineAnswer caps, db1)
                     else if wh_state w \<in> {W_processed, W_ignored, W_conflict} then (200, db1)
                     else process_parsed cfg env caps others (wh_id w) parsed (others db1))))"

section \<open>The retrier\<close>

definition WEBHOOK_RETRY_BATCH :: nat where "WEBHOOK_RETRY_BATCH = 100"
definition STUCK_THRESHOLD_MS :: int where "STUCK_THRESHOLD_MS = 10000"

text \<open>The condition RETRYABLE, with SQL's answer for a failed event without an outcome (not retried).\<close>

definition retryable :: "webhook_event_row \<Rightarrow> bool" where
  "retryable w \<longleftrightarrow> wh_state w \<in> {W_received, W_processing, W_failed, W_unmatched} \<and>
     (wh_state w = W_failed \<longrightarrow>
        (case wh_outcome w of None \<Rightarrow> False | Some o1 \<Rightarrow> o1 \<noteq> ''malformed_body'' \<and> o1 \<noteq> ''retries_exhausted''))"

definition retry_due_at :: "webhook_event_row \<Rightarrow> instant" where
  "retry_due_at w = wh_receivedAt w + STUCK_THRESHOLD_MS * 2 ^ min (wh_attempts w) 30"

definition retry_due :: "pdb \<Rightarrow> webhook_event_row \<Rightarrow> bool" where
  "retry_due db w \<longleftrightarrow> retry_due_at w \<le> now db"

definition exhaust_row :: "webhook_event_row \<Rightarrow> webhook_event_row" where
  "exhaust_row w = (if retryable w \<and> WEBHOOK_RETRY_MAX_ATTEMPTS \<le> wh_attempts w
     then w\<lparr>wh_state := W_failed, wh_outcome := Some ''retries_exhausted''\<rparr> else w)"

definition exhaust :: "pdb \<Rightarrow> nat \<times> pdb" where
  "exhaust db =
     (length (filter (\<lambda>w. retryable w \<and> WEBHOOK_RETRY_MAX_ATTEMPTS \<le> wh_attempts w) (webhook_events db)),
      db\<lparr>webhook_events := map exhaust_row (webhook_events db)\<rparr>)"

definition retry_candidate :: "pdb \<Rightarrow> webhook_event_row \<Rightarrow> bool" where
  "retry_candidate db w \<longleftrightarrow> retryable w \<and> wh_attempts w < WEBHOOK_RETRY_MAX_ATTEMPTS \<and> retry_due db w"

definition retry_scan :: "pdb \<Rightarrow> webhook_event_row list" where
  "retry_scan db = take WEBHOOK_RETRY_BATCH (sort_key wh_receivedAt (filter (retry_candidate db) (webhook_events db)))"

text \<open>
  One candidate: the claim re-reads the row and requires the attempt count this pass saw.
  \<open>parse\<close> is the adapter's \<open>parseStoredBody\<close>.
\<close>

definition retry_one ::
  "pay_config \<Rightarrow> pay_env \<Rightarrow> registry \<Rightarrow> (string \<Rightarrow> string \<Rightarrow> parsed_body option) \<Rightarrow> (uuid \<Rightarrow> bool) \<Rightarrow> (pdb \<Rightarrow> pdb) \<Rightarrow>
   webhook_event_row \<Rightarrow> pdb \<Rightarrow> bool \<times> pdb" where
  "retry_one cfg env reg parse held others w db =
     (case reg (wh_provider w) of
        None \<Rightarrow> (False, db)
      | Some caps \<Rightarrow>
          (case (if held (wh_id w) then None else find_event (wh_id w) db) of
             None \<Rightarrow> (False, db)
           | Some claimed \<Rightarrow>
               if wh_attempts claimed \<noteq> wh_attempts w \<or> \<not> retry_candidate db claimed then (False, db)
               else (True, snd (process_parsed cfg env caps others (wh_id claimed)
                                  (parse (wh_provider w) (wh_rawBody claimed)) db))))"

fun retry_all ::
  "pay_config \<Rightarrow> pay_env \<Rightarrow> registry \<Rightarrow> (string \<Rightarrow> string \<Rightarrow> parsed_body option) \<Rightarrow> (uuid \<Rightarrow> bool) \<Rightarrow> (pdb \<Rightarrow> pdb) \<Rightarrow>
   webhook_event_row list \<Rightarrow> pdb \<Rightarrow> nat \<times> pdb" where
  "retry_all cfg env reg parse held others [] db = (0, db)"
| "retry_all cfg env reg parse held others (w # ws) db =
     (let (done1, db1) = retry_one cfg env reg parse held others w db;
          (n, db2) = retry_all cfg env reg parse held others ws db1
      in (of_bool done1 + n, db2))"

definition retrier_drainOnce ::
  "pay_config \<Rightarrow> pay_env \<Rightarrow> registry \<Rightarrow> (string \<Rightarrow> string \<Rightarrow> parsed_body option) \<Rightarrow> (uuid \<Rightarrow> bool) \<Rightarrow> (pdb \<Rightarrow> pdb) \<Rightarrow>
   bool \<Rightarrow> pdb \<Rightarrow> (nat \<times> nat) \<times> pdb" where
  "retrier_drainOnce cfg env reg parse held others running db =
     (if running then ((0, 0), db)
      else
        (let (exhausted, db1) = exhaust db;
             (retried, db2) = retry_all cfg env reg parse held others (retry_scan db1) db1
         in ((retried, exhausted), db2)))"

section \<open>Lemmas\<close>

lemma markState_attempts:
  assumes "find_event i db = Some w"
  shows "find_event i (markState i st outcome attempt db) = Some (marked (now db) st outcome attempt w)"
  using assms get_row_SomeD [of wh_id i "webhook_events db" w]
  by (auto simp: markState_def find_event_def row_simps marked_def)

lemma exhaust_row_not_candidate:
  "WEBHOOK_RETRY_MAX_ATTEMPTS \<le> wh_attempts w \<Longrightarrow> \<not> retryable (exhaust_row w)"
  by (auto simp: exhaust_row_def retryable_def)

lemma exhaust_row_other: "\<not> (retryable w \<and> WEBHOOK_RETRY_MAX_ATTEMPTS \<le> wh_attempts w) \<Longrightarrow> exhaust_row w = w"
  unfolding exhaust_row_def by (rule if_not_P)

end
