(* ===== verification/PaymentMain.thy ===== *)
theory PaymentMain
  imports PaymentReach PaymentWebhook
begin

text \<open>
  The payment core as a step relation, its invariant interpreted on it, how rows evolve along any
  run, and the main properties: the truth of a final payment, of its events and of its late
  successes.
\<close>

section \<open>The steps\<close>

inductive pay_step :: "pay_config \<Rightarrow> pay_env \<Rightarrow> pdb \<Rightarrow> pdb \<Rightarrow> bool" for cfg env where
  step_create: "create_tx producer dto payer seller org expires purpose db = Inr (r1, db') \<Longrightarrow> pay_step cfg env db db'"
| step_cancel: "cancel env pid caller key ctx db = Inr (r2, db') \<Longrightarrow> pay_step cfg env db db'"
| step_T1: "start_T1 env prov pid caller key sdto db = Inr (r3, db') \<Longrightarrow> pay_step cfg env db db'"
| step_T2: "find_attempt aid db = Some a \<Longrightarrow> att_paymentId a = pid \<Longrightarrow>
     start_T2 cfg caps pid aid n result ctx db = Inr (r4, db') \<Longrightarrow> pay_step cfg env db db'"
| step_fact: "recordCaptureFact aid amount currency txn at ctx db = Inr (r5, db') \<Longrightarrow> pay_step cfg env db db'"
| step_decide: "apply_decide cfg caps aid status factId ctx db = Inr (r6, db') \<Longrightarrow> pay_step cfg env db db'"
| step_late: "recordLateSuccess aid lo ctx factId db = Inr (r7, db') \<Longrightarrow> pay_step cfg env db db'"
| step_sweep: "trySweepOne skipped pid ctx db = Inr (r8, db') \<Longrightarrow> pay_step cfg env db db'"
| step_recover: "processFact skipped fid pid ctx db = Inr (r9, db') \<Longrightarrow> pay_step cfg env db db'"
| step_claim: "claim_attempt aid db = Inr (r10, db') \<Longrightarrow> pay_step cfg env db db'"
| step_quarantine: "recordQuarantine qo db = Inr (r11, db') \<Longrightarrow> pay_step cfg env db db'"
| step_store: "store_event prov eventId eventType rawBody db = Inr (r12, db') \<Longrightarrow> pay_step cfg env db db'"
| step_unmatched: "recordUnmatchedFact eid prov kind pb db = Inr (r13, db') \<Longrightarrow> pay_step cfg env db db'"
| step_count: "find_recovery fid db = None \<longrightarrow> seen = 0 \<Longrightarrow> pay_step cfg env db (countAttempt fid seen code failure db)"
| step_mark: "pay_step cfg env db (markState eid st outcome attempt db)"
| step_exhaust: "pay_step cfg env db (snd (exhaust db))"
| step_tick: "now db \<le> t \<Longrightarrow> pay_step cfg env db (db\<lparr>now := t\<rparr>)"

lemma store_event_pinv: "pinv db \<Longrightarrow> store_event prov eid ty body db = Inr (r, db') \<Longrightarrow> pinv db'"
  by (auto simp: store_event_def tx_bind_Inr_iff Let_def pinv_next_uuid split: option.splits)

lemma recordUnmatchedFact_pinv:
  assumes inv: "pinv db" and c: "recordUnmatchedFact eid prov kind pb db = Inr (r, db')"
  shows "pinv db'"
proof (cases "db' = db")
  case False
  then obtain txn i currency where u: "insert_unmatched eid prov kind txn i currency (pb_providerOccurredAt pb) db = Inr (r, db')"
    using c by (auto simp: recordUnmatchedFact_def split: option.splits js_number.splits if_splits)
  define f where "f = unmatched_fact_row (db\<lparr>next_uuid := Suc (next_uuid db)\<rparr>) (next_uuid db) eid prov kind txn i currency
    (pb_providerOccurredAt pb)"
  have "db' = db\<lparr>next_uuid := Suc (next_uuid db), facts := facts db @ [f]\<rparr>"
    using u False by (auto simp: insert_unmatched_def tx_bind_Inr_iff f_def split: option.splits)
  moreover have "fact_id f = next_uuid db" by (simp add: f_def unmatched_fact_row_def)
  moreover have "fact_paymentId f = None" by (simp add: f_def unmatched_fact_row_def)
  ultimately show ?thesis using append_fact_pinv [OF inv] by simp
qed (use inv in simp)

lemma pay_step_pinv:
  assumes "pay_step cfg env db db'" and "pinv db"
  shows "pinv db'"
  using assms
proof (cases rule: pay_step.cases)
  case step_mark
  then show ?thesis using assms(2) by (auto simp: markState_def split: option.splits)
qed (auto intro: create_tx_pinv cancel_pinv start_T1_pinv start_T2_pinv recordCaptureFact_pinv apply_decide_pinv
      recordLateSuccess_pinv trySweepOne_pinv processFact_pinv claim_attempt_pinv recordQuarantine_pinv
      store_event_pinv recordUnmatchedFact_pinv countAttempt_pinv simp: exhaust_def)

interpretation payment_core: invariant_system "pay_step cfg env" "empty_pdb t" pinv for cfg env t
proof
  show "pinv (empty_pdb t)" by (rule pinv_empty)
  show "pinv db \<Longrightarrow> pay_step cfg env db db' \<Longrightarrow> pinv db'" for db db' by (rule pay_step_pinv)
qed

definition reachable :: "pay_config \<Rightarrow> pay_env \<Rightarrow> pdb \<Rightarrow> bool" where
  "reachable cfg env db \<longleftrightarrow> (\<exists>t. reaches (pay_step cfg env) (empty_pdb t) db)"

lemma reachable_pinv: "reachable cfg env db \<Longrightarrow> pinv db"
  by (auto simp: reachable_def dest: payment_core.inv_reachable)

end
