(* ===== verification/PaymentEvolve.thy ===== *)
theory PaymentEvolve
  imports PaymentMain "HOL-Library.Sublist"
begin

text \<open>
  How the rows of the payment database evolve along any run: a payment keeps its terms and moves
  along the edges of its state machine, an attempt keeps its payment and moves along its own edges,
  facts, conflicts, late successes and outbox rows are only appended.
\<close>

section \<open>The tables and the triggers agree\<close>

lemma payment_edges_iff: "(a, b) \<in> set payment_trigger_edges \<longleftrightarrow> canTransitionPayment a b"
  by (cases a; cases b) (simp_all add: payment_trigger_edges_def canTransitionPayment_def)

lemma attempt_edges_iff: "(a, b) \<in> set attempt_trigger_edges \<longleftrightarrow> b \<in> set (attempt_allowed a)"
  by (cases a; cases b) (simp_all add: attempt_trigger_edges_def)

section \<open>Evolution\<close>

text \<open>What never changes in a payment: everything but the fields of its outcome.\<close>

definition terms :: "payment_row \<Rightarrow> payment_row" where
  "terms p = p\<lparr>pay_status := P_created, pay_settledMethod := None, pay_succeededAttemptId := None, pay_revision := 0,
     pay_updatedAt := 0, pay_closedAt := None, pay_closingReason := None, pay_closingSince := None\<rparr>"

definition attempt_terms :: "attempt_row \<Rightarrow> uuid \<times> uuid \<times> nat \<times> string \<times> bool option" where
  "attempt_terms a = (att_id a, att_paymentId a, att_attemptNumber a, att_provider a, att_liveMode a)"

definition payment_path :: "payment_status \<Rightarrow> payment_status \<Rightarrow> bool" where
  "payment_path = reaches canTransitionPayment"

definition attempt_path :: "attempt_status \<Rightarrow> attempt_status \<Rightarrow> bool" where
  "attempt_path = reaches (\<lambda>a b. \<exists>inferred. canTransitionAttempt a b inferred)"

text \<open>One attempt per provider transaction, as the unique index has it.\<close>

definition txns_unique :: "pdb \<Rightarrow> bool" where
  "txns_unique db \<longleftrightarrow> (\<forall>a \<in> set (attempts db). \<forall>b \<in> set (attempts db).
     att_providerTransactionId a \<noteq> None \<longrightarrow> att_provider a = att_provider b \<longrightarrow>
     att_providerTransactionId a = att_providerTransactionId b \<longrightarrow> att_id a = att_id b)"

text \<open>One payment per request of a producer.\<close>

definition request_key :: "payment_row \<Rightarrow> string \<times> string" where
  "request_key p = (pay_producer p, pay_paymentRequestId p)"

definition requests_unique :: "pdb \<Rightarrow> bool" where
  "requests_unique db \<longleftrightarrow> (\<forall>p \<in> set (payments db). \<forall>q \<in> set (payments db). request_key p = request_key q \<longrightarrow> pay_id p = pay_id q)"

definition requests_grow :: "pdb \<Rightarrow> pdb \<Rightarrow> bool" where
  "requests_grow db db' \<longleftrightarrow> (requests_unique db \<longrightarrow> requests_unique db')"

lemma requests_grow_same:
  assumes "payments db' = payments db" shows "requests_grow db db'"
  unfolding requests_grow_def requests_unique_def assms by (rule impI)

lemma requests_grow_trans: "requests_grow x y \<Longrightarrow> requests_grow y z \<Longrightarrow> requests_grow x z"
  by (simp add: requests_grow_def)

lemma requests_unique_rows:
  assumes "\<And>x. x \<in> set (payments db') \<Longrightarrow> \<exists>y \<in> set (payments db). pay_id y = pay_id x \<and> request_key y = request_key x"
  shows "requests_grow db db'"
  unfolding requests_grow_def requests_unique_def
proof (intro impI ballI)
  fix x y
  assume u: "\<forall>p \<in> set (payments db). \<forall>q \<in> set (payments db). request_key p = request_key q \<longrightarrow> pay_id p = pay_id q"
    and x: "x \<in> set (payments db')" and y: "y \<in> set (payments db')" and k: "request_key x = request_key y"
  obtain a b where a: "a \<in> set (payments db)" "pay_id a = pay_id x" "request_key a = request_key x"
    and b: "b \<in> set (payments db)" "pay_id b = pay_id y" "request_key b = request_key y"
    using assms x y by blast
  have "request_key a = request_key b" unfolding a(3) b(3) by (rule k)
  with u a(1) b(1) have "pay_id a = pay_id b" by blast
  then show "pay_id x = pay_id y" unfolding a(2) b(2) .
qed

lemma terms_request: "terms p = terms q \<Longrightarrow> request_key p = request_key q"
  by (cases p; cases q) (simp add: terms_def request_key_def)

text \<open>
  The retry state of a recovered fact: at most twelve attempts, terminal exactly when they are used
  up or the fact is refused; it is never lost, its counter never goes down, a terminal row is kept.
\<close>

definition recovery_row_ok :: "recovery_row \<Rightarrow> bool" where
  "recovery_row_ok s \<longleftrightarrow>
     1 \<le> rec_attempts s \<and> rec_attempts s \<le> CAPTURE_RECOVERY_MAX_ATTEMPTS \<and>
     (rec_status s = RS_active \<longrightarrow> rec_attempts s < CAPTURE_RECOVERY_MAX_ATTEMPTS) \<and>
     (rec_status s = RS_active \<longleftrightarrow> rec_workAfter s \<noteq> None) \<and> (rec_status s = RS_active \<longleftrightarrow> rec_endedAt s = None)"

definition recovery_ok :: "pdb \<Rightarrow> bool" where
  "recovery_ok db \<longleftrightarrow> (\<forall>s \<in> set (recovery_states db). recovery_row_ok s)"

definition recovery_grows :: "pdb \<Rightarrow> pdb \<Rightarrow> bool" where
  "recovery_grows db db' \<longleftrightarrow>
     (\<forall>fid s. find_recovery fid db = Some s \<longrightarrow> (\<exists>s'. find_recovery fid db' = Some s' \<and>
        rec_attempts s \<le> rec_attempts s' \<and> (rec_status s \<noteq> RS_active \<longrightarrow> s' = s))) \<and>
     (recovery_ok db \<longrightarrow> recovery_ok db')"

lemma recovery_grows_same: "recovery_states db' = recovery_states db \<Longrightarrow> recovery_grows db db'"
  by (simp add: recovery_grows_def find_recovery_def recovery_ok_def)

lemma recovery_grows_trans:
  assumes a: "recovery_grows x y" and b: "recovery_grows y z"
  shows "recovery_grows x z"
  unfolding recovery_grows_def
proof (intro conjI allI impI)
  fix fid s
  assume "find_recovery fid x = Some s"
  with a obtain s1 where s1: "find_recovery fid y = Some s1" "rec_attempts s \<le> rec_attempts s1"
    "rec_status s \<noteq> RS_active \<longrightarrow> s1 = s" unfolding recovery_grows_def by blast
  with b obtain s2 where "find_recovery fid z = Some s2" "rec_attempts s1 \<le> rec_attempts s2"
    "rec_status s1 \<noteq> RS_active \<longrightarrow> s2 = s1" unfolding recovery_grows_def by blast
  with s1 show "\<exists>s'. find_recovery fid z = Some s' \<and> rec_attempts s \<le> rec_attempts s' \<and> (rec_status s \<noteq> RS_active \<longrightarrow> s' = s)"
    by (intro exI [of _ s2]) auto
qed (use a b in \<open>simp add: recovery_grows_def\<close>)

lemma recovery_row_after_ok:
  "seen < CAPTURE_RECOVERY_MAX_ATTEMPTS \<Longrightarrow> recovery_row_ok (recovery_row_after db fid seen code failure)"
  by (auto simp: recovery_row_ok_def recovery_row_after_def recovery_verdict_def Let_def)

lemma countAttempt_grows:
  assumes seen: "find_recovery fid db = None \<longrightarrow> seen = 0"
  shows "recovery_grows db (countAttempt fid seen code failure db)"
proof (cases "find_recovery fid db")
  case None
  then have e: "countAttempt fid seen code failure db
      = db\<lparr>recovery_states := recovery_states db @ [recovery_row_after db fid seen code failure]\<rparr>"
    by (simp add: countAttempt_def Let_def)
  have "recovery_row_ok (recovery_row_after db fid seen code failure)"
    using seen None by (intro recovery_row_after_ok) (simp add: CAPTURE_RECOVERY_MAX_ATTEMPTS_def)
  then show ?thesis
    unfolding e recovery_grows_def by (auto simp: recovery_ok_def find_recovery_def row_simps)
next
  case (Some s)
  show ?thesis
  proof (cases "rec_attempts s = seen \<and> rec_status s = RS_active")
    case False
    with Some have "countAttempt fid seen code failure db = db" by (auto simp: countAttempt_def Let_def)
    then show ?thesis by (simp add: recovery_grows_same)
  next
    case True
    let ?row = "recovery_row_after db fid seen code failure"
    have e: "countAttempt fid seen code failure db = db\<lparr>recovery_states := set_row rec_factId fid ?row (recovery_states db)\<rparr>"
      using Some True by (simp add: countAttempt_def Let_def)
    have k: "rec_factId ?row = fid" "rec_attempts ?row = seen + 1" by (simp_all add: recovery_row_after_def Let_def)
    have in': "fid \<in> rec_factId ` set (recovery_states db)" by (rule find_recovery_key [OF Some])
    have f: "find_recovery j (countAttempt fid seen code failure db) = (if j = fid then Some ?row else find_recovery j db)" for j
      unfolding e using in' k by (simp add: find_recovery_def row_simps)
    have s: "s \<in> set (recovery_states db)" using Some get_row_SomeD [of rec_factId fid] by (auto simp: find_recovery_def)
    have "recovery_ok (countAttempt fid seen code failure db)" if ok: "recovery_ok db"
    proof -
      have "seen < CAPTURE_RECOVERY_MAX_ATTEMPTS" using ok s True by (auto simp: recovery_ok_def recovery_row_ok_def)
      then show ?thesis
        using ok in' recovery_row_after_ok unfolding e recovery_ok_def by (auto simp: set_set_row)
    qed
    then show ?thesis unfolding recovery_grows_def f using Some True k by auto
  qed
qed

text \<open>A stored notification is never lost or rewritten, and its attempt counter never goes down.\<close>

definition same_notice :: "webhook_event_row \<Rightarrow> webhook_event_row \<Rightarrow> bool" where
  "same_notice w v \<longleftrightarrow> wh_id v = wh_id w \<and> wh_provider v = wh_provider w \<and> wh_providerEventId v = wh_providerEventId w \<and>
     wh_eventType v = wh_eventType w \<and> wh_rawBody v = wh_rawBody w \<and> wh_receivedAt v = wh_receivedAt w \<and>
     wh_attempts w \<le> wh_attempts v"

definition webhooks_grow :: "pdb \<Rightarrow> pdb \<Rightarrow> bool" where
  "webhooks_grow db db' \<longleftrightarrow>
     (\<forall>i w. find_event i db = Some w \<longrightarrow> (\<exists>v. find_event i db' = Some v \<and> same_notice w v))"

lemma same_notice_refl [simp]: "same_notice w w"
  by (simp add: same_notice_def)

lemma webhooks_grow_same: "webhook_events db' = webhook_events db \<Longrightarrow> webhooks_grow db db'"
  by (simp add: webhooks_grow_def find_event_def)

lemma webhooks_grow_trans:
  assumes a: "webhooks_grow x y" and b: "webhooks_grow y z"
  shows "webhooks_grow x z"
  unfolding webhooks_grow_def
proof (intro allI impI)
  fix i w
  assume "find_event i x = Some w"
  with a obtain v where "find_event i y = Some v" "same_notice w v" unfolding webhooks_grow_def by blast
  moreover from this b obtain u where "find_event i z = Some u" "same_notice v u" unfolding webhooks_grow_def by blast
  ultimately show "\<exists>v. find_event i z = Some v \<and> same_notice w v" by (auto simp: same_notice_def)
qed

lemma webhooks_append: "webhook_events db' = webhook_events db @ [w] \<Longrightarrow> webhooks_grow db db'"
  by (auto simp: webhooks_grow_def find_event_def row_simps)

lemma markState_grows: "webhooks_grow db (markState eid st outcome attempt db)"
proof (cases "find_event eid db")
  case None
  then show ?thesis by (simp add: markState_def webhooks_grow_same)
next
  case (Some w)
  have "find_event i (markState eid st outcome attempt db)
      = (if i = eid then Some (marked (now db) st outcome attempt w) else find_event i db)" for i
  proof (cases "i = eid")
    case True
    then show ?thesis using markState_attempts [OF Some] by simp
  next
    case False
    have "wh_id (marked (now db) st outcome attempt w) = eid"
      using Some get_row_SomeD [of wh_id eid] by (auto simp: find_event_def marked_def)
    then show ?thesis using False Some by (simp add: markState_def find_event_def row_simps)
  qed
  then show ?thesis using Some by (simp add: webhooks_grow_def) (simp add: same_notice_def marked_def)
qed

lemma exhaust_grows: "webhooks_grow db (snd (exhaust db))"
proof -
  have k: "wh_id (exhaust_row w) = wh_id w" for w by (simp add: exhaust_row_def)
  have "get_row wh_id i (map exhaust_row ws) = map_option exhaust_row (get_row wh_id i ws)" for i ws
    by (induction ws) (simp_all add: get_row_def k)
  then show ?thesis
    by (simp add: webhooks_grow_def find_event_def exhaust_def) (simp add: same_notice_def exhaust_row_def)
qed

definition evolves :: "pdb \<Rightarrow> pdb \<Rightarrow> bool" where
  "evolves db db' \<longleftrightarrow>
     (\<forall>pid p. find_payment pid db = Some p \<longrightarrow> (\<exists>p'. find_payment pid db' = Some p' \<and> terms p' = terms p \<and>
        payment_path (pay_status p) (pay_status p') \<and> pay_revision p \<le> pay_revision p')) \<and>
     (\<forall>aid a. find_attempt aid db = Some a \<longrightarrow> (\<exists>a'. find_attempt aid db' = Some a' \<and>
        attempt_terms a' = attempt_terms a \<and> attempt_path (att_status a) (att_status a'))) \<and>
     prefix (facts db) (facts db') \<and> prefix (conflicts db) (conflicts db') \<and>
     prefix (late_successes db) (late_successes db') \<and> prefix (outbox db) (outbox db') \<and>
     (txns_unique db \<longrightarrow> txns_unique db') \<and> requests_grow db db' \<and> recovery_grows db db' \<and> webhooks_grow db db'"

lemma payment_path_refl [simp]: "payment_path a a"
  by (simp add: payment_path_def reaches.here)

lemma attempt_path_refl [simp]: "attempt_path a a"
  by (simp add: attempt_path_def reaches.here)

lemma evolves_refl [simp, intro]: "evolves db db"
  by (simp add: evolves_def requests_grow_same recovery_grows_same webhooks_grow_same)

lemma evolves_trans:
  assumes a: "evolves x y" and b: "evolves y z"
  shows "evolves x z"
  unfolding evolves_def
proof (intro conjI allI impI)
  fix pid p
  assume "find_payment pid x = Some p"
  with a obtain q where q: "find_payment pid y = Some q" "terms q = terms p" "payment_path (pay_status p) (pay_status q)"
    "pay_revision p \<le> pay_revision q" unfolding evolves_def by blast
  with b obtain r where "find_payment pid z = Some r" "terms r = terms q" "payment_path (pay_status q) (pay_status r)"
    "pay_revision q \<le> pay_revision r" unfolding evolves_def by blast
  with q show "\<exists>p'. find_payment pid z = Some p' \<and> terms p' = terms p \<and> payment_path (pay_status p) (pay_status p') \<and>
      pay_revision p \<le> pay_revision p'"
    unfolding payment_path_def by (auto intro: reaches_trans)
next
  fix aid a'
  assume "find_attempt aid x = Some a'"
  with a obtain q where q: "find_attempt aid y = Some q" "attempt_terms q = attempt_terms a'"
    "attempt_path (att_status a') (att_status q)" unfolding evolves_def by blast
  with b obtain r where "find_attempt aid z = Some r" "attempt_terms r = attempt_terms q"
    "attempt_path (att_status q) (att_status r)" unfolding evolves_def by blast
  with q show "\<exists>r. find_attempt aid z = Some r \<and> attempt_terms r = attempt_terms a' \<and>
      attempt_path (att_status a') (att_status r)"
    unfolding attempt_path_def by (auto intro: reaches_trans)
qed (use a b in \<open>auto simp: evolves_def intro: prefix_order.trans requests_grow_trans recovery_grows_trans webhooks_grow_trans\<close>)

interpretation evo: tx_relation evolves
  by unfold_locales (rule evolves_refl, erule (1) evolves_trans)

section \<open>The primitives\<close>

lemma same_rows_grow:
  assumes "payments db' = payments db" "attempts db' = attempts db"
    "prefix (facts db) (facts db')" "prefix (conflicts db) (conflicts db')"
    "prefix (late_successes db) (late_successes db')" "prefix (outbox db) (outbox db')"
    "recovery_grows db db'" "webhooks_grow db db'"
  shows "evolves db db'"
  using assms by (simp add: evolves_def find_payment_def find_attempt_def txns_unique_def requests_grow_same)

lemma same_rows_evolves:
  assumes "payments db' = payments db" "attempts db' = attempts db"
    "prefix (facts db) (facts db')" "prefix (conflicts db) (conflicts db')"
    "prefix (late_successes db) (late_successes db')" "prefix (outbox db) (outbox db')"
    "recovery_states db' = recovery_states db" "webhook_events db' = webhook_events db"
  shows "evolves db db'"
  using assms(1-6) recovery_grows_same [OF assms(7)] webhooks_grow_same [OF assms(8)] by (rule same_rows_grow)

lemma terms_touch: "terms (payment_touch db old new) = terms new"
  by (simp add: terms_def payment_touch_def)

lemma terms_id: "terms p = terms q \<Longrightarrow> pay_id p = pay_id q"
  by (cases p; cases q) (simp add: terms_def)

lemma keeps_update_payment [intro]:
  assumes f: "\<And>r. terms (f r) = terms r"
  shows "evo.keeps db (update_payment pid f db)"
  unfolding evo.keeps_def
proof (intro allI impI)
  fix new db'
  assume "update_payment pid f db = Inr (new, db')"
  then obtain old where old: "find_payment pid db = Some old" and new: "new = payment_touch db old (f old)"
    and ok: "payment_update_error db old new = None" and db': "db' = db\<lparr>payments := set_row pay_id pid new (payments db)\<rparr>"
    by (auto simp: update_payment_Inr)
  have t: "terms new = terms old" by (simp add: new terms_touch f)
  have key: "pay_id new = pid" using terms_id [OF t] find_payment_SomeD [OF old] by simp
  have in': "pid \<in> pay_id ` set (payments db)" using find_payment_SomeD [OF old] by force
  have find': "find_payment i db' = (if i = pid then Some new else find_payment i db)" for i
    using in' key by (simp add: find_payment_def db' row_simps)
  have "payment_path (pay_status old) (pay_status new)"
  proof (cases "pay_status new = pay_status old")
    case False
    with ok have "(pay_status old, pay_status new) \<in> set payment_trigger_edges"
      by (auto simp: payment_update_error_def payment_status_transition_guard_def split: if_splits)
    then show ?thesis unfolding payment_path_def payment_edges_iff by (rule reaches_one)
  qed simp
  moreover have "requests_grow db db'"
  proof (rule requests_unique_rows)
    fix x
    assume "x \<in> set (payments db')"
    then have "x \<in> set (payments db) \<or> x = new" using in' by (auto simp: db' set_set_row)
    then show "\<exists>y \<in> set (payments db). pay_id y = pay_id x \<and> request_key y = request_key x"
      using find_payment_SomeD [OF old] key terms_request [OF t] by auto
  qed
  moreover have "pay_revision old \<le> pay_revision new" by (simp add: new payment_touch_def)
  ultimately show "evolves db db'"
    using old t by (simp add: evolves_def find') (simp add: db' find_attempt_def txns_unique_def recovery_grows_same webhooks_grow_same)
qed

lemma keeps_update_attempt [intro]:
  assumes f: "\<And>r. attempt_terms (f r) = attempt_terms r"
  shows "evo.keeps db (update_attempt aid f db)"
  unfolding evo.keeps_def
proof (intro allI impI)
  fix new db'
  assume "update_attempt aid f db = Inr (new, db')"
  then obtain old where old: "find_attempt aid db = Some old" and new: "new = f old"
    and ok: "attempt_update_error db old new = None" and db': "db' = db\<lparr>attempts := set_row att_id aid new (attempts db)\<rparr>"
    by (auto simp: update_attempt_Inr)
  have t: "attempt_terms new = attempt_terms old" by (simp add: new f)
  then have key: "att_id new = aid" using find_attempt_SomeD [OF old] by (simp add: attempt_terms_def)
  have in': "aid \<in> att_id ` set (attempts db)" using find_attempt_SomeD [OF old] by force
  have find': "find_attempt i db' = (if i = aid then Some new else find_attempt i db)" for i
    using in' key by (simp add: find_attempt_def db' row_simps)
  have path: "attempt_path (att_status old) (att_status new)"
  proof (cases "att_status new = att_status old")
    case False
    with ok have g: "attempt_status_transition_guard old new"
      by (auto simp: attempt_update_error_def split: if_splits)
    then have "canTransitionAttempt (att_status old) (att_status new) True"
      by (auto simp: attempt_status_transition_guard_def attempt_edges_iff canTransitionAttempt_def)
    then show ?thesis unfolding attempt_path_def by (intro reaches_one exI)
  qed simp
  have txn: "txns_unique db'" if u: "txns_unique db"
  proof -
    have S: "set (attempts db') = {x \<in> set (attempts db). att_id x \<noteq> aid} \<union> {new}"
      using in' by (auto simp: db' set_set_row)
    have idx: "attempt_indexes_ok db new" using ok by (auto simp: attempt_update_error_def split: if_splits)
    have other: "att_id x = att_id new" if "x \<in> set (attempts db)" "att_providerTransactionId new \<noteq> None"
        "att_provider x = att_provider new" "att_providerTransactionId x = att_providerTransactionId new" for x
      using idx that unfolding attempt_indexes_ok_def list_ex_iff by blast
    show ?thesis
      unfolding txns_unique_def
    proof (intro ballI impI)
      fix x y
      assume x: "x \<in> set (attempts db')" and y: "y \<in> set (attempts db')"
        and n: "att_providerTransactionId x \<noteq> None" and e: "att_provider x = att_provider y"
          "att_providerTransactionId x = att_providerTransactionId y"
      consider "x = new" "y = new" | "x = new" "y \<in> set (attempts db)" | "y = new" "x \<in> set (attempts db)"
        | "x \<in> set (attempts db)" "y \<in> set (attempts db)" using x y S by blast
      then show "att_id x = att_id y"
      proof cases
        case 2
        have "att_id y = att_id new"
          by (rule other [OF 2(2)]) (use n e 2(1) in \<open>blast intro: sym\<close>)+
        then show ?thesis unfolding 2(1) by (rule sym)
      next
        case 3
        have "att_id x = att_id new"
        proof (rule other [OF 3(2)])
          show "att_providerTransactionId new \<noteq> None" using n e(2) 3(1) by metis
        qed (use e 3(1) in blast)+
        then show ?thesis unfolding 3(1) .
      next
        case 4
        then show ?thesis using u n e unfolding txns_unique_def by blast
      qed simp
    qed
  qed
  have ps: "find_payment i db' = find_payment i db" for i by (simp add: db' find_payment_def)
  show "evolves db db'"
    unfolding evolves_def ps find'
  proof (intro conjI impI allI)
    fix i x
    assume "find_attempt i db = Some x"
    then show "\<exists>y. (if i = aid then Some new else find_attempt i db) = Some y \<and> attempt_terms y = attempt_terms x \<and>
        attempt_path (att_status x) (att_status y)"
      using old t path by (cases "i = aid") auto
  qed (auto simp: db' txn [unfolded db'] requests_grow_same recovery_grows_same webhooks_grow_same)
qed

lemma keeps_enqueue [intro]: "evo.keeps db (enqueue i n pl c db)"
  by (auto simp: enqueue_def evo.keeps_def intro: evolves_refl same_rows_evolves)

lemma keeps_fresh [intro]: "evo.keeps db (fresh_uuid db)"
  by (auto simp: fresh_uuid_def evo.keeps_def intro: same_rows_evolves)

lemma keeps_insert_late [intro]: "evo.keeps db (insert_late_success l db)"
  by (auto simp: insert_late_success_def evo.keeps_def intro: evolves_refl same_rows_evolves
      split: option.splits if_splits)

lemma keeps_reserve [intro]: "evo.keeps db (reserve r db)"
  by (auto simp: reserve_def evo.keeps_def intro: evolves_refl same_rows_evolves split: option.splits if_splits)

lemma keeps_insert_attempt [intro]:
  assumes "att_providerTransactionId a = None" shows "evo.keeps db (insert_attempt a db)"
proof -
  have "txns_unique (db\<lparr>attempts := attempts db @ [a]\<rparr>)" if "txns_unique db"
    unfolding txns_unique_def
  proof (intro ballI impI)
    fix x y
    assume x: "x \<in> set (attempts (db\<lparr>attempts := attempts db @ [a]\<rparr>))"
      and y: "y \<in> set (attempts (db\<lparr>attempts := attempts db @ [a]\<rparr>))"
      and n: "att_providerTransactionId x \<noteq> None" and e: "att_provider x = att_provider y"
        "att_providerTransactionId x = att_providerTransactionId y"
    have "x \<noteq> a" "y \<noteq> a" using n e(2) assms by auto
    then have "x \<in> set (attempts db)" "y \<in> set (attempts db)" using x y by auto
    then show "att_id x = att_id y" using that n e unfolding txns_unique_def by blast
  qed
  then have "evolves db (db\<lparr>attempts := attempts db @ [a]\<rparr>)"
    unfolding evolves_def by (auto simp: find_payment_def find_attempt_def row_simps requests_grow_same recovery_grows_same webhooks_grow_same)
  then show ?thesis by (auto simp: insert_attempt_def evo.keeps_def split: option.splits if_splits)
qed

lemma append_payment_evolves:
  assumes "find_by_request (pay_producer p) (pay_paymentRequestId p) db = None"
  shows "evolves db (db\<lparr>payments := payments db @ [p]\<rparr>)"
proof -
  have n: "request_key q \<noteq> request_key p" if "q \<in> set (payments db)" for q
    using assms that unfolding find_by_request_def find_None_iff request_key_def by auto
  then have "requests_grow db (db\<lparr>payments := payments db @ [p]\<rparr>)"
    unfolding requests_grow_def requests_unique_def
  proof (intro impI ballI)
    fix x y
    assume u: "\<forall>x \<in> set (payments db). \<forall>q \<in> set (payments db). request_key x = request_key q \<longrightarrow> pay_id x = pay_id q"
      and x: "x \<in> set (payments (db\<lparr>payments := payments db @ [p]\<rparr>))"
      and y: "y \<in> set (payments (db\<lparr>payments := payments db @ [p]\<rparr>))" and k: "request_key x = request_key y"
    consider "x = p" "y = p" | "x = p" "y \<in> set (payments db)" | "y = p" "x \<in> set (payments db)"
      | "x \<in> set (payments db)" "y \<in> set (payments db)" using x y by auto
    then show "pay_id x = pay_id y"
    proof cases
      case 2
      then show ?thesis using n [of y] k by simp
    next
      case 3
      then show ?thesis using n [of x] k by simp
    qed (use u k in blast)+
  qed
  then show ?thesis
    unfolding evolves_def by (auto simp: find_payment_def find_attempt_def row_simps txns_unique_def recovery_grows_same webhooks_grow_same)
qed

lemma append_fact_evolves: "evolves db (db\<lparr>facts := facts db @ [f]\<rparr>)"
  by (rule same_rows_evolves) simp_all

lemma append_conflict_evolves: "evolves db (db\<lparr>conflicts := conflicts db @ [c]\<rparr>)"
  by (rule same_rows_evolves) simp_all

lemmas keeps_rules = evo.keeps_bind evo.keeps_same evo.keeps_error evo.keeps_return evo.keeps_lift

declare fresh_uuid_Inr [simp del] tx_bind_ok [simp del] tx_bind_err [simp del]

section \<open>The transactions\<close>

lemma keeps_audit [intro]: "evo.keeps db (audit_record_payment action p ctx db)"
  unfolding audit_record_payment_def by (intro keeps_rules keeps_enqueue)

lemma keeps_late_audit [intro]: "evo.keeps db (audit_late_success l fid p actor ctx db)"
  unfolding audit_late_success_def by (rule keeps_enqueue)

lemma keeps_emit_late [intro]: "evo.keeps db (emit_late_success_event l p ctx db)"
  unfolding emit_late_success_event_def by (rule keeps_enqueue)

lemma keeps_emit [intro]: "evo.keeps db (emit_payment_event nm p ctx extra db)"
  unfolding emit_payment_event_def by (rule keeps_enqueue)

lemma keeps_record_one [intro]: "evo.keeps db (record_one_late_success p ctx actor f db)"
  unfolding record_one_late_success_def
  by (auto split: option.split intro!: evo.keeps_bind)

lemma keeps_record_all [intro]: "evo.keeps db (record_late_successes p ctx actor fs db)"
  by (induction fs arbitrary: db) (auto intro!: evo.keeps_bind)

lemma keeps_recordQualifying [intro]: "evo.keeps db (recordQualifyingLateSuccesses p ctx o1 o2 db)"
  by (auto simp: recordQualifyingLateSuccesses_def)

lemma keeps_announce [intro]: "evo.keeps db (announce_final nm p ctx extra db)"
  unfolding announce_final_def by (intro evo.keeps_bind keeps_emit keeps_audit keeps_recordQualifying evo.keeps_return)

lemma keeps_status [intro]:
  "evo.keeps db (update_payment pid (\<lambda>r. r\<lparr>pay_status := st, pay_closedAt := g r\<rparr>) db)"
  "evo.keeps db (update_payment pid (\<lambda>r. r\<lparr>pay_status := st, pay_closingReason := cr\<rparr>) db)"
  "evo.keeps db (update_payment pid (\<lambda>r. r\<lparr>pay_status := st\<rparr>) db)"
  "evo.keeps db (update_payment pid (\<lambda>r. r\<lparr>pay_status := st, pay_settledMethod := m, pay_succeededAttemptId := sa, pay_closedAt := g r\<rparr>) db)"
  by (rule keeps_update_payment, simp add: terms_def)+

lemma keeps_completeClosing [intro]: "evo.keeps db (completeClosingIfResolved pid ctx db)"
  unfolding completeClosingIfResolved_def
  by (auto simp: Let_def split: option.split intro!: evo.keeps_bind)

lemma keeps_settleAfter [intro]: "evo.keeps db (settlePaymentAfterFailure cfg caps pid n code ctx db)"
  unfolding settlePaymentAfterFailure_def
  by (auto simp: Let_def split: option.split intro!: evo.keeps_bind)

lemma keeps_attempt [intro]:
  "evo.keeps db (update_attempt aid (\<lambda>a. a\<lparr>att_status := st\<rparr>) db)"
  "evo.keeps db (update_attempt aid (\<lambda>a. a\<lparr>att_status := st, att_completedAt := t\<rparr>) db)"
  "evo.keeps db (update_attempt aid (\<lambda>a. a\<lparr>att_resolveAfter := t\<rparr>) db)"
  "evo.keeps db (update_attempt aid (\<lambda>a. a\<lparr>att_failureConfirmedAt := t, att_confirmedFailureCode := c\<rparr>) db)"
  "evo.keeps db (update_attempt aid (\<lambda>a. a\<lparr>att_status := st, att_failureCode := c, att_failureClass := cl, att_completedAt := t\<rparr>) db)"
  "evo.keeps db (update_attempt aid (\<lambda>a. a\<lparr>att_status := st, att_failureCode := c, att_failureClass := cl,
      att_failureInferred := fi, att_completedAt := t\<rparr>) db)"
  "evo.keeps db (update_attempt aid (\<lambda>a. a\<lparr>att_status := st, att_providerTransactionId := x, att_providerData := y,
      att_submittedAt := t\<rparr>) db)"
  by (rule keeps_update_attempt, simp add: attempt_terms_def)+

lemma keeps_create: "evo.keeps db (create_tx producer dto payer seller org expires purpose db)"
proof (cases "find_by_request producer (dto_paymentRequestId dto) db")
  case (Some p)
  then show ?thesis by (simp add: create_tx_def evo.keeps_same evo.keeps_error)
next
  case None
  let ?db1 = "db\<lparr>next_uuid := Suc (next_uuid db)\<rparr>"
  let ?p = "new_payment ?db1 (next_uuid db) producer dto payer seller org expires purpose"
  let ?db2 = "?db1\<lparr>payments := payments ?db1 @ [?p]\<rparr>"
  let ?t = "tx_bind (emit_payment_event ''payment.created'' ?p (requestContext Act_service producer None None) No_extra) (\<lambda>_.
      tx_bind (audit_record_payment ''payment.created'' ?p (requestContext Act_service producer None None)) (\<lambda>_.
      tx_return (?p, False)))"
  have "evo.keeps ?db2 (?t ?db2)"
    by (intro evo.keeps_bind keeps_emit keeps_audit evo.keeps_return)
  moreover have e: "create_tx producer dto payer seller org expires purpose db = ?t ?db2"
    using None by (simp add: create_tx_def Let_def fresh_uuid_def tx_bind_def)
  moreover have "evolves ?db1 ?db2"
    by (rule append_payment_evolves) (use None in \<open>simp add: new_payment_def find_by_request_def\<close>)
  moreover have "evolves db ?db1" by (rule same_rows_evolves) simp_all
  ultimately show ?thesis unfolding e evo.keeps_def by (blast intro: evolves_trans)
qed

lemma keeps_cancel: "evo.keeps db (cancel env pid caller key ctx db)"
proof -
  have "evo.keeps s (cancel_guarded pid ctx s)" for s
    unfolding cancel_guarded_def by (auto split: option.split intro!: evo.keeps_bind)
  then show ?thesis
    unfolding cancel_def by (auto split: reserve_result.split option.split intro!: evo.keeps_bind)
qed

lemma new_attempt_txn [simp]: "att_providerTransactionId (new_attempt db i p prov) = None"
  by (simp add: new_attempt_def)

lemma keeps_T1: "evo.keeps db (start_T1 env prov pid caller key dto db)"
  unfolding start_T1_def
  by (auto split: reserve_result.split option.split intro!: evo.keeps_bind keeps_insert_attempt [OF new_attempt_txn])

lemma keeps_T2: "evo.keeps db (start_T2 cfg caps pid aid n result ctx db)"
  unfolding start_T2_def by (auto split: initiate_result.split option.split intro!: evo.keeps_bind)

lemma keeps_quarantine [intro]: "evo.keeps db (recordQuarantine qo db)"
  unfolding recordQuarantine_def
  by (auto simp: Let_def intro!: evo.keeps_bind evo.keeps_move same_rows_evolves)

lemma keeps_append:
  "evolves db db1 \<Longrightarrow> evo.keeps db1 res \<Longrightarrow> evo.keeps db res"
  unfolding evo.keeps_def by (blast intro: evolves_trans)

lemma keeps_capture [intro]: "evo.keeps db (record_capture_tx a txn amount currency at ctx db)"
proof -
  have m: "evo.keeps s (audit_capture_mismatch fid pid i src n reason org ctx s)" for s fid pid i src n reason org
    unfolding audit_capture_mismatch_def by (rule keeps_enqueue)
  have w: "evo.keeps s (audit_fact_conflict cid fid pid i src n org ctx s)" for s cid fid pid i src n org
    unfolding audit_fact_conflict_def by (rule keeps_enqueue)
  have m2: "evo.keeps s (tx_bind (audit_capture_mismatch fid pid i src n reason org ctx) (\<lambda>_. tx_return fid)
      (s\<lparr>facts := facts s @ [f]\<rparr>))" for s fid pid i src n reason org f
    by (rule keeps_append [OF append_fact_evolves [of s f]], rule evo.keeps_bind, rule m, rule evo.keeps_return)
  have i: "evo.keeps s (insert_capture_fact a txn amount currency at ctx s)" for s
    unfolding insert_capture_fact_def
    by (rule evo.keeps_bind [OF keeps_fresh])
      (simp add: Let_def m2 evo.keeps_move [OF append_fact_evolves] split: option.split)
  have c: "evo.keeps s (insert_conflict f a amount currency ctx s)" for s f
    unfolding insert_conflict_def
    by (rule evo.keeps_bind [OF keeps_fresh])
      (simp add: Let_def evo.keeps_same keeps_append [OF append_conflict_evolves w])
  show ?thesis
    unfolding record_capture_tx_def by (auto split: option.split intro!: evo.keeps_bind i c)
qed

lemma keeps_fact: "evo.keeps db (recordCaptureFact aid amount currency txn at ctx db)"
  unfolding recordCaptureFact_def by (auto split: option.split js_number.split intro!: evo.keeps_bind)

lemma keeps_decide: "evo.keeps db (apply_decide cfg caps aid status factId ctx db)"
proof -
  have u: "evo.keeps s ((if b then update_attempt i (\<lambda>r. r\<lparr>att_status := A_unknown\<rparr>) else tx_return a) s)" for s i b a
    by auto
  have n: "evo.keeps s (decide_notFound cfg caps p a ctx s)" for s p a
    unfolding decide_notFound_def by (auto intro!: evo.keeps_bind u)
  have c: "evo.keeps s (confirm_failure cfg caps p a code ctx s)" for s p a code
    unfolding confirm_failure_def by (auto intro!: evo.keeps_bind)
  have e: "evo.keeps s (decide_expired cfg caps p a ctx s)" for s p a
    unfolding decide_expired_def by (auto intro!: evo.keeps_bind c)
  have f: "evo.keeps s (decide_failed cfg caps p a cls code ctx s)" for s p a cls code
    unfolding decide_failed_def by (auto intro!: evo.keeps_bind c)
  have t: "evo.keeps s (settle_succeeded p a ctx s)" for s p a
    unfolding settle_succeeded_def by (auto intro!: evo.keeps_bind u)
  have d: "evo.keeps s (decide_succeeded p a amount currency factId ctx s)" for s p a amount currency
    unfolding decide_succeeded_def
    by (cases "captureEvidence s (pay_id p) (att_id a) amount currency factId")
      (simp add: t evo.keeps_same evo.keeps_error)
  show ?thesis
    unfolding apply_decide_def by (auto split: option.split fetch_status.split intro!: n e f d)
qed

lemma keeps_late: "evo.keeps db (recordLateSuccess aid lo ctx factId db)"
  unfolding recordLateSuccess_def by (auto split: option.split js_number.split intro!: evo.keeps_bind)

lemma keeps_sweep: "evo.keeps db (trySweepOne skipped pid ctx db)"
  unfolding trySweepOne_def by (auto split: option.split intro!: evo.keeps_bind)

lemma keeps_processFact: "evo.keeps db (processFact skipped fid pid ctx db)"
  unfolding processFact_def by (auto split: option.split intro!: evo.keeps_bind)

lemma keeps_claim: "evo.keeps db (claim_attempt aid db)"
  unfolding claim_attempt_def by (auto split: option.split intro!: evo.keeps_bind)

lemma keeps_store: "evo.keeps db (store_event prov eid ty body db)"
proof (cases "find_provider_event prov eid db")
  case (Some w)
  then show ?thesis by (simp add: store_event_def Let_def evo.keeps_same)
next
  case None
  then show ?thesis unfolding store_event_def
    by (auto simp: Let_def
      intro!: evo.keeps_bind evo.keeps_move same_rows_grow recovery_grows_same webhooks_append)
qed

lemma keeps_unmatched: "evo.keeps db (recordUnmatchedFact eid prov kind pb db)"
  unfolding recordUnmatchedFact_def insert_unmatched_def
  by (auto split: option.split js_number.split intro!: evo.keeps_bind evo.keeps_move append_fact_evolves)

lemma pay_step_evolves:
  assumes "pay_step cfg env db db'" shows "evolves db db'"
  using assms
proof (cases rule: pay_step.cases)
  case (step_count fid seen code failure)
  then show ?thesis
    using countAttempt_grows [of fid db seen code failure]
    by (intro same_rows_grow webhooks_grow_same) (auto simp: countAttempt_def Let_def split: option.split)
next
  case (step_mark eid st outcome attempt)
  then show ?thesis using markState_grows [of db eid st outcome attempt]
    by (intro same_rows_grow recovery_grows_same) (auto simp: markState_def split: option.split)
next
  case step_create
  then show ?thesis by (rule evo.keeps_run [OF keeps_create])
next
  case step_cancel
  then show ?thesis by (rule evo.keeps_run [OF keeps_cancel])
next
  case step_T1
  then show ?thesis by (rule evo.keeps_run [OF keeps_T1])
next
  case step_T2
  show ?thesis by (rule evo.keeps_run [OF keeps_T2 step_T2(3)])
next
  case step_fact
  then show ?thesis by (rule evo.keeps_run [OF keeps_fact])
next
  case step_decide
  then show ?thesis by (rule evo.keeps_run [OF keeps_decide])
next
  case step_late
  then show ?thesis by (rule evo.keeps_run [OF keeps_late])
next
  case step_sweep
  then show ?thesis by (rule evo.keeps_run [OF keeps_sweep])
next
  case step_recover
  then show ?thesis by (rule evo.keeps_run [OF keeps_processFact])
next
  case step_claim
  then show ?thesis by (rule evo.keeps_run [OF keeps_claim])
next
  case step_quarantine
  then show ?thesis by (rule evo.keeps_run [OF keeps_quarantine])
next
  case step_store
  then show ?thesis by (rule evo.keeps_run [OF keeps_store])
next
  case step_unmatched
  then show ?thesis by (rule evo.keeps_run [OF keeps_unmatched])
next
  case step_exhaust
  then show ?thesis
    using exhaust_grows [of db] by (intro same_rows_grow recovery_grows_same) (simp_all add: exhaust_def)
next
  case step_tick
  then show ?thesis by (simp add: same_rows_evolves)
qed

lemma reaches_evolves: "reaches (pay_step cfg env) db db' \<Longrightarrow> evolves db db'"
  by (induction rule: reaches.induct) (auto intro: evolves_refl evolves_trans pay_step_evolves)

declare fresh_uuid_Inr [simp] tx_bind_ok [simp] tx_bind_err [simp]

lemma reachable_recovery: "reachable cfg env db \<Longrightarrow> recovery_ok db"
proof -
  assume "reachable cfg env db"
  then obtain t where "reaches (pay_step cfg env) (empty_pdb t) db" by (auto simp: reachable_def)
  then have "recovery_grows (empty_pdb t) db" using reaches_evolves unfolding evolves_def by blast
  then show ?thesis by (simp add: recovery_grows_def recovery_ok_def empty_pdb_def)
qed

lemma reachable_txns: "reachable cfg env db \<Longrightarrow> txns_unique db"
proof -
  assume "reachable cfg env db"
  then obtain t where "reaches (pay_step cfg env) (empty_pdb t) db" by (auto simp: reachable_def)
  then have "evolves (empty_pdb t) db" by (rule reaches_evolves)
  then have "txns_unique (empty_pdb t) \<longrightarrow> txns_unique db" unfolding evolves_def by blast
  moreover have "txns_unique (empty_pdb t)" by (simp add: txns_unique_def empty_pdb_def)
  ultimately show ?thesis by blast
qed

lemma reachable_requests: "reachable cfg env db \<Longrightarrow> requests_unique db"
proof -
  assume "reachable cfg env db"
  then obtain t where "reaches (pay_step cfg env) (empty_pdb t) db" by (auto simp: reachable_def)
  then have "evolves (empty_pdb t) db" by (rule reaches_evolves)
  then have "requests_grow (empty_pdb t) db" unfolding evolves_def by blast
  moreover have "requests_unique (empty_pdb t)" by (simp add: requests_unique_def empty_pdb_def)
  ultimately show ?thesis by (simp add: requests_grow_def)
qed

end
