(* ===== verification/PaymentRuns.thy ===== *)
theory PaymentRuns
  imports PaymentEvolve
begin

text \<open>
  The operations the service offers and its workers, as the code composes them from transactions,
  are runs of the step relation: whatever other transactions commit in between, what every run
  respects holds of them. \<open>others_run\<close> says that the transactions of others are runs themselves.
\<close>

definition others_run :: "pay_config \<Rightarrow> pay_env \<Rightarrow> (pdb \<Rightarrow> pdb) \<Rightarrow> bool" where
  "others_run cfg env others \<longleftrightarrow> (\<forall>db. reaches (pay_step cfg env) db (others db))"

lemma others_runD: "others_run cfg env others \<Longrightarrow> reaches (pay_step cfg env) db (others db)"
  by (simp add: others_run_def)

lemma others_run_id: "others_run cfg env (\<lambda>db. db)"
  by (simp add: others_run_def reaches.here)

section \<open>One transaction, committed\<close>

lemma commit_run:
  assumes "\<And>x db'. t db = Inr (x, db') \<Longrightarrow> pay_step cfg env db db'"
  shows "reaches (pay_step cfg env) db (snd (commit t db))"
  using assms by (cases "t db") (auto simp: commit_def intro: reaches.here reaches_one)

lemma commit_split: "commit t db = (r, db') \<Longrightarrow> db' = snd (commit t db)"
  by simp

lemmas run_trans = reaches_trans [rotated]

section \<open>Applying a provider's answer\<close>

lemma status_fact_run: "reaches (pay_step cfg env) db (snd (commit (status_fact aid status ctx) db))"
proof (cases status)
  case (St_succeeded amount currency txn at)
  then show ?thesis by (auto simp: status_fact_def intro!: commit_run step_fact)
qed (auto simp: status_fact_def tx_return_def commit_def intro: reaches.here)

lemma applyStatus_run:
  assumes o: "others_run cfg env others"
  shows "reaches (pay_step cfg env) db (snd (applyStatus cfg caps others aid status ctx db))"
proof -
  obtain r1 db1 where c1: "commit (status_fact aid status ctx) db = (r1, db1)" by (cases "commit (status_fact aid status ctx) db")
  have run1: "reaches (pay_step cfg env) db db1" using status_fact_run [of cfg env db aid status ctx] c1 by simp
  show ?thesis
  proof (cases r1)
    case (Inl e)
    then show ?thesis using c1 run1 by (simp add: applyStatus_def)
  next
    case (Inr factId)
    let ?t = "apply_decide cfg caps aid status factId ctx"
    obtain r2 db2 where c2: "commit ?t (others db1) = (r2, db2)" by (cases "commit ?t (others db1)")
    have "reaches (pay_step cfg env) (others db1) (snd (commit ?t (others db1)))" by (rule commit_run) (rule step_decide)
    then have run2: "reaches (pay_step cfg env) db db2"
      using c2 run_trans [OF run1 run_trans [OF others_runD [OF o]]] by simp
    show ?thesis
    proof (cases r2)
      case (Inl e)
      then show ?thesis using c1 c2 run2 \<open>r1 = Inr factId\<close> by (simp add: applyStatus_def)
    next
      case d: (Inr d)
      obtain a lo where d': "d = (a, lo)" by (cases d)
      show ?thesis
      proof (cases lo)
        case None
        then show ?thesis using c1 c2 run2 Inr d d' by (simp add: applyStatus_def)
      next
        case (Some l)
        let ?u = "recordLateSuccess aid l ctx factId"
        obtain r3 db3 where c3: "commit ?u (others db2) = (r3, db3)" by (cases "commit ?u (others db2)")
        have "reaches (pay_step cfg env) (others db2) (snd (commit ?u (others db2)))" by (rule commit_run) (rule step_late)
        then have "reaches (pay_step cfg env) db db3"
          using c3 run_trans [OF run2 run_trans [OF others_runD [OF o]]] by simp
        then show ?thesis using c1 c2 c3 run2 Inr d d' Some
          by (simp add: applyStatus_def split: sum.split)
      qed
    qed
  qed
qed

lemma sync_run:
  assumes "others_run cfg env others"
  shows "reaches (pay_step cfg env) db (snd (sync cfg env reg fetchStatus others aid ctx db))"
  using run_trans [OF others_runD [OF assms] applyStatus_run [OF assms]]
  by (auto simp: sync_def intro: reaches.here split: option.split sum.split)

section \<open>Creating and starting\<close>

lemma create_payment_run:
  assumes "others_run cfg env others"
  shows "reaches (pay_step cfg env) db (snd (create_payment cfg env others producer dto db))"
proof -
  have "reaches (pay_step cfg env) db (snd (commit (create_tx producer dto payer seller org expires purpose) (others db)))"
    for payer seller org expires purpose
    by (rule run_trans [OF others_runD [OF assms] commit_run]) (rule step_create)
  then show ?thesis by (auto simp: create_payment_def intro: reaches.here split: sum.split create_plan.split)
qed

text \<open>What T1 did when it started an attempt: nothing refused it, and the new attempt is stored.\<close>

lemma start_T1_started:
  assumes "start_T1 env prov pid caller key dto db = Inr (T1_started q a, db')"
  shows "\<exists>db2. payments db2 = payments db \<and> attempts db2 = attempts db \<and> find_payment pid db2 = Some q \<and>
           start_refusal db2 q = None \<and> a = new_attempt db2 (next_uuid db) q prov \<and> attempts db' = attempts db @ [a]"
proof -
  let ?db1 = "db\<lparr>next_uuid := Suc (next_uuid db)\<rparr>"
  from assms obtain res db2 where r: "reserve (start_reservation env pid caller key dto (next_uuid db)) ?db1 = Inr (res, db2)"
    and k: "(case res of Replay _ rid \<Rightarrow> tx_return (T1_replay rid)
     | Reserved \<Rightarrow> (\<lambda>db3. case find_payment pid db3 of
           None \<Rightarrow> Inl (Pay_error 404 ''not_found'')
         | Some p \<Rightarrow> (case start_refusal db3 p of Some e \<Rightarrow> Inl e
              | None \<Rightarrow> tx_bind (insert_attempt (new_attempt db3 (next_uuid db) p prov)) (\<lambda>a.
                  tx_bind (update_payment pid (\<lambda>r. r\<lparr>pay_status := P_pending\<rparr>)) (\<lambda>_.
                  tx_return (T1_started p a))) db3))) db2 = Inr (T1_started q a, db')"
    by (auto simp: start_T1_def tx_bind_Inr_iff)
  have res: "res = Reserved" using k by (cases res) simp_all
  obtain p where p: "find_payment pid db2 = Some p" using k by (cases "find_payment pid db2") (simp_all add: res)
  have n: "start_refusal db2 p = None" using k by (cases "start_refusal db2 p") (simp_all add: res p)
  have same: "payments db2 = payments db \<and> attempts db2 = attempts db"
    using r by (auto simp: reserve_def split: option.splits if_splits)
  moreover have "p = q \<and> a = new_attempt db2 (next_uuid db) q prov \<and> attempts db' = attempts db2 @ [a]"
    using k by (auto simp: res p n tx_bind_Inr_iff insert_attempt_def update_payment_Inr split: option.splits if_splits)
  ultimately show ?thesis using p n by auto
qed

lemma T1_attempt:
  assumes inv: "pinv db" and t: "start_T1 env prov pid caller key dto db = Inr (T1_started q a, db')"
  shows "find_attempt (att_id a) db' = Some a \<and> att_paymentId a = pay_id q"
proof -
  from start_T1_started [OF t] have a: "a \<in> set (attempts db')" "att_paymentId a = pay_id q"
    by (auto simp: new_attempt_def)
  have "keys_ok db'" using start_T1_pinv [OF inv t] by (simp add: pinv_def)
  then show ?thesis using a find_attempt_in by blast
qed

lemma evolves_attempt:
  "evolves db db' \<Longrightarrow> find_attempt aid db = Some a \<Longrightarrow> \<exists>a'. find_attempt aid db' = Some a' \<and> att_paymentId a' = att_paymentId a"
  unfolding evolves_def attempt_terms_def by blast

lemma start_run:
  assumes o: "others_run cfg env others" and inv: "pinv db"
  shows "reaches (pay_step cfg env) db (snd (start cfg env reg initiate others pid caller key dto kind db))"
proof -
  have "reaches (pay_step cfg env) db (snd (case commit (start_T1 env prov pid caller key dto) db of
             (Inl e, db1) \<Rightarrow> (Inl e, db1)
           | (Inr (T1_replay aid), db1) \<Rightarrow>
               (case find_attempt aid db1 of None \<Rightarrow> (Inl (Pay_error 404 ''not_found''), db1) | Some a \<Rightarrow> (Inr (a, True), db1))
           | (Inr (T1_started p a), db1) \<Rightarrow>
               (case initiate p a (sd_providerOptions dto) of
                  Inl e \<Rightarrow> (Inl e, db1)
                | Inr result \<Rightarrow>
                    commit (tx_bind (start_T2 cfg caps (pay_id p) (att_id a) (att_attemptNumber a) result
                                       (requestContext Act_user caller None kind))
                              (\<lambda>a'. tx_return (a', False))) (others db1))))" (is "reaches _ _ (snd ?rest)") for prov caps
  proof (cases "start_T1 env prov pid caller key dto db")
    case (Inl e)
    then show ?thesis by (simp add: commit_def reaches.here)
  next
    case (Inr x)
    obtain r db1 where x: "x = (r, db1)" by (cases x)
    have run1: "reaches (pay_step cfg env) db db1" by (rule reaches_one, rule step_T1) (use Inr x in simp)
    show ?thesis
    proof (cases r)
      case (T1_replay aid)
      then show ?thesis using Inr x run1 by (simp add: commit_def split: option.split)
    next
      case (T1_started q a)
      have at: "find_attempt (att_id a) db1 = Some a" "att_paymentId a = pay_id q"
        using T1_attempt [OF inv] Inr x T1_started by auto
      obtain a1 where a1: "find_attempt (att_id a) (others db1) = Some a1" "att_paymentId a1 = pay_id q"
        using evolves_attempt [OF reaches_evolves [OF others_runD [OF o]] at(1)] at(2) by auto
      have "reaches (pay_step cfg env) (others db1) (snd (commit (tx_bind (start_T2 cfg caps (pay_id q) (att_id a)
          (att_attemptNumber a) result ctx) (\<lambda>a'. tx_return (a', False))) (others db1)))" for result ctx
        by (rule commit_run) (auto simp: tx_bind_Inr_iff intro: step_T2 [OF a1])
      then show ?thesis using Inr x T1_started run1 run_trans [OF run1 run_trans [OF others_runD [OF o]]]
        by (simp add: commit_def [of "start_T1 env prov pid caller key dto"] split: sum.split)
    qed
  qed
  then show ?thesis by (auto simp: start_def reaches.here split: sum.split)
qed

section \<open>The workers\<close>

lemma sweep_all_run: "reaches (pay_step cfg env) db (snd (sweep_all held ctx is db))"
proof (induction "is" arbitrary: db)
  case (Cons i "is")
  have "reaches (pay_step cfg env) db (snd (commit (trySweepOne (held i) i ctx) db))"
    by (rule commit_run) (rule step_sweep)
  with Cons.IH show ?case
    by (cases "commit (trySweepOne (held i) i ctx) db")
      (auto split: sum.split prod.split, (metis run_trans snd_conv)+)
qed (simp add: reaches.here)

lemma sweepOnce_run: "reaches (pay_step cfg env) db (snd (sweepOnce held run db))"
  unfolding sweepOnce_def by (rule sweep_all_run)

lemma resolve_one_run:
  assumes o: "others_run cfg env others"
  shows "reaches (pay_step cfg env) db (snd (resolve_one cfg env reg fetchStatus wall others run a db))"
proof -
  obtain r db1 where c: "commit (claim_attempt (att_id a)) db = (r, db1)" by (cases "commit (claim_attempt (att_id a)) db")
  have "reaches (pay_step cfg env) db (snd (commit (claim_attempt (att_id a)) db))" by (rule commit_run) (rule step_claim)
  then have run1: "reaches (pay_step cfg env) db db1" using c by simp
  have "reaches (pay_step cfg env) db (snd (applyStatus cfg caps others aid status ctx (others db1)))" for caps aid status ctx
    by (rule run_trans [OF run1 run_trans [OF others_runD [OF o] applyStatus_run [OF o]]])
  then have "reaches (pay_step cfg env) db (snd (case applyStatus cfg caps others aid status ctx (others db1) of
      (Inl e, db2) \<Rightarrow> (False, db2) | (Inr x, db2) \<Rightarrow> (b, db2)))" for caps aid status ctx b
    by (cases "applyStatus cfg caps others aid status ctx (others db1)") (metis sum.case_eq_if snd_conv case_prod_conv)
  then show ?thesis using run1 c
    by (auto simp: resolve_one_def reaches.here split: option.split sum.split)
qed

lemma resolve_all_run:
  "others_run cfg env others \<Longrightarrow> reaches (pay_step cfg env) db (snd (resolve_all cfg env reg fetchStatus wall others run as db))"
proof (induction "as" arbitrary: db)
  case (Cons a "as")
  then show ?case
    using resolve_one_run [OF Cons.prems, of db reg fetchStatus wall run a]
    by (auto simp: Let_def split: prod.split) (metis run_trans snd_conv)+
qed (simp add: reaches.here)

lemma resolver_run:
  "others_run cfg env others \<Longrightarrow>
     reaches (pay_step cfg env) db (snd (resolver_drainOnce cfg env reg fetchStatus wall others run running db))"
  by (simp add: resolver_drainOnce_def resolve_all_run reaches.here)

section \<open>Capture recovery\<close>

text \<open>The attempts seen by the scan are still the row's when a fact has no row at all.\<close>

definition seen_ok :: "pdb \<Rightarrow> (fact_row \<times> nat) list \<Rightarrow> bool" where
  "seen_ok db fs \<longleftrightarrow> (\<forall>(f, seen) \<in> set fs. find_recovery (fact_id f) db = None \<longrightarrow> seen = 0)"

lemma seen_ok_scan: "seen_ok db (recovery_scan db)"
  by (auto simp: seen_ok_def recovery_scan_def recovery_seen_def)

lemma seen_ok_evolves: "seen_ok db fs \<Longrightarrow> evolves db db' \<Longrightarrow> seen_ok db' fs"
proof -
  assume s: "seen_ok db fs" and e: "evolves db db'"
  have "find_recovery i db = None" if "find_recovery i db' = None" for i
  proof (rule ccontr)
    assume "find_recovery i db \<noteq> None"
    then obtain r where "find_recovery i db = Some r" by blast
    moreover have "recovery_grows db db'" using e unfolding evolves_def by blast
    ultimately show False using that unfolding recovery_grows_def by (metis option.distinct(1))
  qed
  with s show ?thesis unfolding seen_ok_def by blast
qed

lemma processFact_run: "reaches (pay_step cfg env) db (snd (commit (processFact skipped fid pid ctx) db))"
  by (rule commit_run) (rule step_recover)

lemma count_run:
  "seen_ok db ((f, seen) # rest) \<Longrightarrow> reaches (pay_step cfg env) db (countAttempt (fact_id f) seen code failure db)"
  by (rule reaches_one, rule step_count) (simp add: seen_ok_def)

lemma reconcile_facts_run:
  "seen_ok db fs \<Longrightarrow> reaches (pay_step cfg env) db (snd (snd (reconcile_facts fates wall ctx fs w db)))"
proof (induction fs arbitrary: w db)
  case Nil
  then show ?case by (simp add: reaches.here)
next
  case (Cons x fs)
  obtain f seen where x: "x = (f, seen)" by (cases x)
  define run where "run = (case fates (fact_id f) of
                   Fails err \<Rightarrow> (Inl err, db)
                 | Runs skipped \<Rightarrow>
                     (case fact_paymentId f of
                        None \<Rightarrow> (Inr (Recorded 0), db)
                      | Some pid \<Rightarrow>
                          (case commit (processFact skipped (fact_id f) pid ctx) db of
                             (Inl e, db') \<Rightarrow> (Inl (guard_facts e), db')
                           | (Inr r, db') \<Rightarrow> (Inr r, db'))))"
  have run1: "reaches (pay_step cfg env) db (snd run)"
    unfolding run_def using processFact_run [of cfg env db _ "fact_id f" _ ctx]
    by (auto intro: reaches.here split: fate.split option.split sum.split prod.split) (metis snd_conv)+
  have ok: "seen_ok (snd run) (x # fs)" by (rule seen_ok_evolves [OF Cons.prems reaches_evolves [OF run1]])
  then have okt: "seen_ok (snd run) fs" by (simp add: seen_ok_def)
  have count: "reaches (pay_step cfg env) db (countAttempt (fact_id f) seen code failure (snd run))" for code failure
    by (rule run_trans [OF run1 count_run [OF ok [unfolded x]]])
  have okc: "seen_ok (countAttempt (fact_id f) seen code failure (snd run)) fs" for code failure
    by (rule seen_ok_evolves [OF okt reaches_evolves [OF count_run [OF ok [unfolded x]]]])
  have next1: "reaches (pay_step cfg env) db (snd (snd (reconcile_facts fates wall ctx fs w (snd run))))" for w
    by (rule run_trans [OF run1 Cons.IH [OF okt]])
  have next2: "reaches (pay_step cfg env) db
      (snd (snd (reconcile_facts fates wall ctx fs w (countAttempt (fact_id f) seen code failure (snd run)))))" for w code failure
    by (rule run_trans [OF count Cons.IH [OF okc]])
  have eq: "reconcile_facts fates wall ctx (x # fs) w db = (case run of
           (Inr (Recorded n), db') \<Rightarrow>
             (let (m, w', db'') = reconcile_facts fates wall ctx fs w db' in (n + m, w', db''))
         | (Inr No_effect, db') \<Rightarrow> reconcile_facts fates wall ctx fs w (countAttempt (fact_id f) seen ''no_effect'' RF_transient db')
         | (Inl err, db') \<Rightarrow>
             (let failure = classifyCaptureRecoveryFailure err in
              if failure = RF_infrastructure then (0, infrastructureFailure wall w, db')
              else reconcile_facts fates wall ctx fs w (countAttempt (fact_id f) seen (failure_code_text failure) failure db')))"
    by (simp only: x run_def reconcile_facts.simps Let_def)
  obtain r db1 where r: "run = (r, db1)" by (cases run)
  show ?case
  proof (cases r)
    case (Inl err)
    then show ?thesis using eq r run1 next2 [of w] by (simp add: Let_def)
  next
    case (Inr out)
    then show ?thesis using eq r next1 [of w] next2 [of w "''no_effect''" RF_transient]
      by (cases out) (auto simp: split_beta)
  qed
qed

lemma reconcileOnce_run:
  "reaches (pay_step cfg env) db (snd (snd (reconcileOnce fates scan wall ended run w db)))"
  using reconcile_facts_run [OF seen_ok_scan, of cfg env db fates wall "jobContext C_capture_reconciler run" w]
  by (auto simp: reconcileOnce_def Let_def split_beta reaches.here split: option.split)

section \<open>Webhooks\<close>

lemma mark_run: "reaches (pay_step cfg env) db db1 \<Longrightarrow> reaches (pay_step cfg env) db (markState eid st outcome attempt db1)"
  by (erule reaches.there) (rule step_mark)

lemma quarantine_write_run: "reaches (pay_step cfg env) db (snd (commit (quarantine_write eid caps pb shape attempt) db))"
proof -
  have "reaches (pay_step cfg env) db db'" if "quarantine_write eid caps pb shape attempt db = Inr (r, db')" for r db'
  proof -
    from that obtain created db1 where "recordQuarantine \<lparr>qo_provider = cap_id caps, qo_source = Src_webhook, qo_webhookEventId = Some eid,
        qo_providerEventId = Some (pb_providerEventId pb), qo_attemptId = map_option att_id attempt,
        qo_paymentId = map_option att_paymentId attempt,
        qo_providerTxnId = (case pb_providerTransactionId pb of None \<Rightarrow> RV_undefined | Some t \<Rightarrow> RV_text (utf16_units t)),
        qo_currency = currency_evidence pb, qo_amount = amount_evidence pb, qo_currencyShape = shape\<rparr> db = Inr (created, db1)"
      and m: "db' = markState eid W_conflict (Some QUARANTINE_OUTCOME) (map_option att_id attempt) db1"
      by (auto simp: quarantine_write_def tx_bind_Inr_iff)
    then show ?thesis unfolding m by (intro mark_run reaches_one) (rule step_quarantine)
  qed
  then show ?thesis
    by (cases "quarantine_write eid caps pb shape attempt db") (auto simp: commit_def reaches.here)
qed

lemma webhook_quarantine_run: "reaches (pay_step cfg env) db (snd (webhook_quarantine env eid caps pb shape db))"
  using quarantine_write_run [of cfg env db eid caps pb shape "findAttemptByReference env (cap_id caps) (pb_reference pb) db"]
  by (auto simp: webhook_quarantine_def Let_def intro!: mark_run split: prod.split sum.split)

lemma process_matched_run:
  assumes "others_run cfg env others"
  shows "reaches (pay_step cfg env) db (snd (process_matched cfg caps others eid a status db))"
  using applyStatus_run [OF assms, of db caps "att_id a" status "webhookContext (cap_id caps) eid"]
  by (auto simp: process_matched_def intro!: mark_run split: prod.split sum.split pay_err.split)

lemma unmatched_run: "reaches (pay_step cfg env) db (snd (commit (recordUnmatchedFact eid prov kind pb) db))"
  by (rule commit_run) (rule step_unmatched)

lemma process_unmatched_run: "reaches (pay_step cfg env) db (snd (process_unmatched env caps eid pb status db))"
  using unmatched_run [of cfg env db eid "cap_id caps" K_capture pb]
  by (auto simp: process_unmatched_def Let_def intro!: mark_run reaches.here split: prod.split fetch_status.split)

lemma process_parsed_run:
  assumes "others_run cfg env others"
  shows "reaches (pay_step cfg env) db (snd (process_parsed cfg env caps others eid parsed db))"
proof -
  have "reaches (pay_step cfg env) db (snd (process_body cfg env caps others eid pb db))" for pb
    using webhook_quarantine_run process_matched_run [OF assms] process_unmatched_run
    by (auto simp: process_body_def intro: mark_run reaches.here split: option.split)
  then show ?thesis by (auto simp: process_parsed_def intro: mark_run reaches.here split: option.split)
qed

lemma receive_run:
  assumes o: "others_run cfg env others"
  shows "reaches (pay_step cfg env) db (snd (receive cfg env caps bodyHash others rawBody verified db))"
proof -
  have store: "reaches (pay_step cfg env) db (snd (commit (store_event prov eid ty body) db))" for prov eid ty body
    by (rule commit_run) (rule step_store)
  have "reaches (pay_step cfg env) db1 (snd (process_parsed cfg env caps others i parsed (others db1)))" for db1 i parsed
    by (rule run_trans [OF others_runD [OF o] process_parsed_run [OF o]])
  then have "reaches (pay_step cfg env) db (snd (process_parsed cfg env caps others i parsed (others db1)))"
    if "commit (store_event prov eid ty body) db = (r, db1)" for r db1 i parsed prov eid ty body
    using store [of prov eid ty body] that by (metis run_trans snd_conv)
  moreover have "reaches (pay_step cfg env) db db1" if "commit (store_event prov eid ty body) db = (r, db1)" for r db1 prov eid ty body
    using store [of prov eid ty body] that by simp
  ultimately show ?thesis
    unfolding receive_def Let_def
    by (auto intro: reaches.here split: prod.split sum.split option.split)
qed

lemma retry_one_run:
  assumes o: "others_run cfg env others"
  shows "reaches (pay_step cfg env) db (snd (retry_one cfg env reg parse held others w db))"
  using process_parsed_run [OF o] by (auto simp: retry_one_def reaches.here split: option.split)

lemma retry_all_run:
  "others_run cfg env others \<Longrightarrow> reaches (pay_step cfg env) db (snd (retry_all cfg env reg parse held others ws db))"
proof (induction ws arbitrary: db)
  case (Cons w ws)
  have "reaches (pay_step cfg env) db (snd (retry_one cfg env reg parse held others w db))"
    by (rule retry_one_run [OF Cons.prems])
  then show ?case
    using Cons.IH [OF Cons.prems] by (auto simp: Let_def split_beta intro: run_trans)
qed (simp add: reaches.here)

lemma retrier_run:
  assumes "others_run cfg env others"
  shows "reaches (pay_step cfg env) db (snd (retrier_drainOnce cfg env reg parse held others running db))"
proof -
  have "reaches (pay_step cfg env) db (snd (exhaust db))" by (rule reaches_one) (rule step_exhaust)
  then show ?thesis
    using retry_all_run [OF assms] by (auto simp: retrier_drainOnce_def Let_def split_beta intro: run_trans reaches.here)
qed

end
