(* ===== verification/PaymentDemo.thy ===== *)
theory PaymentDemo
  imports PaymentRuns "HOL-Library.Code_Target_Nat"
begin

text \<open>
  Concrete runs of the payment core for the witnesses: one payment that is created, tried and
  settled, one whose attempt's outcome is only inferred and is then cancelled into closing, one that
  is cancelled and receives its money afterwards. Each is reachable by construction; what holds of
  it is evaluated.
\<close>

definition demo_cfg :: pay_config where
  "demo_cfg = \<lparr>cfg_supportedCurrencies = [''TND''], cfg_maxAttempts = 3, cfg_simulation = False,
     cfg_operations = (\<lambda>_. Some [''payment.create'']), cfg_allowedPlatforms = (\<lambda>_. Some [''p''])\<rparr>"

definition demo_env :: pay_env where
  "demo_env = \<lparr>env_parse_date = (\<lambda>_. Some 1000), env_uuid_text = (\<lambda>n. replicate n CHR ''u''),
     env_request_hash = (\<lambda>op path opts. path), env_resolve_organization = (\<lambda>_. Inr (Some ''p''))\<rparr>"

definition demo_caps :: provider_caps where
  "demo_caps = \<lparr>cap_id = ''test'', cap_refunds = False, cap_notFoundIsAuthoritative = True, cap_visibilityLagMs = 0,
     cap_timeoutMs = 0, cap_paymentFatalCodes = [''fatal''], cap_quarantineAcknowledgement = True\<rparr>"

definition demo_dto :: create_dto where
  "demo_dto = \<lparr>dto_paymentRequestId = ''r1'', dto_sourceType = ''invoice'', dto_sourceId = ''i1'',
     dto_payer = \<lparr>party_type = ''user'', party_id = ''u1''\<rparr>, dto_seller = \<lparr>party_type = ''company'', party_id = ''c1''\<rparr>,
     dto_organizationId = None, dto_amount = 500, dto_currency = ''TND'', dto_expiresAt = Some ''soon'',
     dto_description = None, dto_reference = None, dto_purpose = Some ''non_entitlement'', dto_beneficiaryUserId = None\<rparr>"

definition demo_start :: start_dto where
  "demo_start = \<lparr>sd_provider = None, sd_providerOptions = None\<rparr>"

definition demo_sync :: event_ctx where
  "demo_sync = requestContext Act_user ''u1'' None (Some UK_member)"

section \<open>The rows of the runs\<close>

definition demo_pay :: "payment_status \<Rightarrow> nat \<Rightarrow> payment_row" where
  "demo_pay st n = \<lparr>pay_id = 0, pay_producer = ''svc'', pay_paymentRequestId = ''r1'',
     pay_sourceType = ''invoice'', pay_sourceId = ''i1'', pay_payerType = ''user'', pay_payerId = ''u1'',
     pay_sellerType = ''company'', pay_sellerId = ''c1'', pay_organizationId = None, pay_amount = 500,
     pay_currency = ''TND'', pay_description = None, pay_reference = None, pay_expiresAt = Some 1000,
     pay_status = st, pay_statusReason = None, pay_settledMethod = None, pay_succeededAttemptId = None,
     pay_revision = n, pay_createdAt = 0, pay_updatedAt = 0, pay_closedAt = None,
     pay_purpose = Some ''non_entitlement'', pay_beneficiaryUserId = None, pay_liveMode = Some False,
     pay_closingReason = None, pay_closingSince = None\<rparr>"

definition demo_att :: "attempt_status \<Rightarrow> attempt_row" where
  "demo_att st = \<lparr>att_id = 1, att_paymentId = 0, att_attemptNumber = 1, att_provider = ''test'',
     att_providerTransactionId = None, att_status = st, att_failureCode = None, att_failureClass = None,
     att_failureInferred = False, att_providerData = None, att_initiatedAt = 0, att_submittedAt = None,
     att_completedAt = None, att_liveMode = Some False, att_failureConfirmedAt = None,
     att_confirmedFailureCode = None, att_resolveAfter = None\<rparr>"

definition demo_fact :: "string \<Rightarrow> fact_row" where
  "demo_fact txn = \<lparr>fact_id = 2, fact_provider = ''test'', fact_providerTxnId = txn, fact_kind = K_capture,
     fact_paymentId = Some 0, fact_attemptId = Some 1, fact_amount = 500, fact_currency = ''TND'',
     fact_liveMode = False, fact_source = Src_status_check, fact_webhookEventId = None,
     fact_providerOccurredAt = None, fact_observedAt = 0\<rparr>"

definition svc_ctx :: event_ctx where
  "svc_ctx = requestContext Act_service ''svc'' None None"

definition event_row :: "string \<Rightarrow> payment_row \<Rightarrow> event_ctx \<Rightarrow> pay_extra \<Rightarrow> outbox_row" where
  "event_row nm p ctx extra = \<lparr>ob_id = Derived 0 nm, ob_name = nm, ob_payload = Payment_event (paymentEvent p ctx extra),
     ob_correlationId = None, ob_occurredAt = 0\<rparr>"

definition audit_row :: "string \<Rightarrow> audit_actor \<Rightarrow> audit_changes \<Rightarrow> outbox_row" where
  "audit_row action actor ch = \<lparr>ob_id = Derived 0 (audit_event_name action), ob_name = audit_event_name action,
     ob_payload = Audit_event \<lparr>aud_action = action, aud_actor = actor, aud_organizationId = None,
       aud_resource = (''payment'', 0), aud_changes = ch\<rparr>, ob_correlationId = None, ob_occurredAt = 0\<rparr>"

definition idem_start :: idempotency_row where
  "idem_start = \<lparr>idem_caller = ''user:u1'', idem_operation = ''start_attempt'', idem_key = ''k1'',
     idem_requestHash = ''/payment/payments//attempts'', idem_responseStatus = 201,
     idem_resourceType = ''payment_attempt'', idem_resourceId = 1\<rparr>"

definition idem_cancel :: idempotency_row where
  "idem_cancel = \<lparr>idem_caller = ''service:svc'', idem_operation = ''cancel_payment'', idem_key = ''c1'',
     idem_requestHash = ''/payment/payments//cancel'', idem_responseStatus = 200,
     idem_resourceType = ''payment'', idem_resourceId = 0\<rparr>"

section \<open>The states of the runs\<close>

definition d_created :: pdb where
  "d_created = (empty_pdb 0)\<lparr>next_uuid := 1, payments := [demo_pay P_created 0],
     outbox := [event_row ''payment.created'' (demo_pay P_created 0) svc_ctx No_extra,
                audit_row ''payment.created'' (AA_service ''svc'') Ch_none]\<rparr>"

definition d_started :: pdb where
  "d_started = d_created\<lparr>next_uuid := 2, payments := [demo_pay P_pending 1], attempts := [demo_att A_initiated],
     idempotency_keys := [idem_start]\<rparr>"

definition d_submitted :: pdb where
  "d_submitted = d_started\<lparr>attempts := [(demo_att A_submitted)\<lparr>att_providerTransactionId := Some ''t1'',
     att_providerData := Some ''null'', att_submittedAt := Some 0\<rparr>]\<rparr>"

definition d_fact :: pdb where
  "d_fact = d_submitted\<lparr>next_uuid := 3, facts := [demo_fact ''t1'']\<rparr>"

definition pay_settled :: payment_row where
  "pay_settled = (demo_pay P_succeeded 2)\<lparr>pay_settledMethod := Some Gateway, pay_succeededAttemptId := Some 1,
     pay_closedAt := Some 0\<rparr>"

definition d_succeeded :: pdb where
  "d_succeeded = d_fact\<lparr>payments := [pay_settled],
     attempts := [(demo_att A_succeeded)\<lparr>att_providerTransactionId := Some ''t1'', att_providerData := Some ''null'',
       att_submittedAt := Some 0, att_completedAt := Some 0\<rparr>],
     outbox := outbox d_created @ [event_row ''payment.succeeded'' pay_settled demo_sync (Extra_settled Gateway (Some 0)),
       audit_row ''payment.succeeded'' (AA_user ''u1'' UK_member) (Ch_settled (Some Gateway))]\<rparr>"

definition att_inferred :: attempt_row where
  "att_inferred = (demo_att A_failed)\<lparr>att_failureCode := Some ''not_found'', att_failureClass := Some FC_terminal,
     att_failureInferred := True, att_completedAt := Some 0\<rparr>"

definition d_inferred :: pdb where
  "d_inferred = d_started\<lparr>payments := [demo_pay P_created 2], attempts := [att_inferred]\<rparr>"

definition d_closing :: pdb where
  "d_closing = d_inferred\<lparr>payments := [(demo_pay P_closing 3)\<lparr>pay_closingReason := Some Closing_cancel,
       pay_closingSince := Some 0\<rparr>], idempotency_keys := [idem_start, idem_cancel]\<rparr>"

definition pay_cancelled :: payment_row where
  "pay_cancelled = (demo_pay P_cancelled 4)\<lparr>pay_closingReason := Some Closing_cancel, pay_closingSince := Some 0,
     pay_closedAt := Some 0\<rparr>"

definition d_cancelled :: pdb where
  "d_cancelled = d_closing\<lparr>payments := [pay_cancelled],
     attempts := [att_inferred\<lparr>att_failureConfirmedAt := Some 0, att_confirmedFailureCode := Some ''declined''\<rparr>],
     outbox := outbox d_created @ [event_row ''payment.cancelled'' pay_cancelled svc_ctx No_extra,
       audit_row ''payment.cancelled'' (AA_service ''svc'') Ch_none]\<rparr>"

definition d_late_fact :: pdb where
  "d_late_fact = d_cancelled\<lparr>next_uuid := 3, facts := [demo_fact ''t9'']\<rparr>"

definition late_demo :: late_row where
  "late_demo = \<lparr>late_id = 3, late_paymentId = 0, late_attemptId = 1, late_source = Src_status_check,
     late_webhookEventId = None, late_amount = 500, late_currency = ''TND'', late_paymentStatus = P_cancelled,
     late_factId = Some 2, late_recordedAt = 0\<rparr>"

definition d_late :: pdb where
  "d_late = d_late_fact\<lparr>next_uuid := 4, late_successes := [late_demo],
     outbox := outbox d_cancelled @
      [\<lparr>ob_id = Derived 3 late_event_name, ob_name = late_event_name,
        ob_payload = Late_success_event (lateSuccessEvent late_demo pay_cancelled), ob_correlationId = None, ob_occurredAt = 0\<rparr>,
       \<lparr>ob_id = Derived 3 (audit_event_name ''payment_late_success.recorded''),
        ob_name = audit_event_name ''payment_late_success.recorded'',
        ob_payload = Audit_event \<lparr>aud_action = ''payment_late_success.recorded'',
          aud_actor = AA_system ''payment_status_read'', aud_organizationId = None,
          aud_resource = (''payment_late_success'', 3), aud_changes = Ch_late 0 1 2 500 P_cancelled True\<rparr>,
        ob_correlationId = None, ob_occurredAt = 0\<rparr>]\<rparr>"

definition demo_late_obs :: late_observation where
  "demo_late_obs = \<lparr>lo_paymentId = 0, lo_paymentStatus = P_cancelled, lo_amount = JInt 500, lo_currency = ''TND'',
     lo_conflict = LK_final\<rparr>"

section \<open>The transactions between them\<close>

definition after :: "'a ptx \<Rightarrow> pdb \<Rightarrow> pdb option" where
  "after t db = (case t db of Inl e \<Rightarrow> None | Inr (x, db') \<Rightarrow> Some db')"

lemma after_Some: "after t db = Some db' \<Longrightarrow> \<exists>r. t db = Inr (r, db')"
  by (auto simp: after_def split: sum.splits)

lemma run_created: "after (create_tx ''svc'' demo_dto (dto_payer demo_dto) (dto_seller demo_dto) None (Some 1000)
    ''non_entitlement'') (empty_pdb 0) = Some d_created"
  by code_simp

lemma run_started: "after (start_T1 demo_env ''test'' 0 ''u1'' ''k1'' demo_start) d_created = Some d_started"
  by code_simp

lemma run_submitted: "after (start_T2 demo_cfg demo_caps 0 1 1 (Accepted ''t1'' None) demo_sync) d_started = Some d_submitted"
  by code_simp

lemma run_fact: "after (recordCaptureFact 1 (JInt 500) ''TND'' (Some ''t1'') None demo_sync) d_submitted = Some d_fact"
  by code_simp

lemma run_succeeded: "after (apply_decide demo_cfg demo_caps 1 (St_succeeded (JInt 500) ''TND'' (Some ''t1'') None) (Some 2)
    demo_sync) d_fact = Some d_succeeded"
  by code_simp

lemma run_inferred: "after (apply_decide demo_cfg demo_caps 1 St_notFound None demo_sync) d_started = Some d_inferred"
  by code_simp

lemma run_closing: "after (cancel demo_env 0 ''svc'' ''c1'' svc_ctx) d_inferred = Some d_closing"
  by code_simp

lemma run_cancelled: "after (apply_decide demo_cfg demo_caps 1 (St_failed FC_terminal ''declined'') None demo_sync) d_closing
    = Some d_cancelled"
  by code_simp

lemma run_late_fact: "after (recordCaptureFact 1 (JInt 500) ''TND'' (Some ''t9'') None demo_sync) d_cancelled = Some d_late_fact"
  by code_simp

lemma run_late: "after (recordLateSuccess 1 demo_late_obs demo_sync (Some 2)) d_late_fact = Some d_late"
  by code_simp

section \<open>They are reachable\<close>

lemma reachable_after:
  "after t db = Some db' \<Longrightarrow> reachable cfg env db \<Longrightarrow> (\<And>r. t db = Inr (r, db') \<Longrightarrow> pay_step cfg env db db') \<Longrightarrow>
     reachable cfg env db'"
  unfolding reachable_def using after_Some by (metis reaches.there)

lemma reachable_empty: "reachable cfg env (empty_pdb t)"
  by (auto simp: reachable_def intro: reaches.here)

lemma reachable_created: "reachable demo_cfg demo_env d_created"
  by (rule reachable_after [OF run_created reachable_empty]) (rule step_create)

lemma reachable_started: "reachable demo_cfg demo_env d_started"
  by (rule reachable_after [OF run_started reachable_created]) (rule step_T1)

lemma started_attempt: "find_attempt 1 d_started = Some (demo_att A_initiated)"
  by code_simp

lemma reachable_submitted: "reachable demo_cfg demo_env d_submitted"
  by (rule reachable_after [OF run_submitted reachable_started])
    (rule step_T2 [OF started_attempt], simp add: demo_att_def)

lemma reachable_fact: "reachable demo_cfg demo_env d_fact"
  by (rule reachable_after [OF run_fact reachable_submitted]) (rule step_fact)

lemma reachable_succeeded: "reachable demo_cfg demo_env d_succeeded"
  by (rule reachable_after [OF run_succeeded reachable_fact]) (rule step_decide)

lemma reachable_inferred: "reachable demo_cfg demo_env d_inferred"
  by (rule reachable_after [OF run_inferred reachable_started]) (rule step_decide)

lemma reachable_closing: "reachable demo_cfg demo_env d_closing"
  by (rule reachable_after [OF run_closing reachable_inferred]) (rule step_cancel)

lemma reachable_cancelled: "reachable demo_cfg demo_env d_cancelled"
  by (rule reachable_after [OF run_cancelled reachable_closing]) (rule step_decide)

lemma reachable_late_fact: "reachable demo_cfg demo_env d_late_fact"
  by (rule reachable_after [OF run_late_fact reachable_cancelled]) (rule step_fact)

lemma reachable_late: "reachable demo_cfg demo_env d_late"
  by (rule reachable_after [OF run_late reachable_late_fact]) (rule step_late)

end
