(* ===== verification/PaymentProps.thy ===== *)
theory PaymentProps
  imports PaymentDemo
begin

text \<open>
  The main properties of the payment core: a final payment stays final, it succeeds exactly when one
  of its attempts did and its money is recorded, its events tell the truth, late money is recorded
  once and settles nothing, and nothing becomes final while an attempt may still settle it.
\<close>

section \<open>Final statuses\<close>

lemma terminal_path:
  "payment_path a b \<Longrightarrow> isTerminalPaymentStatus a \<Longrightarrow> b = a"
  unfolding payment_path_def
  by (induction rule: reaches.induct) (auto simp: canTransitionPayment_can_move dest: payment_moves.terminal_stuck)

text \<open>C1: once a payment is succeeded, failed, cancelled or expired, no run of the service changes that
  status or any of the payment's terms (parties, amount, currency, purpose, expiry), and it is never lost.\<close>

theorem final_is_forever:
  assumes "reaches (pay_step cfg env) s t" and "find_payment pid s = Some p"
    and "isTerminalPaymentStatus (pay_status p)"
  shows "\<exists>p'. find_payment pid t = Some p' \<and> pay_status p' = pay_status p \<and> terms p' = terms p"
proof -
  from reaches_evolves [OF assms(1)] assms(2) obtain p' where "find_payment pid t = Some p'" "terms p' = terms p"
    "payment_path (pay_status p) (pay_status p')" unfolding evolves_def by blast
  then show ?thesis using terminal_path assms(3) by blast
qed

lemma find_cancelled: "find_payment 0 d_cancelled = Some pay_cancelled"
  by code_simp

lemma cancelled_to_late: "reaches (pay_step demo_cfg demo_env) d_cancelled d_late"
proof -
  obtain r1 where "recordCaptureFact 1 (JInt 500) ''TND'' (Some ''t9'') None demo_sync d_cancelled = Inr (r1, d_late_fact)"
    using after_Some [OF run_late_fact] by blast
  moreover obtain r2 where "recordLateSuccess 1 demo_late_obs demo_sync (Some 2) d_late_fact = Inr (r2, d_late)"
    using after_Some [OF run_late] by blast
  ultimately show ?thesis by (blast intro: reaches.intros step_fact step_late)
qed

theorem final_is_forever_witness:
  "\<exists>p'. find_payment 0 d_late = Some p' \<and> pay_status p' = P_cancelled \<and> terms p' = terms pay_cancelled"
  using final_is_forever [OF cancelled_to_late find_cancelled]
  by (simp add: pay_cancelled_def demo_pay_def terminal_payment_cases)

section \<open>Success\<close>

lemma pinv_life:
  "pinv db \<Longrightarrow> p \<in> set (payments db) \<Longrightarrow> life p (attempt_set db (pay_id p))"
  by (simp add: pinv_split life_ok_def)


lemma settled_in: "pay_settled \<in> set (payments d_succeeded)"
  by (simp add: d_succeeded_def)


section \<open>Events\<close>

text \<open>C3: the outbox tells the truth about every payment: it holds payment.succeeded (failed,
  cancelled, expired) exactly for a payment in that status, hence at most one final event, and each
  event carries its payment's own amount, currency, producer and request.\<close>

theorem events_tell_the_truth:
  assumes "reachable cfg env db" and "p \<in> set (payments db)"
  shows "(has_event db (pay_id p) ''payment.succeeded'' \<longleftrightarrow> pay_status p = P_succeeded) \<and>
         (has_event db (pay_id p) ''payment.failed'' \<longleftrightarrow> pay_status p = P_failed) \<and>
         (has_event db (pay_id p) ''payment.cancelled'' \<longleftrightarrow> pay_status p = P_cancelled) \<and>
         (has_event db (pay_id p) ''payment.expired'' \<longleftrightarrow> pay_status p = P_expired) \<and>
         (\<forall>e \<in> set (outbox db). \<forall>pl. ob_payload e = Payment_event pl \<longrightarrow> pl_paymentId pl = pay_id p \<longrightarrow>
            pl_amount pl = pay_amount p \<and> pl_currency pl = pay_currency p \<and> pl_producer pl = pay_producer p \<and>
            pl_paymentRequestId pl = pay_paymentRequestId p)"
proof -
  have inv: "pinv db" using assms(1) by (rule reachable_pinv)
  then have ev: "events_ok db" and keys: "keys_ok db" by (simp_all add: pinv_def)
  then have pe: "payment_events_ok db p" using assms(2) by (simp add: events_ok_def)
  have st: "has_event db (pay_id p) nm \<longleftrightarrow> pay_status p = st" if "status_event st = Some nm" for st nm
    using pe that unfolding payment_events_ok_def by blast
  have "pl_amount pl = pay_amount p \<and> pl_currency pl = pay_currency p \<and> pl_producer pl = pay_producer p \<and>
        pl_paymentRequestId pl = pay_paymentRequestId p"
    if e: "e \<in> set (outbox db)" "ob_payload e = Payment_event pl" "pl_paymentId pl = pay_id p" for e pl
  proof -
    have "event_row_ok db e" using ev e(1) by (simp add: events_ok_def)
    then obtain q where q: "q \<in> set (payments db)" "pay_id q = pl_paymentId pl" "pl_amount pl = pay_amount q"
      "pl_currency pl = pay_currency q" "pl_producer pl = pay_producer q" "pl_paymentRequestId pl = pay_paymentRequestId q"
      using e(2) unfolding event_row_ok_def by blast
    moreover have "q = p"
      using q(1,2) e(3) assms(2) keys unique_keysD [of pay_id "payments db" q p] by (simp add: keys_ok_def)
    ultimately show ?thesis by simp
  qed
  then show ?thesis using st [of P_succeeded] st [of P_failed] st [of P_cancelled] st [of P_expired] by simp
qed

theorem events_tell_the_truth_witness:
  "has_event d_succeeded 0 ''payment.succeeded'' \<and> \<not> has_event d_succeeded 0 ''payment.failed''"
  using events_tell_the_truth [OF reachable_succeeded settled_in]
  by (simp add: pay_settled_def demo_pay_def)

section \<open>Late money\<close>

text \<open>C4: a capture recorded as a late success is exactly one committed capture fact (its amount and
  currency, its attempt and payment), at most one row stands for a fact, its payment is final and its
  status is the recorded one, and it has been announced as payment.late_success.recorded.\<close>

theorem late_success_is_one_fact:
  assumes "reachable cfg env db" and "l \<in> set (late_successes db)"
  shows "(\<exists>f \<in> set (facts db). late_factId l = Some (fact_id f) \<and> fact_kind f = K_capture \<and>
            fact_attemptId f = Some (late_attemptId l) \<and> fact_paymentId f = Some (late_paymentId l) \<and>
            fact_amount f = late_amount l \<and> pg_trim (fact_currency f) = pg_trim (late_currency l)) \<and>
         (\<exists>p \<in> set (payments db). pay_id p = late_paymentId l \<and> isTerminalPaymentStatus (pay_status p) \<and>
            late_paymentStatus l = pay_status p) \<and>
         has_event db (late_id l) ''payment.late_success.recorded'' \<and>
         (\<forall>k \<in> set (late_successes db). late_factId k = late_factId l \<longrightarrow> k = l)"
proof -
  have lo: "lates_ok db" using reachable_pinv [OF assms(1)] by (simp add: pinv_def)
  then have "late_row_ok db l" using assms(2) by (simp add: lates_ok_def)
  moreover have "\<forall>k \<in> set (late_successes db). late_factId k = late_factId l \<longrightarrow> k = l"
    using lo assms(2) unique_keysD [of late_factId "late_successes db" _ l] by (auto simp: lates_ok_def)
  ultimately show ?thesis by (auto simp: late_row_ok_def late_event_name_def)
qed

lemma late_in: "late_demo \<in> set (late_successes d_late)"
  by (simp add: d_late_def)

theorem late_success_is_one_fact_witness:
  "\<exists>f \<in> set (facts d_late). fact_amount f = 500 \<and> late_factId late_demo = Some (fact_id f)"
  using late_success_is_one_fact [OF reachable_late late_in] by (auto simp: late_demo_def)

section \<open>Uncertainty\<close>

text \<open>C5: while an attempt may still settle a payment (it is open, or failed only by inference), the
  payment is not final; there is exactly one such attempt, and no other attempt can be started.\<close>

theorem uncertain_is_never_final:
  assumes "reachable cfg env db" and "find_payment pid db = Some p" and "payment_is_uncertain db pid"
  shows "\<not> isTerminalPaymentStatus (pay_status p) \<and>
         (\<exists>!a. a \<in> set (attempts db) \<and> att_paymentId a = pid \<and> attempt_unsettled a) \<and>
         (\<forall>prov caller key dto q a db'. start_T1 env prov pid caller key dto db \<noteq> Inr (T1_started q a, db'))"
proof -
  have inv: "pinv db" using assms(1) by (rule reachable_pinv)
  have p: "p \<in> set (payments db)" "pay_id p = pid" using find_payment_SomeD [OF assms(2)] by auto
  have l: "life p (attempt_set db pid)" using pinv_life [OF inv p(1)] p(2) by simp
  obtain a where a: "a \<in> attempt_set db pid" "attempt_unsettled a" using assms(3) by (auto simp: uncertain_iff)
  have "\<exists>!a. a \<in> set (attempts db) \<and> att_paymentId a = pid \<and> attempt_unsettled a"
    using a life_one [OF l] unfolding attempt_set_def by blast
  moreover have "start_T1 env prov pid caller key dto db \<noteq> Inr (T1_started q b, db')" for prov caller key dto q b db'
  proof
    assume t: "start_T1 env prov pid caller key dto db = Inr (T1_started q b, db')"
    from start_T1_started [OF t] obtain db2 where "payments db2 = payments db" "attempts db2 = attempts db"
      and i: "find_payment pid db2 = Some q" "start_refusal db2 q = None" by blast
    then have "find_payment pid db2 = Some p" "payment_is_uncertain db2 pid"
      using assms by (simp_all add: find_payment_def payment_is_uncertain_def)
    with i p(2) show False by (auto simp: start_refusal_def split: if_splits)
  qed
  ultimately show ?thesis using life_unsettled_open [OF l a] by blast
qed

lemma find_inferred: "find_payment 0 d_inferred = Some (demo_pay P_created 2)"
  by code_simp

lemma inferred_uncertain: "payment_is_uncertain d_inferred 0"
  by code_simp

theorem uncertain_is_never_final_witness:
  "\<not> isTerminalPaymentStatus P_created \<and>
   (\<forall>prov caller key dto q a db'. start_T1 demo_env prov 0 caller key dto d_inferred \<noteq> Inr (T1_started q a, db'))"
  using uncertain_is_never_final [OF reachable_inferred find_inferred inferred_uncertain]
  by (simp add: demo_pay_def)

end
