(* ===== verification/PaymentSettle.thy ===== *)
theory PaymentSettle
  imports PaymentDemo
begin

text \<open>
  What the code does when nothing is wrong: no guard of the database ever stops a verified success
  of a payment that may still be settled, and each outcome of a cancellation and of the expiry sweep
  is the one the state of the payment calls for.
\<close>

section \<open>The guards let a settlement through\<close>

lemma pg_trim_idem [simp]: "pg_trim (pg_trim s) = pg_trim s"
proof -
  have hd: "dropWhile P xs = xs" if "xs = [] \<or> \<not> P (hd xs)" for P and xs :: string
    using that by (cases xs) auto
  have a: "dropWhile P (dropWhile P xs) = dropWhile P xs" for P and xs :: string
    by (simp add: dropWhile_idem)
  let ?P = "\<lambda>c. c = CHR '' ''"
  let ?t = "dropWhile ?P s"
  have "dropWhile ?P (rev (dropWhile ?P (rev ?t))) = rev (dropWhile ?P (rev ?t))"
  proof (rule hd, rule disjCI)
    assume "\<not> \<not> ?P (hd (rev (dropWhile ?P (rev ?t))))"
    then have l: "last (dropWhile ?P (rev ?t)) = CHR '' ''" if "dropWhile ?P (rev ?t) \<noteq> []"
      using that by (simp add: hd_rev)
    show "rev (dropWhile ?P (rev ?t)) = []"
    proof (rule ccontr)
      assume "rev (dropWhile ?P (rev ?t)) \<noteq> []"
      then have n: "dropWhile ?P (rev ?t) \<noteq> []" by simp
      then have "?t \<noteq> []" by (cases ?t) auto
      moreover obtain u where u: "rev ?t = u @ dropWhile ?P (rev ?t)" using takeWhile_dropWhile_id [of ?P "rev ?t"] by metis
      then have "last (rev ?t) = last (dropWhile ?P (rev ?t))" using n by (metis last_appendR)
      ultimately have "hd ?t = CHR '' ''" using l [OF n] by (simp add: last_rev)
      then show False using hd_dropWhile [of ?P s] \<open>?t \<noteq> []\<close> by blast
    qed
  qed
  then show ?thesis by (simp add: pg_trim_def a)
qed

lemma update_attempt_ok:
  "find_attempt aid db = Some old \<Longrightarrow> attempt_update_error db old (f old) = None \<Longrightarrow>
     update_attempt aid f db = Inr (f old, db\<lparr>attempts := set_row att_id aid (f old) (attempts db)\<rparr>)"
  by (simp add: update_attempt_def Let_def)

lemma update_payment_ok:
  "find_payment pid db = Some old \<Longrightarrow> payment_update_error db old (payment_touch db old (f old)) = None \<Longrightarrow>
     update_payment pid f db = Inr (payment_touch db old (f old),
       db\<lparr>payments := set_row pay_id pid (payment_touch db old (f old)) (payments db)\<rparr>)"
  by (simp add: update_payment_def Let_def)

text \<open>An attempt that may still settle the payment moves along without meeting another row.\<close>

lemma indexes_ok_unsettled:
  assumes inv: "pinv db" and tx: "txns_unique db" and a: "find_attempt aid db = Some a"
    and p: "find_payment (att_paymentId a) db = Some p" and un: "attempt_unsettled a"
    and new: "att_id new = att_id a" "att_paymentId new = att_paymentId a" "att_provider new = att_provider a"
      "att_providerTransactionId new = att_providerTransactionId a"
  shows "attempt_indexes_ok db new"
proof -
  have l: "life p (attempt_set db (att_paymentId a))" using inv p by (auto simp: pinv_split intro: life_at)
  have S: "a \<in> attempt_set db (att_paymentId a)" "a \<in> set (attempts db)"
    using attempt_in_set [OF a] by (auto simp: attempt_set_def)
  have one: "att_id b = att_id a"
    if "b \<in> set (attempts db)" "att_paymentId b = att_paymentId a" "isOpenAttemptStatus (att_status b)" for b
    using life_one [OF l, of a b] that S un open_unsettled by (auto simp: attempt_set_def)
  have no: "att_status b \<noteq> A_succeeded" if "b \<in> set (attempts db)" "att_paymentId b = att_paymentId a" for b
    using life_success [OF l, of b] life_unsettled_open [OF l S(1) un] that
    by (auto simp: attempt_set_def terminal_payment_cases)
  have txn: "att_id b = att_id a"
    if "b \<in> set (attempts db)" "att_provider b = att_provider a"
      "att_providerTransactionId b = att_providerTransactionId a" "att_providerTransactionId a \<noteq> None" for b
    using tx that S(2) unfolding txns_unique_def by metis
  show ?thesis
    unfolding attempt_indexes_ok_def list_ex_iff new using one no txn by blast
qed

lemma succeed_attempt_ok:
  assumes "pinv db" "txns_unique db" "find_attempt aid db = Some a" "find_payment (att_paymentId a) db = Some p"
    and un: "attempt_unsettled a" and ni: "att_status a \<noteq> A_initiated"
  shows "attempt_update_error db a (a\<lparr>att_status := A_succeeded, att_completedAt := t\<rparr>) = None"
proof -
  let ?n = "a\<lparr>att_status := A_succeeded, att_completedAt := t\<rparr>"
  have "attempt_indexes_ok db ?n" by (rule indexes_ok_unsettled [OF assms(1-5)]) simp_all
  moreover have ok: "attempt_ok a" using assms(1,3) pinv_attempt_ok find_attempt_SomeD by blast
  moreover have "attempt_status_transition_guard a ?n"
    using un ni by (cases "att_status a")
      (auto simp: attempt_status_transition_guard_def attempt_trigger_edges_def attempt_unsettled_def open_attempt_cases)
  moreover have "att_failureConfirmedAt a = None" using ok un by (auto simp: attempt_ok_def attempt_unsettled_def open_attempt_cases)
  then have "attempt_confirmation_ok a ?n" by (simp add: attempt_confirmation_ok_def)
  ultimately show ?thesis by (simp add: attempt_update_error_def)
qed

lemma succeed_payment_ok:
  fixes t :: instant
  assumes l: "life p S" and a: "a \<in> S" "attempt_unsettled a" and pid: "pay_id p = att_paymentId a"
    and r: "r \<in> set (attempts db)" "att_id r = att_id a" "att_paymentId r = att_paymentId a" "att_status r = A_succeeded"
      "att_failureInferred r = att_failureInferred a"
    and f: "capture_facts_of db (att_id a) (pay_id p) = [f]" "fact_amount f = pay_amount p"
      "pg_trim (fact_currency f) = pg_trim (pay_currency p)" "\<not> fact_contested db (fact_id f)"
  defines "new \<equiv> payment_touch db p (p\<lparr>pay_status := P_succeeded, pay_settledMethod := Some Gateway,
                pay_succeededAttemptId := Some (att_id a), pay_closedAt := Some t\<rparr>)"
  shows "payment_update_error db p new = None"
proof -
  have nt: "\<not> isTerminalPaymentStatus (pay_status p)" by (rule life_unsettled_open [OF l a])
  have ns: "pay_status p \<noteq> P_succeeded" using nt by (auto simp: terminal_payment_cases)
  have none: "pay_succeededAttemptId p = None" using life_status(6) [OF l ns] by simp
  have inf: "att_failureInferred a" if "pay_status p = P_created"
    using life_status(4) [OF l that a(1)] a(2) by (auto simp: attempt_unsettled_def open_attempt_cases)
  have mine: "list_ex (\<lambda>x. att_id x = att_id a \<and> att_paymentId x = pay_id p \<and> att_status x = A_succeeded) (attempts db)"
    using r pid by (auto simp: list_ex_iff)
  have minei: "list_ex (\<lambda>x. att_id x = att_id a \<and> att_paymentId x = pay_id p \<and> att_status x = A_succeeded \<and>
      att_failureInferred x) (attempts db)" if "pay_status p = P_created"
    using r pid inf [OF that] by (auto simp: list_ex_iff)
  have "payment_status_transition_guard db p new"
    using nt minei unfolding payment_status_transition_guard_def new_def status_cases
    by (auto simp: payment_trigger_edges_def)
  moreover have "settlement_evidence_guard db new" using f by (simp add: settlement_evidence_guard_def new_def)
  moreover have "succeeded_attempt_integrity db p new"
    using mine none by (simp add: succeeded_attempt_integrity_def new_def)
  moreover have "closing_fields_once p new" by (simp add: closing_fields_once_def new_def)
  moreover have "closing_outcome_ok new"
    by (cases "pay_closingReason p") (auto simp: closing_outcome_ok_def new_def split: closing_reason.splits)
  ultimately show ?thesis by (simp add: payment_update_error_def)
qed

text \<open>The settlement of an attempt the provider has already acknowledged.\<close>

definition settled_as :: "pdb \<Rightarrow> uuid \<Rightarrow> uuid \<Rightarrow> bool" where
  "settled_as db pid aid \<longleftrightarrow>
     (\<exists>p. find_payment pid db = Some p \<and> pay_status p = P_succeeded \<and> pay_succeededAttemptId p = Some aid) \<and>
     has_event db pid ''payment.succeeded''"

lemma settles_acknowledged:
  assumes inv: "pinv db" and tx: "txns_unique db" and a: "find_attempt aid db = Some a"
    and p: "find_payment (att_paymentId a) db = Some p" and un: "attempt_unsettled a" and ni: "att_status a \<noteq> A_initiated"
    and f: "capture_facts_of db aid (pay_id p) = [f]" "fact_amount f = pay_amount p"
      "pg_trim (fact_currency f) = pg_trim (pay_currency p)" "\<not> fact_contested db (fact_id f)"
    and ctx: "auditActor ctx = Inr actor"
  shows "\<exists>r db'. settle_succeeded p a ctx db = Inr ((r, None), db') \<and> att_status r = A_succeeded \<and>
    settled_as db' (pay_id p) aid"
proof -
  have ids: "att_id a = aid" "pay_id p = att_paymentId a" using attempt_in_set [OF a] find_payment_SomeD [OF p] by auto
  let ?r = "a\<lparr>att_status := A_succeeded, att_completedAt := Some (now db)\<rparr>"
  let ?db2 = "db\<lparr>attempts := set_row att_id aid ?r (attempts db)\<rparr>"
  have u1: "update_attempt aid (\<lambda>r. r\<lparr>att_status := A_succeeded, att_completedAt := Some (now db)\<rparr>) db = Inr (?r, ?db2)"
    using update_attempt_ok [OF a, of "\<lambda>r. r\<lparr>att_status := A_succeeded, att_completedAt := Some (now db)\<rparr>"]
      succeed_attempt_ok [OF inv tx a p un ni] by simp
  have "find_attempt aid ?db2 = Some ?r" using find_attempt_set_row [OF a, of ?r] ids by simp
  then have rin: "?r \<in> set (attempts ?db2)" using find_attempt_SomeD by blast
  have l: "life p (attempt_set db (att_paymentId a))" using inv p by (auto simp: pinv_split intro: life_at)
  have ain: "a \<in> attempt_set db (att_paymentId a)" using attempt_in_set [OF a] by simp
  have p2: "find_payment (pay_id p) ?db2 = Some p" using p ids by simp
  let ?fp = "\<lambda>r. r\<lparr>pay_status := P_succeeded, pay_settledMethod := Some Gateway,
                pay_succeededAttemptId := Some aid, pay_closedAt := Some (now db)\<rparr>"
  let ?new = "payment_touch ?db2 p (?fp p)"
  have "payment_update_error ?db2 p ?new = None"
    using succeed_payment_ok [OF l ain un ids(2) rin _ _ _ _, of f "now db"] f ids
    by (simp add: capture_facts_of_def fact_contested_def)
  from update_payment_ok [OF p2, of ?fp] this obtain db3 where
    u2: "update_payment (pay_id p) ?fp ?db2 = Inr (?new, db3)"
    and db3: "db3 = ?db2\<lparr>payments := set_row pay_id (pay_id p) ?new (payments db)\<rparr>" by simp
  obtain db4 where u3: "emit_payment_event ''payment.succeeded'' ?new ctx (Extra_settled Gateway (pay_closedAt ?new)) db3 = Inr ((), db4)"
    and db4: "db4 = enqueued (Derived (pay_id p) ''payment.succeeded'') ''payment.succeeded''
       (Payment_event (paymentEvent ?new ctx (Extra_settled Gateway (pay_closedAt ?new)))) (ctx_correlationId ctx) db3"
    by (simp add: emit_payment_event_Inr)
  have "\<exists>db5. audit_record_payment ''payment.succeeded'' ?new ctx db4 = Inr ((), db5)"
    using ctx by (simp add: audit_record_payment_def tx_bind_def tx_lift_def enqueue_Inr)
  then obtain db5 where u4: "audit_record_payment ''payment.succeeded'' ?new ctx db4 = Inr ((), db5)" by blast
  obtain g where db5: "db5 = enqueued (Derived (pay_id p) (audit_event_name ''payment.succeeded''))
     (audit_event_name ''payment.succeeded'') (Audit_event g) (ctx_correlationId ctx) db4"
    using audit_record_payment_Inr [OF u4] by auto
  have res: "settle_succeeded p a ctx db = Inr ((?r, None), db5)"
    unfolding settle_succeeded_def using ni ids u1 u2 u3 u4 by (simp add: tx_bind_def tx_return_def)
  have "find_payment (pay_id p) db5 = Some ?new"
    using p2 find_payment_SomeD [OF p2] by (simp add: db5 db4 db3 find_payment_def get_row_set_row)
  moreover have "has_event db5 (pay_id p) ''payment.succeeded''" by (simp add: db5 db4)
  ultimately show ?thesis using res by (auto simp: settled_as_def)
qed

text \<open>An attempt still initiated is first moved to unknown.\<close>

lemma to_unknown_ok:
  assumes inv: "pinv db" and tx: "txns_unique db" and a: "find_attempt aid db = Some a"
    and p: "find_payment (att_paymentId a) db = Some p" and i: "att_status a = A_initiated"
  shows "\<exists>db1. update_attempt aid (\<lambda>r. r\<lparr>att_status := A_unknown\<rparr>) db = Inr (a\<lparr>att_status := A_unknown\<rparr>, db1) \<and>
    pinv db1 \<and> txns_unique db1 \<and> find_attempt aid db1 = Some (a\<lparr>att_status := A_unknown\<rparr>) \<and>
    payments db1 = payments db \<and> facts db1 = facts db \<and> conflicts db1 = conflicts db \<and> now db1 = now db"
proof -
  let ?r = "a\<lparr>att_status := A_unknown\<rparr>"
  have un: "attempt_unsettled a" using i by (simp add: attempt_unsettled_def open_attempt_cases)
  have ok: "attempt_ok a" using inv a pinv_attempt_ok find_attempt_SomeD by blast
  have "attempt_indexes_ok db ?r" by (rule indexes_ok_unsettled [OF inv tx a p un]) simp_all
  then have "attempt_update_error db a ?r = None"
    using i ok by (simp add: attempt_update_error_def attempt_status_transition_guard_def attempt_trigger_edges_def
        attempt_confirmation_ok_def attempt_ok_def)
  from update_attempt_ok [OF a, of "\<lambda>r. r\<lparr>att_status := A_unknown\<rparr>"] this obtain db1 where
    u: "update_attempt aid (\<lambda>r. r\<lparr>att_status := A_unknown\<rparr>) db = Inr (?r, db1)"
    and db1: "db1 = db\<lparr>attempts := set_row att_id aid ?r (attempts db)\<rparr>" by simp
  have "evo.keeps db (update_attempt aid (\<lambda>r. r\<lparr>att_status := A_unknown\<rparr>) db)"
    by (rule keeps_update_attempt) (simp add: attempt_terms_def)
  then have "evolves db db1" using u by (rule evo.keeps_run)
  then have "txns_unique db1" using tx unfolding evolves_def by blast
  moreover have "pinv db1" using to_unknown_step [OF inv a, of ?r db1] u i by simp
  ultimately show ?thesis
    using u find_attempt_set_row [OF a, of ?r] attempt_in_set [OF a] by (simp add: db1)
qed

lemma settle_succeeded_ok:
  assumes inv: "pinv db" and tx: "txns_unique db" and a: "find_attempt aid db = Some a"
    and p: "find_payment (att_paymentId a) db = Some p" and un: "attempt_unsettled a"
    and f: "capture_facts_of db aid (pay_id p) = [f]" "fact_amount f = pay_amount p"
      "pg_trim (fact_currency f) = pg_trim (pay_currency p)" "\<not> fact_contested db (fact_id f)"
    and ctx: "auditActor ctx = Inr actor"
  shows "\<exists>r db'. settle_succeeded p a ctx db = Inr ((r, None), db') \<and> att_status r = A_succeeded \<and>
    settled_as db' (pay_id p) aid"
proof (cases "att_status a = A_initiated")
  case False
  then show ?thesis by (rule settles_acknowledged [OF inv tx a p un _ f ctx])
next
  case True
  let ?a = "a\<lparr>att_status := A_unknown\<rparr>"
  have ids: "att_id a = aid" using attempt_in_set [OF a] by simp
  obtain db1 where u: "update_attempt aid (\<lambda>r. r\<lparr>att_status := A_unknown\<rparr>) db = Inr (?a, db1)"
    and i1: "pinv db1" "txns_unique db1" and a1: "find_attempt aid db1 = Some ?a"
    and same: "payments db1 = payments db" "facts db1 = facts db" "conflicts db1 = conflicts db" "now db1 = now db"
    using to_unknown_ok [OF inv tx a p True] by blast
  have p1: "find_payment (att_paymentId ?a) db1 = Some p" using p find_payment_same [OF same(1)] by simp
  have un1: "attempt_unsettled ?a" by (simp add: attempt_unsettled_def open_attempt_cases)
  have f1: "capture_facts_of db1 aid (pay_id p) = [f]" "\<not> fact_contested db1 (fact_id f)"
    using f same by (simp_all add: capture_facts_of_def fact_contested_def)
  obtain r db' where s: "settle_succeeded p ?a ctx db1 = Inr ((r, None), db')"
    and r: "att_status r = A_succeeded" "settled_as db' (pay_id p) aid"
    using settles_acknowledged [OF i1 a1 p1 un1 _ f1(1) f(2,3) f1(2) ctx] by auto
  have "settle_succeeded p a ctx db = settle_succeeded p ?a ctx db1"
    using True u ids same(4) by (simp add: settle_succeeded_def tx_bind_def tx_return_def)
  with s r show ?thesis by simp
qed

lemma captureEvidence_verified:
  assumes "captureEvidence db pid aid (JInt i) c fid = (True, 1)"
  obtains f where "capture_facts_of db aid pid = [f]" "fact_amount f = i" "pg_trim (fact_currency f) = c"
    "\<not> fact_contested db (fact_id f)" "fid = Some (fact_id f)"
proof -
  from assms obtain g where
    g: "find (\<lambda>f. Some (fact_id f) = fid \<and> fact_kind f = K_capture \<and> fact_attemptId f = Some aid \<and> fact_paymentId f = Some pid)
          (facts db) = Some g"
    and ok: "\<not> fact_contested db (fact_id g)" "fact_amount g = i" "pg_trim (fact_currency g) = c"
    and n: "length (capture_facts_of db aid pid) = 1"
    by (auto simp: captureEvidence_def js_is_def split: option.splits)
  then have gp: "Some (fact_id g) = fid" "g \<in> set (facts db)" "fact_kind g = K_capture" "fact_attemptId g = Some aid"
      "fact_paymentId g = Some pid"
    by (auto simp: find_Some_iff)
  then have "g \<in> set (capture_facts_of db aid pid)" by (simp add: capture_facts_of_def)
  with n have "capture_facts_of db aid pid = [g]"
    by (cases "capture_facts_of db aid pid") auto
  with that ok gp show ?thesis by metis
qed

section \<open>Recording late successes never fails\<close>

definition late_candidate :: "pdb \<Rightarrow> uuid \<Rightarrow> fact_row \<Rightarrow> bool" where
  "late_candidate db pid f \<longleftrightarrow>
     f \<in> set (facts db) \<and> fact_kind f = K_capture \<and> fact_paymentId f = Some pid \<and> fact_attemptId f \<noteq> None \<and>
     \<not> fact_contested db (fact_id f) \<and>
     (\<forall>g \<in> set (facts db). fact_attemptId g = fact_attemptId f \<longrightarrow> fact_kind g = K_capture \<longrightarrow> fact_id g = fact_id f)"

definition same_evidence :: "pdb \<Rightarrow> pdb \<Rightarrow> bool" where
  "same_evidence a b \<longleftrightarrow> facts b = facts a \<and> conflicts b = conflicts a \<and> payments b = payments a \<and>
     (\<forall>i nm. has_event a i nm \<longrightarrow> has_event b i nm)"

lemma same_evidence_refl: "same_evidence a a"
  by (simp add: same_evidence_def)

lemma same_evidence_trans: "same_evidence a b \<Longrightarrow> same_evidence b c \<Longrightarrow> same_evidence a c"
  by (auto simp: same_evidence_def)

lemma same_evidence_candidate: "same_evidence a b \<Longrightarrow> late_candidate b pid f = late_candidate a pid f"
  by (simp add: same_evidence_def late_candidate_def fact_contested_def)

lemma same_evidence_find: "same_evidence a b \<Longrightarrow> find_payment pid b = find_payment pid a"
  by (simp add: same_evidence_def find_payment_def)

lemma same_evidence_enqueued: "same_evidence db (enqueued (Derived i n) m pl c db)"
  by (simp add: same_evidence_def)

lemma late_row_written:
  "\<exists>db'. tx_bind (emit_late_success_event l p ctx) (\<lambda>_. tx_bind (audit_late_success l fid p actor ctx) (\<lambda>_. tx_return (1::nat))) db
     = Inr (1, db') \<and> same_evidence db db'"
  by (auto simp: emit_late_success_event_def audit_late_success_def tx_bind_def tx_return_def enqueue_Inr
      deterministicEventId_def intro: same_evidence_trans same_evidence_enqueued)

lemma insert_late_total:
  assumes "late_success_guard db l = None"
  shows "\<exists>ins db1. insert_late_success l db = Inr (ins, db1) \<and> same_evidence db db1"
proof (cases "fst (the (case insert_late_success l db of Inr x \<Rightarrow> Some x | _ \<Rightarrow> None))")
  case None
  then show ?thesis using assms
    by (simp add: insert_late_success_def same_evidence_def has_event_def split: if_split_asm)
next
  case (Some k)
  then show ?thesis using assms
    by (simp add: insert_late_success_def same_evidence_def has_event_def split: if_split_asm)
qed

lemma audit_record_total:
  assumes "auditActor ctx = Inr who"
  shows "\<exists>db2. audit_record_payment nm p ctx db = Inr ((), db2) \<and> same_evidence db db2"
proof -
  have "\<exists>db2. audit_record_payment nm p ctx db = Inr ((), db2)"
    using assms by (simp add: audit_record_payment_def tx_bind_def tx_lift_def enqueue_Inr)
  then obtain db2 where a: "audit_record_payment nm p ctx db = Inr ((), db2)" by blast
  then show ?thesis using audit_record_payment_Inr [OF a] same_evidence_enqueued by metis
qed

lemma record_one_total:
  assumes c: "late_candidate db (pay_id p) f" and p: "find_payment (pay_id p) db = Some p"
    and fin: "isTerminalPaymentStatus (pay_status p)"
  shows "\<exists>n db'. record_one_late_success p ctx actor f db = Inr (n, db') \<and> same_evidence db db'"
proof -
  obtain aid where aid: "fact_attemptId f = Some aid" using c by (auto simp: late_candidate_def)
  let ?db = "db\<lparr>next_uuid := Suc (next_uuid db)\<rparr>"
  define l where "l = \<lparr>late_id = next_uuid db, late_paymentId = pay_id p, late_attemptId = aid,
    late_source = fact_source f, late_webhookEventId = fact_webhookEventId f, late_amount = fact_amount f,
    late_currency = pg_trim (fact_currency f), late_paymentStatus = pay_status p,
    late_factId = Some (fact_id f), late_recordedAt = now ?db\<rparr>"
  have e: "same_evidence db ?db" by (simp add: same_evidence_def has_event_def)
  have "late_success_guard ?db l = None"
  proof -
    have cc: "f \<in> set (facts db)" "fact_kind f = K_capture" "fact_paymentId f = Some (pay_id p)"
      "\<not> fact_contested db (fact_id f)" using c unfolding late_candidate_def by blast+
    have 1: "list_ex (\<lambda>g. fact_id g = fact_id f \<and> fact_kind g = K_capture \<and> fact_attemptId g = Some aid \<and>
        fact_paymentId g = Some (pay_id p) \<and> fact_amount g = fact_amount f \<and>
        pg_trim (fact_currency g) = pg_trim (fact_currency f) \<and> \<not> fact_contested ?db (fact_id f)) (facts db)"
      unfolding list_ex_iff using cc aid by (intro bexI [of _ f]) (simp_all add: fact_contested_def)
    have 2: "\<not> list_ex (\<lambda>g. fact_attemptId g = Some aid \<and> fact_kind g = K_capture \<and> fact_id g \<noteq> fact_id f) (facts db)"
      unfolding list_ex_iff using c aid unfolding late_candidate_def by metis
    have 3: "find_payment (pay_id p) ?db = Some p" using p by (simp add: find_payment_def)
    show ?thesis using 1 2 3 fin by (simp add: late_success_guard_def l_def)
  qed
  then have "\<exists>ins db1. insert_late_success l ?db = Inr (ins, db1) \<and> same_evidence ?db db1"
    by (rule insert_late_total)
  then obtain ins db1 where ins: "insert_late_success l ?db = Inr (ins, db1)" and e1: "same_evidence ?db db1" by blast
  have step: "record_one_late_success p ctx actor f db = (case ins of None \<Rightarrow> tx_return 0
       | Some l \<Rightarrow> tx_bind (emit_late_success_event l p ctx) (\<lambda>_.
           tx_bind (audit_late_success l (fact_id f) p
             (case actor of Some x \<Rightarrow> x | None \<Rightarrow> observationActor (fact_source f)) ctx) (\<lambda>_. tx_return 1))) db1"
    using ins by (simp add: record_one_late_success_def aid tx_bind_def fresh_uuid_def l_def del: One_nat_def)
  show ?thesis
  proof (cases ins)
    case None
    then show ?thesis using step same_evidence_trans [OF e e1] by (simp add: tx_return_def)
  next
    case (Some k)
    obtain db2 where "tx_bind (emit_late_success_event k p ctx) (\<lambda>_.
           tx_bind (audit_late_success k (fact_id f) p
             (case actor of Some x \<Rightarrow> x | None \<Rightarrow> observationActor (fact_source f)) ctx) (\<lambda>_. tx_return (1::nat))) db1
        = Inr (1, db2)" "same_evidence db1 db2"
      using late_row_written by blast
    then show ?thesis using Some step same_evidence_trans [OF same_evidence_trans [OF e e1]] by auto
  qed
qed

lemma record_late_successes_total:
  "(\<forall>f \<in> set fs. late_candidate db (pay_id p) f) \<Longrightarrow> find_payment (pay_id p) db = Some p \<Longrightarrow>
   isTerminalPaymentStatus (pay_status p) \<Longrightarrow>
   \<exists>n db'. record_late_successes p ctx actor fs db = Inr (n, db') \<and> same_evidence db db'"
proof (induction fs arbitrary: db)
  case Nil
  then show ?case by (simp add: tx_return_def same_evidence_refl)
next
  case (Cons f fs)
  from Cons.prems obtain n db1 where 1: "record_one_late_success p ctx actor f db = Inr (n, db1)" and e: "same_evidence db db1"
    using record_one_total [of db p f ctx actor] by auto
  have "\<forall>g \<in> set fs. late_candidate db1 (pay_id p) g" using Cons.prems(1) same_evidence_candidate [OF e] by simp
  moreover have "find_payment (pay_id p) db1 = Some p" using Cons.prems(2) same_evidence_find [OF e] by simp
  ultimately obtain m db2 where 2: "record_late_successes p ctx actor fs db1 = Inr (m, db2)" and e2: "same_evidence db1 db2"
    using Cons.IH Cons.prems(3) by blast
  show ?case using 1 2 same_evidence_trans [OF e e2] by (simp add: tx_bind_def tx_return_def)
qed

lemma announce_final_total:
  assumes keys: "keys_ok db" and p: "find_payment (pay_id p) db = Some p" and fin: "isTerminalPaymentStatus (pay_status p)"
    and ctx: "auditActor ctx = Inr who"
  shows "\<exists>db'. announce_final nm p ctx extra db = Inr ((), db') \<and> same_evidence db db' \<and> has_event db' (pay_id p) nm"
proof -
  obtain db1 where e1: "emit_payment_event nm p ctx extra db = Inr ((), db1)" and s1: "same_evidence db db1"
    and h: "has_event db1 (pay_id p) nm"
    by (simp add: emit_payment_event_Inr same_evidence_enqueued)
  obtain db2 where e2: "audit_record_payment nm p ctx db1 = Inr ((), db2)" and s2: "same_evidence db1 db2"
    using audit_record_total [OF ctx] by blast
  have e12: "same_evidence db db2" by (rule same_evidence_trans [OF s1 s2])
  have "late_candidate db2 (pay_id p) f" if "f \<in> set (qualifying_facts db2 (pay_id p) None)" for f
  proof -
    have q: "qualifying_fact db2 (pay_id p) f" "f \<in> set (facts db2)" using that by (simp_all add: qualifying_facts_def)
    have "fact_attemptId f \<noteq> None"
      using keys q e12 by (auto simp: keys_ok_def same_evidence_def qualifying_fact_def)
    then show ?thesis using q unfolding late_candidate_def qualifying_fact_def list_ex_iff by blast
  qed
  moreover have "find_payment (pay_id p) db2 = Some p" using p same_evidence_find [OF e12] by simp
  ultimately have "\<exists>n db3. recordQualifyingLateSuccesses p ctx None None db2 = Inr (n, db3) \<and> same_evidence db2 db3"
    using record_late_successes_total [of "qualifying_facts db2 (pay_id p) None" db2 p ctx None] fin
    by (auto simp: recordQualifyingLateSuccesses_def same_evidence_refl)
  then obtain n db3 where e3: "recordQualifyingLateSuccesses p ctx None None db2 = Inr (n, db3)"
    and s3: "same_evidence db2 db3" by blast
  have "announce_final nm p ctx extra db = Inr ((), db3)"
    using e1 e2 e3 by (simp add: announce_final_def tx_bind_def tx_return_def)
  moreover have "same_evidence db1 db3" by (rule same_evidence_trans [OF s2 s3])
  then have "has_event db3 (pay_id p) nm" using h by (simp add: same_evidence_def)
  ultimately show ?thesis using same_evidence_trans [OF e12 s3] by blast
qed

section \<open>Closing and final statuses are let through\<close>

lemma to_closing_ok:
  assumes inv: "pinv db" and p: "find_payment pid db = Some p" and st: "pay_status p = P_created \<or> pay_status p = P_pending"
    and un: "payment_is_uncertain db pid"
  shows "\<exists>p' db'. update_payment pid (\<lambda>r. r\<lparr>pay_status := P_closing, pay_closingReason := Some cr\<rparr>) db = Inr (p', db') \<and>
    pay_status p' = P_closing \<and> pay_closingReason p' = Some cr \<and> find_payment pid db' = Some p' \<and> outbox db' = outbox db"
proof -
  let ?f = "\<lambda>r. r\<lparr>pay_status := P_closing, pay_closingReason := Some cr\<rparr>"
  let ?new = "payment_touch db p (?f p)"
  have id: "pay_id p = pid" using find_payment_SomeD [OF p] by simp
  have "life p (attempt_set db pid)" using inv p by (auto simp: pinv_split intro: life_at)
  then have "pay_settledMethod p = None" "pay_succeededAttemptId p = None" using life_status(6) st by auto
  moreover have "pay_closingReason p = None"
    using inv p st life_at [of db pid p] by (simp add: pinv_split life_def)
  ultimately have "payment_update_error db p ?new = None"
    using st un id by (auto simp: payment_update_error_def payment_status_transition_guard_def payment_trigger_edges_def
        succeeded_attempt_integrity_def closing_fields_once_def closing_outcome_ok_def split: closing_reason.splits)
  from update_payment_ok [OF p, of ?f] this
  have "update_payment pid ?f db = Inr (?new, db\<lparr>payments := set_row pay_id pid ?new (payments db)\<rparr>)" by simp
  moreover have "find_payment pid (db\<lparr>payments := set_row pay_id pid ?new (payments db)\<rparr>) = Some ?new"
    using find_payment_SomeD [OF p] by (force simp: find_payment_def get_row_set_row id)
  ultimately show ?thesis by (intro exI) auto
qed

lemma to_final_ok:
  assumes inv: "pinv db" and p: "find_payment pid db = Some p" and st: "pay_status p = P_created \<or> pay_status p = P_pending"
    and un: "\<not> payment_is_uncertain db pid" and fin: "fin = P_cancelled \<or> fin = P_expired" and ctx: "auditActor ctx = Inr who"
  shows "\<exists>p' db1 db'. update_payment pid (\<lambda>r. r\<lparr>pay_status := fin, pay_closedAt := t\<rparr>) db = Inr (p', db1) \<and>
    announce_final nm p' ctx extra db1 = Inr ((), db') \<and> pay_status p' = fin \<and> find_payment pid db' = Some p' \<and>
    has_event db' pid nm"
proof -
  let ?f = "\<lambda>r. r\<lparr>pay_status := fin, pay_closedAt := t\<rparr>"
  let ?new = "payment_touch db p (?f p)"
  let ?db1 = "db\<lparr>payments := set_row pay_id pid ?new (payments db)\<rparr>"
  have id: "pay_id p = pid" using find_payment_SomeD [OF p] by simp
  have l: "life p (attempt_set db pid)" using inv p by (auto simp: pinv_split intro: life_at)
  then have s: "pay_settledMethod p = None" "pay_succeededAttemptId p = None" using life_status(6) st by auto
  have c: "pay_closingReason p = None" using l st by (simp add: life_def)
  have "payment_update_error db p ?new = None"
    using st un id fin s c by (auto simp: payment_update_error_def payment_status_transition_guard_def payment_trigger_edges_def
        succeeded_attempt_integrity_def closing_fields_once_def closing_outcome_ok_def)
  from update_payment_ok [OF p, of ?f] this have u: "update_payment pid ?f db = Inr (?new, ?db1)" by simp
  have "keys_ok ?db1"
    using update_payment_replaced [OF u _ ] replaced_keys inv by (auto simp: pinv_split same_identity_def)
  moreover have f1: "find_payment pid ?db1 = Some ?new"
    using find_payment_SomeD [OF p] by (force simp: find_payment_def get_row_set_row id)
  moreover have "isTerminalPaymentStatus (pay_status ?new)" using fin by (auto simp: terminal_payment_cases)
  ultimately obtain db' where a: "announce_final nm ?new ctx extra ?db1 = Inr ((), db')" "same_evidence ?db1 db'"
      "has_event db' pid nm"
    using announce_final_total [of ?db1 ?new ctx who nm extra] ctx id by auto
  have "find_payment pid db' = Some ?new" using f1 same_evidence_find [OF a(2)] by simp
  then show ?thesis using u a by (intro exI) auto
qed

end
