(* ===== verification/PaymentOutcomes.thy ===== *)
theory PaymentOutcomes
  imports PaymentSettle
begin

text \<open>
  The outcomes of the operations that end a payment, on every branch: a verified success settles, a
  cancel and an expiry close, end or leave the payment as its attempts require.
\<close>

section \<open>A verified success settles\<close>

text \<open>C6: when an attempt may still settle a payment and its only, uncontested capture fact equals the
  payment's amount and currency, applying the provider's success always succeeds: no guard of the
  database refuses it, the attempt and the payment become succeeded and payment.succeeded is queued.\<close>

theorem verified_success_settles:
  assumes "reachable rcfg env db" and "find_attempt aid db = Some a" and "find_payment (att_paymentId a) db = Some p"
    and "attempt_unsettled a" and "captureEvidence db (pay_id p) aid (JInt (pay_amount p)) (pay_currency p) fid = (True, 1)"
    and "auditActor ctx = Inr who"
  shows "\<exists>r db'. apply_decide cfg caps aid (St_succeeded (JInt (pay_amount p)) (pay_currency p) txn at) fid ctx db
            = Inr ((r, None), db') \<and>
          att_status r = A_succeeded \<and>
          (\<exists>p'. find_payment (pay_id p) db' = Some p' \<and> pay_status p' = P_succeeded \<and> pay_succeededAttemptId p' = Some aid) \<and>
          has_event db' (pay_id p) ''payment.succeeded''"
proof -
  have inv: "pinv db" and tx: "txns_unique db" using assms(1) by (rule reachable_pinv, rule reachable_txns)
  obtain f where f: "capture_facts_of db aid (pay_id p) = [f]" "fact_amount f = pay_amount p"
    "pg_trim (fact_currency f) = pay_currency p" "\<not> fact_contested db (fact_id f)"
    using captureEvidence_verified [OF assms(5)] by blast
  then have f3: "pg_trim (fact_currency f) = pg_trim (pay_currency p)" by (metis pg_trim_idem)
  from settle_succeeded_ok [OF inv tx assms(2,3,4) f(1,2) f3 f(4) assms(6)]
  obtain r db' where s: "settle_succeeded p a ctx db = Inr ((r, None), db')"
    and r: "att_status r = A_succeeded" "settled_as db' (pay_id p) aid" by blast
  have id: "att_id a = aid" "a \<in> attempt_set db (att_paymentId a)" using attempt_in_set [OF assms(2)] by auto
  have "life p (attempt_set db (att_paymentId a))" using inv assms(3) by (auto simp: pinv_split intro: life_at)
  then have nt: "\<not> isTerminalPaymentStatus (pay_status p)" using id(2) assms(4) by (rule life_unsettled_open)
  have ns: "att_status a \<noteq> A_succeeded" "att_status a \<noteq> A_expired"
    "att_status a = A_failed \<Longrightarrow> att_failureInferred a \<and> att_failureConfirmedAt a = None"
    using assms(4) by (auto simp: attempt_unsettled_def open_attempt_cases)
  have "decide_succeeded p a (JInt (pay_amount p)) (pay_currency p) fid ctx db = settle_succeeded p a ctx db"
    using nt ns id(1) assms(5) by (auto simp: decide_succeeded_def js_is_def terminal_payment_cases)
  then show ?thesis using s r assms(2,3) by (auto simp: apply_decide_def settled_as_def)
qed

lemma fact_attempt: "find_attempt 1 d_fact = Some ((demo_att A_submitted)\<lparr>att_providerTransactionId := Some ''t1'',
     att_providerData := Some ''null'', att_submittedAt := Some 0\<rparr>)"
  by code_simp

lemma fact_payment: "find_payment 0 d_fact = Some (demo_pay P_pending 1)"
  by code_simp

lemma fact_evidence: "captureEvidence d_fact 0 1 (JInt 500) ''TND'' (Some 2) = (True, 1)"
  by code_simp

theorem verified_success_settles_witness:
  "\<exists>r db'. apply_decide demo_cfg demo_caps 1 (St_succeeded (JInt 500) ''TND'' (Some ''t1'') None) (Some 2) demo_sync d_fact
            = Inr ((r, None), db') \<and> att_status r = A_succeeded"
  using verified_success_settles [OF reachable_fact fact_attempt, of "demo_pay P_pending 1" "Some 2" demo_sync "AA_user ''u1'' UK_member"
      demo_cfg demo_caps "Some ''t1''" None] fact_payment fact_evidence
  by (simp add: demo_att_def demo_pay_def attempt_unsettled_def open_attempt_cases demo_sync_def requestContext_def
      auditActor_def) blast

section \<open>The cancel\<close>

lemma after_reserve_pinv: "pinv db \<Longrightarrow> pinv (db\<lparr>idempotency_keys := ks\<rparr>)"
  by simp

text \<open>C7: a first cancel request answers 409 for a final payment and changes nothing for a closing one;
  while an attempt may still settle the payment it becomes closing, with no event; otherwise it
  becomes cancelled and payment.cancelled is queued. No guard of the database ever refuses it.\<close>

theorem cancel_outcome:
  assumes "reachable cfg env0 db" and "find_payment pid db = Some p" and "auditActor ctx = Inr who"
    and "find_reservation (''service:'' @ caller) ''cancel_payment'' key db = None"
  shows "(isTerminalPaymentStatus (pay_status p) \<longrightarrow>
            cancel env pid caller key ctx db = Inl (Pay_error 409 ''invalid_state_transition'')) \<and>
         (pay_status p = P_closing \<longrightarrow>
            (\<exists>db'. cancel env pid caller key ctx db = Inr ((p, False), db') \<and> payments db' = payments db \<and> outbox db' = outbox db)) \<and>
         (pay_status p \<in> {P_created, P_pending} \<and> payment_is_uncertain db pid \<longrightarrow>
            (\<exists>p' db'. cancel env pid caller key ctx db = Inr ((p', False), db') \<and> find_payment pid db' = Some p' \<and>
               pay_status p' = P_closing \<and> pay_closingReason p' = Some Closing_cancel \<and> outbox db' = outbox db)) \<and>
         (pay_status p \<in> {P_created, P_pending} \<and> \<not> payment_is_uncertain db pid \<longrightarrow>
            (\<exists>p' db'. cancel env pid caller key ctx db = Inr ((p', False), db') \<and> find_payment pid db' = Some p' \<and>
               pay_status p' = P_cancelled \<and> has_event db' pid ''payment.cancelled''))"
proof -
  let ?db1 = "db\<lparr>idempotency_keys := idempotency_keys db @ [cancel_reservation env pid caller key]\<rparr>"
  have inv: "pinv ?db1" using reachable_pinv [OF assms(1)] by (rule after_reserve_pinv)
  have p: "find_payment pid ?db1 = Some p" using assms(2) by (simp add: find_payment_def)
  have un: "payment_is_uncertain ?db1 pid = payment_is_uncertain db pid" by (simp add: payment_is_uncertain_def)
  have "reserve (cancel_reservation env pid caller key) db = Inr (Reserved, ?db1)"
    using assms(4) by (simp add: reserve_def cancel_reservation_def)
  then have c: "cancel env pid caller key ctx db = tx_bind (cancel_guarded pid ctx) (\<lambda>p. tx_return (p, False)) ?db1"
    by (simp add: cancel_def tx_bind_def)
  have ok: "canTransitionPayment (pay_status p) P_cancelled" "\<not> isTerminalPaymentStatus (pay_status p)" "pay_status p \<noteq> P_closing"
    if "pay_status p \<in> {P_created, P_pending}"
    using that by (auto simp: canTransitionPayment_def terminal_payment_cases)
  have 1: "cancel env pid caller key ctx db = Inl (Pay_error 409 ''invalid_state_transition'')"
    if "isTerminalPaymentStatus (pay_status p)"
    using that p by (auto simp: c tx_bind_def cancel_guarded_def terminal_payment_cases)
  have 2: "cancel env pid caller key ctx db = Inr ((p, False), ?db1)" if "pay_status p = P_closing"
    using that p by (simp add: c tx_bind_def tx_return_def cancel_guarded_def)
  have 3: "\<exists>p' db'. cancel env pid caller key ctx db = Inr ((p', False), db') \<and> find_payment pid db' = Some p' \<and>
      pay_status p' = P_closing \<and> pay_closingReason p' = Some Closing_cancel \<and> outbox db' = outbox db"
    if st: "pay_status p \<in> {P_created, P_pending}" and u: "payment_is_uncertain db pid"
  proof -
    obtain p' db' where "update_payment pid (\<lambda>r. r\<lparr>pay_status := P_closing, pay_closingReason := Some Closing_cancel\<rparr>) ?db1
        = Inr (p', db')" "pay_status p' = P_closing" "pay_closingReason p' = Some Closing_cancel" "find_payment pid db' = Some p'"
        "outbox db' = outbox ?db1"
      using to_closing_ok [OF inv p, of Closing_cancel] st u un by auto
    then show ?thesis using ok [OF st] u un p by (simp add: c tx_bind_def tx_return_def cancel_guarded_def)
  qed
  have 4: "\<exists>p' db'. cancel env pid caller key ctx db = Inr ((p', False), db') \<and> find_payment pid db' = Some p' \<and>
      pay_status p' = P_cancelled \<and> has_event db' pid ''payment.cancelled''"
    if st: "pay_status p \<in> {P_created, P_pending}" and u: "\<not> payment_is_uncertain db pid"
  proof -
    obtain p' db1 db' where "update_payment pid (\<lambda>r. r\<lparr>pay_status := P_cancelled, pay_closedAt := Some (now ?db1)\<rparr>) ?db1 = Inr (p', db1)"
      "announce_final ''payment.cancelled'' p' ctx No_extra db1 = Inr ((), db')" "pay_status p' = P_cancelled"
      "find_payment pid db' = Some p'" "has_event db' pid ''payment.cancelled''"
      using to_final_ok [OF inv p _ _ _ assms(3), of P_cancelled "Some (now ?db1)" "''payment.cancelled''" No_extra] st u un by auto
    then show ?thesis using ok [OF st] u un p by (simp add: c tx_bind_def tx_return_def cancel_guarded_def)
  qed
  show ?thesis using 1 2 3 4 by auto
qed

lemma created_payment: "find_payment 0 d_created = Some (demo_pay P_created 0)"
  by code_simp

lemma created_certain: "\<not> payment_is_uncertain d_created 0"
  by code_simp

lemma created_unreserved: "find_reservation (''service:'' @ ''svc'') ''cancel_payment'' ''c1'' d_created = None"
  by code_simp

theorem cancel_outcome_witness:
  "\<exists>p' db'. cancel demo_env 0 ''svc'' ''c1'' svc_ctx d_created = Inr ((p', False), db') \<and> pay_status p' = P_cancelled"
  using cancel_outcome [OF reachable_created created_payment _ created_unreserved, of svc_ctx "AA_service ''svc''" demo_env]
    created_certain
  by (simp add: demo_pay_def svc_ctx_def requestContext_def auditActor_def) blast

section \<open>The expiry\<close>

text \<open>C8: the sweep of one due, unlocked payment that is created or pending always has an outcome: closing
  with reason expiry, and no event, while an attempt may still settle it; otherwise expired, with
  payment.expired queued. No guard of the database ever refuses it.\<close>

theorem sweep_outcome:
  assumes "reachable cfg env db" and "find_payment pid db = Some p" and "sweep_due db p"
    and "pay_status p = P_created \<or> pay_status p = P_pending"
  shows "(payment_is_uncertain db pid \<longrightarrow>
            (\<exists>p' db'. trySweepOne False pid (jobContext C_expiry_sweep run) db = Inr (False, db') \<and>
               find_payment pid db' = Some p' \<and> pay_status p' = P_closing \<and> pay_closingReason p' = Some Closing_expiry \<and>
               outbox db' = outbox db)) \<and>
         (\<not> payment_is_uncertain db pid \<longrightarrow>
            (\<exists>p' db'. trySweepOne False pid (jobContext C_expiry_sweep run) db = Inr (True, db') \<and>
               find_payment pid db' = Some p' \<and> pay_status p' = P_expired \<and> has_event db' pid ''payment.expired''))"
proof -
  have inv: "pinv db" using assms(1) by (rule reachable_pinv)
  let ?ctx = "jobContext C_expiry_sweep run"
  have ctx: "auditActor ?ctx = Inr (AA_system ''payment_expiry_sweep'')" by (simp add: auditActor_def jobContext_def)
  have st: "\<not> (pay_status p \<noteq> P_created \<and> pay_status p \<noteq> P_pending)" using assms(4) by blast
  have 1: "\<exists>p' db'. trySweepOne False pid ?ctx db = Inr (False, db') \<and> find_payment pid db' = Some p' \<and>
      pay_status p' = P_closing \<and> pay_closingReason p' = Some Closing_expiry \<and> outbox db' = outbox db"
    if u: "payment_is_uncertain db pid"
  proof -
    obtain p' db' where "update_payment pid (\<lambda>r. r\<lparr>pay_status := P_closing, pay_closingReason := Some Closing_expiry\<rparr>) db
        = Inr (p', db')" "pay_status p' = P_closing" "pay_closingReason p' = Some Closing_expiry" "find_payment pid db' = Some p'"
        "outbox db' = outbox db"
      using to_closing_ok [OF inv assms(2,4) u, of Closing_expiry] by auto
    then show ?thesis using assms(4) u assms(2,3) by (auto simp: tx_bind_def tx_return_def trySweepOne_def)
  qed
  have 2: "\<exists>p' db'. trySweepOne False pid ?ctx db = Inr (True, db') \<and> find_payment pid db' = Some p' \<and>
      pay_status p' = P_expired \<and> has_event db' pid ''payment.expired''"
    if u: "\<not> payment_is_uncertain db pid"
  proof -
    obtain p' db1 db' where "update_payment pid (\<lambda>r. r\<lparr>pay_status := P_expired, pay_closedAt := Some (now db)\<rparr>) db = Inr (p', db1)"
      "announce_final ''payment.expired'' p' ?ctx (Extra_expiresAt (pay_expiresAt p)) db1 = Inr ((), db')" "pay_status p' = P_expired"
      "find_payment pid db' = Some p'" "has_event db' pid ''payment.expired''"
      using to_final_ok [OF inv assms(2,4) u _ ctx, of P_expired "Some (now db)" "''payment.expired''"
          "Extra_expiresAt (pay_expiresAt p)"] by auto
    then show ?thesis using assms(4) u assms(2,3) by (auto simp: tx_bind_def tx_return_def trySweepOne_def)
  qed
  show ?thesis using 1 2 by blast
qed

definition d_due :: pdb where
  "d_due = d_created\<lparr>now := 1000\<rparr>"

lemma reachable_due: "reachable demo_cfg demo_env d_due"
proof -
  obtain t where "reaches (pay_step demo_cfg demo_env) (empty_pdb t) d_created"
    using reachable_created by (auto simp: reachable_def)
  moreover have "pay_step demo_cfg demo_env d_created d_due"
    unfolding d_due_def by (rule step_tick) (simp add: d_created_def empty_pdb_def)
  ultimately show ?thesis unfolding reachable_def by (blast intro: reaches.there)
qed

lemma due_payment: "find_payment 0 d_due = Some (demo_pay P_created 0)" "\<not> payment_is_uncertain d_due 0"
  "sweep_due d_due (demo_pay P_created 0)"
  by code_simp+

theorem sweep_outcome_witness:
  "\<exists>p' db'. trySweepOne False 0 (jobContext C_expiry_sweep 9) d_due = Inr (True, db') \<and>
     find_payment 0 db' = Some p' \<and> pay_status p' = P_expired"
  using sweep_outcome [OF reachable_due due_payment(1) due_payment(3)] due_payment(2)
  by (simp add: demo_pay_def) blast

end
