(* ===== verification/PaymentOps.thy ===== *)
theory PaymentOps
  imports PaymentOutcomes
begin

text \<open>
  The operations as a whole: each is a run of the committed steps (so every fact about reachable
  databases holds after it, whatever other transactions did in between), what any run keeps of the
  evidence, the bounded retries of the workers, and the answers to repeated requests.
\<close>

section \<open>Operations are runs\<close>



section \<open>What a run keeps\<close>

text \<open>C10: nothing recorded is ever lost or rewritten by a run: capture facts, conflicts, late
  successes and queued events only grow at the end, an attempt keeps its payment, provider and number
  and moves along its table, and a stored notification keeps its body and never loses an attempt.\<close>

theorem evidence_is_append_only:
  assumes "reaches (pay_step cfg env) s t"
  shows "prefix (facts s) (facts t) \<and> prefix (conflicts s) (conflicts t) \<and>
         prefix (late_successes s) (late_successes t) \<and> prefix (outbox s) (outbox t) \<and>
         (\<forall>aid a. find_attempt aid s = Some a \<longrightarrow>
            (\<exists>b. find_attempt aid t = Some b \<and> attempt_terms b = attempt_terms a \<and>
                 attempt_path (att_status a) (att_status b))) \<and>
         (\<forall>i w. find_event i s = Some w \<longrightarrow> (\<exists>v. find_event i t = Some v \<and> same_notice w v))"
  using reaches_evolves [OF assms] unfolding evolves_def webhooks_grow_def by (intro conjI) blast+

lemma demo_late_run: "reaches (pay_step demo_cfg demo_env) d_late_fact d_late"
proof -
  obtain r where "recordLateSuccess 1 demo_late_obs demo_sync (Some 2) d_late_fact = Inr (r, d_late)"
    using after_Some [OF run_late] by blast
  then show ?thesis by (blast intro: reaches_one step_late)
qed

theorem evidence_is_append_only_witness:
  "prefix (outbox d_late_fact) (outbox d_late) \<and> prefix (facts d_late_fact) (facts d_late)"
  using evidence_is_append_only [OF demo_late_run] by blast

text \<open>C11: the retry of a lost capture is bounded: its row counts between one and twelve attempts, is
  active exactly while it has a next time and fewer than twelve, and no run lowers the counter or
  touches a row that was given up; a failure against it always ends it at the twelfth.\<close>

theorem recovery_is_bounded:
  assumes "reachable cfg env s" and "reaches (pay_step cfg env) s t" and "find_recovery fid s = Some r"
  shows "1 \<le> rec_attempts r \<and> rec_attempts r \<le> 12 \<and>
         (rec_status r = RS_active \<longleftrightarrow> rec_workAfter r \<noteq> None) \<and>
         (rec_status r = RS_active \<longrightarrow> rec_attempts r < 12) \<and>
         (\<exists>r'. find_recovery fid t = Some r' \<and> rec_attempts r \<le> rec_attempts r' \<and> (rec_status r \<noteq> RS_active \<longrightarrow> r' = r)) \<and>
         (rec_attempts r = 11 \<longrightarrow> rec_status r = RS_active \<longrightarrow>
            (\<exists>r'. find_recovery fid (countAttempt fid 11 code failure s) = Some r' \<and> rec_status r' \<noteq> RS_active))"
proof -
  have r: "r \<in> set (recovery_states s)" using assms(3) get_row_SomeD [of rec_factId] by (auto simp: find_recovery_def)
  have ok: "recovery_row_ok r" using reachable_recovery [OF assms(1)] r by (simp add: recovery_ok_def)
  have "recovery_grows s t" using reaches_evolves [OF assms(2)] unfolding evolves_def by blast
  then have g: "\<exists>r'. find_recovery fid t = Some r' \<and> rec_attempts r \<le> rec_attempts r' \<and> (rec_status r \<noteq> RS_active \<longrightarrow> r' = r)"
    using assms(3) unfolding recovery_grows_def by blast
  have "\<exists>r'. find_recovery fid (countAttempt fid 11 code failure s) = Some r' \<and> rec_status r' \<noteq> RS_active"
    if e: "rec_attempts r = 11" "rec_status r = RS_active"
  proof -
    let ?row = "recovery_row_after s fid 11 code failure"
    have "countAttempt fid 11 code failure s = s\<lparr>recovery_states := set_row rec_factId fid ?row (recovery_states s)\<rparr>"
      using assms(3) e by (simp add: countAttempt_def Let_def)
    moreover have "rec_factId ?row = fid" by (simp add: recovery_row_after_def Let_def)
    ultimately have "find_recovery fid (countAttempt fid 11 code failure s) = Some ?row"
      using find_recovery_key [OF assms(3)] by (simp add: find_recovery_def row_simps)
    moreover have "rec_status ?row \<noteq> RS_active"
      by (simp add: recovery_row_after_def Let_def recovery_verdict_def CAPTURE_RECOVERY_MAX_ATTEMPTS_def)
    ultimately show ?thesis by blast
  qed
  with ok g show ?thesis by (auto simp: recovery_row_ok_def CAPTURE_RECOVERY_MAX_ATTEMPTS_def)
qed

lemma counted_run: "reaches (pay_step demo_cfg demo_env) d_fact (countAttempt 2 0 ''x'' RF_transient d_fact)"
  by (rule reaches_one, rule step_count) simp

lemma counted_reachable: "reachable demo_cfg demo_env (countAttempt 2 0 ''x'' RF_transient d_fact)"
  using reachable_fact counted_run unfolding reachable_def by (blast intro: reaches_trans)

lemma counted_row: "find_recovery 2 (countAttempt 2 0 ''x'' RF_transient d_fact)
    = Some \<lparr>rec_factId = 2, rec_attempts = 1, rec_workAfter = Some 2000, rec_lastFailure = ''x'', rec_status = RS_active,
        rec_endedAt = None\<rparr>"
  by code_simp

theorem recovery_is_bounded_witness:
  "\<exists>r. find_recovery 2 (countAttempt 2 0 ''x'' RF_transient d_fact) = Some r \<and> rec_attempts r \<le> 12"
  using recovery_is_bounded [OF counted_reachable reaches.here counted_row] counted_row by auto

section \<open>Webhooks\<close>

text \<open>Every way through the processing of a notification ends in one mark of its row.\<close>

definition ends_marked :: "uuid \<Rightarrow> pdb \<Rightarrow> pdb \<Rightarrow> bool" where
  "ends_marked eid db db' \<longleftrightarrow> (\<exists>db1 st o1 at. evolves db db1 \<and> db' = markState eid st o1 at db1)"

lemma ends_markedI: "evolves db db1 \<Longrightarrow> ends_marked eid db (markState eid st o1 at db1)"
  by (auto simp: ends_marked_def)

lemma quarantine_marked: "ends_marked eid db (snd (webhook_quarantine env eid caps pb shape db))"
proof -
  let ?a = "findAttemptByReference env (cap_id caps) (pb_reference pb) db"
  let ?q = "\<lparr>qo_provider = cap_id caps, qo_source = Src_webhook, qo_webhookEventId = Some eid,
        qo_providerEventId = Some (pb_providerEventId pb), qo_attemptId = map_option att_id ?a,
        qo_paymentId = map_option att_paymentId ?a,
        qo_providerTxnId = (case pb_providerTransactionId pb of None \<Rightarrow> RV_undefined | Some t \<Rightarrow> RV_text (utf16_units t)),
        qo_currency = currency_evidence pb, qo_amount = amount_evidence pb, qo_currencyShape = shape\<rparr>"
  obtain c db1 where q: "recordQuarantine ?q db = Inr (c, db1)" using recordQuarantine_total by blast
  have "evolves db db1" using q by (rule evo.keeps_run [OF keeps_quarantine])
  moreover have "quarantine_write eid caps pb shape ?a db
      = Inr (c, markState eid W_conflict (Some QUARANTINE_OUTCOME) (map_option att_id ?a) db1)"
    using q by (simp add: quarantine_write_def)
  ultimately show ?thesis by (simp add: webhook_quarantine_def commit_def ends_markedI)
qed

lemma process_parsed_marked:
  assumes o: "others_run cfg env others"
  shows "ends_marked eid db (snd (process_parsed cfg env caps others eid parsed db))"
proof -
  have st: "evolves db (snd (applyStatus cfg caps others aid status ctx db))" for aid status ctx
    by (rule reaches_evolves [OF applyStatus_run [OF o]])
  have m: "ends_marked eid db (snd (process_matched cfg caps others eid a status db))" for a status
    using st [of "att_id a" status "webhookContext (cap_id caps) eid"]
    by (auto simp: process_matched_def intro!: ends_markedI split: prod.split sum.split pay_err.split)
  have "evolves db (snd (commit (recordUnmatchedFact eid prov kind pb) db))" for prov kind pb
    using reaches_evolves [OF unmatched_run] by blast
  then have u: "ends_marked eid db (snd (process_unmatched env caps eid pb status db))" for pb status
    by (auto simp: process_unmatched_def Let_def intro!: ends_markedI split: prod.split fetch_status.split)
      (metis snd_conv)
  have "ends_marked eid db (snd (process_body cfg env caps others eid pb db))" for pb
    using m u quarantine_marked by (auto simp: process_body_def intro: ends_markedI split: option.split)
  then show ?thesis by (auto simp: process_parsed_def intro: ends_markedI split: option.split)
qed

lemma ends_marked_attempts:
  assumes "ends_marked eid db db'" and "find_event eid db = Some w"
  shows "\<exists>v. find_event eid db' = Some v \<and> wh_attempts w < wh_attempts v"
proof -
  from assms(1) obtain db1 st o1 at where e: "evolves db db1" and m: "db' = markState eid st o1 at db1"
    by (auto simp: ends_marked_def)
  from e have "webhooks_grow db db1" unfolding evolves_def by blast
  with assms(2) obtain v where v: "find_event eid db1 = Some v" "same_notice w v" unfolding webhooks_grow_def by blast
  then show ?thesis using markState_attempts [OF v(1)] unfolding m by (simp add: marked_def same_notice_def)
qed


definition stuck_event :: webhook_event_row where
  "stuck_event = \<lparr>wh_id = 9, wh_provider = ''test'', wh_providerEventId = ''e1'', wh_eventType = ''ping'', wh_rawBody = ''b'',
     wh_receivedAt = 0, wh_state = W_received, wh_outcome = None, wh_attempts = 0, wh_matchedAttemptId = None,
     wh_processedAt = None\<rparr>"

definition d_stuck :: pdb where
  "d_stuck = (empty_pdb 20000)\<lparr>next_uuid := 10, webhook_events := [stuck_event]\<rparr>"

lemma stuck_retried: "retry_one demo_cfg demo_env (\<lambda>_. Some demo_caps) (\<lambda>_ _. None) (\<lambda>_. False) (\<lambda>db. db) stuck_event d_stuck
   = (True, markState 9 W_failed (Some ''malformed_body'') None d_stuck)"
  by code_simp



definition d_done :: pdb where
  "d_done = markState 9 W_processed None None d_stuck"

lemma done_event: "find_provider_event ''test'' ''e1'' d_done = Some (marked 20000 W_processed None None stuck_event)"
  by code_simp

definition demo_body :: parsed_body where
  "demo_body = \<lparr>pb_providerEventId = ''e1'', pb_type = ''payment.failed'', pb_reference = ''t1'', pb_amount = None, pb_currency = None,
     pb_failureCode = None, pb_failureClass = None, pb_providerTransactionId = None, pb_providerOccurredAt = None,
     pb_rawCurrency = None, pb_rawAmount = None\<rparr>"

lemma done_facts:
  "find_provider_event (cap_id demo_caps) ''e1'' d_done = Some (marked 20000 W_processed None None stuck_event)"
  "wh_state (marked 20000 W_processed None None stuck_event) \<in> {W_processed, W_ignored, W_conflict}"
  "Sig_parsed demo_body \<noteq> Sig_invalid"
  "''e1'' = (case Sig_parsed demo_body of Sig_parsed pb \<Rightarrow> pb_providerEventId pb | _ \<Rightarrow> ''unparseable:'' @ id ''x'')"
  by (simp_all add: done_event demo_caps_def marked_def demo_body_def)


end
