(* ===== verification/PaymentRequests.thy ===== *)
theory PaymentRequests
  imports PaymentOps
begin

text \<open>
  Repeated and authorised requests: a request that created a payment is replayed for ever, what a
  created payment was checked against, a redelivered capture, and the agreement of the code's status
  tables with the triggers of the database.
\<close>

section \<open>Creation, again\<close>

lemma snapshot_terms:
  "terms p = terms q \<Longrightarrow> isIdenticalSnapshot p producer dto payer seller org expires
     = isIdenticalSnapshot q producer dto payer seller org expires"
  by (cases p; cases q) (simp add: terms_def isIdenticalSnapshot_def)

lemma create_tx_new:
  assumes "create_tx producer dto payer seller org expires purpose db = Inr ((p, False), db')"
  shows "p = new_payment (db\<lparr>next_uuid := Suc (next_uuid db)\<rparr>) (next_uuid db) producer dto payer seller org expires purpose \<and>
         payments db' = payments db @ [p] \<and> has_event db' (pay_id p) ''payment.created''"
proof (cases "find_by_request producer (dto_paymentRequestId dto) db")
  case (Some e)
  with assms show ?thesis by (simp add: create_tx_def split: if_splits)
next
  case None
  let ?p = "new_payment (db\<lparr>next_uuid := Suc (next_uuid db)\<rparr>) (next_uuid db) producer dto payer seller org expires purpose"
  from assms None obtain db2 where p: "p = ?p"
    and e: "emit_payment_event ''payment.created'' ?p (requestContext Act_service producer None None) No_extra
      (db\<lparr>next_uuid := Suc (next_uuid db), payments := payments db @ [?p]\<rparr>) = Inr ((), db2)"
    and a: "audit_record_payment ''payment.created'' ?p (requestContext Act_service producer None None) db2 = Inr ((), db')"
    by (auto simp: create_tx_def tx_bind_Inr_iff Let_def)
  from audit_record_payment_Inr [OF a] e show ?thesis
    unfolding p by (auto simp: emit_payment_event_Inr)
qed

lemma find_request:
  assumes keys: "keys_ok db" and u: "requests_unique db" and p: "find_payment pid db = Some p"
  shows "find_by_request (pay_producer p) (pay_paymentRequestId p) db = Some p"
proof -
  have in': "p \<in> set (payments db)" using find_payment_SomeD [OF p] by simp
  then obtain q where q: "find_by_request (pay_producer p) (pay_paymentRequestId p) db = Some q"
    by (cases "find_by_request (pay_producer p) (pay_paymentRequestId p) db") (auto simp: find_by_request_def find_None_iff)
  then have qs: "q \<in> set (payments db)" "request_key q = request_key p"
    by (auto simp: find_by_request_def find_Some_iff request_key_def)
  then have "pay_id q = pay_id p" using u in' unfolding requests_unique_def by blast
  then have "q = p" using keys qs(1) in' unique_keysD [of pay_id "payments db" q p] by (simp add: keys_ok_def)
  with q show ?thesis by simp
qed

lemma prepare_plan:
  assumes "create_prepare cfg env producer dto db = Inr (Insert_plan payer seller org expires purpose)"
  shows "\<exists>org0. normalize_organization dto = Inr (seller, org0) \<and> parse_expiry env dto = Inr expires \<and>
    dto_purpose dto = Some purpose \<and> dto_currency dto \<in> set (cfg_supportedCurrencies cfg) \<and> dto_payer dto \<noteq> dto_seller dto \<and>
    plan_with_purpose cfg env producer dto seller org0 expires purpose db = Inr (Insert_plan payer seller org expires purpose)"
proof -
  have args: "seller' = seller \<and> e = expires \<and> q = purpose"
    if "plan_with_purpose cfg env producer dto seller' org0 e q db = Inr (Insert_plan payer seller org expires purpose)" for seller' org0 e q
    using that by (auto simp: plan_with_purpose_def err_bind_Inr_iff split: if_splits option.splits)
  obtain seller' org0 e q where n: "normalize_organization dto = Inr (seller', org0)" "parse_expiry env dto = Inr e"
    "dto_purpose dto = Some q" "dto_currency dto \<in> set (cfg_supportedCurrencies cfg)"
    "plan_with_purpose cfg env producer dto seller' org0 e q db = Inr (Insert_plan payer seller org expires purpose)"
    using assms by (auto simp: create_prepare_def err_bind_Inr_iff split: if_splits option.splits)
  moreover have "dto_payer dto \<noteq> dto_seller dto" using assms by (auto simp: create_prepare_def split: if_splits)
  ultimately show ?thesis using args [OF n(5)] by blast
qed

lemma plan_again:
  assumes "plan_with_purpose cfg env producer dto seller org0 expires purpose db = Inr (Insert_plan payer seller org expires purpose)"
    and "find_by_request producer (dto_paymentRequestId dto) db2 = Some q"
    and "isIdenticalSnapshot q producer dto payer seller org expires"
  shows "plan_with_purpose cfg env producer dto seller org0 expires purpose db2
           = Inr (if org = None then Insert_plan payer seller org expires purpose else Answer_replay q)"
proof -
  obtain org1 where n: "normalize_payer dto org0 = Inr (payer, org1)" "org1 = org"
    using assms(1) by (auto simp: plan_with_purpose_def err_bind_Inr_iff split: if_splits option.splits)
  have "assertPurposePairing purpose (dto_payer dto) (dto_beneficiaryUserId dto) = Inr ()"
    by (rule plan_pairing [OF assms(1)])
  then show ?thesis
    using assms n by (cases org) (auto simp: plan_with_purpose_def split: if_splits option.splits)
qed

lemma prepare_again:
  assumes "create_prepare cfg env producer dto db = Inr (Insert_plan payer seller org expires purpose)"
    and "find_by_request producer (dto_paymentRequestId dto) db2 = Some q"
    and "isIdenticalSnapshot q producer dto payer seller org expires"
  shows "create_prepare cfg env producer dto db2 = Inr (if org = None then Insert_plan payer seller org expires purpose else Answer_replay q)"
proof -
  obtain org0 where p: "normalize_organization dto = Inr (seller, org0)" "parse_expiry env dto = Inr expires"
    "dto_purpose dto = Some purpose" and w: "plan_with_purpose cfg env producer dto seller org0 expires purpose db
        = Inr (Insert_plan payer seller org expires purpose)" using prepare_plan [OF assms(1)] by blast
  have "create_prepare cfg env producer dto db2 = plan_with_purpose cfg env producer dto seller org0 expires purpose db2"
    using assms(1) p by (auto simp: create_prepare_def split: if_splits)
  with plan_again [OF w assms(2,3)] show ?thesis by simp
qed

lemma create_payment_new:
  assumes "create_payment cfg env others producer dto db = (Inr (p, False), db1)"
  shows "\<exists>payer seller org expires purpose.
    create_prepare cfg env producer dto db = Inr (Insert_plan payer seller org expires purpose) \<and>
    create_tx producer dto payer seller org expires purpose (others db) = Inr ((p, False), db1)"
  using assms by (auto simp: create_payment_def commit_def split: sum.splits create_plan.splits)

text \<open>C14: creation is idempotent: the same request, sent again at any later time by the same producer
  under the same configuration, is answered with the payment it created (whatever became of its status) and as
  a replay, and it changes nothing.\<close>

theorem create_replays:
  assumes "reachable cfg env db" and "others_run cfg env others" and "others_run cfg env others2"
    and "create_payment cfg env others producer dto db = (Inr (p, False), db1)"
    and "reaches (pay_step cfg env) db1 db2"
  shows "\<exists>q db3. create_payment cfg env others2 producer dto db2 = (Inr (q, True), db3) \<and> terms q = terms p \<and>
           (db3 = db2 \<or> db3 = others2 db2)"
proof -
  obtain payer seller org expires purpose where plan: "create_prepare cfg env producer dto db = Inr (Insert_plan payer seller org expires purpose)"
    and tx: "create_tx producer dto payer seller org expires purpose (others db) = Inr ((p, False), db1)"
    using create_payment_new [OF assms(4)] by blast
  have r1: "reachable cfg env db1"
    using assms(1) create_payment_run [OF assms(2), of db producer dto] assms(4)
    unfolding reachable_def by (auto intro: reaches_trans)
  from create_tx_new [OF tx] have p: "p = new_payment ((others db)\<lparr>next_uuid := Suc (next_uuid (others db))\<rparr>)
      (next_uuid (others db)) producer dto payer seller org expires purpose" and ps: "payments db1 = payments (others db) @ [p]"
    by simp_all
  have k1: "keys_ok db1" using reachable_pinv [OF r1] by (simp add: pinv_def)
  have f1: "find_payment (pay_id p) db1 = Some p" using find_payment_in [OF k1] ps by simp
  have snap: "isIdenticalSnapshot p producer dto payer seller org expires"
    unfolding p by (rule isIdenticalSnapshot_new_payment) (use prepare_plan [OF plan] in blast)
  have later: "\<exists>q. find_by_request producer (dto_paymentRequestId dto) db' = Some q \<and> terms q = terms p \<and>
      isIdenticalSnapshot q producer dto payer seller org expires"
    if run: "reaches (pay_step cfg env) db1 db'" for db'
  proof -
    have r': "reachable cfg env db'" using r1 run unfolding reachable_def by (auto intro: reaches_trans)
    then have k': "keys_ok db'" by (auto dest: reachable_pinv simp: pinv_def)
    have "evolves db1 db'" using run by (rule reaches_evolves)
    with f1 obtain q where q: "find_payment (pay_id p) db' = Some q" "terms q = terms p" unfolding evolves_def by blast
    then have "pay_producer q = producer" "pay_paymentRequestId q = dto_paymentRequestId dto"
      using terms_request [OF q(2)] by (simp_all add: request_key_def p new_payment_def)
    then show ?thesis
      using find_request [OF k' reachable_requests [OF r'] q(1)] q(2) snap snapshot_terms [OF q(2)] by auto
  qed
  obtain q where q: "find_by_request producer (dto_paymentRequestId dto) db2 = Some q" "terms q = terms p"
    "isIdenticalSnapshot q producer dto payer seller org expires" using later [OF assms(5)] by blast
  obtain q' where q': "find_by_request producer (dto_paymentRequestId dto) (others2 db2) = Some q'" "terms q' = terms p"
    "isIdenticalSnapshot q' producer dto payer seller org expires"
    using later [OF run_trans [OF assms(5) others_runD [OF assms(3)]]] by blast
  show ?thesis using prepare_again [OF plan q(1,3)] q q'
    by (cases "org = None") (auto simp: create_payment_def create_tx_def commit_def)
qed

lemma demo_create: "create_payment demo_cfg demo_env (\<lambda>db. db) ''svc'' demo_dto (empty_pdb 0)
    = (Inr (demo_pay P_created 0, False), d_created)"
  by code_simp

lemma created_to_fact: "reaches (pay_step demo_cfg demo_env) d_created d_fact"
proof -
  obtain r1 r2 r3 where t: "start_T1 demo_env ''test'' 0 ''u1'' ''k1'' demo_start d_created = Inr (r1, d_started)"
    "start_T2 demo_cfg demo_caps 0 1 1 (Accepted ''t1'' None) demo_sync d_started = Inr (r2, d_submitted)"
    "recordCaptureFact 1 (JInt 500) ''TND'' (Some ''t1'') None demo_sync d_submitted = Inr (r3, d_fact)"
    using after_Some [OF run_started] after_Some [OF run_submitted] after_Some [OF run_fact] by blast
  have a: "att_paymentId (demo_att A_initiated) = 0" by (simp add: demo_att_def)
  show ?thesis
    by (rule reaches.there [OF reaches.there [OF reaches_one]])
      (rule step_T1 [OF t(1)] step_T2 [OF started_attempt a t(2)] step_fact [OF t(3)])+
qed

theorem create_replays_witness:
  "\<exists>q db3. create_payment demo_cfg demo_env (\<lambda>db. db) ''svc'' demo_dto d_fact = (Inr (q, True), db3) \<and>
     terms q = terms (demo_pay P_created 0)"
  using create_replays [OF reachable_empty others_run_id others_run_id demo_create created_to_fact] by blast

text \<open>C15: a payment is created only for a supported currency, between two different parties, with an
  accepted purpose whose payer it fits, by a producer that holds the grant the purpose needs, in an
  organization whose platform is permitted to the producer; it carries the request's money, starts as
  created in no live mode, and payment.created is queued with it.\<close>

theorem create_is_authorised:
  assumes "create_payment cfg env others producer dto db = (Inr (p, False), db1)"
  shows "(\<exists>purpose. dto_purpose dto = Some purpose \<and> pay_purpose p = Some purpose \<and> purpose \<in> set ACCEPTED_PURPOSES \<and>
            (\<forall>g. organizationPayerGrant purpose (party_type (dto_payer dto)) = Some g \<longrightarrow> has_operation cfg producer g) \<and>
            assertPurposePairing purpose (dto_payer dto) (dto_beneficiaryUserId dto) = Inr ()) \<and>
         (\<forall>org. pay_organizationId p = Some org \<longrightarrow> (\<exists>platform allowed. env_resolve_organization env org = Inr (Some platform) \<and>
            cfg_allowedPlatforms cfg producer = Some allowed \<and> platform \<in> set allowed)) \<and>
         dto_currency dto \<in> set (cfg_supportedCurrencies cfg) \<and> dto_payer dto \<noteq> dto_seller dto \<and>
         pay_producer p = producer \<and> pay_amount p = dto_amount dto \<and> pay_currency p = dto_currency dto \<and>
         pay_status p = P_created \<and> pay_liveMode p = Some False \<and>
         payments db1 = payments (others db) @ [p] \<and> has_event db1 (pay_id p) ''payment.created''"
proof -
  obtain payer seller org expires purpose where plan: "create_prepare cfg env producer dto db = Inr (Insert_plan payer seller org expires purpose)"
    and tx: "create_tx producer dto payer seller org expires purpose (others db) = Inr ((p, False), db1)"
    using create_payment_new [OF assms] by blast
  obtain org0 where cur: "dto_currency dto \<in> set (cfg_supportedCurrencies cfg)" "dto_payer dto \<noteq> dto_seller dto"
    and dp: "dto_purpose dto = Some purpose" and w: "plan_with_purpose cfg env producer dto seller org0 expires purpose db
      = Inr (Insert_plan payer seller org expires purpose)" using prepare_plan [OF plan] by blast
  have scope: "assertInScope cfg env producer o1 = Inr ()" if "org = Some o1" for o1
    using w that by (auto simp: plan_with_purpose_def err_bind_Inr_iff split: if_splits option.splits)
  have p: "pay_purpose p = Some purpose" "pay_organizationId p = org" "pay_producer p = producer" "pay_amount p = dto_amount dto"
    "pay_currency p = dto_currency dto" "pay_status p = P_created" "pay_liveMode p = Some False"
    using create_tx_new [OF tx] by (simp_all add: new_payment_def CORE_V2_LIVE_MODE_def)
  show ?thesis
    using create_tx_new [OF tx, THEN conjunct2] cur dp p plan_purpose_accepted [OF w] plan_grant_held [OF w] plan_pairing [OF w] scope
    by (simp add: assertInScope_Inr)
qed

theorem create_is_authorised_witness:
  "dto_currency demo_dto \<in> set (cfg_supportedCurrencies demo_cfg) \<and> has_event d_created 0 ''payment.created''"
  using create_is_authorised [OF demo_create] by (simp add: demo_pay_def)

section \<open>Redelivered captures\<close>

lemma find_prefix: "find P xs = Some x \<Longrightarrow> prefix xs ys \<Longrightarrow> find P ys = Some x"
  by (induction xs arbitrary: ys) (auto simp: prefix_def split: if_splits)

lemma find_capture_grows:
  "find_capture prov txn db = Some f \<Longrightarrow> prefix (facts db) (facts db') \<Longrightarrow> find_capture prov txn db' = Some f"
  unfolding find_capture_def by (rule find_prefix)

lemma insert_conflict_frame:
  "insert_conflict f a amount currency ctx db = Inr (u, db') \<Longrightarrow>
     facts db' = facts db \<and> payments db' = payments db \<and> attempts db' = attempts db"
  by (auto simp: insert_conflict_def tx_bind_Inr_iff Let_def audit_fact_conflict_def enqueue_Inr deterministicEventId_def
      split: if_splits)

lemma insert_capture_found:
  assumes "insert_capture_fact a txn amount currency at ctx db = Inr (fid, db')" and "find_capture (att_provider a) txn db = None"
  shows "\<exists>f. find_capture (att_provider a) txn db' = Some f \<and> fact_id f = fid \<and> facts db' = facts db @ [f] \<and>
           fact_paymentId f = Some (att_paymentId a) \<and> fact_attemptId f = Some (att_id a) \<and> fact_amount f = amount \<and>
           fact_currency f = currency"
proof -
  let ?f = "capture_fact_row (db\<lparr>next_uuid := Suc (next_uuid db)\<rparr>) (next_uuid db) a txn amount currency at ctx"
  have fs: "facts db' = facts db @ [?f]" "fid = next_uuid db" using assms(1)
    by (auto simp: insert_capture_fact_def tx_bind_Inr_iff Let_def audit_capture_mismatch_def enqueue_Inr deterministicEventId_def
        split: option.splits if_splits)
  have last: "find P (xs @ [x]) = Some x" if "find P xs = None" "P x" for P xs and x :: fact_row
    using that by (induction xs) (auto split: if_splits)
  have "find_capture (att_provider a) txn db' = Some ?f"
    using assms(2) unfolding find_capture_def fs by (rule last) (simp add: capture_fact_row_def)
  then show ?thesis using fs by (auto simp: capture_fact_row_def)
qed

text \<open>C16: a reported capture is recorded once: after its fact is in the database, the same report, at any later
  time and from any source, names that same fact and never adds, removes or rewrites a fact or touches a
  payment or an attempt; the report that had added the fact, sent again, changes nothing at all.\<close>

theorem capture_is_recorded_once:
  assumes "recordCaptureFact aid amount currency (Some txn) at ctx db = Inr (Some fid, db1)"
    and "reaches (pay_step cfg env) db1 db2"
  shows "(\<forall>r db3. recordCaptureFact aid amount currency (Some txn) at2 ctx2 db2 = Inr (r, db3) \<longrightarrow>
            r = Some fid \<and> facts db3 = facts db2 \<and> payments db3 = payments db2 \<and> attempts db3 = attempts db2) \<and>
         (facts db1 \<noteq> facts db \<longrightarrow> recordCaptureFact aid amount currency (Some txn) at2 ctx2 db2 = Inr (Some fid, db2))"
proof -
  from assms(1) obtain a i where a: "find_attempt aid db = Some a" and t: "txn \<noteq> ''''" and amt: "amount = JInt i"
    and sh: "classifyCurrencyEvidence (text_evidence currency) = None" "is_safe_integer (JInt i)" "1 \<le> i"
    and tx: "record_capture_tx a txn i currency at ctx db = Inr (fid, db1)"
    by (auto simp: recordCaptureFact_def js_or_def tx_bind_Inr_iff split: option.splits js_number.splits if_splits)
  obtain f where f: "find_capture (att_provider a) txn db1 = Some f" "fact_id f = fid"
    and new: "facts db1 \<noteq> facts db \<longrightarrow> fact_paymentId f = Some (att_paymentId a) \<and> fact_attemptId f = Some (att_id a) \<and>
      fact_amount f = i \<and> fact_currency f = currency"
  proof (cases "find_capture (att_provider a) txn db")
    case None
    then have "insert_capture_fact a txn i currency at ctx db = Inr (fid, db1)" using tx by (simp add: record_capture_tx_def)
    from insert_capture_found [OF this None] show ?thesis using that by blast
  next
    case (Some g)
    then have "facts db1 = facts db \<and> fact_id g = fid"
      using tx insert_conflict_frame by (auto simp: record_capture_tx_def tx_bind_Inr_iff split: if_splits)
    then show ?thesis using that [of g] Some by (simp add: find_capture_def)
  qed
  have ev: "evolves db db1" by (rule evo.keeps_run [OF keeps_fact assms(1)])
  have ev2: "evolves db1 db2" by (rule reaches_evolves [OF assms(2)])
  obtain b where b: "find_attempt aid db2 = Some b" "attempt_terms b = attempt_terms a"
    using evolves_trans [OF ev ev2] a unfolding evolves_def by blast
  have bs: "att_provider b = att_provider a" "att_paymentId b = att_paymentId a" "att_id b = att_id a"
    using b(2) by (simp_all add: attempt_terms_def)
  have "prefix (facts db1) (facts db2)" using ev2 unfolding evolves_def by blast
  then have g: "find_capture (att_provider b) txn db2 = Some f" unfolding bs by (rule find_capture_grows [OF f(1)])
  have again: "recordCaptureFact aid amount currency (Some txn) at2 ctx2 db2
      = tx_bind (record_capture_tx b txn i currency at2 ctx2) (\<lambda>fid. tx_return (Some fid)) db2"
    using b(1) t sh amt by (simp add: recordCaptureFact_def js_or_def)
  have "r = Some fid \<and> facts db3 = facts db2 \<and> payments db3 = payments db2 \<and> attempts db3 = attempts db2"
    if "recordCaptureFact aid amount currency (Some txn) at2 ctx2 db2 = Inr (r, db3)" for r db3
    using that g f(2) insert_conflict_frame unfolding again
    by (auto simp: record_capture_tx_def tx_bind_Inr_iff split: if_splits)
  moreover have "recordCaptureFact aid amount currency (Some txn) at2 ctx2 db2 = Inr (Some fid, db2)" if "facts db1 \<noteq> facts db"
    using new that g f(2) bs unfolding again by (simp add: record_capture_tx_def tx_bind_def tx_return_def)
  ultimately show ?thesis by blast
qed

lemma fact_recorded: "recordCaptureFact 1 (JInt 500) ''TND'' (Some ''t1'') None demo_sync d_submitted = Inr (Some 2, d_fact)"
  by code_simp

lemma fact_to_succeeded: "reaches (pay_step demo_cfg demo_env) d_fact d_succeeded"
proof -
  obtain r where "apply_decide demo_cfg demo_caps 1 (St_succeeded (JInt 500) ''TND'' (Some ''t1'') None) (Some 2) demo_sync d_fact
    = Inr (r, d_succeeded)" using after_Some [OF run_succeeded] by blast
  then show ?thesis by (blast intro: reaches_one step_decide)
qed

theorem capture_is_recorded_once_witness:
  "recordCaptureFact 1 (JInt 500) ''TND'' (Some ''t1'') (Some 77) svc_ctx d_succeeded = Inr (Some 2, d_succeeded)"
proof -
  have "facts d_fact \<noteq> facts d_submitted"
    by (simp add: d_fact_def d_submitted_def d_started_def d_created_def empty_pdb_def)
  then show ?thesis by (rule capture_is_recorded_once [OF fact_recorded fact_to_succeeded, THEN conjunct2, rule_format])
qed

section \<open>The tables and the triggers\<close>

text \<open>C17: the status tables of the code are those of the database: a payment may move along an edge in
  the code exactly when the trigger has that edge, and the trigger lets an attempt move exactly when the code does,
  except that it also refuses the success of a failed attempt whose failure has been confirmed.\<close>

theorem tables_are_the_triggers:
  "(canTransitionPayment a b \<longleftrightarrow> (a, b) \<in> set payment_trigger_edges) \<and>
   (attempt_status_transition_guard old new \<longleftrightarrow>
      canTransitionAttempt (att_status old) (att_status new) (att_failureInferred old) \<and>
      \<not> (att_status old = A_failed \<and> att_failureConfirmedAt old \<noteq> None))"
  unfolding attempt_status_transition_guard_def canTransitionAttempt_def attempt_edges_iff payment_edges_iff
  by (cases "att_status old") auto

end
