(* ===== verification/HoldIntervals.thy ===== *)
theory HoldIntervals
  imports Prelude "HOL-Library.Char_ord" "HOL-Library.List_Lexorder"
begin

text \<open>
  The interval algebra of fraud holds (\<open>fraud-holds/fraud-hold-intervals.ts\<close> of the billing service):
  half-open intervals of milliseconds, their merge, intersection and difference as the loops of the
  code, the compensation earned by holds over paid time, and the effective entitlement. The lemmas
  relate every operation to the set of instants it denotes.
\<close>

section \<open>The operations\<close>

record interval =
  iv_start :: int
  iv_end :: int

record hold_window =
  hw_id :: string
  hw_start :: int
  hw_end :: int

definition HOLD_REVIEW_MS :: int where "HOLD_REVIEW_MS = 14 * 24 * 3600 * 1000"

text \<open>A hold where the code reads it as an interval.\<close>

definition hold_interval :: "hold_window \<Rightarrow> interval" where
  "hold_interval h = \<lparr>iv_start = hw_start h, iv_end = hw_end h\<rparr>"

definition by_start :: "interval list \<Rightarrow> interval list" where
  "by_start is = sort_key iv_start (sort_key iv_end is)"

text \<open>The loop of \<open>merge\<close>: \<open>l\<close> is the last interval of \<open>out\<close>, the only one that still changes.\<close>

fun merge_from :: "interval \<Rightarrow> interval list \<Rightarrow> interval list" where
  "merge_from l [] = [l]"
| "merge_from l (i # rest) =
     (if iv_start i \<le> iv_end l then merge_from (l\<lparr>iv_end := max (iv_end l) (iv_end i)\<rparr>) rest
      else l # merge_from i rest)"

definition merge :: "interval list \<Rightarrow> interval list" where
  "merge is = (case by_start (filter (\<lambda>i. iv_start i < iv_end i) is) of [] \<Rightarrow> [] | i # rest \<Rightarrow> merge_from i rest)"

fun intersect_loop :: "interval list \<Rightarrow> interval list \<Rightarrow> interval list" where
  "intersect_loop (x # xs) (y # ys) =
     (let s = max (iv_start x) (iv_start y); e = min (iv_end x) (iv_end y);
          rest = (if iv_end x < iv_end y then intersect_loop xs (y # ys) else intersect_loop (x # xs) ys)
      in if s < e then \<lparr>iv_start = s, iv_end = e\<rparr> # rest else rest)"
| "intersect_loop [] ys = []"
| "intersect_loop xs [] = []"

definition intersect :: "interval list \<Rightarrow> interval list \<Rightarrow> interval list" where
  "intersect a b = intersect_loop (merge a) (merge b)"

text \<open>The inner loop of \<open>subtract\<close>: what is left of \<open>[s, e)\<close>; \<open>continue\<close> and \<open>break\<close> are the two tests.\<close>

fun cut_loop :: "int \<Rightarrow> int \<Rightarrow> interval list \<Rightarrow> interval list" where
  "cut_loop s e [] = (if s < e then [\<lparr>iv_start = s, iv_end = e\<rparr>] else [])"
| "cut_loop s e (c # cs) =
     (if iv_end c \<le> s \<or> e \<le> iv_start c then cut_loop s e cs
      else
        (let left = (if s < iv_start c then [\<lparr>iv_start = s, iv_end = iv_start c\<rparr>] else []);
             s' = max s (iv_end c)
         in if e \<le> s' then left else left @ cut_loop s' e cs))"

definition subtract :: "interval list \<Rightarrow> interval list \<Rightarrow> interval list" where
  "subtract a b = concat (map (\<lambda>i. cut_loop (iv_start i) (iv_end i) (merge b)) (merge a))"

text \<open>\<open>length\<close> of the code.\<close>

definition total_ms :: "interval list \<Rightarrow> int" where
  "total_ms is = sum_list (map (\<lambda>i. iv_end i - iv_start i) (merge is))"

definition touching :: "hold_window list \<Rightarrow> interval \<Rightarrow> hold_window list" where
  "touching holds run = filter (\<lambda>h. hw_start h < iv_end run \<and> iv_start run < hw_end h \<and> hw_start h < hw_end h) holds"

definition comp_start :: "hold_window list \<Rightarrow> interval \<Rightarrow> int" where
  "comp_start holds run = foldl max (iv_end run) (map hw_end (touching holds run))"

text \<open>The loop of \<open>compensation\<close>; the start of the next run is the limit, none after the last run.\<close>

fun comp_loop :: "hold_window list \<Rightarrow> int \<Rightarrow> interval list \<Rightarrow> interval list" where
  "comp_loop holds carry [] = []"
| "comp_loop holds carry (run # rest) =
     (let denied = total_ms (intersect [run] (merge (map hold_interval holds)));
          tot = carry + denied
      in if tot = 0 then comp_loop holds carry rest
         else
           (let s = comp_start holds run in
            case rest of
              [] \<Rightarrow> [\<lparr>iv_start = s, iv_end = s + tot\<rparr>]
            | next1 # _ \<Rightarrow>
                if iv_start next1 \<le> s then comp_loop holds tot rest
                else (let n = min tot (iv_start next1 - s)
                      in \<lparr>iv_start = s, iv_end = s + n\<rparr> # comp_loop holds (tot - n) rest)))"

definition compensation :: "interval list \<Rightarrow> hold_window list \<Rightarrow> interval list" where
  "compensation paid holds = comp_loop holds 0 (merge paid)"

definition effective :: "interval list \<Rightarrow> hold_window list \<Rightarrow> interval list" where
  "effective paid holds = subtract (merge (paid @ compensation paid holds)) (map hold_interval holds)"

definition entitlementAt :: "interval list \<Rightarrow> hold_window list \<Rightarrow> int \<Rightarrow> bool \<times> int option" where
  "entitlementAt paid holds t =
     (case find (\<lambda>x. iv_start x \<le> t \<and> t < iv_end x) (merge (effective paid holds)) of
        Some i \<Rightarrow> (True, Some (iv_end i))
      | None \<Rightarrow> (False, None))"

text \<open>Ordered by placement, then id; each hold's own part of the denied paid time.\<close>

fun denied_loop :: "interval list \<Rightarrow> interval list \<Rightarrow> hold_window list \<Rightarrow> (string \<times> int) list" where
  "denied_loop paid seen [] = []"
| "denied_loop paid seen (h # hs) =
     (hw_id h, total_ms (subtract (intersect paid [hold_interval h]) seen)) # denied_loop paid (seen @ [hold_interval h]) hs"

definition deniedByHold :: "interval list \<Rightarrow> hold_window list \<Rightarrow> (string \<times> int) list" where
  "deniedByHold paid holds = denied_loop paid [] (sort_key hw_start (sort_key hw_id holds))"

section \<open>What intervals denote\<close>

definition covered :: "interval list \<Rightarrow> int set" where
  "covered is = (\<Union>i \<in> set is. {iv_start i ..< iv_end i})"

lemma covered_simps [simp]:
  "covered [] = {}" "covered (i # is) = {iv_start i ..< iv_end i} \<union> covered is"
  "covered (xs @ ys) = covered xs \<union> covered ys"
  by (auto simp: covered_def)

lemma covered_set: "set xs = set ys \<Longrightarrow> covered xs = covered ys"
  by (simp add: covered_def)

text \<open>Ascending, disjoint, not touching, none empty: what \<open>merge\<close> returns.\<close>

fun separated :: "interval list \<Rightarrow> bool" where
  "separated [] \<longleftrightarrow> True"
| "separated (i # is) \<longleftrightarrow> iv_start i < iv_end i \<and> (\<forall>j \<in> set is. iv_end i < iv_start j) \<and> separated is"

lemma by_start_set [simp]: "set (by_start is) = set is"
  by (simp add: by_start_def)

lemma by_start_sorted: "sorted (map iv_start (by_start is))"
  by (simp add: by_start_def)

lemma merge_from_ge:
  "sorted (map iv_start (l # is)) \<Longrightarrow> j \<in> set (merge_from l is) \<Longrightarrow> iv_start l \<le> iv_start j"
proof (induction l "is" rule: merge_from.induct)
  case (2 l i rest)
  show ?case
  proof (cases "iv_start i \<le> iv_end l")
    case True
    then show ?thesis using 2 by simp
  next
    case False
    then have "j = l \<or> iv_start i \<le> iv_start j" using 2 by auto
    then show ?thesis using 2(3) by auto
  qed
qed simp

lemma merge_from_separated:
  "sorted (map iv_start (l # is)) \<Longrightarrow> iv_start l < iv_end l \<Longrightarrow> \<forall>i \<in> set is. iv_start i < iv_end i \<Longrightarrow>
     separated (merge_from l is)"
proof (induction l "is" rule: merge_from.induct)
  case (2 l i rest)
  show ?case
  proof (cases "iv_start i \<le> iv_end l")
    case True
    then show ?thesis using 2 by simp
  next
    case False
    then have "iv_end l < iv_start j" if "j \<in> set (merge_from i rest)" for j
      using merge_from_ge [OF _ that] 2(3) by simp
    then show ?thesis using False 2 by simp
  qed
qed simp

lemma merge_from_covered:
  "sorted (map iv_start (l # is)) \<Longrightarrow> covered (merge_from l is) = covered (l # is)"
proof (induction l "is" rule: merge_from.induct)
  case (2 l i rest)
  show ?case
  proof (cases "iv_start i \<le> iv_end l")
    case True
    have "{iv_start l ..< max (iv_end l) (iv_end i)} = {iv_start l ..< iv_end l} \<union> {iv_start i ..< iv_end i}"
      using True 2(3) by auto
    then show ?thesis using True 2 by (simp add: Un_assoc)
  next
    case False
    then show ?thesis using 2 by simp
  qed
qed simp

lemma merge_ok: "separated (merge is)" "covered (merge is) = covered is"
proof -
  let ?l = "by_start (filter (\<lambda>i. iv_start i < iv_end i) is)"
  have "covered ?l = covered (filter (\<lambda>i. iv_start i < iv_end i) is)" by (rule covered_set) simp
  also have "\<dots> = covered is" by (induction "is") auto
  finally have c: "covered ?l = covered is" .
  have ne: "\<forall>i \<in> set ?l. iv_start i < iv_end i" by simp
  have so: "sorted (map iv_start ?l)" by (rule by_start_sorted)
  have "separated (merge is) \<and> covered (merge is) = covered ?l"
  proof (cases ?l)
    case (Cons i rest)
    then have "merge is = merge_from i rest" by (simp add: merge_def)
    moreover have "sorted (map iv_start (i # rest))" "\<forall>j \<in> set (i # rest). iv_start j < iv_end j"
      using so ne unfolding Cons by blast+
    ultimately show ?thesis using merge_from_separated [of i rest] merge_from_covered [of i rest] unfolding Cons by simp
  qed (simp add: merge_def)
  then show "separated (merge is)" "covered (merge is) = covered is" unfolding c by simp_all
qed

lemma separated_low: "separated (i # is) \<Longrightarrow> t \<in> covered is \<Longrightarrow> iv_end i < t"
  by (auto simp: covered_def)

lemma intersect_loop_in:
  "j \<in> set (intersect_loop xs ys) \<Longrightarrow>
     iv_start j < iv_end j \<and> (\<exists>x \<in> set xs. iv_start x \<le> iv_start j) \<and> (\<exists>y \<in> set ys. iv_start y \<le> iv_start j)"
proof (induction xs ys rule: intersect_loop.induct)
  case (1 x xs y ys)
  then show ?case by (auto simp: Let_def split: if_splits)
qed simp_all

lemma intersect_loop_covered:
  "separated xs \<Longrightarrow> separated ys \<Longrightarrow> covered (intersect_loop xs ys) = covered xs \<inter> covered ys"
proof (induction xs ys rule: intersect_loop.induct)
  case (1 x xs y ys)
  have lx: "t \<in> covered xs \<Longrightarrow> iv_end x < t" for t using separated_low [OF 1(3)] .
  have ly: "t \<in> covered ys \<Longrightarrow> iv_end y < t" for t using separated_low [OF 1(4)] .
  show ?case
  proof (cases "iv_end x < iv_end y")
    case True
    have "{iv_start x ..< iv_end x} \<inter> covered ys = {}" using ly True by force
    then show ?thesis using True 1 by (auto simp: Let_def)
  next
    case False
    have "{iv_start y ..< iv_end y} \<inter> covered xs = {}" using lx False by force
    then show ?thesis using False 1 by (auto simp: Let_def)
  qed
qed simp_all

lemma intersect_covered [simp]: "covered (intersect a b) = covered a \<inter> covered b"
  by (simp add: intersect_def intersect_loop_covered merge_ok)

lemma cut_loop_covered: "separated cs \<Longrightarrow> covered (cut_loop s e cs) = {s ..< e} - covered cs"
proof (induction s e cs rule: cut_loop.induct)
  case (2 s e c cs)
  have low: "t \<in> covered cs \<Longrightarrow> iv_end c < t" for t using separated_low [OF 2(3)] .
  show ?case
  proof (cases "iv_end c \<le> s \<or> e \<le> iv_start c")
    case True
    then have "{s ..< e} - ({iv_start c ..< iv_end c} \<union> covered cs) = {s ..< e} - covered cs" by auto
    then show ?thesis using True 2 by simp
  next
    case False
    let ?s = "max s (iv_end c)"
    have split: "{s ..< e} - ({iv_start c ..< iv_end c} \<union> covered cs) = {s ..< iv_start c} \<union> ({?s ..< e} - covered cs)"
    proof (rule set_eqI)
      fix t
      show "t \<in> {s ..< e} - ({iv_start c ..< iv_end c} \<union> covered cs) \<longleftrightarrow> t \<in> {s ..< iv_start c} \<union> ({?s ..< e} - covered cs)"
        using False 2(3) low [of t] by (cases "t \<in> covered cs") auto
    qed
    show ?thesis
      using False 2 split by (cases "e \<le> ?s") (auto simp: Let_def)
  qed
qed simp

lemma subtract_covered [simp]: "covered (subtract a b) = covered a - covered b"
proof -
  have "covered (concat (map (\<lambda>i. cut_loop (iv_start i) (iv_end i) (merge b)) xs)) = covered xs - covered b" for xs
    by (induction xs) (auto simp: cut_loop_covered merge_ok)
  then show ?thesis by (simp add: subtract_def merge_ok)
qed

lemma finite_covered [simp]: "finite (covered is)"
  by (simp add: covered_def)

lemma separated_card: "separated is \<Longrightarrow> sum_list (map (\<lambda>i. iv_end i - iv_start i) is) = int (card (covered is))"
proof (induction "is")
  case (Cons i "is")
  have "{iv_start i ..< iv_end i} \<inter> covered is = {}" using separated_low [OF Cons.prems] by force
  then have "card (covered (i # is)) = card {iv_start i ..< iv_end i} + card (covered is)"
    by (simp add: card_Un_disjoint)
  then show ?case using Cons by simp
qed simp

lemma total_ms_card: "total_ms is = int (card (covered is))"
  by (simp add: total_ms_def separated_card merge_ok)

section \<open>Compensation\<close>

abbreviation held :: "hold_window list \<Rightarrow> int set" where
  "held holds \<equiv> covered (map hold_interval holds)"

definition denied :: "hold_window list \<Rightarrow> interval list \<Rightarrow> int" where
  "denied holds runs = int (card (covered runs \<inter> held holds))"

lemma denied_run: "total_ms (intersect [run] (merge (map hold_interval holds))) = denied holds [run]"
  by (simp add: total_ms_card denied_def merge_ok)

lemma denied_Cons: "separated (run # rest) \<Longrightarrow> denied holds (run # rest) = denied holds [run] + denied holds rest"
proof -
  assume s: "separated (run # rest)"
  let ?R = "{iv_start run ..< iv_end run} \<inter> held holds" and ?T = "covered rest \<inter> held holds"
  have "?R \<inter> ?T = {}" using separated_low [OF s] by force
  then have "card (?R \<union> ?T) = card ?R + card ?T" by (intro card_Un_disjoint) simp_all
  then show ?thesis by (simp add: denied_def Int_Un_distrib2)
qed

lemma denied_nonneg: "0 \<le> denied holds runs"
  by (simp add: denied_def)

lemma comp_start_ge: "iv_end run \<le> comp_start holds run"
proof -
  have "x \<le> foldl max x ys" for x :: int and ys by (induction ys arbitrary: x) (auto, smt (verit) max.cobounded1)
  then show ?thesis by (simp add: comp_start_def)
qed

text \<open>Every compensation interval is non-empty, after the run that earned it and clear of all paid time.\<close>

lemma comp_loop_after:
  "separated (run # rest) \<Longrightarrow> 0 \<le> carry \<Longrightarrow> j \<in> set (comp_loop holds carry (run # rest)) \<Longrightarrow>
     iv_start j < iv_end j \<and> iv_end run \<le> iv_start j"
proof (induction rest arbitrary: run carry)
  case Nil
  then show ?case using comp_start_ge [of run holds] denied_nonneg [of holds "[run]"]
    by (auto simp: Let_def denied_run split: if_splits)
next
  case (Cons next1 rest)
  let ?tot = "carry + denied holds [run]" and ?s = "comp_start holds run"
  have tot: "0 \<le> ?tot" using Cons.prems(2) denied_nonneg [of holds "[run]"] by simp
  have rest: "separated (next1 # rest)" "iv_end run < iv_end next1" using Cons.prems(1) by auto
  have ge: "iv_end run \<le> ?s" by (rule comp_start_ge)
  have later: "iv_start j < iv_end j \<and> iv_end run \<le> iv_start j"
    if "j \<in> set (comp_loop holds c (next1 # rest))" "0 \<le> c" for c
    using Cons.IH [OF rest(1) that(2,1)] rest(2) by simp
  show ?case
  proof (cases "?tot = 0")
    case True
    then show ?thesis using Cons.prems(2,3) by (intro later [of carry]) (simp_all add: Let_def denied_run)
  next
    case nz: False
    show ?thesis
    proof (cases "iv_start next1 \<le> ?s")
      case True
      then show ?thesis using Cons.prems(3) nz tot by (intro later [of ?tot]) (simp_all add: Let_def denied_run)
    next
      case False
      let ?n = "min ?tot (iv_start next1 - ?s)"
      have "j = \<lparr>iv_start = ?s, iv_end = ?s + ?n\<rparr> \<or> j \<in> set (comp_loop holds (?tot - ?n) (next1 # rest))"
        using Cons.prems(3) nz False by (simp add: Let_def denied_run)
      then show ?thesis using later [of "?tot - ?n"] ge nz tot False by (auto simp: min_def)
    qed
  qed
qed

text \<open>The time that a run of the loop places, and that it is placed outside paid time and never twice.\<close>

lemma comp_loop_total:
  "separated runs \<Longrightarrow> 0 \<le> carry \<Longrightarrow> runs \<noteq> [] \<Longrightarrow>
     int (card (covered (comp_loop holds carry runs))) = carry + denied holds runs \<and>
     covered (comp_loop holds carry runs) \<inter> covered runs = {}"
proof (induction runs arbitrary: carry)
  case (Cons run rest)
  let ?tot = "carry + denied holds [run]" and ?s = "comp_start holds run"
  have tot: "0 \<le> ?tot" using Cons.prems(2) denied_nonneg [of holds "[run]"] by simp
  have ge: "iv_end run \<le> ?s" by (rule comp_start_ge)
  have sum: "denied holds (run # rest) = denied holds [run] + denied holds rest" by (rule denied_Cons [OF Cons.prems(1)])
  have sr: "separated rest" using Cons.prems(1) by simp
  show ?case
  proof (cases rest)
    case Nil
    then show ?thesis using tot ge by (auto simp: Let_def denied_run)
  next
    case (Cons next1 rest1)
    note r = this
    have IH: "int (card (covered (comp_loop holds c rest))) = c + denied holds rest \<and>
        covered (comp_loop holds c rest) \<inter> covered rest = {}" if "0 \<le> c" for c
      using Cons.IH [OF sr that] r by simp
    have after: "iv_end next1 \<le> t" if "t \<in> covered (comp_loop holds c rest)" "0 \<le> c" for t c
    proof -
      from that(1) obtain j where "j \<in> set (comp_loop holds c rest)" "iv_start j \<le> t" by (auto simp: covered_def)
      then show ?thesis using comp_loop_after [of next1 rest1 c j holds] sr that(2) r by simp
    qed
    have bounds: "iv_start next1 < iv_end next1" "iv_end run < iv_start next1" using Cons.prems(1) r by auto
    have run: "covered (comp_loop holds c rest) \<inter> covered (run # rest) = {}" if "0 \<le> c" for c
      using IH [OF that] after [OF _ that] bounds by fastforce
    show ?thesis
    proof (cases "?tot = 0")
      case True
      then have "comp_loop holds carry (run # rest) = comp_loop holds carry rest" "carry = 0"
        using Cons.prems(2) denied_nonneg [of holds "[run]"] by (simp_all add: Let_def denied_run)
      then show ?thesis using IH [of 0] run [of 0] sum True by simp
    next
      case nz: False
      show ?thesis
      proof (cases "iv_start next1 \<le> ?s")
        case True
        then have "comp_loop holds carry (run # rest) = comp_loop holds ?tot rest"
          using nz r by (simp add: Let_def denied_run)
        then show ?thesis using IH [OF tot] run [OF tot] sum by simp
      next
        case False
        let ?n = "min ?tot (iv_start next1 - ?s)"
        have n: "0 \<le> ?tot - ?n" "0 < ?n" "?s + ?n \<le> iv_start next1" using nz tot False by (auto simp: min_def)
        have e: "covered (comp_loop holds carry (run # rest)) = {?s ..< ?s + ?n} \<union> covered (comp_loop holds (?tot - ?n) rest)"
          using nz False r by (simp add: Let_def denied_run)
        have d: "{?s ..< ?s + ?n} \<inter> covered (comp_loop holds (?tot - ?n) rest) = {}"
          using after [OF _ n(1)] n(3) bounds(1) by fastforce
        have "{?s ..< ?s + ?n} \<inter> covered rest = {}"
          using n(3) r sr separated_low [of next1 rest1] bounds by fastforce
        then have "{?s ..< ?s + ?n} \<inter> covered (run # rest) = {}" using ge by auto
        moreover have "card (covered (comp_loop holds carry (run # rest)))
            = card {?s ..< ?s + ?n} + card (covered (comp_loop holds (?tot - ?n) rest))"
          unfolding e using d by (intro card_Un_disjoint) simp_all
        ultimately show ?thesis using e IH [OF n(1)] run [OF n(1)] sum n(2) by auto
      qed
    qed
  qed
qed simp

section \<open>What the operations compute\<close>

lemma separated_nonempty: "separated is \<Longrightarrow> i \<in> set is \<Longrightarrow> iv_start i < iv_end i"
  by (induction "is") auto

lemma separated_end: "separated is \<Longrightarrow> i \<in> set is \<Longrightarrow> iv_end i \<notin> covered is"
proof (induction "is")
  case (Cons a "is")
  show ?case
  proof (cases "i = a")
    case True
    then show ?thesis using separated_low [OF Cons.prems(1), of "iv_end i"] by auto
  next
    case False
    then have "i \<in> set is" using Cons.prems(2) by simp
    then have "iv_end a < iv_end i" using Cons.prems(1) separated_nonempty [of "is" i] by fastforce
    then show ?thesis using Cons \<open>i \<in> set is\<close> by simp
  qed
qed simp

text \<open>The answer for an instant, by where it lies.\<close>

lemma in_covered_iff: "t \<in> covered is \<longleftrightarrow> (\<exists>i \<in> set is. iv_start i \<le> t \<and> t < iv_end i)"
  by (auto simp: covered_def)

lemma entitlementAt_outside: "t \<notin> covered (effective paid holds) \<Longrightarrow> entitlementAt paid holds t = (False, None)"
proof -
  assume t: "t \<notin> covered (effective paid holds)"
  have "find (\<lambda>x. iv_start x \<le> t \<and> t < iv_end x) (merge (effective paid holds)) = None"
    using t unfolding find_None_iff merge_ok(2) [of "effective paid holds", symmetric] in_covered_iff by blast
  then show ?thesis by (simp add: entitlementAt_def)
qed

lemma entitlementAt_inside:
  assumes t: "t \<in> covered (effective paid holds)"
  obtains e where "entitlementAt paid holds t = (True, Some e)" "t < e" "{t ..< e} \<subseteq> covered (effective paid holds)"
    "e \<notin> covered (effective paid holds)"
proof -
  let ?m = "merge (effective paid holds)"
  have m: "separated ?m" "covered ?m = covered (effective paid holds)" by (rule merge_ok)+
  have "find (\<lambda>x. iv_start x \<le> t \<and> t < iv_end x) ?m \<noteq> None"
    using t unfolding find_None_iff m(2) [symmetric] in_covered_iff by blast
  then obtain i where i: "find (\<lambda>x. iv_start x \<le> t \<and> t < iv_end x) ?m = Some i" by blast
  then have s: "i \<in> set ?m" "iv_start i \<le> t" "t < iv_end i" by (auto simp: find_Some_iff)
  have "{t ..< iv_end i} \<subseteq> {iv_start i ..< iv_end i}" using s(2) by auto
  also have "\<dots> \<subseteq> covered ?m" using s(1) unfolding covered_def by blast
  finally have "{t ..< iv_end i} \<subseteq> covered ?m" .
  then show thesis using that [of "iv_end i"] i s(3) separated_end [OF m(1) s(1)] by (simp add: entitlementAt_def m(2))
qed

text \<open>C18: the effective entitlement is exactly the paid time and its compensation, minus the holds; the
  answer for an instant is whether it lies in it, with the first instant at which the entitlement is
  interrupted.\<close>

theorem entitlement_is_paid_minus_held:
  "covered (effective paid holds)
     = (covered paid \<union> covered (compensation paid holds)) - covered (map hold_interval holds) \<and>
   (\<forall>t. entitlementAt paid holds t = (False, None) \<longleftrightarrow> t \<notin> covered (effective paid holds)) \<and>
   (\<forall>t e. entitlementAt paid holds t = (True, Some e) \<longrightarrow>
      t < e \<and> {t ..< e} \<subseteq> covered (effective paid holds) \<and> e \<notin> covered (effective paid holds))"
proof (intro conjI allI impI)
  show "covered (effective paid holds) = (covered paid \<union> covered (compensation paid holds)) - held holds"
    by (simp add: effective_def merge_ok)
next
  fix t
  show "entitlementAt paid holds t = (False, None) \<longleftrightarrow> t \<notin> covered (effective paid holds)"
    using entitlementAt_outside [of t paid holds] by (cases "t \<in> covered (effective paid holds)") (auto elim: entitlementAt_inside)
next
  fix t e
  assume e: "entitlementAt paid holds t = (True, Some e)"
  then have "t \<in> covered (effective paid holds)" using entitlementAt_outside [of t paid holds] by auto
  then obtain e' where "entitlementAt paid holds t = (True, Some e')" "t < e'" "{t ..< e'} \<subseteq> covered (effective paid holds)"
    "e' \<notin> covered (effective paid holds)" by (rule entitlementAt_inside)
  with e show "t < e" "{t ..< e} \<subseteq> covered (effective paid holds)" "e \<notin> covered (effective paid holds)" by simp_all
qed

lemma compensation_no_hold: "covered (compensation paid []) = {}"
proof (cases "merge paid")
  case (Cons r rest)
  then have "card (covered (compensation paid [])) = 0"
    using comp_loop_total [OF merge_ok(1), of 0 paid "[]"] by (simp add: compensation_def denied_def)
  then show ?thesis by simp
qed (simp add: compensation_def)

definition demo_paid :: "interval list" where
  "demo_paid = [\<lparr>iv_start = 0, iv_end = 10\<rparr>]"

definition demo_holds :: "hold_window list" where
  "demo_holds = [\<lparr>hw_id = ''h'', hw_start = 2, hw_end = 5\<rparr>]"

lemma demo_entitled: "entitlementAt demo_paid demo_holds 6 = (True, Some 13)"
  by code_simp

theorem entitlement_is_paid_minus_held_witness:
  "{6 ..< 13} \<subseteq> covered (effective demo_paid demo_holds) \<and> 13 \<notin> covered (effective demo_paid demo_holds)"
  using entitlement_is_paid_minus_held [of demo_paid demo_holds] demo_entitled by blast


lemma denied_loop_sum:
  "sum_list (map snd (denied_loop paid seen hs)) = int (card (covered paid \<inter> (held hs - covered seen)))"
proof (induction hs arbitrary: seen)
  case (Cons h hs)
  let ?A = "covered paid \<inter> (covered [hold_interval h] - covered seen)"
  let ?B = "covered paid \<inter> (held hs - covered (seen @ [hold_interval h]))"
  have "?A \<inter> ?B = {}" by auto
  then have "card (?A \<union> ?B) = card ?A + card ?B" by (intro card_Un_disjoint) simp_all
  moreover have "?A \<union> ?B = covered paid \<inter> (held (h # hs) - covered seen)" by auto
  moreover have "covered paid \<inter> covered [hold_interval h] - covered seen = ?A" by auto
  ultimately show ?case using Cons by (simp add: total_ms_card)
qed simp

text \<open>C20: the evidence of overlapping holds sums to the union: the parts credited to the single holds add up to
  the paid time that all of them together denied, so nothing is credited twice.\<close>

theorem evidence_sums_to_the_union:
  "sum_list (map snd (deniedByHold paid holds)) = total_ms (intersect paid (map hold_interval holds))"
proof -
  have "held (sort_key hw_start (sort_key hw_id holds)) = held holds" by (rule covered_set) simp
  then show ?thesis by (simp add: deniedByHold_def denied_loop_sum total_ms_card)
qed

end
