(* ===== verification/BillingMoney.thy ===== *)
theory BillingMoney
  imports Prelude
begin

text \<open>
  Money of the billing service (\<open>domain/money.ts\<close>) and the totals of an invoice
  (\<open>domain/totals.ts\<close>): checked arithmetic on integers of minor units below \<open>2 ^ 53\<close>, the decimal
  form of a database amount, and the one computation of line totals, subtotal and total. A thrown
  \<open>MoneyError\<close> is a value of \<open>money_fault\<close>; its text is left out.
\<close>

section \<open>Amounts\<close>

definition MAX_MINOR_UNITS :: int where
  "MAX_MINOR_UNITS = 9007199254740991"

datatype money_fault = Not_an_integer | Not_db_integer | Out_of_range | Not_positive | Too_large | Line_count | Bad_quantity

text \<open>An \<open>unknown\<close> value as \<open>toMinorUnits\<close> sees it.\<close>

datatype amount_value = A_bigint int | A_number js_number | A_other

definition assertInRange :: "int \<Rightarrow> money_fault + int" where
  "assertInRange v = (if v < 0 \<or> MAX_MINOR_UNITS < v then Inl Out_of_range else Inr v)"

fun toMinorUnits :: "amount_value \<Rightarrow> money_fault + int" where
  "toMinorUnits (A_bigint v) = assertInRange v"
| "toMinorUnits (A_number (JInt i)) = (if is_safe_integer (JInt i) then assertInRange i else Inl Not_an_integer)"
| "toMinorUnits (A_number JNonInt) = Inl Not_an_integer"
| "toMinorUnits A_other = Inl Not_an_integer"

definition digit_value :: "char \<Rightarrow> int" where
  "digit_value c = int (char_code c) - 48"

definition read_decimal :: "string \<Rightarrow> int" where
  "read_decimal s = foldl (\<lambda>a c. 10 * a + digit_value c) 0 s"

definition db_digits :: "string \<Rightarrow> bool" where
  "db_digits s \<longleftrightarrow> 1 \<le> length s \<and> length s \<le> 19 \<and> list_all is_digit s"

text \<open>\<open>/^-?\d{1,19}$/\<close>, then \<open>BigInt\<close>.\<close>

definition fromDbAmount :: "string \<Rightarrow> money_fault + int" where
  "fromDbAmount s =
     (case s of
        [] \<Rightarrow> Inl Not_db_integer
      | c # ds \<Rightarrow>
          if c = CHR ''-'' then (if db_digits ds then assertInRange (- read_decimal ds) else Inl Not_db_integer)
          else if db_digits s then assertInRange (read_decimal s) else Inl Not_db_integer)"

definition assertPositive :: "int \<Rightarrow> money_fault + int" where
  "assertPositive v = (if v \<le> 0 then Inl Not_positive else Inr v)"

definition mulMinor :: "int \<Rightarrow> int \<Rightarrow> money_fault + int" where
  "mulMinor a b = (if MAX_MINOR_UNITS < a * b then Inl Too_large else Inr (a * b))"

definition addMinor :: "int \<Rightarrow> int \<Rightarrow> money_fault + int" where
  "addMinor a b = (if MAX_MINOR_UNITS < a + b then Inl Too_large else Inr (a + b))"

text \<open>\<open>Number(v)\<close> is exact here: the result is the integral JavaScript number.\<close>

definition toJsonAmount :: "int \<Rightarrow> money_fault + js_number" where
  "toJsonAmount v = (if v < 0 \<or> MAX_MINOR_UNITS < v then Inl Out_of_range else Inr (JInt v))"

section \<open>Totals\<close>

definition MAX_LINES :: nat where "MAX_LINES = 100"
definition MAX_QUANTITY :: int where "MAX_QUANTITY = 2147483647"

record line_input =
  li_quantity :: js_number
  li_unitAmount :: int

record computed_line =
  cl_lineNumber :: nat
  cl_quantity :: int
  cl_unitAmount :: int
  cl_lineTotal :: int
  cl_taxAmount :: int

record invoice_totals =
  it_lines :: "computed_line list"
  it_subtotal :: int
  it_taxTotal :: int
  it_total :: int

text \<open>One turn of the \<open>map\<close>: line \<open>i\<close> with the subtotal so far, the line and the new subtotal.\<close>

definition compute_line :: "nat \<Rightarrow> int \<Rightarrow> line_input \<Rightarrow> money_fault + computed_line \<times> int" where
  "compute_line i subtotal l =
     (case li_quantity l of
        JNonInt \<Rightarrow> Inl Bad_quantity
      | JInt q \<Rightarrow>
          if q < 1 \<or> MAX_QUANTITY < q then Inl Bad_quantity
          else err_bind (toMinorUnits (A_bigint (li_unitAmount l))) (\<lambda>u.
               err_bind (assertPositive u) (\<lambda>unit_amount.
               err_bind (mulMinor q unit_amount) (\<lambda>line_total.
               err_bind (addMinor subtotal line_total) (\<lambda>subtotal'.
                 Inr (\<lparr>cl_lineNumber = i + 1, cl_quantity = q, cl_unitAmount = unit_amount, cl_lineTotal = line_total,
                       cl_taxAmount = 0\<rparr>, subtotal'))))))"

fun compute_lines :: "nat \<Rightarrow> int \<Rightarrow> line_input list \<Rightarrow> money_fault + computed_line list \<times> int" where
  "compute_lines i subtotal [] = Inr ([], subtotal)"
| "compute_lines i subtotal (l # ls) =
     err_bind (compute_line i subtotal l) (\<lambda>(c, subtotal').
       err_bind (compute_lines (i + 1) subtotal' ls) (\<lambda>(cs, final). Inr (c # cs, final)))"

definition computeTotals :: "line_input list \<Rightarrow> money_fault + invoice_totals" where
  "computeTotals ls =
     (if length ls < 1 \<or> MAX_LINES < length ls then Inl Line_count
      else err_bind (compute_lines 0 0 ls) (\<lambda>(computed, subtotal).
           err_bind (addMinor subtotal 0) (\<lambda>total.
             Inr \<lparr>it_lines = computed, it_subtotal = subtotal, it_taxTotal = 0, it_total = total\<rparr>)))"

section \<open>What totals are\<close>

definition line_value :: "line_input \<Rightarrow> int" where
  "line_value l = (case li_quantity l of JInt q \<Rightarrow> q * li_unitAmount l | JNonInt \<Rightarrow> 0)"

definition line_ok :: "line_input \<Rightarrow> bool" where
  "line_ok l \<longleftrightarrow> (\<exists>q. li_quantity l = JInt q \<and> 1 \<le> q \<and> q \<le> MAX_QUANTITY) \<and>
     1 \<le> li_unitAmount l \<and> li_unitAmount l \<le> MAX_MINOR_UNITS \<and> line_value l \<le> MAX_MINOR_UNITS"

definition lines_value :: "line_input list \<Rightarrow> int" where
  "lines_value ls = sum_list (map line_value ls)"

lemma line_ok_pos: "line_ok l \<Longrightarrow> 1 \<le> line_value l"
proof -
  assume ok: "line_ok l"
  then obtain q where q: "li_quantity l = JInt q" "1 \<le> q" "1 \<le> li_unitAmount l" by (auto simp: line_ok_def)
  then have "1 * 1 \<le> q * li_unitAmount l" by (intro mult_mono) auto
  then show ?thesis using q by (simp add: line_value_def)
qed

lemma compute_line_Inr:
  "compute_line i sub l = Inr (c, sub') \<longleftrightarrow> line_ok l \<and> sub' = sub + line_value l \<and> sub' \<le> MAX_MINOR_UNITS \<and>
     c = \<lparr>cl_lineNumber = i + 1, cl_quantity = (case li_quantity l of JInt q \<Rightarrow> q | JNonInt \<Rightarrow> 0),
          cl_unitAmount = li_unitAmount l, cl_lineTotal = line_value l, cl_taxAmount = 0\<rparr>"
  by (cases "li_quantity l")
    (auto simp: compute_line_def line_ok_def line_value_def assertInRange_def assertPositive_def mulMinor_def addMinor_def
      err_bind_Inr_iff split: if_splits)

lemma lines_value_simps [simp]: "lines_value [] = 0" "lines_value (l # ls) = line_value l + lines_value ls"
  by (simp_all add: lines_value_def)

lemma lines_value_nonneg: "list_all line_ok ls \<Longrightarrow> 0 \<le> lines_value ls"
  by (induction ls) (auto dest: line_ok_pos)

lemma compute_lines_Inr:
  "compute_lines i sub ls = Inr (cs, final) \<Longrightarrow>
     list_all line_ok ls \<and> final = sub + lines_value ls \<and> (ls \<noteq> [] \<longrightarrow> final \<le> MAX_MINOR_UNITS) \<and>
     map cl_lineTotal cs = map line_value ls \<and> map cl_unitAmount cs = map li_unitAmount ls \<and>
     map cl_lineNumber cs = [i + 1 ..< i + 1 + length ls]"
proof (induction ls arbitrary: i sub cs final)
  case (Cons l ls)
  then obtain c sub' cs' where c: "compute_line i sub l = Inr (c, sub')" "compute_lines (i + 1) sub' ls = Inr (cs', final)"
    "cs = c # cs'" by (auto simp: err_bind_Inr_iff)
  from Cons.IH [OF c(2)] c show ?case
    by (cases ls) (auto simp: compute_line_Inr upt_conv_Cons)
qed auto

lemma compute_lines_total:
  "list_all line_ok ls \<Longrightarrow> sub + lines_value ls \<le> MAX_MINOR_UNITS \<Longrightarrow> \<exists>cs. compute_lines i sub ls = Inr (cs, sub + lines_value ls)"
proof (induction ls arbitrary: i sub)
  case (Cons l ls)
  then have "sub + line_value l \<le> MAX_MINOR_UNITS" using lines_value_nonneg [of ls] by simp
  then obtain c where "compute_line i sub l = Inr (c, sub + line_value l)"
    using Cons.prems(1) compute_line_Inr [of i sub l _ "sub + line_value l"] by auto
  moreover obtain cs where "compute_lines (i + 1) (sub + line_value l) ls = Inr (cs, sub + line_value l + lines_value ls)"
    using Cons.IH [of "sub + line_value l" "i + 1"] Cons.prems by (auto simp: add.assoc)
  ultimately show ?case by (simp add: add.assoc)
qed simp

text \<open>C21: the totals of an invoice are computed for exactly the invoices of 1 to 100 lines whose quantities are
  integers from 1 to 2147483647, whose unit amounts are positive and whose products and sum stay below
  the cap; then the total is the exact sum of quantity times unit amount, never wrapped or rounded.\<close>

theorem totals_are_exact:
  "((\<exists>t. computeTotals ls = Inr t) \<longleftrightarrow>
      1 \<le> length ls \<and> length ls \<le> 100 \<and> list_all line_ok ls \<and> lines_value ls \<le> MAX_MINOR_UNITS) \<and>
   (\<forall>t. computeTotals ls = Inr t \<longrightarrow>
      it_total t = lines_value ls \<and> it_subtotal t = lines_value ls \<and> it_taxTotal t = 0 \<and>
      1 \<le> it_total t \<and> it_total t \<le> 9007199254740991 \<and>
      map cl_lineTotal (it_lines t) = map line_value ls \<and> map cl_lineNumber (it_lines t) = [1 ..< 1 + length ls])"
proof -
  have fwd: "1 \<le> length ls \<and> length ls \<le> 100 \<and> list_all line_ok ls \<and> lines_value ls \<le> MAX_MINOR_UNITS \<and>
      it_total t = lines_value ls \<and> it_subtotal t = lines_value ls \<and> it_taxTotal t = 0 \<and>
      map cl_lineTotal (it_lines t) = map line_value ls \<and> map cl_lineNumber (it_lines t) = [1 ..< 1 + length ls]"
    if t: "computeTotals ls = Inr t" for t
  proof -
    obtain cs sub where c: "compute_lines 0 0 ls = Inr (cs, sub)" and n: "ls \<noteq> []" "length ls \<le> 100"
      and e: "t = \<lparr>it_lines = cs, it_subtotal = sub, it_taxTotal = 0, it_total = sub\<rparr>"
      using t by (auto simp: computeTotals_def MAX_LINES_def addMinor_def err_bind_Inr_iff split: if_splits)
    from compute_lines_Inr [OF c] n show ?thesis by (cases ls) (simp_all add: e)
  qed
  moreover have "1 \<le> lines_value ls" if "list_all line_ok ls" "1 \<le> length ls"
    using that lines_value_nonneg by (cases ls) (auto dest!: line_ok_pos, smt (verit))
  moreover have "\<exists>t. computeTotals ls = Inr t"
    if "1 \<le> length ls" "length ls \<le> 100" "list_all line_ok ls" "lines_value ls \<le> MAX_MINOR_UNITS"
    using compute_lines_total [OF that(3), of 0 0] that by (auto simp: computeTotals_def MAX_LINES_def addMinor_def)
  ultimately show ?thesis by (auto simp: MAX_MINOR_UNITS_def)
qed

definition demo_lines :: "line_input list" where
  "demo_lines = [\<lparr>li_quantity = JInt 3, li_unitAmount = 250\<rparr>, \<lparr>li_quantity = JInt 1, li_unitAmount = 40\<rparr>]"

lemma demo_totals: "\<exists>t. computeTotals demo_lines = Inr t"
  by (simp add: demo_lines_def computeTotals_def compute_line_def assertInRange_def assertPositive_def mulMinor_def
      addMinor_def MAX_MINOR_UNITS_def MAX_QUANTITY_def MAX_LINES_def)

theorem totals_are_exact_witness:
  "\<exists>t. computeTotals demo_lines = Inr t \<and> it_total t = 790"
proof -
  obtain t where t: "computeTotals demo_lines = Inr t" using demo_totals by blast
  then have "it_total t = lines_value demo_lines" using totals_are_exact [of demo_lines] by blast
  then show ?thesis using t by (simp add: demo_lines_def line_value_def)
qed

section \<open>The decimal form\<close>

definition digit_char :: "int \<Rightarrow> char" where
  "digit_char d = char_of (nat d + 48)"

text \<open>How PostgreSQL prints a \<open>bigint\<close> that is not negative.\<close>

function pg_decimal :: "int \<Rightarrow> string" where
  "pg_decimal n = (if n < 10 then [digit_char n] else pg_decimal (n div 10) @ [digit_char (n mod 10)])"
  by auto
termination by (relation "measure nat") auto

declare pg_decimal.simps [simp del]

lemma digit_char_value: "0 \<le> d \<Longrightarrow> d < 10 \<Longrightarrow> digit_value (digit_char d) = d \<and> is_digit (digit_char d) \<and> digit_char d \<noteq> CHR ''-''"
proof -
  assume d: "0 \<le> d" "d < 10"
  then have c: "char_code (digit_char d) = nat d + 48" by (simp add: digit_char_def char_code_def)
  moreover have "char_code (CHR ''-'') = 45" by (simp add: char_code_def)
  ultimately have "digit_char d \<noteq> CHR ''-''" by auto
  with c d show ?thesis by (simp add: digit_value_def is_digit_def)
qed

lemma read_decimal_snoc: "read_decimal (s @ [c]) = 10 * read_decimal s + digit_value c"
  by (simp add: read_decimal_def)

lemma pg_decimal_ok:
  "0 \<le> n \<Longrightarrow> read_decimal (pg_decimal n) = n \<and> list_all is_digit (pg_decimal n) \<and> pg_decimal n \<noteq> [] \<and>
     hd (pg_decimal n) \<noteq> CHR ''-''"
proof (induction n rule: pg_decimal.induct)
  case (1 n)
  show ?case
  proof (cases "n < 10")
    case True
    then show ?thesis using digit_char_value [of n] 1(2) by (simp add: pg_decimal.simps read_decimal_def)
  next
    case False
    then have "0 \<le> n div 10" by simp
    with 1 False digit_char_value [of "n mod 10"] show ?thesis
      by (simp add: pg_decimal.simps [of n] read_decimal_snoc)
  qed
qed

lemma pg_decimal_length: "0 \<le> n \<Longrightarrow> n < 10 ^ Suc k \<Longrightarrow> length (pg_decimal n) \<le> Suc k"
proof (induction k arbitrary: n)
  case 0
  then show ?case by (simp add: pg_decimal.simps)
next
  case (Suc k)
  show ?case
  proof (cases "n < 10")
    case False
    have "n div 10 < 10 ^ Suc k" using Suc.prems(2) by auto
    then show ?thesis using Suc.IH [of "n div 10"] Suc.prems(1) False by (simp add: pg_decimal.simps [of n])
  qed (simp add: pg_decimal.simps)
qed

text \<open>C22: an amount survives the database: what PostgreSQL prints for an amount in range is read back as that
  amount and can be sent as an exact JSON number; every amount the code accepts from the database is in range.\<close>

theorem amount_roundtrip:
  "(0 \<le> v \<and> v \<le> MAX_MINOR_UNITS \<longrightarrow> fromDbAmount (pg_decimal v) = Inr v) \<and>
   (\<forall>w. fromDbAmount s = Inr w \<longrightarrow> 0 \<le> w \<and> w \<le> MAX_MINOR_UNITS \<and> toJsonAmount w = Inr (JInt w) \<and> is_safe_integer (JInt w))"
proof -
  have "fromDbAmount (pg_decimal v) = Inr v" if v: "0 \<le> v" "v \<le> MAX_MINOR_UNITS"
  proof -
    have "v < 10 ^ Suc 18" using v(2) by (simp add: MAX_MINOR_UNITS_def)
    then have "length (pg_decimal v) \<le> 19" using pg_decimal_length [of v 18] v(1) by simp
    with pg_decimal_ok [OF v(1)] v show ?thesis
      by (cases "pg_decimal v") (auto simp: fromDbAmount_def db_digits_def assertInRange_def)
  qed
  moreover have "0 \<le> w \<and> w \<le> MAX_MINOR_UNITS" if "fromDbAmount s = Inr w" for w
    using that by (auto simp: fromDbAmount_def assertInRange_def split: list.splits if_splits)
  ultimately show ?thesis by (auto simp: toJsonAmount_def MAX_MINOR_UNITS_def max_safe_integer_def)
qed

theorem amount_roundtrip_witness: "fromDbAmount (pg_decimal 9007199254740991) = Inr 9007199254740991"
  using amount_roundtrip [of 9007199254740991 "[]"] by (simp add: MAX_MINOR_UNITS_def)

end
