(* ===== verification/BillingDecisions.thy ===== *)
theory BillingDecisions
  imports BillingMoney
begin

text \<open>
  The pure decisions of the billing service: its status tables (\<open>domain/state-machines.ts\<close>), a
  caller's relation to an invoice or a product (\<open>domain/relations.ts\<close>, \<open>domain/actors.ts\<close>), what to do
  with a Payment event (\<open>domain/payment-event-decision.ts\<close>), the body sent to Payment
  (\<open>domain/payment-request-mapping.ts\<close>) and the routing of an issued invoice
  (\<open>domain/invoice-routing.ts\<close>). Identifiers are the strings of the code.
\<close>

section \<open>Status tables\<close>

datatype invoice_status = I_draft | I_open | I_paid | I_void
datatype request_status = R_created | R_sending | R_requested | R_paid | R_failed | R_cancelled | R_expired | R_rejected
datatype subscription_status = S_pending | S_active | S_grace | S_expired

fun invoice_allowed :: "invoice_status \<Rightarrow> invoice_status list" where
  "invoice_allowed I_draft = [I_open, I_void]"
| "invoice_allowed I_open = [I_paid]"
| "invoice_allowed I_paid = []"
| "invoice_allowed I_void = []"

definition canTransitionInvoice :: "invoice_status \<Rightarrow> invoice_status \<Rightarrow> bool" where
  "canTransitionInvoice a b \<longleftrightarrow> b \<in> set (invoice_allowed a)"

definition isTerminalInvoiceStatus :: "invoice_status \<Rightarrow> bool" where
  "isTerminalInvoiceStatus s \<longleftrightarrow> length (invoice_allowed s) = 0"

definition isOverdue :: "invoice_status \<Rightarrow> instant option \<Rightarrow> instant \<Rightarrow> bool" where
  "isOverdue status dueAt t \<longleftrightarrow> status = I_open \<and> (case dueAt of None \<Rightarrow> False | Some d \<Rightarrow> d \<le> t)"

fun request_allowed :: "request_status \<Rightarrow> request_status list" where
  "request_allowed R_created = [R_sending, R_cancelled]"
| "request_allowed R_sending = [R_requested, R_rejected]"
| "request_allowed R_requested = [R_paid, R_failed, R_expired, R_cancelled]"
| "request_allowed R_paid = []"
| "request_allowed R_failed = []"
| "request_allowed R_cancelled = []"
| "request_allowed R_expired = []"
| "request_allowed R_rejected = []"

definition canTransitionPaymentRequest :: "request_status \<Rightarrow> request_status \<Rightarrow> bool" where
  "canTransitionPaymentRequest a b \<longleftrightarrow> b \<in> set (request_allowed a)"

definition isTerminalPaymentRequestStatus :: "request_status \<Rightarrow> bool" where
  "isTerminalPaymentRequestStatus s \<longleftrightarrow> length (request_allowed s) = 0"

definition ACTIVE_PAYMENT_REQUEST_STATUSES :: "request_status list" where
  "ACTIVE_PAYMENT_REQUEST_STATUSES = [R_created, R_sending, R_requested]"

fun subscription_allowed :: "subscription_status \<Rightarrow> subscription_status list" where
  "subscription_allowed S_pending = [S_active]"
| "subscription_allowed S_active = [S_active, S_grace, S_expired]"
| "subscription_allowed S_grace = [S_active, S_expired]"
| "subscription_allowed S_expired = [S_active]"

definition canTransitionSubscription :: "subscription_status \<Rightarrow> subscription_status \<Rightarrow> bool" where
  "canTransitionSubscription a b \<longleftrightarrow> b \<in> set (subscription_allowed a)"

interpretation invoice_moves: transition_table invoice_allowed isTerminalInvoiceStatus
  by unfold_locales (simp add: isTerminalInvoiceStatus_def)

interpretation request_moves: transition_table request_allowed isTerminalPaymentRequestStatus
  by unfold_locales (simp add: isTerminalPaymentRequestStatus_def)

text \<open>The same moves as the triggers of migrations 0003, 0006 and 0024 allow them (a row may also keep its status).\<close>

definition invoice_trigger_moves :: "invoice_status \<Rightarrow> invoice_status \<Rightarrow> bool" where
  "invoice_trigger_moves old new \<longleftrightarrow>
     new = old \<or> (old = I_draft \<and> new \<in> {I_open, I_void}) \<or> (old = I_open \<and> new = I_paid)"

definition request_trigger_moves :: "request_status \<Rightarrow> request_status \<Rightarrow> bool" where
  "request_trigger_moves old new \<longleftrightarrow>
     new = old \<or> (old = R_created \<and> new \<in> {R_sending, R_cancelled}) \<or>
     (old = R_sending \<and> new \<in> {R_requested, R_rejected}) \<or>
     (old = R_requested \<and> new \<in> {R_paid, R_failed, R_expired, R_cancelled})"

definition subscription_trigger_moves :: "subscription_status \<Rightarrow> subscription_status \<Rightarrow> bool" where
  "subscription_trigger_moves old new \<longleftrightarrow>
     (if new \<noteq> old then (old = S_pending \<and> new = S_active) \<or> (old = S_active \<and> new \<in> {S_grace, S_expired}) \<or>
        (old = S_grace \<and> new \<in> {S_active, S_expired}) \<or> (old = S_expired \<and> new = S_active)
      else old = S_active)"

section \<open>Callers\<close>

datatype caller = Service_caller string | User_caller string

datatype bill_actor_type = Actor_user | Actor_service | Actor_system
datatype bill_user_kind = Kind_member | Kind_owner | Kind_operator

record actor =
  ac_type :: bill_actor_type
  ac_id :: "string option"
  ac_userKind :: "bill_user_kind option"

datatype bill_cause_type = Cause_request | Cause_payment_event | Cause_sweep | Cause_reconciliation | Cause_dispatcher

record transition_ctx =
  tc_actor :: actor
  tc_cause :: bill_cause_type
  tc_causeId :: "string option"
  tc_correlationId :: "string option"

fun actorOf :: "caller \<Rightarrow> actor" where
  "actorOf (Service_caller s) = \<lparr>ac_type = Actor_service, ac_id = Some s, ac_userKind = None\<rparr>"
| "actorOf (User_caller u) = \<lparr>ac_type = Actor_user, ac_id = Some u, ac_userKind = None\<rparr>"

text \<open>The kind Auth verified of a user caller: its admin tier, else member; a service caller has no identity (\<open>None\<close>).\<close>

definition withVerifiedKind :: "actor \<Rightarrow> bill_user_kind option option \<Rightarrow> actor" where
  "withVerifiedKind a identity =
     (case identity of
        Some tier \<Rightarrow> if ac_type a = Actor_user then a\<lparr>ac_userKind := Some (case tier of Some k \<Rightarrow> k | None \<Rightarrow> Kind_member)\<rparr> else a
      | None \<Rightarrow> a)"

definition requestTransitionContext :: "actor \<Rightarrow> string option \<Rightarrow> string option \<Rightarrow> transition_ctx" where
  "requestTransitionContext a requestId correlationId =
     \<lparr>tc_actor = a, tc_cause = Cause_request, tc_causeId = requestId, tc_correlationId = correlationId\<rparr>"

definition jobTransitionContext :: "bill_cause_type \<Rightarrow> string option \<Rightarrow> string \<Rightarrow> transition_ctx" where
  "jobTransitionContext cause i correlationId =
     \<lparr>tc_actor = \<lparr>ac_type = Actor_system, ac_id = None, ac_userKind = None\<rparr>, tc_cause = cause, tc_causeId = i, tc_correlationId = Some correlationId\<rparr>"

datatype relation = Rel_producer | Rel_payer

definition relationTo :: "string \<Rightarrow> string \<Rightarrow> string \<Rightarrow> caller \<Rightarrow> relation option" where
  "relationTo producer payerType payerId c =
     (case c of
        Service_caller s \<Rightarrow> if s = producer then Some Rel_producer else None
      | User_caller u \<Rightarrow> if payerType = ''user'' \<and> payerId = u then Some Rel_payer else None)"

definition catalogRelationTo :: "string \<Rightarrow> caller \<Rightarrow> relation option" where
  "catalogRelationTo producer c =
     (case c of Service_caller s \<Rightarrow> if s = producer then Some Rel_producer else None | User_caller _ \<Rightarrow> None)"

section \<open>The decision on a Payment event\<close>

datatype payment_event_name = Ev_succeeded | Ev_failed | Ev_cancelled | Ev_expired

definition EXPECTED_PRODUCER :: string where "EXPECTED_PRODUCER = ''billing-service''"

record bparty =
  bp_type :: string
  bp_id :: string

text \<open>The amount is any JSON value: a number, or something else.\<close>

record event_facts =
  ev_name :: payment_event_name
  ev_source :: string
  ev_paymentId :: string
  ev_producer :: string
  ev_paymentRequestId :: string
  ev_sourceType :: string
  ev_sourceId :: string
  ev_payer :: bparty
  ev_seller :: bparty
  ev_organizationId :: "string option"
  ev_amount :: "js_number option"
  ev_currency :: string
  ev_revision :: int
  ev_purpose :: "string option"
  ev_beneficiaryUserId :: "string option"
  ev_liveMode :: "bool option"

record request_facts =
  rf_status :: request_status
  rf_paymentId :: "string option"
  rf_amount :: int
  rf_currency :: string
  rf_mappingVersion :: "nat option"

record invoice_facts =
  if_id :: string
  if_status :: invoice_status
  if_payerType :: string
  if_payerId :: string
  if_sellerType :: string
  if_sellerId :: string
  if_organizationId :: "string option"
  if_currency :: string
  if_total :: int
  if_purpose :: "string option"
  if_beneficiaryUserId :: "string option"

datatype conflict_detail = Wrong_source | Producer_mismatch | Payment_id_mismatch | Snapshot_mismatch | Amount_mismatch
  | Invalid_amount | Request_already_terminal | Invoice_not_open | Invoice_missing | Non_live_event

datatype event_decision =
  Ignored_unknown | Ignored_already_applied
| Deferred
| Conflict conflict_detail
| Applied request_status "invoice_status option"

fun event_target :: "payment_event_name \<Rightarrow> request_status" where
  "event_target Ev_succeeded = R_paid"
| "event_target Ev_failed = R_failed"
| "event_target Ev_expired = R_expired"
| "event_target Ev_cancelled = R_cancelled"

definition snapshot_matches :: "event_facts \<Rightarrow> invoice_facts \<Rightarrow> bool" where
  "snapshot_matches e i \<longleftrightarrow>
     ev_sourceType e = ''invoice'' \<and> ev_sourceId e = if_id i \<and>
     bp_type (ev_payer e) = if_payerType i \<and> bp_id (ev_payer e) = if_payerId i \<and>
     bp_type (ev_seller e) = if_sellerType i \<and> bp_id (ev_seller e) = if_sellerId i \<and>
     ev_organizationId e = if_organizationId i"

definition mapping_matches :: "event_facts \<Rightarrow> request_facts \<Rightarrow> invoice_facts \<Rightarrow> bool" where
  "mapping_matches e r i \<longleftrightarrow>
     (case rf_mappingVersion r of
        None \<Rightarrow> True
      | Some v \<Rightarrow>
          ev_purpose e = (if 2 \<le> v then if_purpose i else None) \<and>
          ev_beneficiaryUserId e = (if 2 \<le> v then if_beneficiaryUserId i else None))"

fun valid_amount :: "js_number option \<Rightarrow> int option" where
  "valid_amount (Some (JInt n)) = (if is_safe_integer (JInt n) \<and> 1 \<le> n then Some n else None)"
| "valid_amount (Some JNonInt) = None"
| "valid_amount None = None"

definition decidePaymentEvent :: "event_facts \<Rightarrow> request_facts option \<Rightarrow> invoice_facts option \<Rightarrow> bool \<Rightarrow> event_decision" where
  "decidePaymentEvent e request invoice requireLive =
     (case request of
        None \<Rightarrow> Ignored_unknown
      | Some r \<Rightarrow>
     (case invoice of
        None \<Rightarrow> Conflict Invoice_missing
      | Some i \<Rightarrow>
        if requireLive \<and> ev_liveMode e \<noteq> Some True then Conflict Non_live_event
        else (case rf_paymentId r of
          None \<Rightarrow> Deferred
        | Some pid \<Rightarrow>
          if ev_source e \<noteq> ''payment-service'' then Conflict Wrong_source
          else if ev_producer e \<noteq> EXPECTED_PRODUCER then Conflict Producer_mismatch
          else if ev_paymentId e \<noteq> pid then Conflict Payment_id_mismatch
          else (case valid_amount (ev_amount e) of
            None \<Rightarrow> Conflict Invalid_amount
          | Some n \<Rightarrow>
            if n \<noteq> rf_amount r \<or> ev_currency e \<noteq> rf_currency r then Conflict Amount_mismatch
            else if \<not> snapshot_matches e i then Conflict Snapshot_mismatch
            else if \<not> mapping_matches e r i then Conflict Snapshot_mismatch
            else
              (let target = event_target (ev_name e) in
               if rf_status r = target then Ignored_already_applied
               else if rf_status r \<noteq> R_requested then Conflict Request_already_terminal
               else if target = R_paid then
                 (if if_status i \<noteq> I_open then Conflict Invoice_not_open else Applied R_paid (Some I_paid))
               else Applied target None)))))"

section \<open>The request sent to Payment\<close>

definition PAYMENT_MAPPING_VERSION :: nat where "PAYMENT_MAPPING_VERSION = 2"
definition PAYMENT_MAPPING_VERSIONS :: "nat list" where "PAYMENT_MAPPING_VERSIONS = [1, 2]"

definition PARTY_TYPES :: "string list" where "PARTY_TYPES = [''user'', ''organization'', ''company'']"

record invoice_for_mapping =
  im_id :: string
  im_number :: "string option"
  im_payerType :: string
  im_payerId :: string
  im_sellerType :: string
  im_sellerId :: string
  im_organizationId :: "string option"
  im_currency :: string
  im_description :: "string option"
  im_purpose :: "string option"
  im_beneficiaryUserId :: "string option"

record request_for_mapping =
  rm_id :: string
  rm_amount :: int
  rm_expiresAt :: "instant option"

record payment_body =
  pbd_paymentRequestId :: string
  pbd_sourceType :: string
  pbd_sourceId :: string
  pbd_payer :: bparty
  pbd_seller :: bparty
  pbd_organizationId :: "string option"
  pbd_amount :: js_number
  pbd_currency :: string
  pbd_expiresAt :: "instant option"
  pbd_description :: "string option"
  pbd_reference :: string
  pbd_purpose :: "string option"
  pbd_beneficiaryUserId :: "string option"

text \<open>The loop over payer and seller.\<close>

definition party_ok :: "string \<Rightarrow> string \<Rightarrow> bool" where
  "party_ok t i \<longleftrightarrow> t \<in> set PARTY_TYPES \<and> 1 \<le> length i \<and> length i \<le> 128"

definition mapping_ok :: "invoice_for_mapping \<Rightarrow> request_for_mapping \<Rightarrow> bool" where
  "mapping_ok bill req \<longleftrightarrow>
     (case im_number bill of None \<Rightarrow> False | Some n \<Rightarrow> n \<noteq> '''' \<and> length n \<le> 64) \<and>
     (case im_description bill of None \<Rightarrow> True | Some d \<Rightarrow> length d \<le> 140) \<and>
     party_ok (im_payerType bill) (im_payerId bill) \<and> party_ok (im_sellerType bill) (im_sellerId bill) \<and>
     \<not> (im_payerType bill = im_sellerType bill \<and> im_payerId bill = im_sellerId bill) \<and>
     (im_sellerType bill = ''organization'' \<longrightarrow>
        is_uuid_lower (im_sellerId bill) \<and> im_organizationId bill = Some (im_sellerId bill)) \<and>
     (case im_organizationId bill of None \<Rightarrow> True | Some g \<Rightarrow> is_uuid_lower g) \<and>
     is_iso_currency (im_currency bill) \<and> 1 \<le> rm_amount req \<and> rm_amount req \<le> MAX_MINOR_UNITS \<and>
     length (im_id bill) \<le> 128"

text \<open>\<open>None\<close>: a \<open>PaymentMappingError\<close>.\<close>

definition buildPaymentRequestBody :: "invoice_for_mapping \<Rightarrow> request_for_mapping \<Rightarrow> nat \<Rightarrow> payment_body option" where
  "buildPaymentRequestBody bill req version =
     (if version \<notin> set PAYMENT_MAPPING_VERSIONS \<or> \<not> mapping_ok bill req \<or> (2 \<le> version \<and> im_purpose bill = None) then None
      else case toJsonAmount (rm_amount req) of
        Inl _ \<Rightarrow> None
      | Inr amount \<Rightarrow> Some \<lparr>
          pbd_paymentRequestId = rm_id req, pbd_sourceType = ''invoice'', pbd_sourceId = im_id bill,
          pbd_payer = \<lparr>bp_type = im_payerType bill, bp_id = im_payerId bill\<rparr>,
          pbd_seller = \<lparr>bp_type = im_sellerType bill, bp_id = im_sellerId bill\<rparr>,
          pbd_organizationId = im_organizationId bill, pbd_amount = amount, pbd_currency = im_currency bill,
          pbd_expiresAt = rm_expiresAt req, pbd_description = im_description bill, pbd_reference = the (im_number bill),
          pbd_purpose = (if 2 \<le> version then im_purpose bill else None),
          pbd_beneficiaryUserId = (if 2 \<le> version then im_beneficiaryUserId bill else None)\<rparr>)"

section \<open>Routing an invoice\<close>

datatype routing_purpose = Organization_subscription | Direct_purchase | Assisted_settlement | Non_entitlement | Recovery_settlement
datatype routing_target = Target_organization | Target_personal | Target_none

definition purpose_text :: "routing_purpose \<Rightarrow> string" where
  "purpose_text p = (case p of Organization_subscription \<Rightarrow> ''organization_subscription'' | Direct_purchase \<Rightarrow> ''direct_purchase''
     | Assisted_settlement \<Rightarrow> ''assisted_settlement'' | Non_entitlement \<Rightarrow> ''non_entitlement'' | Recovery_settlement \<Rightarrow> ''recovery_settlement'')"

record routing_line =
  rl_productId :: string
  rl_target :: routing_target
  rl_platformId :: "string option"

record assistance_ref =
  as_id :: string
  as_beneficiaryUserId :: string
  as_organizationId :: string
  as_productId :: string

record recovery_ref =
  rr_obligationId :: string
  rr_organizationId :: string

record routing_input =
  ri_payerType :: string
  ri_payerId :: string
  ri_organizationId :: "string option"
  ri_lines :: "routing_line list"
  ri_assistance :: "assistance_ref option"
  ri_recovery :: "recovery_ref option"

record routing =
  ro_purpose :: routing_purpose
  ro_target :: routing_target
  ro_beneficiaryUserId :: "string option"
  ro_organizationId :: "string option"
  ro_productId :: "string option"
  ro_platformId :: "string option"
  ro_assistanceRequestId :: "string option"
  ro_recoveryObligationId :: "string option"

datatype routing_refusal = Multiple_subscription_lines | Organization_payer | Organization_missing
  | Assisted_settlement_unavailable | Payer_not_user | Recovery_settlement_unavailable

definition subscription_lines :: "routing_input \<Rightarrow> routing_line list" where
  "subscription_lines ri = filter (\<lambda>l. rl_target l \<noteq> Target_none) (ri_lines ri)"

definition route_recovery :: "routing_input \<Rightarrow> recovery_ref \<Rightarrow> routing_refusal + routing" where
  "route_recovery ri r =
     (if ri_payerType ri \<noteq> ''organization'' \<or> ri_payerId ri \<noteq> rr_organizationId r \<or>
         ri_organizationId ri \<noteq> Some (rr_organizationId r) \<or> subscription_lines ri \<noteq> []
      then Inl Recovery_settlement_unavailable
      else Inr \<lparr>ro_purpose = Recovery_settlement, ro_target = Target_none, ro_beneficiaryUserId = None,
             ro_organizationId = Some (rr_organizationId r), ro_productId = None,
             ro_platformId = (case ri_lines ri of [] \<Rightarrow> None | l # _ \<Rightarrow> rl_platformId l),
             ro_assistanceRequestId = None, ro_recoveryObligationId = Some (rr_obligationId r)\<rparr>)"

definition route_line :: "routing_input \<Rightarrow> routing_line \<Rightarrow> routing_refusal + routing" where
  "route_line ri l =
     (if rl_target l = Target_organization then
        (if ri_payerType ri \<noteq> ''user'' then Inl Organization_payer
         else case ri_organizationId ri of
           None \<Rightarrow> Inl Organization_missing
         | Some g \<Rightarrow> Inr \<lparr>ro_purpose = Organization_subscription, ro_target = Target_organization, ro_beneficiaryUserId = None,
             ro_organizationId = Some g, ro_productId = Some (rl_productId l), ro_platformId = rl_platformId l,
             ro_assistanceRequestId = None, ro_recoveryObligationId = None\<rparr>)
      else if ri_payerType ri = ''organization'' then
        (case ri_assistance ri of
           None \<Rightarrow> Inl Assisted_settlement_unavailable
         | Some a \<Rightarrow>
             if Some (as_organizationId a) \<noteq> ri_organizationId ri \<or> ri_payerId ri \<noteq> as_organizationId a \<or> as_productId a \<noteq> rl_productId l
             then Inl Assisted_settlement_unavailable
             else Inr \<lparr>ro_purpose = Assisted_settlement, ro_target = Target_personal,
               ro_beneficiaryUserId = Some (as_beneficiaryUserId a), ro_organizationId = Some (as_organizationId a),
               ro_productId = Some (rl_productId l), ro_platformId = rl_platformId l,
               ro_assistanceRequestId = Some (as_id a), ro_recoveryObligationId = None\<rparr>)
      else if ri_payerType ri \<noteq> ''user'' then Inl Payer_not_user
      else Inr \<lparr>ro_purpose = Direct_purchase, ro_target = Target_personal, ro_beneficiaryUserId = Some (ri_payerId ri),
        ro_organizationId = None, ro_productId = Some (rl_productId l), ro_platformId = rl_platformId l,
        ro_assistanceRequestId = None, ro_recoveryObligationId = None\<rparr>)"

definition decideRouting :: "routing_input \<Rightarrow> routing_refusal + routing" where
  "decideRouting ri =
     (case ri_recovery ri of
        Some r \<Rightarrow> route_recovery ri r
      | None \<Rightarrow>
          (case subscription_lines ri of
             [] \<Rightarrow>
               if ri_payerType ri = ''organization'' then Inl Organization_payer
               else Inr \<lparr>ro_purpose = Non_entitlement, ro_target = Target_none, ro_beneficiaryUserId = None,
                 ro_organizationId = None, ro_productId = None, ro_platformId = None,
                 ro_assistanceRequestId = None, ro_recoveryObligationId = None\<rparr>
           | [l] \<Rightarrow> route_line ri l
           | _ \<Rightarrow> Inl Multiple_subscription_lines))"

end
