(* ===== verification/BillingPeriods.thy ===== *)
theory BillingPeriods
  imports BillingDecisions HoldIntervals "HOL-Library.Code_Target_Nat" "HOL-Library.Code_Target_Int"
begin

text \<open>
  Periods of the billing service: the calendar of \<open>billing_subscription_period_end\<close> (migration 0015),
  the ledger fold \<open>billing_personal_spans\<close> (0040), the renewal anchor
  (\<open>domain/subscription-period.ts\<close>), the derived entitlement of an organization
  (\<open>domain/entitlement.ts\<close>) and of a member (\<open>personal-subscription.repository.ts\<close>). Instants are
  milliseconds since the epoch, UTC.
\<close>

section \<open>The calendar\<close>

definition is_leap :: "int \<Rightarrow> bool" where
  "is_leap y \<longleftrightarrow> y mod 4 = 0 \<and> (y mod 100 \<noteq> 0 \<or> y mod 400 = 0)"

text \<open>Days from 1 January of year 0 to 1 January of year \<open>y\<close>.\<close>

definition days_to_year :: "int \<Rightarrow> int" where
  "days_to_year y = 365 * y + (y + 3) div 4 - (y + 99) div 100 + (y + 399) div 400"

definition month_offsets :: "int list" where
  "month_offsets = [0, 31, 59, 90, 120, 151, 181, 212, 243, 273, 304, 334]"

text \<open>A month is numbered \<open>12 * year + month - 1\<close>; \<open>month_start\<close> is the day it starts on.\<close>

definition month_start :: "int \<Rightarrow> int" where
  "month_start k = days_to_year (k div 12) + month_offsets ! nat (k mod 12) + (if is_leap (k div 12) \<and> 2 \<le> k mod 12 then 1 else 0)"

definition month_len :: "int \<Rightarrow> int" where
  "month_len k = month_start (k + 1) - month_start k"

definition month_of_day :: "int \<Rightarrow> int" where
  "month_of_day n =
     (let k = n * 4800 div 146097
      in if n < month_start k then k - 1 else if month_start (k + 1) \<le> n then k + 1 else k)"

definition DAY_MS :: int where "DAY_MS = 24 * 3600 * 1000"

text \<open>The number of 1 January 1970.\<close>

definition epoch_day :: int where "epoch_day = 719528"

definition month_of :: "instant \<Rightarrow> int" where
  "month_of t = month_of_day (t div DAY_MS + epoch_day)"

text \<open>A timestamp plus a number of months: the same day of the month, or the last one of a shorter month.\<close>

definition add_months :: "instant \<Rightarrow> int \<Rightarrow> instant" where
  "add_months t k =
     (let day = t div DAY_MS + epoch_day; m = month_of_day day; dom = day - month_start m
      in (month_start (m + k) + min dom (month_len (m + k) - 1) - epoch_day) * DAY_MS + t mod DAY_MS)"

text \<open>The units of a price (\<open>price_interval_shape\<close>).\<close>

definition unit_months :: "string \<Rightarrow> int option" where
  "unit_months u = (if u = ''month'' then Some 1 else if u = ''year'' then Some 12 else None)"

definition unit_ms :: "string \<Rightarrow> int" where
  "unit_ms u = (if u = ''week'' then 7 * DAY_MS else DAY_MS)"

definition period_end :: "instant \<Rightarrow> instant \<Rightarrow> string \<Rightarrow> int \<Rightarrow> instant" where
  "period_end start anchor u count =
     (case unit_months u of
        Some n \<Rightarrow> add_months anchor (month_of start - month_of anchor + count * n)
      | None \<Rightarrow> start + count * unit_ms u)"

section \<open>The calendar is right\<close>

lemma ceil_step:
  fixes y c d :: int
  assumes d: "d = c + 1" "0 < d"
  shows "(y + 1 + c) div d = (y + c) div d + (if y mod d = 0 then 1 else 0)"
proof -
  define q r where "q = y div d" and "r = y mod d"
  have y: "y = q * d + r" "0 \<le> r" "r < d"
    using div_mult_mod_eq [of y d] pos_mod_sign [of d y] pos_mod_bound [of d y] d(2) by (simp_all only: q_def r_def)
  have "y + 1 + c = r + (q + 1) * d" using y d by (simp add: algebra_simps)
  then have "(y + 1 + c) div d = q + 1 + r div d" using d(2) div_mult_self1 [of d r "q + 1"] by simp
  then have "(y + 1 + c) div d = q + 1" using y(2,3) by simp
  moreover have "(y + c) div d = q + (r + c) div d" using y d by (simp add: add.assoc)
  moreover have "(r + c) div d = (if r = 0 then 0 else 1)"
  proof (cases "r = 0")
    case False
    have "r + c = (r - 1) + 1 * d" using d by simp
    then have "(r + c) div d = (r - 1) div d + 1" using d by (metis div_mult_self1 less_irrefl add.commute)
    then show ?thesis using False y(2,3) by simp
  qed (use d in simp)
  ultimately show ?thesis by (simp add: r_def)
qed

lemma ceil_bounds:
  fixes y c d :: int
  assumes "d = c + 1" and "0 < d"
  shows "y \<le> d * ((y + c) div d)" and "d * ((y + c) div d) \<le> y + c"
proof -
  have "d * ((y + c) div d) + (y + c) mod d = y + c" by simp
  moreover have "0 \<le> (y + c) mod d" "(y + c) mod d < d"
    using pos_mod_sign [of d "y + c"] pos_mod_bound [of d "y + c"] assms(2) by blast+
  ultimately show "y \<le> d * ((y + c) div d)" "d * ((y + c) div d) \<le> y + c" using assms(1) by linarith+
qed

lemma days_to_year_step: "days_to_year (y + 1) = days_to_year y + 365 + (if is_leap y then 1 else 0)"
proof -
  have m: "y mod 100 = 0 \<Longrightarrow> y mod 4 = 0" "y mod 400 = 0 \<Longrightarrow> y mod 100 = 0"
    using mod_mod_cancel [of 4 100 y] mod_mod_cancel [of 100 400 y] by simp_all
  have s: "(y + 1 + 3) div 4 = (y + 3) div 4 + (if y mod 4 = 0 then 1 else 0)"
    "(y + 1 + 99) div 100 = (y + 99) div 100 + (if y mod 100 = 0 then 1 else 0)"
    "(y + 1 + 399) div 400 = (y + 399) div 400 + (if y mod 400 = 0 then 1 else 0)"
    by (rule ceil_step; simp)+
  define p4 p100 p400 where p: "p4 = (y mod 4 = 0)" "p100 = (y mod 100 = 0)" "p400 = (y mod 400 = 0)"
  define a b c where abc: "a = (y + 3) div 4" "b = (y + 99) div 100" "c = (y + 399) div 400"
  have d: "days_to_year (y + 1) = 365 * (y + 1) + (a + (if p4 then 1 else 0)) - (b + (if p100 then 1 else 0)) + (c + (if p400 then 1 else 0))"
    unfolding days_to_year_def s p abc by (rule refl)
  have "(if is_leap y then 1 else 0) = (if p4 then 1 else 0) - (if p100 then 1 else 0) + (if p400 then 1 else (0::int))"
    using m unfolding is_leap_def p [symmetric] by (cases p4; cases p100; cases p400) simp_all
  moreover have "days_to_year y = 365 * y + a - b + c" unfolding days_to_year_def abc by (rule refl)
  ultimately show ?thesis unfolding d by (simp split del: if_split)
qed

lemma month_cases:
  fixes k :: int
  obtains y m where "k = 12 * y + m" "m \<in> {0, 1, 2, 3, 4, 5, 6, 7, 8, 9, 10, 11}" "k div 12 = y" "k mod 12 = m"
proof -
  have "0 \<le> k mod 12" "k mod 12 < 12" by simp_all
  then have "k mod 12 \<in> {0, 1, 2, 3, 4, 5, 6, 7, 8, 9, 10, 11}" by (simp, presburger)
  then show thesis using that [of "k div 12" "k mod 12"] by simp
qed

lemma month_start_value:
  "m \<in> {0, 1, 2, 3, 4, 5, 6, 7, 8, 9, 10, 11} \<Longrightarrow>
   month_start (12 * y + m) = days_to_year y + month_offsets ! nat m + (if is_leap y \<and> 2 \<le> m then 1 else 0)"
  by (auto simp: month_start_def)

lemma month_len_range: "28 \<le> month_len k \<and> month_len k \<le> 31"
proof -
  obtain y m where k: "k = 12 * y + m" and m: "m \<in> {0, 1, 2, 3, 4, 5, 6, 7, 8, 9, 10, 11}" by (rule month_cases)
  show ?thesis
  proof (cases "m = 11")
    case True
    have "month_start (12 * (y + 1) + 0) = days_to_year (y + 1)" by (subst month_start_value) (simp_all add: month_offsets_def)
    moreover have "month_start (12 * y + 11) = days_to_year y + 334 + (if is_leap y then 1 else 0)"
      by (subst month_start_value) (simp_all add: month_offsets_def)
    moreover have e: "k + 1 = 12 * (y + 1) + 0" using k True by simp
    ultimately show ?thesis unfolding month_len_def e unfolding k True days_to_year_step by simp
  next
    case False
    then have m1: "m + 1 \<in> {0, 1, 2, 3, 4, 5, 6, 7, 8, 9, 10, 11}" using m by auto
    have e: "k + 1 = 12 * y + (m + 1)" using k by simp
    show ?thesis unfolding month_len_def e unfolding k month_start_value [OF m] month_start_value [OF m1]
      using m False by (auto simp: month_offsets_def)
  qed
qed

lemma month_start_step: "month_start (k + 1) = month_start k + month_len k"
  by (simp add: month_len_def)

lemma month_start_mono:
  assumes "j < k"
  shows "month_start j + 28 \<le> month_start k"
  using assms
proof (induction k rule: int_gr_induct)
  case base
  then show ?case using month_len_range [of j] by (simp add: month_start_step)
next
  case (step i)
  then show ?case using month_len_range [of i] by (simp add: month_start_step)
qed

lemma month_start_near: "146097 * k - 24000 \<le> 4800 * month_start k \<and> 4800 * month_start k \<le> 146097 * k + 24000"
proof -
  obtain y m where k: "k = 12 * y + m" and m: "m \<in> {0, 1, 2, 3, 4, 5, 6, 7, 8, 9, 10, 11}" by (rule month_cases)
  define v where "v = month_offsets ! nat m + (if is_leap y \<and> 2 \<le> m then 1 else 0)"
  have v: "146097 * m - 9000 \<le> 4800 * v" "4800 * v \<le> 146097 * m + 9000"
    using m unfolding v_def by (elim insertE; simp add: month_offsets_def)+
  define a b c where abc: "a = (y + 3) div 4" "b = (y + 99) div 100" "c = (y + 399) div 400"
  have y: "y \<le> 4 * a" "4 * a \<le> y + 3" "y \<le> 100 * b" "100 * b \<le> y + 99" "y \<le> 400 * c" "400 * c \<le> y + 399"
    unfolding abc by (rule ceil_bounds; simp)+
  have "month_start k = 365 * y + a - b + c + v"
    using month_start_value [OF m, of y] unfolding k v_def days_to_year_def abc by linarith
  moreover have "146097 * k = 1753164 * y + 146097 * m" using k by simp
  ultimately show ?thesis using v y by (intro conjI) linarith+
qed

lemma month_of_day: "month_start (month_of_day n) \<le> n \<and> n < month_start (month_of_day n + 1)"
proof -
  define k where "k = n * 4800 div 146097"
  have k: "146097 * k \<le> n * 4800" "n * 4800 < 146097 * k + 146097" 
    using div_mult_mod_eq [of "n * 4800" 146097] pos_mod_bound [of 146097 "n * 4800"] pos_mod_sign [of 146097 "n * 4800"]
    unfolding k_def by linarith+
  have "4800 * month_start (k - 1) \<le> 4800 * n" using month_start_near [of "k - 1"] k by auto
  moreover have "4800 * n < 4800 * month_start (k + 2)" using month_start_near [of "k + 2"] k by auto
  ultimately have "month_start (k - 1) \<le> n" "n < month_start (k + 1 + 1)" by (simp_all add: add.assoc)
  then show ?thesis by (auto simp: month_of_day_def Let_def k_def [symmetric])
qed

lemma month_of_day_unique:
  assumes "month_start k \<le> n" and "n < month_start (k + 1)"
  shows "month_of_day n = k"
proof (rule ccontr)
  assume "month_of_day n \<noteq> k"
  then consider "month_of_day n + 1 \<le> k" | "k + 1 \<le> month_of_day n" by linarith
  then show False
  proof cases
    case 1
    then have "month_start (month_of_day n + 1) \<le> month_start k"
      using month_start_mono [of "month_of_day n + 1" k] by (cases "month_of_day n + 1 = k") auto
    then show False using month_of_day [of n] assms by linarith
  next
    case 2
    then have "month_start (k + 1) \<le> month_start (month_of_day n)"
      using month_start_mono [of "k + 1" "month_of_day n"] by (cases "k + 1 = month_of_day n") auto
    then show False using month_of_day [of n] assms by linarith
  qed
qed

lemma day_bounds: "DAY_MS * (t div DAY_MS) \<le> t" "t < DAY_MS * (t div DAY_MS) + DAY_MS" "0 \<le> t mod DAY_MS" "t mod DAY_MS < DAY_MS"
proof -
  have p: "0 < DAY_MS" by (simp add: DAY_MS_def)
  show "0 \<le> t mod DAY_MS" "t mod DAY_MS < DAY_MS" using p by simp_all
  then show "DAY_MS * (t div DAY_MS) \<le> t" "t < DAY_MS * (t div DAY_MS) + DAY_MS" using mult_div_mod_eq [of DAY_MS t] by linarith+
qed

lemma day_split: "0 \<le> r \<Longrightarrow> r < DAY_MS \<Longrightarrow> (x * DAY_MS + r) div DAY_MS = x \<and> (x * DAY_MS + r) mod DAY_MS = r"
  by simp

lemma add_months_day:
  "add_months t k div DAY_MS + epoch_day
     = month_start (month_of t + k) + min (t div DAY_MS + epoch_day - month_start (month_of t)) (month_len (month_of t + k) - 1)"
  "add_months t k mod DAY_MS = t mod DAY_MS"
  using day_split [OF day_bounds(3,4) [of t]] unfolding add_months_def Let_def month_of_def by simp_all

lemma month_of_bounds: "month_start (month_of t) \<le> t div DAY_MS + epoch_day \<and> t div DAY_MS + epoch_day < month_start (month_of t + 1)"
  unfolding month_of_def by (rule month_of_day)

lemma month_of_add [simp]: "month_of (add_months t k) = month_of t + k"
  unfolding month_of_def [of "add_months t k"] add_months_day
  using month_of_bounds [of t] month_len_range [of "month_of t + k"]
  by (intro month_of_day_unique) (simp_all add: month_start_step min_def)

lemma add_months_0 [simp]: "add_months t 0 = t"
proof -
  have "add_months t 0 div DAY_MS + epoch_day = t div DAY_MS + epoch_day"
    unfolding add_months_day using month_of_bounds [of t] by (simp add: month_start_step)
  then have "DAY_MS * (add_months t 0 div DAY_MS) + add_months t 0 mod DAY_MS = DAY_MS * (t div DAY_MS) + t mod DAY_MS"
    using add_months_day(2) [of t 0] by simp
  then show ?thesis by simp
qed

text \<open>A later month is a later instant.\<close>

lemma month_of_mono:
  assumes "month_of s < month_of t"
  shows "s < t"
proof -
  have "month_start (month_of s + 1) \<le> month_start (month_of t)"
    using month_start_mono [of "month_of s + 1" "month_of t"] assms by (cases "month_of s + 1 = month_of t") auto
  then have d: "s div DAY_MS + 1 \<le> t div DAY_MS" using month_of_bounds [of s] month_of_bounds [of t] by linarith
  have "DAY_MS * (s div DAY_MS + 1) \<le> DAY_MS * (t div DAY_MS)" using d by (intro mult_left_mono) (simp_all add: DAY_MS_def)
  then show ?thesis using day_bounds [of s] day_bounds [of t] by (simp add: distrib_left)
qed

lemma period_end_after:
  assumes "1 \<le> count"
  shows "start < period_end start anchor u count"
proof (cases "unit_months u")
  case None
  have "0 < unit_ms u" by (simp add: unit_ms_def DAY_MS_def)
  then have "0 < count * unit_ms u" using assms by (intro mult_pos_pos) simp_all
  then show ?thesis using None by (simp add: period_end_def)
next
  case (Some n)
  then have "0 < n" by (auto simp: unit_months_def split: if_splits)
  then have "0 < count * n" using assms by (intro mult_pos_pos) simp_all
  moreover have "month_of (period_end start anchor u count) = month_of start + count * n"
    unfolding period_end_def Some option.case month_of_add by simp
  ultimately have "month_of start < month_of (period_end start anchor u count)" by linarith
  then show ?thesis by (rule month_of_mono)
qed

section \<open>Anchored periods\<close>

text \<open>The end of the \<open>n\<close>-th of the periods that follow one another from the anchor.\<close>

fun nth_end :: "instant \<Rightarrow> string \<Rightarrow> int \<Rightarrow> nat \<Rightarrow> instant" where
  "nth_end anchor u count 0 = anchor"
| "nth_end anchor u count (Suc n) = period_end (nth_end anchor u count n) anchor u count"

lemma nth_end_months: "unit_months u = Some k \<Longrightarrow> nth_end anchor u count n = add_months anchor (int n * count * k)"
  by (induction n) (simp_all add: period_end_def algebra_simps)

section \<open>The renewal anchor\<close>

record renewal_basis =
  rn_currentPeriodEnd :: instant
  rn_graceUntil :: "instant option"

definition isLateRenewal :: "renewal_basis \<Rightarrow> instant \<Rightarrow> bool" where
  "isLateRenewal sub t = ((case rn_graceUntil sub of Some g \<Rightarrow> g | None \<Rightarrow> rn_currentPeriodEnd sub) < t)"

definition renewalAnchor :: "renewal_basis \<Rightarrow> instant \<Rightarrow> instant" where
  "renewalAnchor sub t = (if isLateRenewal sub t then t else rn_currentPeriodEnd sub)"

section \<open>The entitlement of an organization\<close>

text \<open>A JavaScript Date: an instant, or the invalid date whose time is \<open>NaN\<close>.\<close>

datatype js_date = Invalid_date | Date_at instant

record entitled_subscription =
  es_status :: subscription_status
  es_currentPeriodStart :: "js_date option"
  es_currentPeriodEnd :: "js_date option"
  es_graceUntil :: "js_date option"
  es_effectiveTerminationAt :: "js_date option"

record entitlement =
  et_valid :: bool
  et_expiresAt :: "instant option"

definition NO_ENTITLEMENT :: entitlement where
  "NO_ENTITLEMENT = \<lparr>et_valid = False, et_expiresAt = None\<rparr>"

text \<open>\<open>Inl\<close>: an \<open>EntitlementError\<close> with the field or rule it names.\<close>

definition assertValidDate :: "js_date \<Rightarrow> string \<Rightarrow> string + instant" where
  "assertValidDate d field = (case d of Invalid_date \<Rightarrow> Inl field | Date_at t \<Rightarrow> Inr t)"

definition grace_boundary :: "js_date option \<Rightarrow> instant \<Rightarrow> string + instant" where
  "grace_boundary g e =
     (case g of
        None \<Rightarrow> Inr e
      | Some d \<Rightarrow> err_bind (assertValidDate d ''graceUntil'') (\<lambda>t. if t \<le> e then Inl ''graceUntil must be after currentPeriodEnd'' else Inr t))"

definition termination_boundary :: "js_date option \<Rightarrow> instant \<Rightarrow> string + instant" where
  "termination_boundary x b =
     (case x of
        None \<Rightarrow> Inr b
      | Some d \<Rightarrow> err_bind (assertValidDate d ''effectiveTerminationAt'') (\<lambda>t.
          if b < t then Inl ''effectiveTerminationAt cannot extend access'' else Inr t))"

definition deriveEntitlement :: "entitled_subscription option \<Rightarrow> js_date \<Rightarrow> string + entitlement" where
  "deriveEntitlement sub at =
     err_bind (assertValidDate at ''now'') (\<lambda>t.
       case sub of
         None \<Rightarrow> Inr NO_ENTITLEMENT
       | Some s \<Rightarrow>
           if es_status s = S_pending then Inr NO_ENTITLEMENT
           else (case (es_currentPeriodStart s, es_currentPeriodEnd s) of
                   (Some sd, Some ed) \<Rightarrow>
                     err_bind (assertValidDate sd ''currentPeriodStart'') (\<lambda>b.
                     err_bind (assertValidDate ed ''currentPeriodEnd'') (\<lambda>e.
                       if e \<le> b then Inl ''currentPeriodEnd must be after currentPeriodStart''
                       else err_bind (grace_boundary (es_graceUntil s) e) (\<lambda>g.
                            err_bind (termination_boundary (es_effectiveTerminationAt s) g) (\<lambda>x.
                              if t < b then Inr NO_ENTITLEMENT
                              else Inr (if t < x then \<lparr>et_valid = True, et_expiresAt = Some x\<rparr> else NO_ENTITLEMENT)))))
                 | _ \<Rightarrow> Inl ''a period''))"

section \<open>The entitlement of a member\<close>

text \<open>
  \<open>billing_personal_spans\<close>: the kept purchases in ledger order, each with the instant it counts from
  (its application or its settlement) and its price's interval; the loop's state is the end and the
  unit of the previous period and the anchor of the chain.
\<close>

record kept_purchase =
  kp_id :: string
  kp_settled :: instant
  kp_unit :: string
  kp_count :: int

record span =
  sp_purchaseId :: string
  sp_start :: instant
  sp_end :: instant

definition calendar_unit :: "string \<Rightarrow> bool" where
  "calendar_unit u \<longleftrightarrow> u = ''month'' \<or> u = ''year''"

fun spans_from :: "(instant \<times> string \<times> instant) option \<Rightarrow> kept_purchase list \<Rightarrow> span list" where
  "spans_from prev [] = []"
| "spans_from prev (r # rs) =
     (let (s, anchor) =
        (case prev of
           Some (prev_end, prev_unit, anchor) \<Rightarrow>
             if kp_settled r \<le> prev_end
             then (prev_end, if calendar_unit (kp_unit r) \<and> calendar_unit prev_unit then anchor else prev_end)
             else (kp_settled r, kp_settled r)
         | None \<Rightarrow> (kp_settled r, kp_settled r));
        e = period_end s anchor (kp_unit r) (kp_count r)
      in \<lparr>sp_purchaseId = kp_id r, sp_start = s, sp_end = e\<rparr> # spans_from (Some (e, kp_unit r, anchor)) rs)"

definition personal_spans :: "kept_purchase list \<Rightarrow> span list" where
  "personal_spans ps = spans_from None ps"

text \<open>\<open>personalEntitlementAt\<close>: the run of contiguous periods after the one that contains the instant.\<close>

fun run_end :: "instant \<Rightarrow> span list \<Rightarrow> instant" where
  "run_end e [] = e"
| "run_end e (s # ss) = (if sp_start s = e then run_end (sp_end s) ss else e)"

definition span_holds :: "instant \<Rightarrow> span \<Rightarrow> bool" where
  "span_holds t s \<longleftrightarrow> sp_start s \<le> t \<and> t < sp_end s"

definition personalEntitlementAt :: "span list \<Rightarrow> instant \<Rightarrow> entitlement" where
  "personalEntitlementAt spans t =
     (case dropWhile (\<lambda>s. \<not> span_holds t s) (sort_key sp_start spans) of
        [] \<Rightarrow> NO_ENTITLEMENT
      | s # rest \<Rightarrow> \<lparr>et_valid = True, et_expiresAt = Some (run_end (sp_end s) rest)\<rparr>)"

definition span_interval :: "span \<Rightarrow> interval" where
  "span_interval s = \<lparr>iv_start = sp_start s, iv_end = sp_end s\<rparr>"

lemma span_interval_simps [simp]: "iv_start (span_interval s) = sp_start s" "iv_end (span_interval s) = sp_end s"
  by (simp_all add: span_interval_def)

text \<open>\<open>entitlementOf\<close>: with no hold the plain calculation, otherwise the compensated one.\<close>

definition entitlementOf :: "span list \<Rightarrow> hold_window list \<Rightarrow> instant \<Rightarrow> entitlement" where
  "entitlementOf spans holds t =
     (if holds = [] then personalEntitlementAt spans t
      else (let (v, e) = entitlementAt (map span_interval spans) holds t in \<lparr>et_valid = v, et_expiresAt = e\<rparr>))"

section \<open>The two calculations agree\<close>

text \<open>Spans as the ledger lays them: each has a positive length and starts no earlier than the last one ended.\<close>

fun laid_from :: "instant option \<Rightarrow> span list \<Rightarrow> bool" where
  "laid_from prev [] \<longleftrightarrow> True"
| "laid_from prev (s # ss) \<longleftrightarrow> sp_start s < sp_end s \<and> (case prev of None \<Rightarrow> True | Some e \<Rightarrow> e \<le> sp_start s) \<and> laid_from (Some (sp_end s)) ss"

lemma spans_laid:
  "\<forall>p \<in> set ps. 1 \<le> kp_count p \<Longrightarrow> laid_from (map_option fst prev) (spans_from prev ps)"
proof (induction ps arbitrary: prev)
  case (Cons r rs)
  have "laid_from (Some e) (spans_from (Some (e, u, a)) rs)" for e u a
    using Cons.IH [of "Some (e, u, a)"] Cons.prems by simp
  moreover have "s < period_end s a (kp_unit r) (kp_count r)" for s a
    using period_end_after [of "kp_count r"] Cons.prems by simp
  ultimately show ?case by (auto simp: Let_def split: option.splits)
qed simp

lemma laid_weaken: "laid_from (Some e) ss \<Longrightarrow> laid_from None ss"
  by (cases ss) simp_all

lemma laid_ge: "laid_from (Some e) ss \<Longrightarrow> t \<in> covered (map span_interval ss) \<Longrightarrow> e \<le> t"
proof (induction ss arbitrary: e)
  case (Cons s ss)
  show ?case
  proof (cases "t \<in> covered (map span_interval ss)")
    case True
    then show ?thesis using Cons.IH [of "sp_end s"] Cons.prems(1) by simp
  qed (use Cons.prems in \<open>simp\<close>)
qed simp

lemma laid_sorted: "laid_from prev ss \<Longrightarrow> sort_key sp_start ss = ss"
proof (induction ss arbitrary: prev)
  case (Cons s ss)
  have ge: "sp_start s \<le> sp_start x" if "x \<in> set ss" for x
  proof -
    have l: "laid_from p xs \<Longrightarrow> y \<in> set xs \<Longrightarrow> sp_start y < sp_end y" for p xs y by (induction xs arbitrary: p) auto
    have "sp_start x \<in> covered (map span_interval ss)"
      using that l [of "Some (sp_end s)" ss x] Cons.prems by (auto simp: covered_def)
    then show ?thesis using laid_ge [of "sp_end s" ss "sp_start x"] Cons.prems by simp
  qed
  have "sort_key sp_start ss = ss" using Cons by auto
  then show ?case using insort_is_Cons [of ss sp_start s] ge by simp
qed simp

lemma run_end_spec:
  "laid_from (Some e) ss \<Longrightarrow>
     e \<le> run_end e ss \<and> {e ..< run_end e ss} \<subseteq> covered (map span_interval ss) \<and> run_end e ss \<notin> covered (map span_interval ss)"
proof (induction ss arbitrary: e)
  case (Cons s ss)
  have l: "laid_from (Some (sp_end s)) ss" "sp_start s < sp_end s" "e \<le> sp_start s" using Cons.prems by simp_all
  show ?case
  proof (cases "sp_start s = e")
    case True
    then show ?thesis using Cons.IH [OF l(1)] l(2) by (auto simp: subset_iff not_less)
  next
    case False
    then show ?thesis using l laid_ge [OF l(1), of e] by auto
  qed
qed simp

definition uninterrupted :: "int set \<Rightarrow> instant \<Rightarrow> instant \<Rightarrow> bool" where
  "uninterrupted C t e \<longleftrightarrow> t < e \<and> {t ..< e} \<subseteq> C \<and> e \<notin> C"

lemma uninterrupted_unique: "uninterrupted C t e \<Longrightarrow> uninterrupted C t e' \<Longrightarrow> e = e'"
  unfolding uninterrupted_def by (metis atLeastLessThan_iff less_imp_le linorder_neqE subset_iff)

lemma personal_in_order:
  "laid_from prev ss \<Longrightarrow>
     (case dropWhile (\<lambda>s. \<not> span_holds t s) ss of
        [] \<Rightarrow> t \<notin> covered (map span_interval ss)
      | s # rest \<Rightarrow> uninterrupted (covered (map span_interval ss)) t (run_end (sp_end s) rest))"
proof (induction ss arbitrary: prev)
  case (Cons s ss)
  have l: "laid_from (Some (sp_end s)) ss" "sp_start s < sp_end s" using Cons.prems by simp_all
  show ?case
  proof (cases "span_holds t s")
    case True
    then show ?thesis using run_end_spec [OF l(1)]
      by (auto simp: uninterrupted_def span_holds_def subset_iff not_less)
  next
    case False
    then have out: "t \<notin> covered (map span_interval [s])" by (auto simp: span_holds_def)
    show ?thesis
    proof (cases "dropWhile (\<lambda>s. \<not> span_holds t s) ss")
      case Nil
      then show ?thesis using False out Cons.IH [OF l(1)] by (simp del: dropWhile_eq_Nil_conv)
    next
      case (Cons x rest)
      let ?r = "run_end (sp_end x) rest"
      have u: "uninterrupted (covered (map span_interval ss)) t ?r" using Cons.IH [OF l(1)] Cons by simp
      then have "t \<in> covered (map span_interval ss)" by (auto simp: uninterrupted_def)
      then have "sp_end s \<le> t" by (rule laid_ge [OF l(1)])
      then have "?r \<notin> covered (map span_interval [s])" using u by (auto simp: uninterrupted_def)
      then show ?thesis using False Cons u by (auto simp: uninterrupted_def)
    qed
  qed
qed simp

section \<open>What holds of periods and entitlements\<close>

text \<open>C28: periods never drift. When a subscription is billed by the month or by the year, the \<open>n\<close>-th period in a
  row ends exactly \<open>n * count\<close> units after the anchor, at the anchor's time of day and on the anchor's day
  of the month, or on the last day of a month too short for it; a short month does not move the ones
  after it, and every period is longer than nothing.\<close>

theorem periods_never_drift:
  assumes u: "unit_months u = Some k" and c: "1 \<le> count"
  shows "nth_end anchor u count n = add_months anchor (int n * count * k) \<and>
    month_of (nth_end anchor u count n) = month_of anchor + int n * count * k \<and>
    nth_end anchor u count n mod DAY_MS = anchor mod DAY_MS \<and>
    nth_end anchor u count n div DAY_MS + epoch_day - month_start (month_of (nth_end anchor u count n))
      = min (anchor div DAY_MS + epoch_day - month_start (month_of anchor))
            (month_len (month_of anchor + int n * count * k) - 1) \<and>
    nth_end anchor u count n < nth_end anchor u count (Suc n)"
  using period_end_after [OF c, of "nth_end anchor u count n" anchor u] 
  unfolding nth_end.simps(2) nth_end_months [OF u] by (simp add: add_months_day)

text \<open>31 January 2024, noon, monthly: the second period ends on 29 February, the third on 31 March.\<close>

definition demo_anchor :: instant where "demo_anchor = 1706702400000"

theorem periods_never_drift_witness:
  "nth_end demo_anchor ''month'' 1 1 = 1709208000000 \<and> nth_end demo_anchor ''month'' 1 2 = 1711886400000"
proof -
  have u: "unit_months ''month'' = Some 1" by (simp add: unit_months_def)
  have "nth_end demo_anchor ''month'' 1 n = add_months demo_anchor (int n)" for n
    using periods_never_drift [OF u, of 1 demo_anchor n] by simp
  moreover have "add_months demo_anchor 1 = 1709208000000" "add_months demo_anchor 2 = 1711886400000" by code_simp+
  ultimately show ?thesis by (simp del: nth_end.simps)
qed

text \<open>
  The columns of a \<open>subscription\<close> row that the entitlement reads, the row checks of the table (migrations
  0013 and 0024) and the row as the code reads it: every timestamp of the database is a valid date.
\<close>

record period_columns =
  pe_status :: subscription_status
  pe_currentPeriodStart :: "instant option"
  pe_currentPeriodEnd :: "instant option"
  pe_graceUntil :: "instant option"
  pe_effectiveTerminationAt :: "instant option"

definition subscription_checks :: "period_columns \<Rightarrow> bool" where
  "subscription_checks s \<longleftrightarrow>
     (if pe_status s = S_pending
      then pe_currentPeriodStart s = None \<and> pe_currentPeriodEnd s = None \<and> pe_graceUntil s = None \<and> pe_effectiveTerminationAt s = None
      else (case (pe_currentPeriodStart s, pe_currentPeriodEnd s, pe_graceUntil s) of
              (Some b, Some e, Some g) \<Rightarrow>
                b < e \<and> e < g \<and> g = e + DAY_MS \<and> (case pe_effectiveTerminationAt s of None \<Rightarrow> True | Some x \<Rightarrow> x \<le> g)
            | _ \<Rightarrow> False))"

definition as_read :: "period_columns \<Rightarrow> entitled_subscription" where
  "as_read s = \<lparr>es_status = pe_status s, es_currentPeriodStart = map_option Date_at (pe_currentPeriodStart s),
     es_currentPeriodEnd = map_option Date_at (pe_currentPeriodEnd s), es_graceUntil = map_option Date_at (pe_graceUntil s),
     es_effectiveTerminationAt = map_option Date_at (pe_effectiveTerminationAt s)\<rparr>"

lemma subscription_checks_established:
  assumes "subscription_checks s" and "pe_status s \<noteq> S_pending"
  obtains b e where "pe_currentPeriodStart s = Some b" "pe_currentPeriodEnd s = Some e" "pe_graceUntil s = Some (e + DAY_MS)"
    "b < e" "\<forall>x. pe_effectiveTerminationAt s = Some x \<longrightarrow> x \<le> e + DAY_MS"
  using assms unfolding subscription_checks_def
  by (cases "pe_currentPeriodStart s"; cases "pe_currentPeriodEnd s"; cases "pe_graceUntil s"; cases "pe_effectiveTerminationAt s") auto

text \<open>C29: the derived entitlement of an organization. For every row the database admits and every valid instant,
  \<open>deriveEntitlement\<close> never throws; a subscription that started gives access exactly from the start of its
  period until its termination, or until 24 hours after the end of the period when it was not
  terminated, whatever its status label says; without access no expiry is reported.\<close>

theorem entitlement_follows_the_period:
  assumes "subscription_checks s"
  shows "deriveEntitlement (Some (as_read s)) (Date_at t) =
    Inr (case (pe_currentPeriodStart s, pe_currentPeriodEnd s) of
           (Some b, Some e) \<Rightarrow>
             (let x = (case pe_effectiveTerminationAt s of Some x \<Rightarrow> x | None \<Rightarrow> e + DAY_MS)
              in if b \<le> t \<and> t < x then \<lparr>et_valid = True, et_expiresAt = Some x\<rparr> else NO_ENTITLEMENT)
         | _ \<Rightarrow> NO_ENTITLEMENT)"
proof (cases "pe_status s = S_pending")
  case True
  then have "pe_currentPeriodStart s = None" using assms by (simp add: subscription_checks_def)
  then show ?thesis using True by (simp add: deriveEntitlement_def assertValidDate_def as_read_def)
next
  case False
  with assms obtain b e where r: "pe_currentPeriodStart s = Some b" "pe_currentPeriodEnd s = Some e"
    "pe_graceUntil s = Some (e + DAY_MS)" "b < e"
    and x: "\<forall>x. pe_effectiveTerminationAt s = Some x \<longrightarrow> x \<le> e + DAY_MS"
    by (rule subscription_checks_established)
  have tb: "termination_boundary (map_option Date_at (pe_effectiveTerminationAt s)) (e + DAY_MS)
      = Inr (case pe_effectiveTerminationAt s of Some x \<Rightarrow> x | None \<Rightarrow> e + DAY_MS)"
    using x by (cases "pe_effectiveTerminationAt s") (simp_all add: termination_boundary_def assertValidDate_def not_less)
  have gb: "grace_boundary (Some (Date_at (e + DAY_MS))) e = Inr (e + DAY_MS)"
    by (simp add: grace_boundary_def assertValidDate_def DAY_MS_def)
  show ?thesis using False r tb gb by (simp add: deriveEntitlement_def assertValidDate_def as_read_def Let_def)
qed

definition demo_period :: period_columns where
  "demo_period = \<lparr>pe_status = S_expired, pe_currentPeriodStart = Some 0, pe_currentPeriodEnd = Some 1000,
     pe_graceUntil = Some (1000 + DAY_MS), pe_effectiveTerminationAt = None\<rparr>"

theorem entitlement_follows_the_period_witness:
  "deriveEntitlement (Some (as_read demo_period)) (Date_at 2000) = Inr \<lparr>et_valid = True, et_expiresAt = Some (1000 + DAY_MS)\<rparr>"
proof -
  have "subscription_checks demo_period" by (simp add: subscription_checks_def demo_period_def DAY_MS_def)
  from entitlement_follows_the_period [OF this, of 2000] show ?thesis by (simp add: demo_period_def DAY_MS_def)
qed

lemma effective_no_hold: "covered (effective paid []) = covered paid"
  by (simp add: effective_def merge_ok compensation_no_hold)

lemma personalEntitlementAt_spec:
  assumes "\<forall>p \<in> set ps. 1 \<le> kp_count p"
  defines "C \<equiv> covered (map span_interval (personal_spans ps))"
  shows "if t \<in> C then \<exists>e. personalEntitlementAt (personal_spans ps) t = \<lparr>et_valid = True, et_expiresAt = Some e\<rparr> \<and> uninterrupted C t e
    else personalEntitlementAt (personal_spans ps) t = NO_ENTITLEMENT"
proof -
  have l: "laid_from None (personal_spans ps)" using spans_laid [OF assms(1), of None] by (simp add: personal_spans_def)
  note p = personal_in_order [OF l, of t]
  show ?thesis
  proof (cases "dropWhile (\<lambda>s. \<not> span_holds t s) (personal_spans ps)")
    case Nil
    then show ?thesis using p by (simp add: personalEntitlementAt_def laid_sorted [OF l] C_def del: dropWhile_eq_Nil_conv)
  next
    case (Cons s rest)
    then have u: "uninterrupted C t (run_end (sp_end s) rest)" using p by (simp add: C_def)
    then have "t \<in> C" by (auto simp: uninterrupted_def)
    then show ?thesis using Cons u by (auto simp: personalEntitlementAt_def laid_sorted [OF l])
  qed
qed

text \<open>C30: the two calculations of a member's entitlement agree. On the spans that the ledger lays for any list of
  kept purchases (each of at least one unit), the plain calculation gives the same answer as the
  calculation under fraud holds does with no hold: access exactly inside the spans, with the first
  instant at which the uninterrupted access ends.\<close>

theorem member_calculations_agree:
  assumes "\<forall>p \<in> set ps. 1 \<le> kp_count p"
  shows "personalEntitlementAt (personal_spans ps) t
      = (let (v, e) = entitlementAt (map span_interval (personal_spans ps)) [] t in \<lparr>et_valid = v, et_expiresAt = e\<rparr>) \<and>
    (et_valid (personalEntitlementAt (personal_spans ps) t) \<longleftrightarrow> t \<in> covered (map span_interval (personal_spans ps)))"
proof -
  let ?s = "map span_interval (personal_spans ps)"
  note p = personalEntitlementAt_spec [OF assms, of t]
  show ?thesis
  proof (cases "t \<in> covered ?s")
    case False
    then show ?thesis using p entitlementAt_outside [of t ?s "[]"] by (simp add: effective_no_hold NO_ENTITLEMENT_def)
  next
    case True
    then have "t \<in> covered (effective ?s [])" by (simp add: effective_no_hold)
    then obtain e where e: "entitlementAt ?s [] t = (True, Some e)" "uninterrupted (covered ?s) t e"
      by (rule entitlementAt_inside) (simp add: effective_no_hold uninterrupted_def)
    from p True obtain e' where e': "personalEntitlementAt (personal_spans ps) t = \<lparr>et_valid = True, et_expiresAt = Some e'\<rparr>"
      "uninterrupted (covered ?s) t e'" by auto
    show ?thesis using True e(1) e'(1) uninterrupted_unique [OF e(2) e'(2)] by simp
  qed
qed

definition demo_kept :: "kept_purchase list" where
  "demo_kept = [\<lparr>kp_id = ''a'', kp_settled = 0, kp_unit = ''day'', kp_count = 1\<rparr>,
     \<lparr>kp_id = ''b'', kp_settled = 1000, kp_unit = ''day'', kp_count = 2\<rparr>]"

theorem member_calculations_agree_witness:
  "personalEntitlementAt (personal_spans demo_kept) 5
     = (let (v, e) = entitlementAt (map span_interval (personal_spans demo_kept)) [] 5 in \<lparr>et_valid = v, et_expiresAt = e\<rparr>) \<and>
   et_expiresAt (personalEntitlementAt (personal_spans demo_kept) 5) = Some (3 * DAY_MS)"
proof -
  have c: "\<forall>p \<in> set demo_kept. 1 \<le> kp_count p" by (simp add: demo_kept_def)
  have "et_expiresAt (personalEntitlementAt (personal_spans demo_kept) 5) = Some (3 * DAY_MS)" by code_simp
  then show ?thesis using member_calculations_agree [OF c, of 5] by simp
qed

end
