(* ===== verification/BillingInput.thy ===== *)
theory BillingInput
  imports BillingDecisions "HOL-Library.Code_Target_Nat"
begin

text \<open>
  The validators of the billing service's requests: invoices (\<open>domain/invoice-input.ts\<close>), prices
  (\<open>domain/price-input.ts\<close>), products (\<open>domain/product-input.ts\<close>), checkouts
  (\<open>checkout/checkout-input.ts\<close>) and the snapshots (\<open>domain/snapshots.ts\<close>). A request is a
  JavaScript value; every refusal is the 400 of its kind (the text of the message is left out). The
  parser of instants (\<open>new Date\<close>) and the text of a number that is not a plain integer are parameters.
\<close>

section \<open>JavaScript values\<close>

datatype js_value =
    V_undefined
  | V_null
  | V_bool bool
  | V_number js_number
  | V_string string
  | V_date "instant option"
  | V_array "js_value list"
  | V_object "(string \<times> js_value) list"

text \<open>\<open>raw.k\<close>: a missing key reads \<open>undefined\<close>.\<close>

definition js_get :: "(string \<times> js_value) list \<Rightarrow> string \<Rightarrow> js_value" where
  "js_get obj k = (case map_of obj k of Some v \<Rightarrow> v | None \<Rightarrow> V_undefined)"

definition js_absent :: "js_value \<Rightarrow> bool" where
  "js_absent v \<longleftrightarrow> v = V_undefined \<or> v = V_null"

fun as_object :: "js_value \<Rightarrow> (string \<times> js_value) list option" where
  "as_object (V_object o1) = Some o1"
| "as_object _ = None"

fun as_string :: "js_value \<Rightarrow> string option" where
  "as_string (V_string s) = Some s"
| "as_string _ = None"

definition only_keys :: "string list \<Rightarrow> (string \<times> js_value) list \<Rightarrow> bool" where
  "only_keys allowed obj \<longleftrightarrow> list_all (\<lambda>(k, _). k \<in> set allowed) obj"

definition js_space :: "char \<Rightarrow> bool" where
  "js_space c \<longleftrightarrow> (9 \<le> char_code c \<and> char_code c \<le> 13) \<or> char_code c = 32 \<or> char_code c = 160"

definition is_blank :: "string \<Rightarrow> bool" where
  "is_blank s \<longleftrightarrow> list_all js_space s"

section \<open>Patterns\<close>

definition is_letter :: "char \<Rightarrow> bool" where
  "is_letter c \<longleftrightarrow> is_upper_letter c \<or> is_lower_letter c"

text \<open>\<open>^[a-z][a-z0-9_]{1,62}$\<close>.\<close>

definition is_source_type :: "string \<Rightarrow> bool" where
  "is_source_type s \<longleftrightarrow> 2 \<le> length s \<and> length s \<le> 63 \<and> is_lower_letter (hd s) \<and>
     list_all (\<lambda>c. is_lower_letter c \<or> is_digit c \<or> c = CHR ''_'') (tl s)"

text \<open>\<open>^[a-z][a-z0-9_-]{1,62}$\<close>.\<close>

definition is_product_code :: "string \<Rightarrow> bool" where
  "is_product_code s \<longleftrightarrow> 2 \<le> length s \<and> length s \<le> 63 \<and> is_lower_letter (hd s) \<and>
     list_all (\<lambda>c. is_lower_letter c \<or> is_digit c \<or> c = CHR ''_'' \<or> c = CHR ''-'') (tl s)"

text \<open>\<open>^[A-Za-z0-9._:-]{1,128}$\<close>.\<close>

definition is_client_reference :: "string \<Rightarrow> bool" where
  "is_client_reference s \<longleftrightarrow> 1 \<le> length s \<and> length s \<le> 128 \<and>
     list_all (\<lambda>c. is_letter c \<or> is_digit c \<or> c = CHR ''.'' \<or> c = CHR ''_'' \<or> c = CHR '':'' \<or> c = CHR ''-'') s"

text \<open>\<open>^[a-z0-9][a-z0-9:._-]{0,63}$\<close>.\<close>

definition is_template_ref :: "string \<Rightarrow> bool" where
  "is_template_ref s \<longleftrightarrow> 1 \<le> length s \<and> length s \<le> 64 \<and> (is_lower_letter (hd s) \<or> is_digit (hd s)) \<and>
     list_all (\<lambda>c. is_lower_letter c \<or> is_digit c \<or> c = CHR '':'' \<or> c = CHR ''.'' \<or> c = CHR ''_'' \<or> c = CHR ''-'') (tl s)"

fun split_on :: "char \<Rightarrow> string \<Rightarrow> string list" where
  "split_on d [] = [[]]"
| "split_on d (c # cs) =
     (if c = d then [] # split_on d cs
      else (case split_on d cs of [] \<Rightarrow> [[c]] | w # ws \<Rightarrow> (c # w) # ws))"

text \<open>\<open>^[A-Za-z]{2,3}(-[A-Za-z0-9]{2,8}){0,3}$\<close>.\<close>

definition is_locale_tag :: "string \<Rightarrow> bool" where
  "is_locale_tag s \<longleftrightarrow>
     (case split_on CHR ''-'' s of
        [] \<Rightarrow> False
      | lang # subtags \<Rightarrow> 2 \<le> length lang \<and> length lang \<le> 3 \<and> list_all is_letter lang \<and> length subtags \<le> 3 \<and>
          list_all (\<lambda>t. 2 \<le> length t \<and> length t \<le> 8 \<and> list_all (\<lambda>c. is_letter c \<or> is_digit c) t) subtags)"

text \<open>
  \<open>^\d{4}-\d{2}-\d{2}T\d{2}:\d{2}:\d{2}(\.\d+)?(Z|[+-]\d{2}:\d{2})$\<close>: \<open>fits\<close> matches a prefix against
  a shape in which \<open>0\<close> stands for any digit and every other character for itself.
\<close>

fun fits :: "string \<Rightarrow> string \<Rightarrow> bool" where
  "fits [] [] \<longleftrightarrow> True"
| "fits (p # ps) (c # cs) \<longleftrightarrow> (if p = CHR ''0'' then is_digit c else c = p) \<and> fits ps cs"
| "fits _ _ \<longleftrightarrow> False"

definition is_zone :: "string \<Rightarrow> bool" where
  "is_zone z \<longleftrightarrow> z = ''Z'' \<or> fits ''+00:00'' z \<or> fits ''-00:00'' z"

definition is_offset_timestamp :: "string \<Rightarrow> bool" where
  "is_offset_timestamp s \<longleftrightarrow> fits ''0000-00-00T00:00:00'' (take 19 s) \<and>
     (let rest = drop 19 s in
      is_zone rest \<or>
      (rest \<noteq> [] \<and> hd rest = CHR ''.'' \<and>
       (let frac = takeWhile is_digit (tl rest) in frac \<noteq> [] \<and> is_zone (drop (length frac) (tl rest)))))"

section \<open>Snapshots\<close>

definition MAX_SNAPSHOT_BYTES :: nat where "MAX_SNAPSHOT_BYTES = 8192"
definition MAX_DEPTH :: nat where "MAX_DEPTH = 3"
definition MAX_STRING :: nat where "MAX_STRING = 512"

definition FORBIDDEN_KEYS :: "string list" where
  "FORBIDDEN_KEYS = [''__proto__'', ''constructor'', ''prototype'']"

text \<open>\<open>path.split('.').pop()\<close> of a path that ends in the key.\<close>

definition last_segment :: "string \<Rightarrow> string" where
  "last_segment k = last (split_on CHR ''.'' k)"

text \<open>\<open>walk\<close>: \<open>True\<close> where the code returns, \<open>False\<close> where it throws.\<close>

fun walk :: "nat \<Rightarrow> string \<Rightarrow> js_value \<Rightarrow> bool" and walk_all :: "nat \<Rightarrow> (string \<times> js_value) list \<Rightarrow> bool" where
  "walk depth key (V_string s) \<longleftrightarrow>
     last_segment key \<notin> set FORBIDDEN_KEYS \<and> length s \<le> MAX_STRING \<and> list_all (\<lambda>c. char_code c \<noteq> 0) s"
| "walk depth key (V_object o1) \<longleftrightarrow>
     last_segment key \<notin> set FORBIDDEN_KEYS \<and> depth < MAX_DEPTH \<and> walk_all (depth + 1) o1"
| "walk depth key _ \<longleftrightarrow> False"
| "walk_all depth [] \<longleftrightarrow> True"
| "walk_all depth ((k, v) # rest) \<longleftrightarrow> k \<notin> set FORBIDDEN_KEYS \<and> walk depth k v \<and> walk_all depth rest"

text \<open>
  The bytes of \<open>JSON.stringify\<close> of such an object: an escape of \<open>"\<close>, \<open>\\<close>, backspace, tab, line feed,
  form feed and carriage return takes two bytes, of another control character six.
\<close>

definition char_bytes :: "char \<Rightarrow> nat" where
  "char_bytes c =
     (let n = char_code c in
      if n \<in> {34, 92, 8, 9, 10, 12, 13} then 2 else if n < 32 then 6 else if n < 128 then 1 else 2)"

definition string_bytes :: "string \<Rightarrow> nat" where
  "string_bytes s = 2 + sum_list (map char_bytes s)"

text \<open>Members are separated by commas; a member whose value is \<open>undefined\<close> is left out.\<close>

fun json_bytes :: "(js_number \<Rightarrow> nat) \<Rightarrow> js_value \<Rightarrow> nat" and members_bytes :: "(js_number \<Rightarrow> nat) \<Rightarrow> (string \<times> js_value) list \<Rightarrow> nat list" where
  "json_bytes num V_undefined = 4"
| "json_bytes num V_null = 4"
| "json_bytes num (V_bool b) = (if b then 4 else 5)"
| "json_bytes num (V_number n) = num n"
| "json_bytes num (V_string s) = string_bytes s"
| "json_bytes num (V_date d) = (case d of None \<Rightarrow> 4 | Some _ \<Rightarrow> 26)"
| "json_bytes num (V_array vs) = 2 + sum_list (map (json_bytes num) vs) + (length vs - 1)"
| "json_bytes num (V_object o1) = (let ms = members_bytes num o1 in 2 + sum_list ms + (length ms - 1))"
| "members_bytes num [] = []"
| "members_bytes num ((k, v) # rest) =
     (if v = V_undefined then members_bytes num rest else (string_bytes k + 1 + json_bytes num v) # members_bytes num rest)"

definition validatePartySnapshot :: "(js_number \<Rightarrow> nat) \<Rightarrow> js_value \<Rightarrow> (string \<times> js_value) list option" where
  "validatePartySnapshot num v =
     (case as_object v of
        None \<Rightarrow> None
      | Some obj \<Rightarrow>
          (case js_get obj ''schemaVersion'' of
             V_number (JInt n) \<Rightarrow>
               if 1 \<le> n \<and> list_all (\<lambda>(k, x). k = ''schemaVersion'' \<or> walk 1 k x) obj \<and> json_bytes num v \<le> MAX_SNAPSHOT_BYTES
               then Some obj else None
           | _ \<Rightarrow> None))"

record presentation =
  pn_schemaVersion :: nat
  pn_template :: string
  pn_locale :: string

definition SYSTEM_TEMPLATE_V1 :: string where "SYSTEM_TEMPLATE_V1 = ''system:1''"

text \<open>\<open>None\<close>: a \<open>SnapshotError\<close>.\<close>

definition buildPresentationSnapshot :: "string \<Rightarrow> string \<Rightarrow> presentation option" where
  "buildPresentationSnapshot template lang =
     (if is_template_ref template \<and> is_locale_tag lang
      then Some \<lparr>pn_schemaVersion = 1, pn_template = template, pn_locale = lang\<rparr> else None)"

section \<open>Results\<close>

text \<open>
  The errors of the billing service: an answer with its status and code, a statement the database
  refuses (with the name of the constraint or guard), and any other thrown error.
\<close>

datatype bill_error = B_http nat string | B_check string | B_internal string

definition billingError :: "nat \<Rightarrow> string \<Rightarrow> bill_error + 'a" where
  "billingError status code = Inl (B_http status code)"

definition notFound :: "bill_error + 'a" where
  "notFound = billingError 404 ''not_found''"

definition operationNotPermitted :: "bill_error + 'a" where
  "operationNotPermitted = billingError 403 ''operation_not_permitted''"

text \<open>A check of a validator: the request goes on, or is refused.\<close>

definition require :: "string \<Rightarrow> bool \<Rightarrow> (bill_error + 'a) \<Rightarrow> bill_error + 'a" where
  "require code ok k = (if ok then k else billingError 400 code)"

definition read_or :: "string \<Rightarrow> 'a option \<Rightarrow> bill_error + 'a" where
  "read_or code v = (case v of None \<Rightarrow> billingError 400 code | Some x \<Rightarrow> Inr x)"

lemma require_Inr [simp]: "require code ok k = Inr x \<longleftrightarrow> ok \<and> k = Inr x"
  by (simp add: require_def billingError_def)

lemma read_or_Inr [simp]: "read_or code v = Inr x \<longleftrightarrow> v = Some x"
  by (cases v) (simp_all add: read_or_def billingError_def)

section \<open>Values of a request\<close>

definition read_uuid :: "js_value \<Rightarrow> string option" where
  "read_uuid v = (case v of V_string s \<Rightarrow> if is_uuid s then Some (to_lower s) else None | _ \<Rightarrow> None)"

definition read_text :: "nat \<Rightarrow> js_value \<Rightarrow> string option" where
  "read_text most v = (case v of V_string s \<Rightarrow> if 1 \<le> length s \<and> length s \<le> most then Some s else None | _ \<Rightarrow> None)"

text \<open>An optional text that is not blank: \<open>None\<close> refuses, \<open>Some None\<close> is absent.\<close>

definition read_description :: "nat \<Rightarrow> js_value \<Rightarrow> string option option" where
  "read_description most v =
     (if js_absent v then Some None
      else case v of V_string s \<Rightarrow> if is_blank s \<or> most < length s then None else Some (Some s) | _ \<Rightarrow> None)"

definition read_optional :: "(js_value \<Rightarrow> 'a option) \<Rightarrow> js_value \<Rightarrow> 'a option option" where
  "read_optional r v = (if js_absent v then Some None else map_option Some (r v))"

definition read_quantity :: "js_value \<Rightarrow> int option" where
  "read_quantity v = (case v of V_number (JInt n) \<Rightarrow> if 1 \<le> n \<and> n \<le> MAX_QUANTITY then Some n else None | _ \<Rightarrow> None)"

text \<open>An instant with an explicit offset, or a Date; \<open>parse\<close> is \<open>new Date\<close> on such a text.\<close>

definition read_instant :: "(string \<Rightarrow> instant option) \<Rightarrow> js_value \<Rightarrow> instant option" where
  "read_instant parse v = (case v of V_string s \<Rightarrow> if is_offset_timestamp s then parse s else None | _ \<Rightarrow> None)"

definition read_due :: "(string \<Rightarrow> instant option) \<Rightarrow> js_value \<Rightarrow> instant option" where
  "read_due parse v = (case v of V_date d \<Rightarrow> d | _ \<Rightarrow> read_instant parse v)"

definition read_source_type :: "js_value \<Rightarrow> string option" where
  "read_source_type v = (case v of V_string s \<Rightarrow> if is_source_type s then Some s else None | _ \<Rightarrow> None)"

definition read_party :: "js_value \<Rightarrow> bparty option" where
  "read_party v =
     (case as_object v of
        None \<Rightarrow> None
      | Some o1 \<Rightarrow>
          if \<not> only_keys [''type'', ''id''] o1 then None
          else (case js_get o1 ''type'' of
                  V_string t \<Rightarrow>
                    if t \<in> set PARTY_TYPES
                    then map_option (\<lambda>i. \<lparr>bp_type = t, bp_id = i\<rparr>) (read_text 128 (js_get o1 ''id'')) else None
                | _ \<Rightarrow> None))"

section \<open>Creating an invoice\<close>

definition INVOICE_KEYS :: "string list" where
  "INVOICE_KEYS = [''invoiceRequestId'', ''seller'', ''payer'', ''organizationId'', ''sourceType'', ''sourceId'', ''description'',
     ''dueAt'', ''issuerSnapshot'', ''billToSnapshot'', ''lines'']"

definition LINE_KEYS :: "string list" where
  "LINE_KEYS = [''priceId'', ''quantity'', ''description'', ''sourceType'', ''sourceId'']"

record line_request =
  lq_priceId :: string
  lq_quantity :: int
  lq_description :: "string option"
  lq_sourceType :: "string option"
  lq_sourceId :: "string option"

record invoice_request =
  iq_invoiceRequestId :: string
  iq_seller :: bparty
  iq_payer :: bparty
  iq_organizationId :: "string option"
  iq_sourceType :: string
  iq_sourceId :: string
  iq_description :: "string option"
  iq_dueAt :: "instant option"
  iq_issuerSnapshot :: "(string \<times> js_value) list"
  iq_billToSnapshot :: "(string \<times> js_value) list"
  iq_lines :: "line_request list"

definition normalise_line :: "js_value \<Rightarrow> bill_error + line_request" where
  "normalise_line v =
     (let bad = ''invalid_invoice_request'' in
      err_bind (read_or bad (as_object v)) (\<lambda>l.
      require bad (only_keys LINE_KEYS l) (
      err_bind (read_or bad (read_quantity (js_get l ''quantity''))) (\<lambda>q.
      err_bind (read_or bad (read_description 140 (js_get l ''description''))) (\<lambda>d.
      require bad (js_absent (js_get l ''sourceType'') = js_absent (js_get l ''sourceId'')) (
      err_bind (read_or bad (read_optional read_source_type (js_get l ''sourceType''))) (\<lambda>st.
      err_bind (read_or bad (read_optional (read_text 128) (js_get l ''sourceId''))) (\<lambda>si.
      err_bind (read_or bad (read_uuid (js_get l ''priceId''))) (\<lambda>p.
        Inr \<lparr>lq_priceId = p, lq_quantity = q, lq_description = d, lq_sourceType = st, lq_sourceId = si\<rparr>)))))))))"

fun normalise_lines :: "js_value list \<Rightarrow> bill_error + line_request list" where
  "normalise_lines [] = Inr []"
| "normalise_lines (v # vs) = err_bind (normalise_line v) (\<lambda>l. err_bind (normalise_lines vs) (\<lambda>ls. Inr (l # ls)))"

text \<open>The seller in its canonical form with the organization it makes (an organization seller names itself).\<close>

definition normalise_seller :: "bparty \<Rightarrow> string option \<Rightarrow> bill_error + bparty \<times> string option" where
  "normalise_seller seller org =
     (if bp_type seller = ''organization'' then
        err_bind (read_or ''invalid_invoice_request'' (read_uuid (V_string (bp_id seller)))) (\<lambda>i.
          if org \<noteq> None \<and> org \<noteq> Some i then billingError 400 ''invalid_invoice_request''
          else Inr (seller\<lparr>bp_id := i\<rparr>, Some i))
      else Inr (seller, org))"

definition read_lines :: "js_value \<Rightarrow> js_value list option" where
  "read_lines v = (case v of V_array vs \<Rightarrow> if 1 \<le> length vs \<and> length vs \<le> MAX_LINES then Some vs else None | _ \<Rightarrow> None)"

definition normaliseCreateInvoiceInput :: "(string \<Rightarrow> instant option) \<Rightarrow> (js_number \<Rightarrow> nat) \<Rightarrow> js_value \<Rightarrow> bill_error + invoice_request" where
  "normaliseCreateInvoiceInput parse num v =
     (let bad = ''invalid_invoice_request'' in
      err_bind (read_or bad (as_object v)) (\<lambda>raw.
      require bad (only_keys INVOICE_KEYS raw) (
      err_bind (read_or bad (read_uuid (js_get raw ''invoiceRequestId''))) (\<lambda>rid.
      err_bind (read_or bad (read_party (js_get raw ''seller''))) (\<lambda>seller0.
      err_bind (read_or bad (read_party (js_get raw ''payer''))) (\<lambda>payer.
      require bad (\<not> (bp_type seller0 = bp_type payer \<and> bp_id seller0 = bp_id payer)) (
      err_bind (read_or bad (read_optional read_uuid (js_get raw ''organizationId''))) (\<lambda>org0.
      err_bind (normalise_seller seller0 org0) (\<lambda>(seller, org).
      err_bind (read_or bad (read_source_type (js_get raw ''sourceType''))) (\<lambda>st.
      err_bind (read_or bad (read_text 128 (js_get raw ''sourceId''))) (\<lambda>si.
      err_bind (read_or bad (read_description 140 (js_get raw ''description''))) (\<lambda>d.
      err_bind (read_or bad (read_optional (read_due parse) (js_get raw ''dueAt''))) (\<lambda>due.
      err_bind (read_or bad (validatePartySnapshot num (js_get raw ''issuerSnapshot''))) (\<lambda>issuer.
      err_bind (read_or bad (validatePartySnapshot num (js_get raw ''billToSnapshot''))) (\<lambda>bill_to.
      err_bind (read_or bad (read_lines (js_get raw ''lines''))) (\<lambda>vs.
      err_bind (normalise_lines vs) (\<lambda>ls.
        Inr \<lparr>iq_invoiceRequestId = rid, iq_seller = seller, iq_payer = payer, iq_organizationId = org, iq_sourceType = st,
              iq_sourceId = si, iq_description = d, iq_dueAt = due, iq_issuerSnapshot = issuer, iq_billToSnapshot = bill_to,
              iq_lines = ls\<rparr>)))))))))))))))))"

definition DEFAULT_INVOICE_LOCALE :: string where "DEFAULT_INVOICE_LOCALE = ''en''"

definition normaliseIssueInvoiceInput :: "js_value \<Rightarrow> bill_error + string" where
  "normaliseIssueInvoiceInput v =
     (if js_absent v then Inr DEFAULT_INVOICE_LOCALE
      else
        err_bind (read_or ''invalid_invoice_request'' (as_object v)) (\<lambda>raw.
        require ''invalid_invoice_request'' (only_keys [''locale''] raw) (
        case js_get raw ''locale'' of
          V_undefined \<Rightarrow> Inr DEFAULT_INVOICE_LOCALE
        | V_string s \<Rightarrow> require ''invalid_invoice_request'' (is_locale_tag s) (Inr s)
        | _ \<Rightarrow> billingError 400 ''invalid_invoice_request'')))"

record list_filters =
  lf_status :: "string option"
  lf_sourceType :: "string option"
  lf_sourceId :: "string option"
  lf_payerType :: "string option"
  lf_payerId :: "string option"
  lf_dueBefore :: "instant option"

text \<open>A filter that is given (not \<open>undefined\<close>; \<open>null\<close> is given) must be valid.\<close>

definition read_filter :: "(js_value \<Rightarrow> 'a option) \<Rightarrow> js_value \<Rightarrow> 'a option option" where
  "read_filter r v = (if v = V_undefined then Some None else map_option Some (r v))"

definition read_member :: "string list \<Rightarrow> js_value \<Rightarrow> string option" where
  "read_member xs v = (case v of V_string s \<Rightarrow> if s \<in> set xs then Some s else None | _ \<Rightarrow> None)"

definition normaliseInvoiceListFilters :: "(string \<Rightarrow> instant option) \<Rightarrow> (string \<times> js_value) list \<Rightarrow> bill_error + list_filters" where
  "normaliseInvoiceListFilters parse raw =
     (let bad = ''invalid_invoice_request'' in
      err_bind (read_or bad (read_filter (read_member [''draft'', ''open'', ''paid'', ''void'']) (js_get raw ''status''))) (\<lambda>st.
      err_bind (read_or bad (read_filter read_source_type (js_get raw ''sourceType''))) (\<lambda>so.
      err_bind (read_or bad (read_filter (read_text 128) (js_get raw ''sourceId''))) (\<lambda>si.
      err_bind (read_or bad (read_filter (read_member PARTY_TYPES) (js_get raw ''payerType''))) (\<lambda>pt.
      err_bind (read_or bad (read_filter (read_text 128) (js_get raw ''payerId''))) (\<lambda>pi.
      err_bind (read_or bad (read_filter (read_instant parse) (js_get raw ''dueBefore''))) (\<lambda>due.
        Inr \<lparr>lf_status = st, lf_sourceType = so, lf_sourceId = si, lf_payerType = pt, lf_payerId = pi, lf_dueBefore = due\<rparr>)))))))"

section \<open>Creating a price\<close>

datatype price_interval = One_time | Recurring

record price_request =
  cq_productId :: string
  cq_clientReference :: string
  cq_currency :: string
  cq_unitAmount :: int
  cq_interval :: price_interval
  cq_intervalUnit :: "string option"
  cq_intervalCount :: "int option"
  cq_effectiveFrom :: instant

definition PRICE_KEYS :: "string list" where
  "PRICE_KEYS = [''productId'', ''clientReference'', ''currency'', ''unitAmount'', ''interval'', ''intervalUnit'', ''intervalCount'', ''effectiveFrom'']"

definition INTERVAL_UNITS :: "string list" where
  "INTERVAL_UNITS = [''day'', ''week'', ''month'', ''year'']"

definition read_matching :: "(string \<Rightarrow> bool) \<Rightarrow> js_value \<Rightarrow> string option" where
  "read_matching ok v = (case v of V_string s \<Rightarrow> if ok s then Some s else None | _ \<Rightarrow> None)"

definition read_unit_amount :: "js_value \<Rightarrow> int option" where
  "read_unit_amount v =
     (case v of V_number (JInt n) \<Rightarrow> if is_safe_integer (JInt n) \<and> 1 \<le> n \<and> n \<le> MAX_MINOR_UNITS then Some n else None | _ \<Rightarrow> None)"

definition read_count :: "js_value \<Rightarrow> int option" where
  "read_count v = (case v of V_number (JInt n) \<Rightarrow> if 1 \<le> n then Some n else None | _ \<Rightarrow> None)"

definition read_interval :: "(string \<times> js_value) list \<Rightarrow> (price_interval \<times> string option \<times> int option) option" where
  "read_interval raw =
     (if js_get raw ''interval'' = V_string ''recurring'' then
        (case (read_member INTERVAL_UNITS (js_get raw ''intervalUnit''), read_count (js_get raw ''intervalCount'')) of
           (Some u, Some n) \<Rightarrow> Some (Recurring, Some u, Some n)
         | _ \<Rightarrow> None)
      else if js_get raw ''interval'' = V_string ''one_time'' then
        (if js_get raw ''intervalUnit'' = V_undefined \<and> js_get raw ''intervalCount'' = V_undefined
         then Some (One_time, None, None) else None)
      else None)"

definition normaliseCreatePriceInput :: "(string \<Rightarrow> instant option) \<Rightarrow> js_value \<Rightarrow> bill_error + price_request" where
  "normaliseCreatePriceInput parse v =
     (let bad = ''invalid_price_request'' in
      err_bind (read_or bad (as_object v)) (\<lambda>raw.
      require bad (only_keys PRICE_KEYS raw) (
      err_bind (read_or bad (read_uuid (js_get raw ''productId''))) (\<lambda>pid.
      err_bind (read_or bad (read_matching is_client_reference (js_get raw ''clientReference''))) (\<lambda>ref.
      err_bind (read_or bad (read_matching is_iso_currency (js_get raw ''currency''))) (\<lambda>cur.
      err_bind (read_or bad (read_unit_amount (js_get raw ''unitAmount''))) (\<lambda>amount.
      err_bind (read_or bad (read_interval raw)) (\<lambda>(iv, u, n).
      err_bind (read_or bad (read_instant parse (js_get raw ''effectiveFrom''))) (\<lambda>from_instant.
        Inr \<lparr>cq_productId = pid, cq_clientReference = ref, cq_currency = cur, cq_unitAmount = amount, cq_interval = iv,
              cq_intervalUnit = u, cq_intervalCount = n, cq_effectiveFrom = from_instant\<rparr>)))))))))"

section \<open>Creating a product\<close>

record product_request =
  dq_seller :: bparty
  dq_code :: string
  dq_name :: string
  dq_description :: "string option"
  dq_entitlementKind :: string
  dq_subscriptionTarget :: string
  dq_platformId :: "string option"

definition PRODUCT_KEYS :: "string list" where
  "PRODUCT_KEYS = [''seller'', ''code'', ''name'', ''description'', ''entitlementKind'', ''subscriptionTarget'', ''platformId'']"

definition ENTITLEMENT_KINDS :: "string list" where
  "ENTITLEMENT_KINDS = [''none'', ''organization_license'', ''user_subscription'']"

definition SUBSCRIPTION_TARGETS :: "string list" where
  "SUBSCRIPTION_TARGETS = [''none'', ''organization'', ''personal'']"

definition read_seller :: "js_value \<Rightarrow> bparty option" where
  "read_seller v =
     (case as_object v of
        None \<Rightarrow> None
      | Some o1 \<Rightarrow>
          if \<not> only_keys [''type'', ''id''] o1 then None
          else (case js_get o1 ''type'' of
                  V_string t \<Rightarrow>
                    if t \<notin> set PARTY_TYPES then None
                    else map_option (\<lambda>i. \<lparr>bp_type = t, bp_id = i\<rparr>)
                           (if t = ''organization'' then read_uuid (js_get o1 ''id'') else read_text 128 (js_get o1 ''id''))
                | _ \<Rightarrow> None))"

definition read_default :: "string list \<Rightarrow> js_value \<Rightarrow> string option" where
  "read_default xs v = (if js_absent v then Some ''none'' else read_member xs v)"

definition normaliseCreateProductInput :: "js_value \<Rightarrow> bill_error + product_request" where
  "normaliseCreateProductInput v =
     (let bad = ''invalid_product_request'' in
      err_bind (read_or bad (as_object v)) (\<lambda>raw.
      require bad (only_keys PRODUCT_KEYS raw) (
      err_bind (read_or bad (read_seller (js_get raw ''seller''))) (\<lambda>seller.
      err_bind (read_or bad (read_matching is_product_code (js_get raw ''code''))) (\<lambda>code.
      err_bind (read_or bad (read_matching (\<lambda>s. \<not> is_blank s \<and> length s \<le> 140) (js_get raw ''name''))) (\<lambda>nm.
      err_bind (read_or bad (read_description 280 (js_get raw ''description''))) (\<lambda>d.
      err_bind (read_or bad (read_default ENTITLEMENT_KINDS (js_get raw ''entitlementKind''))) (\<lambda>kind.
      err_bind (read_or bad (read_default SUBSCRIPTION_TARGETS (js_get raw ''subscriptionTarget''))) (\<lambda>target.
      err_bind (read_or bad (read_optional read_uuid (js_get raw ''platformId''))) (\<lambda>platform.
      require bad (target = ''none'' \<or> platform \<noteq> None) (
        Inr \<lparr>dq_seller = seller, dq_code = code, dq_name = nm, dq_description = d, dq_entitlementKind = kind,
              dq_subscriptionTarget = target, dq_platformId = platform\<rparr>)))))))))))"

section \<open>A checkout\<close>

record checkout_request =
  kq_platformId :: string
  kq_productId :: string
  kq_priceId :: string

definition normaliseCheckoutInput :: "js_value \<Rightarrow> bill_error + checkout_request" where
  "normaliseCheckoutInput v =
     (let bad = ''invalid_checkout_request'' in
      err_bind (read_or bad (as_object v)) (\<lambda>b.
      require bad (only_keys [''platformId'', ''productId'', ''priceId''] b) (
      err_bind (read_or bad (read_uuid (js_get b ''platformId''))) (\<lambda>platform.
      err_bind (read_or bad (read_uuid (js_get b ''productId''))) (\<lambda>product.
      err_bind (read_or bad (read_uuid (js_get b ''priceId''))) (\<lambda>price.
        Inr \<lparr>kq_platformId = platform, kq_productId = product, kq_priceId = price\<rparr>))))))"

section \<open>What the validators accept\<close>

lemma only_keys_simps [simp]:
  "only_keys allowed [] \<longleftrightarrow> True"
  "only_keys allowed ((k, v) # rest) \<longleftrightarrow> k \<in> set allowed \<and> only_keys allowed rest"
  by (simp_all add: only_keys_def)

lemma js_get_Cons [simp]: "js_get ((k, v) # rest) j = (if k = j then v else js_get rest j)"
  by (simp add: js_get_def)

lemma uuid_lower_id:
  assumes "is_uuid_lower s"
  shows "to_lower s = s"
proof -
  have hex: "lower_char c = c" if "is_hex c \<or> c = CHR ''-''" for c
    using that by (auto simp: is_hex_def is_digit_def lower_char_def char_code_def)
  have "lower_char (s ! k) = s ! k" if "k < length s" for k
  proof -
    have len: "length s = 36" using assms by (simp add: is_uuid_lower_def)
    then have "zip [0..<36] s ! k = (k, s ! k)" using that by simp
    then have "(k, s ! k) \<in> set (zip [0..<36] s)" using that len nth_mem [of k "zip [0..<36] s"] by (simp del: nth_zip)
    then have "is_hex (s ! k) \<or> s ! k = CHR ''-''"
      using assms by (auto simp: is_uuid_lower_def list_all_iff split: if_splits)
    then show ?thesis by (rule hex)
  qed
  then show ?thesis unfolding to_lower_def by (intro nth_equalityI) simp_all
qed

lemma read_uuid_Some: "read_uuid v = Some s \<Longrightarrow> is_uuid_lower s \<and> read_uuid (V_string s) = Some s"
  by (auto simp: read_uuid_def is_uuid_def split: js_value.splits if_splits)

lemma read_text_Some: "read_text n v = Some s \<Longrightarrow> 1 \<le> length s \<and> length s \<le> n \<and> v = V_string s"
  by (auto simp: read_text_def split: js_value.splits if_splits)

lemma read_source_type_Some: "read_source_type v = Some s \<Longrightarrow> is_source_type s \<and> v = V_string s"
  by (auto simp: read_source_type_def split: js_value.splits if_splits)

lemma read_quantity_Some: "read_quantity v = Some q \<Longrightarrow> 1 \<le> q \<and> q \<le> MAX_QUANTITY \<and> v = V_number (JInt q)"
  by (auto simp: read_quantity_def split: js_value.splits js_number.splits if_splits)

text \<open>The value an optional field is rendered to.\<close>

definition js_opt :: "('a \<Rightarrow> js_value) \<Rightarrow> 'a option \<Rightarrow> js_value" where
  "js_opt f x = (case x of None \<Rightarrow> V_null | Some y \<Rightarrow> f y)"

lemma js_opt_simps [simp]: "js_opt f None = V_null" "js_opt f (Some y) = f y"
  by (simp_all add: js_opt_def)

lemma read_description_Some:
  "read_description n v = Some d \<Longrightarrow> read_description n (js_opt V_string d) = Some d \<and> (\<forall>t. d = Some t \<longrightarrow> \<not> is_blank t \<and> length t \<le> n)"
  by (auto simp: read_description_def js_absent_def split: js_value.splits if_splits)

lemma read_optional_Some:
  assumes "read_optional r v = Some x" and "\<And>w y. r w = Some y \<Longrightarrow> r (f y) = Some y \<and> P y" and "\<And>y. \<not> js_absent (f y)"
  shows "read_optional r (js_opt f x) = Some x \<and> (\<forall>y. x = Some y \<longrightarrow> P y) \<and> (x = None \<longleftrightarrow> js_absent v)"
  using assms by (auto simp: read_optional_def js_absent_def split: if_splits)

lemma absent_opt_string [simp]: "js_absent (js_opt V_string x) \<longleftrightarrow> x = None"
  by (cases x) (simp_all add: js_absent_def)

definition party_js :: "bparty \<Rightarrow> js_value" where
  "party_js b = V_object [(''type'', V_string (bp_type b)), (''id'', V_string (bp_id b))]"

definition party_fits :: "bparty \<Rightarrow> bool" where
  "party_fits b \<longleftrightarrow> bp_type b \<in> set PARTY_TYPES \<and> 1 \<le> length (bp_id b) \<and> length (bp_id b) \<le> 128"

lemma read_party_iff_fits: "read_party (party_js b) = Some b \<longleftrightarrow> party_fits b"
  by (auto simp: read_party_def party_js_def party_fits_def read_text_def)

lemma read_party_Some: "read_party v = Some b \<Longrightarrow> party_fits b"
  by (auto simp: read_party_def party_fits_def dest!: read_text_Some split: option.splits js_value.splits if_splits)

definition line_js :: "line_request \<Rightarrow> js_value" where
  "line_js l = V_object [(''priceId'', V_string (lq_priceId l)), (''quantity'', V_number (JInt (lq_quantity l))),
     (''description'', js_opt V_string (lq_description l)), (''sourceType'', js_opt V_string (lq_sourceType l)),
     (''sourceId'', js_opt V_string (lq_sourceId l))]"

definition line_fits :: "line_request \<Rightarrow> bool" where
  "line_fits l \<longleftrightarrow> is_uuid_lower (lq_priceId l) \<and> 1 \<le> lq_quantity l \<and> lq_quantity l \<le> MAX_QUANTITY \<and>
     (lq_sourceType l = None \<longleftrightarrow> lq_sourceId l = None)"

lemma normalise_line_stable:
  assumes "normalise_line v = Inr l"
  shows "normalise_line (line_js l) = Inr l \<and> line_fits l"
proof -
  obtain o1 d st si where f: "v = V_object o1" "read_quantity (js_get o1 ''quantity'') = Some (lq_quantity l)"
    "read_description 140 (js_get o1 ''description'') = Some (lq_description l)"
    "js_absent (js_get o1 ''sourceType'') = js_absent (js_get o1 ''sourceId'')"
    "read_optional read_source_type (js_get o1 ''sourceType'') = Some (lq_sourceType l)"
    "read_optional (read_text 128) (js_get o1 ''sourceId'') = Some (lq_sourceId l)"
    "read_uuid (js_get o1 ''priceId'') = Some (lq_priceId l)"
    using assms by (cases v) (auto simp: normalise_line_def Let_def err_bind_Inr_iff)
  have st: "read_optional read_source_type (js_opt V_string (lq_sourceType l)) = Some (lq_sourceType l) \<and>
      (lq_sourceType l = None \<longleftrightarrow> js_absent (js_get o1 ''sourceType''))"
    using read_optional_Some [OF f(5), of V_string "\<lambda>_. True"] read_source_type_Some by (force simp: read_source_type_def js_absent_def)
  have si: "read_optional (read_text 128) (js_opt V_string (lq_sourceId l)) = Some (lq_sourceId l) \<and>
      (lq_sourceId l = None \<longleftrightarrow> js_absent (js_get o1 ''sourceId''))"
    using read_optional_Some [OF f(6), of V_string "\<lambda>_. True"] read_text_Some by (force simp: js_absent_def)
  show ?thesis
    using st si f(4) read_quantity_Some [OF f(2)] read_description_Some [OF f(3)] read_uuid_Some [OF f(7)]
    by (simp add: normalise_line_def line_js_def line_fits_def Let_def LINE_KEYS_def read_quantity_def read_or_def require_def)
qed

lemma normalise_lines_stable:
  "normalise_lines vs = Inr ls \<Longrightarrow> normalise_lines (map line_js ls) = Inr ls \<and> list_all line_fits ls \<and> length ls = length vs"
  by (induction vs arbitrary: ls) (auto simp: err_bind_Inr_iff normalise_line_stable)

lemma validatePartySnapshot_Some:
  "validatePartySnapshot num v = Some s \<Longrightarrow> v = V_object s"
  by (cases v) (auto simp: validatePartySnapshot_def split: js_value.splits js_number.splits if_splits)

definition request_js :: "invoice_request \<Rightarrow> js_value" where
  "request_js r = V_object [(''invoiceRequestId'', V_string (iq_invoiceRequestId r)), (''seller'', party_js (iq_seller r)),
     (''payer'', party_js (iq_payer r)), (''organizationId'', js_opt V_string (iq_organizationId r)),
     (''sourceType'', V_string (iq_sourceType r)), (''sourceId'', V_string (iq_sourceId r)),
     (''description'', js_opt V_string (iq_description r)), (''dueAt'', js_opt (\<lambda>d. V_date (Some d)) (iq_dueAt r)),
     (''issuerSnapshot'', V_object (iq_issuerSnapshot r)), (''billToSnapshot'', V_object (iq_billToSnapshot r)),
     (''lines'', V_array (map line_js (iq_lines r)))]"

definition request_fits :: "invoice_request \<Rightarrow> bool" where
  "request_fits r \<longleftrightarrow> is_uuid_lower (iq_invoiceRequestId r) \<and> party_fits (iq_seller r) \<and> party_fits (iq_payer r) \<and>
     (\<forall>g. iq_organizationId r = Some g \<longrightarrow> is_uuid_lower g) \<and>
     (bp_type (iq_seller r) = ''organization'' \<longrightarrow> iq_organizationId r = Some (bp_id (iq_seller r))) \<and>
     is_source_type (iq_sourceType r) \<and> 1 \<le> length (iq_lines r) \<and> length (iq_lines r) \<le> MAX_LINES \<and>
     list_all line_fits (iq_lines r)"

lemma normalise_seller_Inr:
  assumes "normalise_seller s0 org0 = Inr (s, org)" and "party_fits s0" and "\<And>g. org0 = Some g \<Longrightarrow> is_uuid_lower g"
  shows "party_fits s \<and> (bp_type s = ''organization'' \<longrightarrow> org = Some (bp_id s)) \<and> (\<forall>g. org = Some g \<longrightarrow> is_uuid_lower g) \<and>
     normalise_seller s org = Inr (s, org)"
proof (cases "bp_type s0 = ''organization''")
  case True
  then obtain i where i: "read_uuid (V_string (bp_id s0)) = Some i" "s = s0\<lparr>bp_id := i\<rparr>" "org = Some i"
    using assms(1) by (auto simp: normalise_seller_def err_bind_Inr_iff billingError_def split: if_splits)
  have "length i = length (bp_id s0)" using i(1) by (auto simp: read_uuid_def split: if_splits)
  then show ?thesis using True i read_uuid_Some [OF i(1)] assms(2)
    by (simp add: normalise_seller_def party_fits_def read_or_def)
next
  case False
  then show ?thesis using assms by (auto simp: normalise_seller_def)
qed

lemma normalise_fields:
  assumes "normaliseCreateInvoiceInput parse num v = Inr r"
  obtains raw seller0 org0 vs where "v = V_object raw"
    "read_uuid (js_get raw ''invoiceRequestId'') = Some (iq_invoiceRequestId r)" "read_party (js_get raw ''seller'') = Some seller0"
    "read_party (js_get raw ''payer'') = Some (iq_payer r)" "\<not> (bp_type seller0 = bp_type (iq_payer r) \<and> bp_id seller0 = bp_id (iq_payer r))"
    "read_optional read_uuid (js_get raw ''organizationId'') = Some org0"
    "normalise_seller seller0 org0 = Inr (iq_seller r, iq_organizationId r)"
    "read_source_type (js_get raw ''sourceType'') = Some (iq_sourceType r)" "read_text 128 (js_get raw ''sourceId'') = Some (iq_sourceId r)"
    "read_description 140 (js_get raw ''description'') = Some (iq_description r)"
    "read_optional (read_due parse) (js_get raw ''dueAt'') = Some (iq_dueAt r)"
    "validatePartySnapshot num (js_get raw ''issuerSnapshot'') = Some (iq_issuerSnapshot r)"
    "validatePartySnapshot num (js_get raw ''billToSnapshot'') = Some (iq_billToSnapshot r)"
    "read_lines (js_get raw ''lines'') = Some vs" "normalise_lines vs = Inr (iq_lines r)"
proof -
  obtain raw where raw: "v = V_object raw" using assms by (cases v) (auto simp: normaliseCreateInvoiceInput_def Let_def err_bind_Inr_iff)
  show thesis
    using assms unfolding raw normaliseCreateInvoiceInput_def Let_def err_bind_Inr_iff
    by (elim exE conjE) (auto simp: err_bind_Inr_iff intro: that [OF raw])
qed

text \<open>The canonical request passes again, when its parties still differ.\<close>

lemma normalise_rendered:
  assumes n: "normaliseCreateInvoiceInput parse num v = Inr r"
  shows "request_fits r" and "iq_seller r \<noteq> iq_payer r \<Longrightarrow> normaliseCreateInvoiceInput parse num (request_js r) = Inr r"
proof -
  obtain raw seller0 org0 vs where "v = V_object raw" and f: "read_uuid (js_get raw ''invoiceRequestId'') = Some (iq_invoiceRequestId r)"
    "read_party (js_get raw ''seller'') = Some seller0" "read_party (js_get raw ''payer'') = Some (iq_payer r)"
    and "\<not> (bp_type seller0 = bp_type (iq_payer r) \<and> bp_id seller0 = bp_id (iq_payer r))"
    and f': "read_optional read_uuid (js_get raw ''organizationId'') = Some org0"
    "normalise_seller seller0 org0 = Inr (iq_seller r, iq_organizationId r)"
    "read_source_type (js_get raw ''sourceType'') = Some (iq_sourceType r)" "read_text 128 (js_get raw ''sourceId'') = Some (iq_sourceId r)"
    "read_description 140 (js_get raw ''description'') = Some (iq_description r)"
    and "read_optional (read_due parse) (js_get raw ''dueAt'') = Some (iq_dueAt r)"
    and f'': "validatePartySnapshot num (js_get raw ''issuerSnapshot'') = Some (iq_issuerSnapshot r)"
    "validatePartySnapshot num (js_get raw ''billToSnapshot'') = Some (iq_billToSnapshot r)"
    "read_lines (js_get raw ''lines'') = Some vs" "normalise_lines vs = Inr (iq_lines r)"
    by (rule normalise_fields [OF n])
  note f = f f' f''
  have org0: "is_uuid_lower g" if "org0 = Some g" for g
    using f(4) that read_uuid_Some by (auto simp: read_optional_def split: if_splits)
  note seller = normalise_seller_Inr [OF f(5) read_party_Some [OF f(2)] org0]
  have org: "read_optional read_uuid (js_opt V_string (iq_organizationId r)) = Some (iq_organizationId r)"
    using seller by (cases "iq_organizationId r") (auto simp: read_optional_def js_absent_def read_uuid_def is_uuid_def uuid_lower_id)
  have due: "read_optional (read_due parse) (js_opt (\<lambda>d. V_date (Some d)) (iq_dueAt r)) = Some (iq_dueAt r)"
    by (cases "iq_dueAt r") (simp_all add: read_optional_def js_absent_def read_due_def)
  have lines: "read_lines (V_array (map line_js (iq_lines r))) = Some (map line_js (iq_lines r))"
    "1 \<le> length (iq_lines r)" "length (iq_lines r) \<le> MAX_LINES"
    using f(11) normalise_lines_stable [OF f(12)] by (auto simp: read_lines_def split: js_value.splits if_splits)
  show "request_fits r"
    using seller f lines normalise_lines_stable [OF f(12)] read_uuid_Some [OF f(1)] read_party_Some [OF f(3)] read_source_type_Some [OF f(6)]
    by (simp add: request_fits_def)
  assume "iq_seller r \<noteq> iq_payer r"
  then have "\<not> (bp_type (iq_seller r) = bp_type (iq_payer r) \<and> bp_id (iq_seller r) = bp_id (iq_payer r))"
    by (auto simp: bparty.equality)
  moreover have "read_party (party_js (iq_seller r)) = Some (iq_seller r)" "read_party (party_js (iq_payer r)) = Some (iq_payer r)"
    using seller read_party_Some [OF f(3)] by (simp_all add: read_party_iff_fits)
  ultimately show "normaliseCreateInvoiceInput parse num (request_js r) = Inr r"
    using seller org due lines(1) read_uuid_Some [OF f(1)] read_source_type_Some [OF f(6)] read_text_Some [OF f(7)] f(6,7)
      read_description_Some [OF f(8)] validatePartySnapshot_Some [OF f(9)] validatePartySnapshot_Some [OF f(10)] f(9,10)
      normalise_lines_stable [OF f(12)]
    by (simp add: normaliseCreateInvoiceInput_def request_js_def Let_def INVOICE_KEYS_def read_or_def require_def)
qed


definition demo_uuid :: string where "demo_uuid = ''00000000-0000-4000-8000-00000000000a''"
definition demo_uuid_upper :: string where "demo_uuid_upper = ''00000000-0000-4000-8000-00000000000A''"

definition demo_snapshot :: js_value where
  "demo_snapshot = V_object [(''schemaVersion'', V_number (JInt 2)), (''partyType'', V_string ''company'')]"

definition demo_invoice_js :: "string \<Rightarrow> string \<Rightarrow> js_value" where
  "demo_invoice_js seller_id payer_id = V_object [(''invoiceRequestId'', V_string demo_uuid_upper),
     (''seller'', V_object [(''type'', V_string ''organization''), (''id'', V_string seller_id)]),
     (''payer'', V_object [(''type'', V_string ''organization''), (''id'', V_string payer_id)]),
     (''sourceType'', V_string ''order''), (''sourceId'', V_string ''o1''), (''issuerSnapshot'', demo_snapshot), (''billToSnapshot'', demo_snapshot),
     (''lines'', V_array [V_object [(''priceId'', V_string demo_uuid), (''quantity'', V_number (JInt 3))]])]"

definition demo_request_of :: "string \<Rightarrow> string \<Rightarrow> invoice_request" where
  "demo_request_of seller_id payer_id = (case normaliseCreateInvoiceInput (\<lambda>_. None) (\<lambda>_. 1) (demo_invoice_js seller_id payer_id) of
     Inr r \<Rightarrow> r | Inl _ \<Rightarrow> undefined)"

lemma demo_invoice_accepted:
  "normaliseCreateInvoiceInput (\<lambda>_. None) (\<lambda>_. 1) (demo_invoice_js demo_uuid_upper ''o'')
   = Inr (demo_request_of demo_uuid_upper ''o'')"
  by code_simp


text \<open>The exception is real: an organization that sells to itself passes when the payer names it in the canonical form
  and the seller does not; the database CHECK then refuses the row.\<close>

lemma self_sale_passes:
  "\<exists>r. normaliseCreateInvoiceInput (\<lambda>_. None) (\<lambda>_. 1) (demo_invoice_js demo_uuid_upper demo_uuid) = Inr r \<and>
     iq_seller r = iq_payer r"
proof -
  have "(case normaliseCreateInvoiceInput (\<lambda>_. None) (\<lambda>_. 1) (demo_invoice_js demo_uuid_upper demo_uuid) of
      Inl _ \<Rightarrow> False | Inr r \<Rightarrow> iq_seller r = iq_payer r)"
    by code_simp
  then show ?thesis by (auto split: sum.splits)
qed

end
