(* ===== verification/BillingContract.thy ===== *)
theory BillingContract
  imports BillingInput PaymentRequests
begin

text \<open>
  Properties of the billing decisions, alone and against the payment service: when a Payment event is
  applied, that what Billing routes is what Payment accepts, and that the event Payment publishes for a
  payment made from Billing's request is one that Billing applies.
\<close>

section \<open>The tables\<close>

text \<open>C23: every status table of the billing code allows exactly the moves of its database trigger: invoices and
  payment requests may only move along it or stay, a subscription may stay only while it is active; a paid
  or void invoice and a closed payment request never move again.\<close>

theorem billing_tables_are_the_triggers:
  "(invoice_trigger_moves a b \<longleftrightarrow> b = a \<or> canTransitionInvoice a b) \<and>
   (request_trigger_moves r q \<longleftrightarrow> q = r \<or> canTransitionPaymentRequest r q) \<and>
   (subscription_trigger_moves s t \<longleftrightarrow> canTransitionSubscription s t) \<and>
   (isTerminalInvoiceStatus a \<longleftrightarrow> a = I_paid \<or> a = I_void) \<and>
   (isTerminalPaymentRequestStatus r \<longleftrightarrow> r \<notin> set ACTIVE_PAYMENT_REQUEST_STATUSES) \<and>
   \<not> (isTerminalInvoiceStatus a \<and> canTransitionInvoice a b) \<and>
   \<not> (isTerminalPaymentRequestStatus r \<and> canTransitionPaymentRequest r q)"
proof -
  have "invoice_trigger_moves a b \<longleftrightarrow> b = a \<or> canTransitionInvoice a b"
    by (cases a; cases b) (simp_all add: invoice_trigger_moves_def canTransitionInvoice_def)
  moreover have "request_trigger_moves r q \<longleftrightarrow> q = r \<or> canTransitionPaymentRequest r q"
    by (cases r; cases q) (simp_all add: request_trigger_moves_def canTransitionPaymentRequest_def)
  moreover have "subscription_trigger_moves s t \<longleftrightarrow> canTransitionSubscription s t"
    by (cases s; cases t) (simp_all add: subscription_trigger_moves_def canTransitionSubscription_def)
  moreover have "isTerminalInvoiceStatus a \<longleftrightarrow> a = I_paid \<or> a = I_void"
    by (cases a) (simp_all add: isTerminalInvoiceStatus_def)
  moreover have "isTerminalPaymentRequestStatus r \<longleftrightarrow> r \<notin> set ACTIVE_PAYMENT_REQUEST_STATUSES"
    by (cases r) (simp_all add: isTerminalPaymentRequestStatus_def ACTIVE_PAYMENT_REQUEST_STATUSES_def)
  ultimately show ?thesis
    using invoice_moves.terminal_stuck [of a b] request_moves.terminal_stuck [of r q]
    by (simp add: canTransitionInvoice_def canTransitionPaymentRequest_def invoice_moves.can_move_def request_moves.can_move_def)
      blast
qed

section \<open>The decision\<close>

definition event_fits :: "event_facts \<Rightarrow> request_facts \<Rightarrow> invoice_facts \<Rightarrow> bool \<Rightarrow> bool" where
  "event_fits e r i requireLive \<longleftrightarrow>
     (requireLive \<longrightarrow> ev_liveMode e = Some True) \<and> rf_paymentId r = Some (ev_paymentId e) \<and>
     ev_source e = ''payment-service'' \<and> ev_producer e = EXPECTED_PRODUCER \<and>
     ev_amount e = Some (JInt (rf_amount r)) \<and> 1 \<le> rf_amount r \<and> rf_amount r \<le> max_safe_integer \<and>
     ev_currency e = rf_currency r \<and> snapshot_matches e i \<and> mapping_matches e r i"

lemma valid_amount_Some: "valid_amount x = Some n \<longleftrightarrow> x = Some (JInt n) \<and> 1 \<le> n \<and> n \<le> max_safe_integer"
  by (cases x rule: valid_amount.cases) auto

lemma decide_fits:
  assumes "event_fits e r i live"
  shows "decidePaymentEvent e (Some r) (Some i) live =
     (let target = event_target (ev_name e) in
      if rf_status r = target then Ignored_already_applied
      else if rf_status r \<noteq> R_requested then Conflict Request_already_terminal
      else if target = R_paid then (if if_status i \<noteq> I_open then Conflict Invoice_not_open else Applied R_paid (Some I_paid))
      else Applied target None)"
proof -
  have "valid_amount (ev_amount e) = Some (rf_amount r)"
    using assms unfolding valid_amount_Some event_fits_def by blast
  then show ?thesis using assms by (auto simp: decidePaymentEvent_def event_fits_def)
qed

lemma decide_applied_fits:
  "decidePaymentEvent e (Some r) (Some i) live = Applied x y \<Longrightarrow> event_fits e r i live"
  by (auto simp: decidePaymentEvent_def event_fits_def valid_amount_Some split: if_splits option.splits)

text \<open>C24: a Payment event is applied to a request exactly when it fits it in every field (bound payment id, source,
  producer, amount, currency, parties, organization, purpose, and live mode where required), the request is
  waiting, and, for a success, the invoice is open; then it moves the request along its table and pays the
  invoice exactly for a success; the same event on the request it has moved is ignored.\<close>

theorem event_applies_exactly:
  "((\<exists>x y. decidePaymentEvent e (Some r) (Some i) live = Applied x y) \<longleftrightarrow>
      event_fits e r i live \<and> rf_status r = R_requested \<and> (ev_name e = Ev_succeeded \<longrightarrow> if_status i = I_open)) \<and>
   (\<forall>x y. decidePaymentEvent e (Some r) (Some i) live = Applied x y \<longrightarrow>
      x = event_target (ev_name e) \<and> canTransitionPaymentRequest (rf_status r) x \<and>
      (y = Some I_paid \<longleftrightarrow> ev_name e = Ev_succeeded) \<and>
      decidePaymentEvent e (Some (r\<lparr>rf_status := x\<rparr>)) (Some i) live = Ignored_already_applied)"
proof -
  have applied: "rf_status r = R_requested \<and> (ev_name e = Ev_succeeded \<longrightarrow> if_status i = I_open) \<and>
      x = event_target (ev_name e) \<and> (y = Some I_paid \<longleftrightarrow> ev_name e = Ev_succeeded)"
    if a: "decidePaymentEvent e (Some r) (Some i) live = Applied x y" for x y
    using a decide_fits [OF decide_applied_fits [OF a]] by (cases "ev_name e") (auto simp: Let_def split: if_splits)
  have again: "decidePaymentEvent e (Some (r\<lparr>rf_status := event_target (ev_name e)\<rparr>)) (Some i) live = Ignored_already_applied"
    if "event_fits e r i live"
  proof -
    have "event_fits e (r\<lparr>rf_status := event_target (ev_name e)\<rparr>) i live"
      using that by (simp add: event_fits_def mapping_matches_def)
    then show ?thesis by (simp add: decide_fits)
  qed
  have move: "canTransitionPaymentRequest R_requested (event_target n)" for n
    by (cases n) (simp_all add: canTransitionPaymentRequest_def)
  have "\<exists>x y. decidePaymentEvent e (Some r) (Some i) live = Applied x y"
    if "event_fits e r i live" "rf_status r = R_requested" "ev_name e = Ev_succeeded \<longrightarrow> if_status i = I_open"
    using that by (cases "ev_name e") (simp_all add: decide_fits)
  then show ?thesis using applied again move decide_applied_fits by metis
qed

definition demo_event :: event_facts where
  "demo_event = \<lparr>ev_name = Ev_succeeded, ev_source = ''payment-service'', ev_paymentId = ''p1'', ev_producer = ''billing-service'',
     ev_paymentRequestId = ''r1'', ev_sourceType = ''invoice'', ev_sourceId = ''i1'', ev_payer = \<lparr>bp_type = ''user'', bp_id = ''u1''\<rparr>,
     ev_seller = \<lparr>bp_type = ''company'', bp_id = ''c1''\<rparr>, ev_organizationId = None, ev_amount = Some (JInt 500), ev_currency = ''TND'',
     ev_revision = 2, ev_purpose = Some ''non_entitlement'', ev_beneficiaryUserId = None, ev_liveMode = Some False\<rparr>"

definition demo_request :: request_facts where
  "demo_request = \<lparr>rf_status = R_requested, rf_paymentId = Some ''p1'', rf_amount = 500, rf_currency = ''TND'', rf_mappingVersion = Some 2\<rparr>"

definition demo_invoice :: invoice_facts where
  "demo_invoice = \<lparr>if_id = ''i1'', if_status = I_open, if_payerType = ''user'', if_payerId = ''u1'', if_sellerType = ''company'',
     if_sellerId = ''c1'', if_organizationId = None, if_currency = ''TND'', if_total = 500, if_purpose = Some ''non_entitlement'',
     if_beneficiaryUserId = None\<rparr>"

lemma demo_decision: "decidePaymentEvent demo_event (Some demo_request) (Some demo_invoice) False = Applied R_paid (Some I_paid)"
  by code_simp

theorem event_applies_exactly_witness:
  "decidePaymentEvent demo_event (Some (demo_request\<lparr>rf_status := R_paid\<rparr>)) (Some demo_invoice) False = Ignored_already_applied"
  using event_applies_exactly [of demo_event demo_request demo_invoice False] demo_decision by blast

section \<open>Routing and Payment's rules\<close>

lemma routed_line:
  assumes "route_line ri l = Inr ro" and "rl_target l \<noteq> Target_none"
  shows "assertPurposePairing (purpose_text (ro_purpose ro)) \<lparr>party_type = ri_payerType ri, party_id = ri_payerId ri\<rparr>
           (ro_beneficiaryUserId ro) = Inr () \<and> ro_target ro = rl_target l \<and> ro_productId ro = Some (rl_productId l) \<and>
         (ri_payerType ri = ''organization'' \<longrightarrow> ri_organizationId ri = Some (ri_payerId ri))"
  using assms
  by (cases "rl_target l")
    (auto simp: route_line_def assertPurposePairing_def ORGANIZATION_PAYER_PURPOSES_def purpose_text_def Let_def
      split: if_splits option.splits)

text \<open>C25: every invoice Billing routes satisfies Payment's rules: its purpose is one Payment accepts and fits the
  payer and beneficiary, it has at most one subscription line, whose product the routing names, and an
  Organization pays only an assisted or a recovery settlement, as itself.\<close>

theorem routing_fits_payment:
  assumes "decideRouting ri = Inr ro"
  shows "purpose_text (ro_purpose ro) \<in> set ACCEPTED_PURPOSES \<and>
         assertPurposePairing (purpose_text (ro_purpose ro)) \<lparr>party_type = ri_payerType ri, party_id = ri_payerId ri\<rparr>
           (ro_beneficiaryUserId ro) = Inr () \<and>
         length (subscription_lines ri) \<le> 1 \<and> (ro_target ro \<noteq> Target_none \<longleftrightarrow> ro_productId ro \<noteq> None) \<and>
         (ri_payerType ri = ''organization'' \<longrightarrow> ro_purpose ro \<in> {Assisted_settlement, Recovery_settlement} \<and>
            ri_organizationId ri = Some (ri_payerId ri))"
proof -
  have acc: "purpose_text q \<in> set ACCEPTED_PURPOSES" for q
    by (cases q) (simp_all add: purpose_text_def ACCEPTED_PURPOSES_def)
  have pays: "ri_payerType ri = ''organization'' \<longrightarrow> ro_purpose ro \<in> {Assisted_settlement, Recovery_settlement}"
    if "assertPurposePairing (purpose_text (ro_purpose ro)) \<lparr>party_type = ri_payerType ri, party_id = ri_payerId ri\<rparr> (ro_beneficiaryUserId ro) = Inr ()"
    using that by (cases "ro_purpose ro")
      (auto simp: assertPurposePairing_def purpose_text_def ORGANIZATION_PAYER_PURPOSES_def Let_def split: if_splits)
  show ?thesis
  proof (cases "ri_recovery ri")
    case (Some r)
    then show ?thesis using assms acc
      by (auto simp: decideRouting_def route_recovery_def assertPurposePairing_def purpose_text_def ORGANIZATION_PAYER_PURPOSES_def
          ACCEPTED_PURPOSES_def split: if_splits)
  next
    case None
    show ?thesis
    proof (cases "subscription_lines ri")
      case Nil
      then show ?thesis using assms None acc
        by (auto simp: decideRouting_def assertPurposePairing_def purpose_text_def ORGANIZATION_PAYER_PURPOSES_def
            ACCEPTED_PURPOSES_def split: if_splits)
    next
      case (Cons l rest)
      then have r: "rest = []" "route_line ri l = Inr ro" using assms None by (auto simp: decideRouting_def split: list.splits)
      have "l \<in> set (subscription_lines ri)" using Cons by simp
      then have t: "rl_target l \<noteq> Target_none" by (simp add: subscription_lines_def)
      show ?thesis using routed_line [OF r(2) t] pays acc t r(1) Cons by auto
    qed
  qed
qed

definition demo_routing_input :: routing_input where
  "demo_routing_input = \<lparr>ri_payerType = ''user'', ri_payerId = ''u1'', ri_organizationId = None,
     ri_lines = [\<lparr>rl_productId = ''pr1'', rl_target = Target_personal, rl_platformId = Some ''pf''\<rparr>], ri_assistance = None, ri_recovery = None\<rparr>"

definition demo_routing :: routing where
  "demo_routing = \<lparr>ro_purpose = Direct_purchase, ro_target = Target_personal, ro_beneficiaryUserId = Some ''u1'', ro_organizationId = None,
     ro_productId = Some ''pr1'', ro_platformId = Some ''pf'', ro_assistanceRequestId = None, ro_recoveryObligationId = None\<rparr>"

lemma demo_routed: "decideRouting demo_routing_input = Inr demo_routing"
  by code_simp

theorem routing_fits_payment_witness:
  "assertPurposePairing ''direct_purchase'' \<lparr>party_type = ''user'', party_id = ''u1''\<rparr> (Some ''u1'') = Inr ()"
  using routing_fits_payment [OF demo_routed] by (simp add: demo_routing_def demo_routing_input_def purpose_text_def)

section \<open>The loop between the two services\<close>

text \<open>
  The body as Payment's controller receives it (the names are the same; an instant travels as its ISO
  text, \<open>iso_text\<close>) and the event Payment publishes as Billing's consumer reads it, \<open>uuid_text\<close> being the text of a uuid.
\<close>

definition party_of :: "bparty \<Rightarrow> party" where
  "party_of b = \<lparr>party_type = bp_type b, party_id = bp_id b\<rparr>"

definition body_dto :: "(instant \<Rightarrow> string) \<Rightarrow> payment_body \<Rightarrow> create_dto" where
  "body_dto iso_text b = \<lparr>dto_paymentRequestId = pbd_paymentRequestId b, dto_sourceType = pbd_sourceType b, dto_sourceId = pbd_sourceId b,
     dto_payer = party_of (pbd_payer b), dto_seller = party_of (pbd_seller b), dto_organizationId = pbd_organizationId b,
     dto_amount = (case pbd_amount b of JInt n \<Rightarrow> n | JNonInt \<Rightarrow> 0), dto_currency = pbd_currency b,
     dto_expiresAt = map_option iso_text (pbd_expiresAt b), dto_description = pbd_description b,
     dto_reference = Some (pbd_reference b), dto_purpose = pbd_purpose b, dto_beneficiaryUserId = pbd_beneficiaryUserId b\<rparr>"

definition event_of_payload :: "(uuid \<Rightarrow> string) \<Rightarrow> payment_event_name \<Rightarrow> payment_payload \<Rightarrow> event_facts" where
  "event_of_payload uuid_text n pl = \<lparr>ev_name = n, ev_source = ''payment-service'', ev_paymentId = uuid_text (pl_paymentId pl),
     ev_producer = pl_producer pl, ev_paymentRequestId = pl_paymentRequestId pl, ev_sourceType = pl_sourceType pl,
     ev_sourceId = pl_sourceId pl, ev_payer = \<lparr>bp_type = party_type (pl_payer pl), bp_id = party_id (pl_payer pl)\<rparr>,
     ev_seller = \<lparr>bp_type = party_type (pl_seller pl), bp_id = party_id (pl_seller pl)\<rparr>,
     ev_organizationId = pl_organizationId pl, ev_amount = Some (JInt (pl_amount pl)), ev_currency = pl_currency pl,
     ev_revision = int (pl_revision pl), ev_purpose = pl_purpose pl, ev_beneficiaryUserId = pl_beneficiaryUserId pl,
     ev_liveMode = pl_liveMode pl\<rparr>"

lemma normalized_identity:
  assumes ok: "mapping_ok bill req" and body: "buildPaymentRequestBody bill req v = Some b"
    and payer_org: "im_payerType bill = ''organization'' \<longrightarrow> im_organizationId bill = Some (im_payerId bill)"
    and n: "normalize_organization (body_dto iso_text b) = Inr (seller, org0)" "normalize_payer (body_dto iso_text b) org0 = Inr (payer, org)"
  shows "seller = \<lparr>party_type = im_sellerType bill, party_id = im_sellerId bill\<rparr> \<and>
         payer = \<lparr>party_type = im_payerType bill, party_id = im_payerId bill\<rparr> \<and> org = im_organizationId bill"
proof -
  have d: "dto_seller (body_dto iso_text b) = \<lparr>party_type = im_sellerType bill, party_id = im_sellerId bill\<rparr>"
    "dto_payer (body_dto iso_text b) = \<lparr>party_type = im_payerType bill, party_id = im_payerId bill\<rparr>"
    "dto_organizationId (body_dto iso_text b) = im_organizationId bill"
    using body by (auto simp: buildPaymentRequestBody_def body_dto_def party_of_def split: if_splits sum.splits)
  have low: "to_lower g = g \<and> g \<noteq> ''''" if "im_organizationId bill = Some g" for g
  proof -
    have "is_uuid_lower g" using ok that by (simp add: mapping_ok_def)
    then show ?thesis using uuid_lower_id by (auto simp: is_uuid_lower_def)
  qed
  have org: "map_option to_lower (truthy (im_organizationId bill)) = im_organizationId bill"
    using low by (cases "im_organizationId bill") (auto simp: truthy_def)
  have sl: "to_lower (im_sellerId bill) = im_sellerId bill \<and> im_organizationId bill = Some (im_sellerId bill)"
    if "im_sellerType bill = ''organization''"
    using ok that uuid_lower_id by (simp add: mapping_ok_def)
  have pl: "to_lower (im_payerId bill) = im_payerId bill" if "im_payerType bill = ''organization''"
    using payer_org that low by simp
  have s: "seller = \<lparr>party_type = im_sellerType bill, party_id = im_sellerId bill\<rparr> \<and> org0 = im_organizationId bill"
    using n(1) sl by (auto simp: normalize_organization_def d org Let_def split: if_splits)
  have "payer = \<lparr>party_type = im_payerType bill, party_id = im_payerId bill\<rparr> \<and> org = im_organizationId bill"
    using n(2) pl payer_org s by (auto simp: normalize_payer_def d Let_def split: if_splits)
  with s show ?thesis by blast
qed

lemma terms_fields:
  assumes "terms q = terms p"
  shows "pay_id q = pay_id p" "pay_producer q = pay_producer p" "pay_paymentRequestId q = pay_paymentRequestId p"
    "pay_sourceType q = pay_sourceType p" "pay_sourceId q = pay_sourceId p" "pay_payerType q = pay_payerType p"
    "pay_payerId q = pay_payerId p" "pay_sellerType q = pay_sellerType p" "pay_sellerId q = pay_sellerId p"
    "pay_organizationId q = pay_organizationId p" "pay_amount q = pay_amount p" "pay_currency q = pay_currency p"
    "pay_purpose q = pay_purpose p" "pay_beneficiaryUserId q = pay_beneficiaryUserId p"
  using assms by (cases p; cases q; simp add: terms_def)+

text \<open>C26: the loop closes: when Billing's request (mapping version 2) made a payment at Payment, whatever outcome
  event Payment publishes for that payment at any later time is one that Billing applies to that request while
  it waits with that payment's id and its invoice is open: Payment never normalises, rounds or loses a field in a
  way that would make Billing refuse its own payment.\<close>

theorem settlement_loop_closes:
  assumes body: "buildPaymentRequestBody bill req 2 = Some b"
    and payer_org: "im_payerType bill = ''organization'' \<longrightarrow> im_organizationId bill = Some (im_payerId bill)"
    and made: "create_payment cfg env others EXPECTED_PRODUCER (body_dto iso_text b) db = (Inr (p, False), db1)"
    and run: "reachable cfg env db" "others_run cfg env others" "reaches (pay_step cfg env) db1 db2"
    and later: "find_payment (pay_id p) db2 = Some q"
  shows "decidePaymentEvent (event_of_payload uuid_text n (paymentEvent q ctx extra))
           (Some \<lparr>rf_status = R_requested, rf_paymentId = Some (uuid_text (pay_id p)), rf_amount = rm_amount req,
                  rf_currency = im_currency bill, rf_mappingVersion = Some 2\<rparr>)
           (Some \<lparr>if_id = im_id bill, if_status = I_open, if_payerType = im_payerType bill, if_payerId = im_payerId bill,
                  if_sellerType = im_sellerType bill, if_sellerId = im_sellerId bill, if_organizationId = im_organizationId bill,
                  if_currency = im_currency bill, if_total = rm_amount req, if_purpose = im_purpose bill,
                  if_beneficiaryUserId = im_beneficiaryUserId bill\<rparr>) False
         = Applied (event_target n) (if n = Ev_succeeded then Some I_paid else None)"
proof -
  have ok: "mapping_ok bill req" and bd: "pbd_paymentRequestId b = rm_id req" "pbd_sourceType b = ''invoice''" "pbd_sourceId b = im_id bill"
    "pbd_amount b = JInt (rm_amount req)" "pbd_currency b = im_currency bill" "pbd_purpose b = im_purpose bill"
    "pbd_beneficiaryUserId b = im_beneficiaryUserId bill"
    using body by (auto simp: buildPaymentRequestBody_def toJsonAmount_def split: if_splits)
  obtain payer seller org expires purpose where
    plan: "create_prepare cfg env EXPECTED_PRODUCER (body_dto iso_text b) db = Inr (Insert_plan payer seller org expires purpose)"
    and tx: "create_tx EXPECTED_PRODUCER (body_dto iso_text b) payer seller org expires purpose (others db) = Inr ((p, False), db1)"
    using create_payment_new [OF made] by blast
  obtain org0 where no: "normalize_organization (body_dto iso_text b) = Inr (seller, org0)" "dto_purpose (body_dto iso_text b) = Some purpose"
    and w: "plan_with_purpose cfg env EXPECTED_PRODUCER (body_dto iso_text b) seller org0 expires purpose db = Inr (Insert_plan payer seller org expires purpose)"
    using prepare_plan [OF plan] by blast
  have np: "normalize_payer (body_dto iso_text b) org0 = Inr (payer, org)"
    using w by (auto simp: plan_with_purpose_def err_bind_Inr_iff split: if_splits option.splits)
  note id = normalized_identity [OF ok body payer_org no(1) np]
  note p = create_tx_new [OF tx, THEN conjunct1]
  have r1: "reachable cfg env db1"
    using run(1) create_payment_run [OF run(2), of db EXPECTED_PRODUCER "body_dto iso_text b"] made
    unfolding reachable_def by (auto intro: reaches_trans)
  have "keys_ok db1" using reachable_pinv [OF r1] by (simp add: pinv_def)
  then have f1: "find_payment (pay_id p) db1 = Some p"
    using find_payment_in [of db1 p] create_tx_new [OF tx] by simp
  have "evolves db1 db2" using run(3) by (rule reaches_evolves)
  with f1 later have t: "terms q = terms p" unfolding evolves_def by fastforce
  note tf = terms_fields [OF t]
  have amount: "1 \<le> rm_amount req" "rm_amount req \<le> max_safe_integer"
    using ok by (simp_all add: mapping_ok_def MAX_MINOR_UNITS_def max_safe_integer_def)
  have pf: "pay_producer p = EXPECTED_PRODUCER" "pay_sourceType p = ''invoice''" "pay_sourceId p = im_id bill"
    "pay_payerType p = im_payerType bill" "pay_payerId p = im_payerId bill" "pay_sellerType p = im_sellerType bill"
    "pay_sellerId p = im_sellerId bill" "pay_organizationId p = im_organizationId bill" "pay_amount p = rm_amount req"
    "pay_currency p = im_currency bill" "pay_purpose p = im_purpose bill" "pay_beneficiaryUserId p = im_beneficiaryUserId bill"
    using id no(2) unfolding p by (auto simp: new_payment_def body_dto_def bd)
  let ?e = "event_of_payload uuid_text n (paymentEvent q ctx extra)"
  let ?r = "\<lparr>rf_status = R_requested, rf_paymentId = Some (uuid_text (pay_id p)), rf_amount = rm_amount req,
                  rf_currency = im_currency bill, rf_mappingVersion = Some 2\<rparr>"
  let ?i = "\<lparr>if_id = im_id bill, if_status = I_open, if_payerType = im_payerType bill, if_payerId = im_payerId bill,
                  if_sellerType = im_sellerType bill, if_sellerId = im_sellerId bill, if_organizationId = im_organizationId bill,
                  if_currency = im_currency bill, if_total = rm_amount req, if_purpose = im_purpose bill,
                  if_beneficiaryUserId = im_beneficiaryUserId bill\<rparr>"
  have "event_fits ?e ?r ?i False"
    using amount by (simp add: event_fits_def event_of_payload_def paymentEvent_def snapshot_matches_def mapping_matches_def tf pf)
  then show ?thesis by (cases n) (simp_all add: decide_fits event_of_payload_def Let_def)
qed

definition demo_bill :: invoice_for_mapping where
  "demo_bill = \<lparr>im_id = ''i1'', im_number = Some ''INV-1'', im_payerType = ''user'', im_payerId = ''u1'', im_sellerType = ''company'',
     im_sellerId = ''c1'', im_organizationId = None, im_currency = ''TND'', im_description = None,
     im_purpose = Some ''non_entitlement'', im_beneficiaryUserId = None\<rparr>"

definition demo_bill_request :: request_for_mapping where
  "demo_bill_request = \<lparr>rm_id = ''r1'', rm_amount = 500, rm_expiresAt = Some 1000\<rparr>"

definition demo_bill_body :: payment_body where
  "demo_bill_body = the (buildPaymentRequestBody demo_bill demo_bill_request 2)"

definition demo_made :: "payment_row \<times> pdb" where
  "demo_made = (case create_payment demo_cfg demo_env (\<lambda>db. db) EXPECTED_PRODUCER (body_dto (\<lambda>_. ''soon'') demo_bill_body) (empty_pdb 0) of
     (Inr (p, _), db1) \<Rightarrow> (p, db1) | (_, db1) \<Rightarrow> (demo_pay P_created 0, db1))"

lemma demo_bill_body_built: "buildPaymentRequestBody demo_bill demo_bill_request 2 = Some demo_bill_body"
  by code_simp

lemma demo_bill_made: "create_payment demo_cfg demo_env (\<lambda>db. db) EXPECTED_PRODUCER (body_dto (\<lambda>_. ''soon'') demo_bill_body) (empty_pdb 0)
    = (Inr (fst demo_made, False), snd demo_made)"
  by code_simp

lemma demo_bill_found: "find_payment (pay_id (fst demo_made)) (snd demo_made) = Some (fst demo_made)"
  by code_simp

theorem settlement_loop_closes_witness:
  "\<exists>e i. decidePaymentEvent e (Some demo_request) (Some i) False = Applied R_paid (Some I_paid) \<and> ev_paymentId e = ''p1''"
proof -
  have "decidePaymentEvent (event_of_payload (\<lambda>_. ''p1'') Ev_succeeded (paymentEvent (fst demo_made) demo_sync No_extra))
          (Some demo_request) (Some demo_invoice) False = Applied (event_target Ev_succeeded) (Some I_paid)"
    using settlement_loop_closes [OF demo_bill_body_built _ demo_bill_made reachable_empty others_run_id reaches.here demo_bill_found,
        where n = Ev_succeeded and uuid_text = "\<lambda>_. ''p1''" and ctx = demo_sync and extra = No_extra]
    by (simp add: demo_bill_def demo_bill_request_def demo_request_def demo_invoice_def)
  then show ?thesis by (intro exI conjI) (auto simp: event_of_payload_def)
qed

end
