(* ===== verification/BillingModel.thy ===== *)
theory BillingModel
  imports BillingInput BillingPeriods
begin

text \<open>
  The database of the billing service (\<open>db/migrations\<close>): the rows of its tables, its state, the
  transactions of \<open>DbService.tx\<close> with the checks PostgreSQL defers to their COMMIT, and the transactional
  outbox with the audit evidence written to it (\<open>audit/billing-audit.ts\<close>, \<open>invoices/billing-events.ts\<close>).
  Ids are the strings of the code; an amount is the integer of its \<open>bigint\<close> column, and reaches the code
  as a decimal text through \<open>fromDbAmount\<close>.
\<close>

section \<open>Rows\<close>

text \<open>The catalogue (0002, 0010, 0019) and the projection of a platform (0023).\<close>

record product_row =
  pd_id :: string
  pd_producer :: string
  pd_seller :: bparty
  pd_code :: string
  pd_name :: string
  pd_entitlementKind :: string
  pd_active :: bool
  pd_platformId :: "string option"
  pd_target :: routing_target

record price_row =
  pc_id :: string
  pc_productId :: string
  pc_currency :: string
  pc_unitAmount :: int
  pc_interval :: price_interval
  pc_intervalUnit :: "string option"
  pc_intervalCount :: "int option"
  pc_effectiveFrom :: instant
  pc_retiredAt :: "instant option"

record platform_row =
  pf_platformId :: string
  pf_companyId :: string
  pf_currency :: string

text \<open>\<open>invoice\<close> (0003) without the constant \<open>taxTreatment\<close>, \<open>invoice_line\<close> (0004), \<open>invoice_entitlement\<close> (0020, 0030, 0039).\<close>

record invoice_row =
  bi_id :: string
  bi_producer :: string
  bi_invoiceRequestId :: string
  bi_requestHash :: string
  bi_seller :: bparty
  bi_payer :: bparty
  bi_organizationId :: "string option"
  bi_sourceType :: string
  bi_sourceId :: string
  bi_currency :: string
  bi_subtotal :: int
  bi_taxTotal :: int
  bi_total :: int
  bi_description :: "string option"
  bi_dueAt :: "instant option"
  bi_number :: "string option"
  bi_status :: invoice_status
  bi_revision :: nat
  bi_createdAt :: instant
  bi_issuedAt :: "instant option"
  bi_paidAt :: "instant option"
  bi_voidedAt :: "instant option"
  bi_overdueAt :: "instant option"
  bi_updatedAt :: instant
  bi_voidReasonCode :: "string option"
  bi_issuerSnapshot :: "(string \<times> js_value) list"
  bi_billToSnapshot :: "(string \<times> js_value) list"
  bi_presentation :: "presentation option"

record line_row =
  ln_id :: string
  ln_invoiceId :: string
  ln_currency :: string
  ln_lineNumber :: nat
  ln_priceId :: string
  ln_productId :: string
  ln_productCode :: string
  ln_description :: string
  ln_quantity :: int
  ln_unitAmount :: int
  ln_lineTotal :: int
  ln_taxAmount :: int
  ln_entitlementKind :: string
  ln_interval :: price_interval
  ln_intervalUnit :: "string option"
  ln_intervalCount :: "int option"
  ln_sourceType :: "string option"
  ln_sourceId :: "string option"

record routing_row =
  en_invoiceId :: string
  en_purpose :: routing_purpose
  en_target :: routing_target
  en_payer :: bparty
  en_beneficiaryUserId :: "string option"
  en_organizationId :: "string option"
  en_productId :: "string option"
  en_assistanceRequestId :: "string option"
  en_recoveryObligationId :: "string option"

text \<open>\<open>payment_request\<close> (0006, 0011), \<open>payment_event_receipt\<close> (0007; every writer names an event) and \<open>billing_transition\<close> (0008).\<close>

record bill_request =
  rq_id :: string
  rq_invoiceId :: string
  rq_amount :: int
  rq_currency :: string
  rq_status :: request_status
  rq_paymentId :: "string option"
  rq_expiresAt :: "instant option"
  rq_mappingVersion :: nat
  rq_sendAttempts :: nat
  rq_sendingSince :: "instant option"
  rq_cancelRequestedAt :: "instant option"
  rq_failureCode :: "string option"
  rq_createdByType :: bill_actor_type
  rq_createdById :: "string option"
  rq_correlationId :: "string option"
  rq_revision :: nat
  rq_createdAt :: instant
  rq_closedAt :: "instant option"
  rq_updatedAt :: instant

datatype receipt_outcome = O_applied | O_ignored | O_conflict | O_deferred

record receipt_row =
  rc_id :: string
  rc_eventId :: string
  rc_eventName :: payment_event_name
  rc_paymentRequestId :: string
  rc_paymentId :: "string option"
  rc_outcome :: receipt_outcome
  rc_detailCode :: "string option"
  rc_paymentRevision :: int

datatype entity = E_invoice | E_request | E_subscription
datatype entity_status = St_invoice invoice_status | St_request request_status | St_subscription subscription_status

record transition_row =
  tr_entity :: entity
  tr_entityId :: string
  tr_from :: "entity_status option"
  tr_to :: entity_status
  tr_revision :: nat
  tr_actorType :: bill_actor_type
  tr_actorId :: "string option"
  tr_cause :: bill_cause_type
  tr_causeId :: "string option"
  tr_correlationId :: "string option"

text \<open>\<open>subscription\<close> (0013, 0015) and \<open>subscription_settlement\<close> (0021).\<close>

record subscription_row =
  sb_id :: string
  sb_organizationId :: string
  sb_productId :: string
  sb_priceId :: string
  sb_status :: subscription_status
  sb_currentPeriodStart :: "instant option"
  sb_currentPeriodEnd :: "instant option"
  sb_graceUntil :: "instant option"
  sb_cancelAtPeriodEnd :: bool
  sb_effectiveTerminationAt :: "instant option"
  sb_billingAnchorAt :: "instant option"
  sb_revision :: nat
  sb_createdAt :: instant
  sb_updatedAt :: instant

record settlement_row =
  ss_id :: string
  ss_invoiceId :: string
  ss_organizationId :: string
  ss_productId :: string
  ss_subscriptionId :: string
  ss_paymentRequestId :: string
  ss_receiptId :: string
  ss_settledAt :: instant
  ss_transactionId :: nat

text \<open>
  \<open>personal_subscription\<close>, \<open>subscription_purchase\<close> (in the order of \<open>ledgerSeq\<close>) and
  \<open>subscription_purchase_reversal\<close> (0022, 0030, 0040, 0044). The rows whose evidence is a verified late success
  instead of a receipt (0044) are of the late settlement service.
\<close>

record personal_row =
  ps_id :: string
  ps_userId :: string
  ps_platformId :: string
  ps_productId :: string

record purchase_row =
  pu_id :: string
  pu_personalSubscriptionId :: string
  pu_invoiceId :: string
  pu_purpose :: routing_purpose
  pu_beneficiaryUserId :: string
  pu_productId :: string
  pu_priceId :: string
  pu_paymentRequestId :: string
  pu_receiptId :: string
  pu_settledAt :: instant
  pu_originalStart :: instant
  pu_originalEnd :: instant
  pu_transactionId :: nat
  pu_assistanceRequestId :: "string option"
  pu_appliedAt :: "instant option"

datatype reversal_cause = Refund_completion | Final_lost_chargeback

text \<open>
  What the application of a settlement reads and writes of organization assistance (0029, 0030, 0036,
  0043) and of recovery (0039, 0042): requests, channels, cash-return obligations (by the request they
  are of), late settlements; obligations, channels, payments, surpluses, losses and their adjustments.
\<close>

datatype assistance_status = AR_pending | AR_declined | AR_cash_collected | AR_settled | AR_returned

record assistance_row =
  ar_id :: string
  ar_beneficiaryRef :: string
  ar_organizationId :: string
  ar_productId :: string
  ar_status :: assistance_status

datatype channel_status = CH_open | CH_uncertain | CH_settled | CH_closed

record channel_row =
  ch_id :: string
  ch_assistanceRequestId :: string
  ch_invoiceId :: string
  ch_paymentRequestId :: "string option"
  ch_status :: channel_status
  ch_closedAt :: "instant option"

record late_settlement_row =
  lt_assistanceRequestId :: string
  lt_invoiceId :: string
  lt_paymentRequestId :: string
  lt_receiptId :: string
  lt_reason :: string
  lt_settledAt :: instant

record obligation_row =
  ob_id :: string
  ob_organizationId :: string
  ob_baseAmount :: int
  ob_currency :: string
  ob_recovered :: bool
  ob_recoveredAt :: "instant option"

record recovery_payment_row =
  rp_id :: string
  rp_obligationId :: string
  rp_invoiceId :: string
  rp_paymentRequestId :: string
  rp_receiptId :: string
  rp_amount :: int
  rp_currency :: string
  rp_principalAmount :: int
  rp_surplusAmount :: int

record surplus_row =
  su_id :: string
  su_recoveryPaymentId :: string
  su_obligationId :: string
  su_organizationId :: string
  su_amount :: int
  su_currency :: string

record loss_row =
  lo_id :: string
  lo_writeOffOf :: string
  lo_amount :: int
  lo_recordedAt :: instant

record adjustment_row =
  aj_lossId :: string
  aj_amount :: int
  aj_recoveryPaymentId :: string

text \<open>\<open>checkout_idempotency\<close> (0026).\<close>

record checkout_body =
  cb_invoiceId :: string
  cb_paymentRequestId :: string
  cb_paymentId :: "string option"
  cb_status :: request_status

record checkout_row =
  ck_buyerUserId :: string
  ck_key :: string
  ck_requestHash :: string
  ck_responseStatus :: nat
  ck_responseBody :: checkout_body

section \<open>Events\<close>

record created_line =
  cv_lineId :: string
  cv_lineNumber :: nat
  cv_productCode :: string
  cv_priceId :: string
  cv_quantity :: int
  cv_unitAmount :: js_number
  cv_lineTotal :: js_number
  cv_taxAmount :: js_number
  cv_entitlementKind :: string

record created_payload =
  ce_invoiceId :: string
  ce_invoiceNumber :: "string option"
  ce_sourceType :: string
  ce_sourceId :: string
  ce_organizationId :: "string option"
  ce_payer :: bparty
  ce_seller :: bparty
  ce_currency :: string
  ce_subtotal :: js_number
  ce_taxTotal :: js_number
  ce_total :: js_number
  ce_status :: invoice_status
  ce_revision :: nat
  ce_dueAt :: "instant option"
  ce_issuedAt :: "instant option"
  ce_ctx :: transition_ctx
  ce_lines :: "created_line list"

record audit_event =
  ae_action :: string
  ae_actorType :: bill_actor_type
  ae_actorId :: string
  ae_userKind :: "bill_user_kind option"
  ae_organizationId :: "string option"
  ae_resourceType :: string
  ae_resourceId :: string
  ae_changes :: "(string \<times> js_value) list"
  ae_causationId :: "string option"
  ae_correlationId :: "string option"

datatype bill_event = Invoice_created created_payload | Audit_event audit_event

section \<open>The database\<close>

text \<open>The checks PostgreSQL runs at COMMIT (DEFERRABLE INITIALLY DEFERRED), queued by the statement that fires them.\<close>

datatype deferred =
    Need_history entity string entity_status nat
  | Need_totals string
  | Need_routing string
  | Need_settlement string
  | Need_checkout string

record bill_db =
  b_now :: instant
  b_xid :: nat
  b_next :: nat
  b_deferred :: "deferred list"
  b_currencies :: "string list"
  b_products :: "product_row list"
  b_prices :: "price_row list"
  b_platforms :: "platform_row list"
  b_invoices :: "invoice_row list"
  b_lines :: "line_row list"
  b_counters :: "(bparty \<times> nat) list"
  b_routings :: "routing_row list"
  b_requests :: "bill_request list"
  b_receipts :: "receipt_row list"
  b_transitions :: "transition_row list"
  b_subscriptions :: "subscription_row list"
  b_settlements :: "settlement_row list"
  b_personals :: "personal_row list"
  b_purchases :: "purchase_row list"
  b_reversals :: "(string \<times> reversal_cause) list"
  b_assistance :: "assistance_row list"
  b_channels :: "channel_row list"
  b_cashReturns :: "string list"
  b_late :: "late_settlement_row list"
  b_obligations :: "obligation_row list"
  b_recoveryChannels :: "(string \<times> string) list"
  b_recoveryPayments :: "recovery_payment_row list"
  b_surpluses :: "surplus_row list"
  b_losses :: "loss_row list"
  b_adjustments :: "adjustment_row list"
  b_checkouts :: "checkout_row list"
  b_outbox :: "(string \<times> bill_event) list"

text \<open>
  The configuration and the functions of other libraries: \<open>gen_random_uuid\<close>, the uuid derived from the
  parts of an event id (SHA-1), the text of an instant, the digest of a canonical value (JSON text and SHA-256), the parser of instants, the bytes of a number, and of a
  value as \<open>jsonb\<close> text.
\<close>

record bill_cfg =
  bc_uuid :: "nat \<Rightarrow> string"
  bc_eventId :: "string list \<Rightarrow> string"
  bc_digest :: "js_value \<Rightarrow> string"
  bc_iso :: "instant \<Rightarrow> string"
  bc_jsonbBytes :: "js_value \<Rightarrow> nat"
  bc_parseInstant :: "string \<Rightarrow> instant option"
  bc_numberBytes :: "js_number \<Rightarrow> nat"
  bc_isProduction :: bool
  bc_supportedCurrencies :: "string list"

definition CHECKOUT_PRODUCER :: string where "CHECKOUT_PRODUCER = ''billing-checkout''"
definition ASSISTANCE_PRODUCER :: string where "ASSISTANCE_PRODUCER = ''billing-assistance''"
definition OWNER_CATALOG_PRODUCER :: string where "OWNER_CATALOG_PRODUCER = ''billing-owner''"
definition RECOVERY_PRODUCER :: string where "RECOVERY_PRODUCER = ''billing-recovery''"

section \<open>Transactions\<close>

type_synonym 'a btx = "(bill_error, bill_db, 'a) tx"

definition b_read :: "(bill_db \<Rightarrow> 'a) \<Rightarrow> 'a btx" where
  "b_read f s = Inr (f s, s)"

definition b_check :: "string \<Rightarrow> bool \<Rightarrow> bill_db \<Rightarrow> bill_error + bill_db" where
  "b_check name ok s = (if ok then Inr s else Inl (B_check name))"

text \<open>A new row id.\<close>

definition b_fresh :: "bill_cfg \<Rightarrow> string btx" where
  "b_fresh cfg s = Inr (bc_uuid cfg (b_next s), s\<lparr>b_next := b_next s + 1\<rparr>)"

text \<open>\<open>rows[0]!\<close> of a statement that returned no row is \<open>undefined\<close>, and reading from it throws.\<close>

definition b_the :: "'a option \<Rightarrow> 'a btx" where
  "b_the x = (case x of Some r \<Rightarrow> tx_return r | None \<Rightarrow> tx_throw (B_internal ''undefined''))"

text \<open>An amount as the code reads it: the decimal text of the column through \<open>fromDbAmount\<close>; a \<open>MoneyError\<close> is no answer of the service.\<close>

definition read_amount :: "int \<Rightarrow> bill_error + int" where
  "read_amount n = (case fromDbAmount (pg_decimal n) of Inl _ \<Rightarrow> Inl (B_internal ''money'') | Inr v \<Rightarrow> Inr v)"

definition json_amount :: "int \<Rightarrow> bill_error + js_number" where
  "json_amount n = err_bind (read_amount n) (\<lambda>v. case toJsonAmount v of Inl _ \<Rightarrow> Inl (B_internal ''money'') | Inr j \<Rightarrow> Inr j)"

fun each :: "('a \<Rightarrow> 'e + 'b) \<Rightarrow> 'a list \<Rightarrow> 'e + 'b list" where
  "each f [] = Inr []"
| "each f (x # xs) = err_bind (f x) (\<lambda>y. err_bind (each f xs) (\<lambda>ys. Inr (y # ys)))"

fun tx_each :: "('a \<Rightarrow> 'b btx) \<Rightarrow> 'a list \<Rightarrow> 'b list btx" where
  "tx_each f [] = tx_return []"
| "tx_each f (x # xs) = tx_bind (f x) (\<lambda>y. tx_bind (tx_each f xs) (\<lambda>ys. tx_return (y # ys)))"

section \<open>Reads\<close>

definition find_invoice :: "string \<Rightarrow> bill_db \<Rightarrow> invoice_row option" where
  "find_invoice i s = get_row bi_id i (b_invoices s)"

definition find_request :: "string \<Rightarrow> bill_db \<Rightarrow> bill_request option" where
  "find_request i s = get_row rq_id i (b_requests s)"

definition find_routing :: "string \<Rightarrow> bill_db \<Rightarrow> routing_row option" where
  "find_routing i s = get_row en_invoiceId i (b_routings s)"

definition find_subscription :: "string \<Rightarrow> bill_db \<Rightarrow> subscription_row option" where
  "find_subscription org s = get_row sb_organizationId org (b_subscriptions s)"

definition lines_of :: "string \<Rightarrow> bill_db \<Rightarrow> line_row list" where
  "lines_of i s = sort_key ln_lineNumber (filter (\<lambda>l. ln_invoiceId l = i) (b_lines s))"

text \<open>\<open>find_subscription\<close> is \<open>findByOrganization\<close>; the row under its lock is \<open>lock_subscription\<close>.\<close>

definition lock_subscription :: "string \<Rightarrow> subscription_row btx" where
  "lock_subscription org s = (case find_subscription org s of None \<Rightarrow> notFound | Some r \<Rightarrow> Inr (r, s))"

section \<open>The outbox\<close>

text \<open>\<open>enqueue\<close>: an id that is already there is left alone.\<close>

definition outbox_enqueue :: "string \<Rightarrow> bill_event \<Rightarrow> unit btx" where
  "outbox_enqueue i ev s = Inr ((), if i \<in> fst ` set (b_outbox s) then s else s\<lparr>b_outbox := b_outbox s @ [(i, ev)]\<rparr>)"

definition created_line_of :: "line_row \<Rightarrow> bill_error + created_line" where
  "created_line_of l =
     err_bind (json_amount (ln_unitAmount l)) (\<lambda>u.
     err_bind (json_amount (ln_lineTotal l)) (\<lambda>v.
     err_bind (json_amount (ln_taxAmount l)) (\<lambda>x.
       Inr \<lparr>cv_lineId = ln_id l, cv_lineNumber = ln_lineNumber l, cv_productCode = ln_productCode l, cv_priceId = ln_priceId l,
            cv_quantity = ln_quantity l, cv_unitAmount = u, cv_lineTotal = v, cv_taxAmount = x, cv_entitlementKind = ln_entitlementKind l\<rparr>)))"

definition invoiceCreatedEvent :: "invoice_row \<Rightarrow> line_row list \<Rightarrow> transition_ctx \<Rightarrow> bill_error + bill_event" where
  "invoiceCreatedEvent r ls ctx =
     err_bind (json_amount (bi_subtotal r)) (\<lambda>u.
     err_bind (json_amount (bi_taxTotal r)) (\<lambda>x.
     err_bind (json_amount (bi_total r)) (\<lambda>v.
     err_bind (each created_line_of ls) (\<lambda>cls.
       Inr (Invoice_created \<lparr>ce_invoiceId = bi_id r, ce_invoiceNumber = bi_number r, ce_sourceType = bi_sourceType r,
         ce_sourceId = bi_sourceId r, ce_organizationId = bi_organizationId r, ce_payer = bi_payer r, ce_seller = bi_seller r,
         ce_currency = bi_currency r, ce_subtotal = u, ce_taxTotal = x, ce_total = v, ce_status = bi_status r, ce_revision = bi_revision r,
         ce_dueAt = bi_dueAt r, ce_issuedAt = bi_issuedAt r, ce_ctx = ctx, ce_lines = cls\<rparr>)))))"

definition SWEEP_ACTORS :: "string list" where
  "SWEEP_ACTORS = [''assistance_sweep'', ''refund_effect_worker'', ''dispute_loss_worker'', ''fraud_hold_sweep'', ''recovery_worker'',
     ''reconciliation_worker'']"

text \<open>An id that is absent or empty is no identity. The result is the actor's type, id and kind.\<close>

definition some_text :: "string option \<Rightarrow> bool" where
  "some_text x \<longleftrightarrow> x \<noteq> None \<and> x \<noteq> Some ''''"

definition billingAuditActor :: "transition_ctx \<Rightarrow> bill_error + bill_actor_type \<times> string \<times> bill_user_kind option" where
  "billingAuditActor ctx =
     (let a = tc_actor ctx in
      if ac_type a = Actor_service \<and> some_text (ac_id a) then Inr (Actor_service, the (ac_id a), None)
      else if ac_type a = Actor_user \<and> some_text (ac_id a) \<and> ac_userKind a \<noteq> None then Inr (Actor_user, the (ac_id a), ac_userKind a)
      else if ac_type a = Actor_system \<and> tc_cause ctx = Cause_payment_event then Inr (Actor_system, ''payment_event_consumer'', None)
      else if ac_type a = Actor_system \<and> tc_cause ctx = Cause_reconciliation then Inr (Actor_system, ''payment_reconciler'', None)
      else if ac_type a = Actor_system \<and> tc_cause ctx = Cause_sweep \<and> ac_id a \<in> Some ` set SWEEP_ACTORS then Inr (Actor_system, the (ac_id a), None)
      else Inl (B_internal ''billing_audit_actor_not_cataloged''))"

text \<open>The kit's correlation grammar \<open>^[A-Za-z0-9._:-]{8,128}$\<close>.\<close>

definition is_correlation :: "string \<Rightarrow> bool" where
  "is_correlation c \<longleftrightarrow> 8 \<le> length c \<and> length c \<le> 128 \<and>
     list_all (\<lambda>x. is_letter x \<or> is_digit x \<or> x \<in> set ''._:-'') c"

definition record_audit :: "bill_cfg \<Rightarrow> string \<Rightarrow> string option \<Rightarrow> string \<times> string \<Rightarrow> (string \<times> js_value) list \<Rightarrow> string list \<Rightarrow> transition_ctx \<Rightarrow> unit btx" where
  "record_audit cfg action org res changes ident ctx =
     tx_bind (tx_lift (billingAuditActor ctx)) (\<lambda>(t, i, k).
       outbox_enqueue (bc_eventId cfg ([snd res, ''audit.'' @ action] @ ident))
         (Audit_event \<lparr>ae_action = action, ae_actorType = t, ae_actorId = i, ae_userKind = k, ae_organizationId = org,
            ae_resourceType = fst res, ae_resourceId = snd res, ae_changes = changes,
            ae_causationId = (case tc_causeId ctx of
                Some c \<Rightarrow> if tc_cause ctx = Cause_payment_event \<and> is_uuid_lower c then Some c else None | None \<Rightarrow> None),
            ae_correlationId = (case tc_correlationId ctx of Some c \<Rightarrow> if is_correlation c then Some c else None | None \<Rightarrow> None)\<rparr>))"

end
