(* ===== verification/BillingStore.thy ===== *)
theory BillingStore
  imports BillingModel
begin

text \<open>
  The statements that write the tables of the billing service, each with the checks of its table: the CHECK
  and UNIQUE constraints, the foreign keys and the triggers of \<open>db/migrations\<close> in their last version. A
  refused statement is the error \<open>B_check\<close> with the name of the table. Columns no statement of the
  service changes are compared as the \<open>_immutable\<close> triggers do.
\<close>

named_theorems store_defs \<open>the statements, unfolded\<close>

section \<open>Invoices\<close>

definition party_type_ok :: "bparty \<Rightarrow> bool" where
  "party_type_ok p \<longleftrightarrow> bp_type p \<in> {''user'', ''organization'', ''company''} \<and> 1 \<le> length (bp_id p) \<and> length (bp_id p) \<le> 128"

text \<open>\<open>^[a-z][a-z0-9-]{1,62}$\<close>; the shapes of a digest and of a snapshot.\<close>

definition is_producer :: "string \<Rightarrow> bool" where
  "is_producer s \<longleftrightarrow> 2 \<le> length s \<and> length s \<le> 63 \<and> is_lower_letter (hd s) \<and>
     list_all (\<lambda>c. is_lower_letter c \<or> is_digit c \<or> c = CHR ''-'') (tl s)"

definition is_digest :: "string \<Rightarrow> bool" where
  "is_digest h \<longleftrightarrow> length h = 64 \<and> list_all is_hex h"

definition stored_snapshot_ok :: "bill_cfg \<Rightarrow> (string \<times> js_value) list \<Rightarrow> bool" where
  "stored_snapshot_ok cfg o1 \<longleftrightarrow>
     (case js_get o1 ''schemaVersion'' of V_number n \<Rightarrow> bc_jsonbBytes cfg (V_object o1) \<le> 8192 | _ \<Rightarrow> False)"

definition presentation_ok :: "presentation \<Rightarrow> bool" where
  "presentation_ok p \<longleftrightarrow> pn_schemaVersion p = 1 \<and> is_template_ref (pn_template p) \<and> is_locale_tag (pn_locale p)"

definition opt_all :: "('a \<Rightarrow> bool) \<Rightarrow> 'a option \<Rightarrow> bool" where
  "opt_all P x = (case x of None \<Rightarrow> True | Some y \<Rightarrow> P y)"

lemma opt_all_simps [simp]: "opt_all P None" "opt_all P (Some x) \<longleftrightarrow> P x"
  by (simp_all add: opt_all_def)

definition safe_amount :: "int \<Rightarrow> bool" where
  "safe_amount n \<longleftrightarrow> 0 < n \<and> n \<le> MAX_MINOR_UNITS"

text \<open>The columns fixed at creation: the amounts, the parties, the shapes of the texts.\<close>

definition invoice_facts_ok :: "bill_cfg \<Rightarrow> bill_db \<Rightarrow> invoice_row \<Rightarrow> bool" where
  "invoice_facts_ok cfg s r \<longleftrightarrow>
     bi_currency r \<in> set (b_currencies s) \<and> is_iso_currency (bi_currency r) \<and>
     safe_amount (bi_subtotal r) \<and> safe_amount (bi_total r) \<and> bi_taxTotal r = 0 \<and> bi_total r = bi_subtotal r + bi_taxTotal r \<and>
     party_type_ok (bi_seller r) \<and> party_type_ok (bi_payer r) \<and> bi_payer r \<noteq> bi_seller r \<and>
     (bp_type (bi_seller r) = ''organization'' \<longrightarrow> bi_organizationId r = Some (bp_id (bi_seller r))) \<and>
     is_source_type (bi_sourceType r) \<and> 1 \<le> length (bi_sourceId r) \<and> length (bi_sourceId r) \<le> 128 \<and>
     opt_all (\<lambda>d. length d \<le> 140) (bi_description r) \<and> is_digest (bi_requestHash r) \<and>
     is_producer (bi_producer r) \<and> bi_producer r \<noteq> OWNER_CATALOG_PRODUCER \<and>
     stored_snapshot_ok cfg (bi_issuerSnapshot r) \<and> stored_snapshot_ok cfg (bi_billToSnapshot r)"

text \<open>The columns of the lifecycle.\<close>

definition invoice_state_ok :: "invoice_row \<Rightarrow> bool" where
  "invoice_state_ok r \<longleftrightarrow>
     (bi_status r = I_draft \<longrightarrow> bi_number r = None \<and> bi_issuedAt r = None \<and> bi_presentation r = None \<and> bi_paidAt r = None \<and> bi_voidedAt r = None) \<and>
     (bi_status r \<in> {I_open, I_paid} \<longrightarrow> bi_issuedAt r \<noteq> None \<and> bi_number r \<noteq> None) \<and>
     (bi_status r = I_paid \<longleftrightarrow> bi_paidAt r \<noteq> None) \<and> (bi_status r = I_void \<longleftrightarrow> bi_voidedAt r \<noteq> None) \<and>
     (bi_voidReasonCode r \<noteq> None \<longrightarrow> bi_status r = I_void) \<and> opt_all (\<lambda>c. 1 \<le> length c \<and> length c \<le> 64) (bi_voidReasonCode r) \<and>
     (bi_overdueAt r \<noteq> None \<longrightarrow> bi_issuedAt r \<noteq> None) \<and> (bi_number r \<noteq> None \<longrightarrow> bi_issuedAt r \<noteq> None) \<and>
     opt_all (\<lambda>n. 1 \<le> length n \<and> length n \<le> 64) (bi_number r) \<and>
     (bi_issuedAt r \<noteq> None \<longrightarrow> bi_presentation r \<noteq> None) \<and> opt_all presentation_ok (bi_presentation r)"

definition draft_shape :: "invoice_row \<Rightarrow> bool" where
  "draft_shape r \<longleftrightarrow> bi_status r = I_draft \<and> bi_revision r = 0 \<and> bi_number r = None \<and> bi_issuedAt r = None \<and> bi_paidAt r = None \<and>
     bi_voidedAt r = None \<and> bi_overdueAt r = None \<and> bi_presentation r = None \<and> bi_voidReasonCode r = None"

definition natural_key :: "invoice_row \<Rightarrow> string \<times> string" where
  "natural_key r = (bi_producer r, bi_invoiceRequestId r)"

text \<open>\<open>INSERT INTO invoice \<dots> ON CONFLICT (producer, "invoiceRequestId") DO NOTHING RETURNING *\<close>.\<close>

definition insert_invoice :: "bill_cfg \<Rightarrow> invoice_row \<Rightarrow> invoice_row option btx" where
  "insert_invoice cfg r0 s =
     (let r = r0\<lparr>bi_createdAt := b_now s, bi_updatedAt := b_now s\<rparr> in
      if \<not> draft_shape r \<or> \<not> invoice_facts_ok cfg s r then Inl (B_check ''invoice'')
      else if natural_key r \<in> natural_key ` set (b_invoices s) then Inr (None, s)
      else if bi_id r \<in> bi_id ` set (b_invoices s) then Inl (B_check ''invoice'')
      else Inr (Some r, s\<lparr>b_invoices := b_invoices s @ [r],
        b_deferred := b_deferred s @ [Need_history E_invoice (bi_id r) (St_invoice I_draft) 0, Need_totals (bi_id r), Need_checkout (bi_id r)]\<rparr>))"

text \<open>The number of the next issued invoice of a seller (0005).\<close>

definition next_number :: "bill_db \<Rightarrow> bparty \<Rightarrow> nat" where
  "next_number s seller = (case map_of (b_counters s) seller of None \<Rightarrow> 1 | Some n \<Rightarrow> n)"

definition take_number :: "bparty \<Rightarrow> nat btx" where
  "take_number seller s =
     (let n = next_number s seller in
      if MAX_MINOR_UNITS < int n + 1 then Inl (B_check ''invoice_number_sequence'')
      else Inr (n, s\<lparr>b_counters := (seller, n + 1) # filter (\<lambda>(p, _). p \<noteq> seller) (b_counters s)\<rparr>))"

text \<open>
  What may change in an invoice, and how (\<open>invoice_20_lifecycle\<close>). The second way to \<open>paid\<close>, a verified late
  success (0044), needs rows only the late settlement service writes.
\<close>

definition invoice_same_facts :: "invoice_row \<Rightarrow> invoice_row \<Rightarrow> bool" where
  "invoice_same_facts old new \<longleftrightarrow>
     new\<lparr>bi_status := bi_status old, bi_revision := bi_revision old, bi_updatedAt := bi_updatedAt old, bi_number := bi_number old,
         bi_issuedAt := bi_issuedAt old, bi_presentation := bi_presentation old, bi_paidAt := bi_paidAt old, bi_voidedAt := bi_voidedAt old,
         bi_voidReasonCode := bi_voidReasonCode old, bi_overdueAt := bi_overdueAt old\<rparr> = old"

definition paid_in_full :: "bill_db \<Rightarrow> invoice_row \<Rightarrow> bool" where
  "paid_in_full s r \<longleftrightarrow> list_ex (\<lambda>q. rq_invoiceId q = bi_id r \<and> rq_status q = R_paid \<and> rq_amount q = bi_total r) (b_requests s)"

definition invoice_lifecycle_ok :: "bill_db \<Rightarrow> invoice_row \<Rightarrow> invoice_row \<Rightarrow> bool" where
  "invoice_lifecycle_ok s old new \<longleftrightarrow>
     invoice_trigger_moves (bi_status old) (bi_status new) \<and>
     (let issuing = bi_status old = I_draft \<and> bi_status new = I_open; paying = bi_status old = I_open \<and> bi_status new = I_paid;
          voiding = bi_status new = I_void \<and> bi_status old \<noteq> I_void in
      (issuing \<or> (bi_number new = bi_number old \<and> bi_issuedAt new = bi_issuedAt old)) \<and>
      (bi_presentation new = bi_presentation old \<or> (issuing \<and> bi_presentation old = None)) \<and>
      (voiding \<or> (bi_voidedAt new = bi_voidedAt old \<and> bi_voidReasonCode new = bi_voidReasonCode old)) \<and>
      (if paying then paid_in_full s new else bi_paidAt new = bi_paidAt old) \<and>
      (bi_overdueAt new = bi_overdueAt old \<or> (bi_overdueAt old = None \<and> bi_status old = I_open)))"

definition invoice_deferred :: "invoice_row \<Rightarrow> invoice_row \<Rightarrow> deferred list" where
  "invoice_deferred old new =
     (if bi_status new \<noteq> bi_status old then [Need_history E_invoice (bi_id new) (St_invoice (bi_status new)) (bi_revision new)] else []) @
     (if bi_status old = I_draft \<and> bi_status new = I_open then [Need_routing (bi_id new)] else []) @ [Need_checkout (bi_id new)]"

text \<open>The row the triggers leave, and the statement. An invoice that is being issued takes the next number of its seller.\<close>

definition invoice_touched :: "bill_db \<Rightarrow> invoice_row \<Rightarrow> invoice_row \<Rightarrow> nat \<Rightarrow> invoice_row" where
  "invoice_touched s old new n =
     (let issuing = bi_status old = I_draft \<and> bi_status new = I_open; voiding = bi_status new = I_void \<and> bi_status old \<noteq> I_void in
      new\<lparr>bi_issuedAt := (if issuing then Some (b_now s) else bi_issuedAt new),
          bi_number := (if issuing then Some (pg_decimal (int n)) else bi_number new),
          bi_voidedAt := (if voiding then Some (b_now s) else bi_voidedAt new),
          bi_updatedAt := b_now s, bi_revision := bi_revision old + (if bi_status new \<noteq> bi_status old then 1 else 0)\<rparr>)"

definition number_taken :: "bill_db \<Rightarrow> invoice_row \<Rightarrow> bool" where
  "number_taken s r \<longleftrightarrow> bi_number r \<noteq> None \<and>
     list_ex (\<lambda>i. bi_id i \<noteq> bi_id r \<and> bi_seller i = bi_seller r \<and> bi_number i = bi_number r) (b_invoices s)"

definition update_invoice :: "bill_cfg \<Rightarrow> string \<Rightarrow> (invoice_row \<Rightarrow> invoice_row) \<Rightarrow> invoice_row option btx" where
  "update_invoice cfg i f s =
     (case find_invoice i s of
        None \<Rightarrow> Inr (None, s)
      | Some old \<Rightarrow>
          if \<not> invoice_same_facts old (f old) \<or> \<not> invoice_lifecycle_ok s old (f old) then Inl (B_check ''invoice'')
          else tx_bind (if bi_status old = I_draft \<and> bi_status (f old) = I_open then take_number (bi_seller old) else tx_return 0) (\<lambda>n u.
            let r = invoice_touched u old (f old) n in
            if \<not> invoice_facts_ok cfg u r \<or> \<not> invoice_state_ok r \<or> number_taken u r then Inl (B_check ''invoice'')
            else Inr (Some r, u\<lparr>b_invoices := set_row bi_id i r (b_invoices u), b_deferred := b_deferred u @ invoice_deferred old r\<rparr>)) s)"

section \<open>Lines and routing records\<close>

definition find_product :: "string \<Rightarrow> bill_db \<Rightarrow> product_row option" where
  "find_product i s = get_row pd_id i (b_products s)"

definition find_price :: "string \<Rightarrow> bill_db \<Rightarrow> price_row option" where
  "find_price i s = get_row pc_id i (b_prices s)"

definition interval_shape :: "price_interval \<Rightarrow> string option \<Rightarrow> int option \<Rightarrow> bool" where
  "interval_shape k u n =
     (case k of One_time \<Rightarrow> u = None \<and> n = None
      | Recurring \<Rightarrow> (case (u, n) of (Some x, Some m) \<Rightarrow> x \<in> set INTERVAL_UNITS \<and> 1 \<le> m | _ \<Rightarrow> False))"

definition line_ok_row :: "line_row \<Rightarrow> bool" where
  "line_ok_row l \<longleftrightarrow>
     1 \<le> ln_lineNumber l \<and> ln_lineNumber l \<le> 100 \<and> 1 \<le> ln_quantity l \<and> safe_amount (ln_unitAmount l) \<and> safe_amount (ln_lineTotal l) \<and>
     0 \<le> ln_taxAmount l \<and> ln_taxAmount l \<le> MAX_MINOR_UNITS \<and> ln_lineTotal l = ln_quantity l * ln_unitAmount l \<and>
     is_product_code (ln_productCode l) \<and> pg_trim (ln_description l) \<noteq> '''' \<and> length (ln_description l) \<le> 140 \<and>
     ln_entitlementKind l \<in> set ENTITLEMENT_KINDS \<and> interval_shape (ln_interval l) (ln_intervalUnit l) (ln_intervalCount l) \<and>
     (case (ln_sourceType l, ln_sourceId l) of
        (None, None) \<Rightarrow> True | (Some t, Some i) \<Rightarrow> is_source_type t \<and> 1 \<le> length i \<and> length i \<le> 128 | _ \<Rightarrow> False)"

definition insert_line :: "line_row \<Rightarrow> unit btx" where
  "insert_line l s =
     (case find_invoice (ln_invoiceId l) s of
        None \<Rightarrow> Inl (B_check ''invoice_line'')
      | Some r \<Rightarrow>
          if bi_status r = I_draft \<and> bi_currency r = ln_currency l \<and> line_ok_row l \<and>
             find_price (ln_priceId l) s \<noteq> None \<and> find_product (ln_productId l) s \<noteq> None \<and>
             (bi_producer r = CHECKOUT_PRODUCER \<longrightarrow> map_option pd_producer (find_product (ln_productId l) s) = Some OWNER_CATALOG_PRODUCER) \<and>
             ln_id l \<notin> ln_id ` set (b_lines s) \<and>
             (ln_invoiceId l, ln_lineNumber l) \<notin> (\<lambda>x. (ln_invoiceId x, ln_lineNumber x)) ` set (b_lines s)
          then Inr ((), s\<lparr>b_lines := b_lines s @ [l],
            b_deferred := b_deferred s @ [Need_totals (ln_invoiceId l), Need_checkout (ln_invoiceId l)]\<rparr>)
          else Inl (B_check ''invoice_line''))"

text \<open>\<open>invoice_entitlement_combination\<close> (0039) with \<open>invoice_entitlement_non_entitlement_payer\<close> (0028).\<close>

definition routing_combination :: "routing_row \<Rightarrow> bool" where
  "routing_combination e \<longleftrightarrow>
     (case en_purpose e of
        Organization_subscription \<Rightarrow> en_target e = Target_organization \<and> bp_type (en_payer e) = ''user'' \<and> en_beneficiaryUserId e = None \<and>
          en_organizationId e \<noteq> None \<and> en_productId e \<noteq> None \<and> en_assistanceRequestId e = None \<and> en_recoveryObligationId e = None
      | Direct_purchase \<Rightarrow> en_target e = Target_personal \<and> bp_type (en_payer e) = ''user'' \<and> en_beneficiaryUserId e = Some (bp_id (en_payer e)) \<and>
          en_organizationId e = None \<and> en_productId e \<noteq> None \<and> en_assistanceRequestId e = None \<and> en_recoveryObligationId e = None
      | Assisted_settlement \<Rightarrow> en_target e = Target_personal \<and> bp_type (en_payer e) = ''organization'' \<and> en_beneficiaryUserId e \<noteq> None \<and>
          en_organizationId e = Some (bp_id (en_payer e)) \<and> en_productId e \<noteq> None \<and> en_assistanceRequestId e \<noteq> None \<and> en_recoveryObligationId e = None
      | Non_entitlement \<Rightarrow> en_target e = Target_none \<and> bp_type (en_payer e) \<noteq> ''organization'' \<and> en_beneficiaryUserId e = None \<and>
          en_organizationId e = None \<and> en_productId e = None \<and> en_assistanceRequestId e = None \<and> en_recoveryObligationId e = None
      | Recovery_settlement \<Rightarrow> en_target e = Target_none \<and> bp_type (en_payer e) = ''organization'' \<and> en_beneficiaryUserId e = None \<and>
          en_organizationId e = Some (bp_id (en_payer e)) \<and> en_productId e = None \<and> en_assistanceRequestId e = None \<and> en_recoveryObligationId e \<noteq> None)"

text \<open>The foreign keys: a key with a NULL column is not checked (MATCH SIMPLE).\<close>

definition routing_references :: "bill_db \<Rightarrow> routing_row \<Rightarrow> bool" where
  "routing_references s e \<longleftrightarrow>
     opt_all (\<lambda>p. opt_all (\<lambda>_. True) (find_product p s) \<and> map_option pd_target (find_product p s) = Some (en_target e)) (en_productId e) \<and>
     (case (en_assistanceRequestId e, en_beneficiaryUserId e, en_organizationId e) of
        (Some a, Some u, Some g) \<Rightarrow> list_ex (\<lambda>r. ar_id r = a \<and> ar_beneficiaryRef r = u \<and> ar_organizationId r = g) (b_assistance s)
      | _ \<Rightarrow> True) \<and>
     (case (en_recoveryObligationId e, en_organizationId e) of
        (Some b, Some g) \<Rightarrow> list_ex (\<lambda>r. ob_id r = b \<and> ob_organizationId r = g) (b_obligations s)
      | _ \<Rightarrow> True)"

definition insert_routing :: "routing_row \<Rightarrow> unit btx" where
  "insert_routing e s =
     (case find_invoice (en_invoiceId e) s of
        None \<Rightarrow> Inl (B_check ''invoice_entitlement'')
      | Some r \<Rightarrow>
          if bi_status r = I_draft \<and> en_payer e = bi_payer r \<and> routing_combination e \<and> routing_references s e \<and>
             en_invoiceId e \<notin> en_invoiceId ` set (b_routings s)
          then Inr ((), s\<lparr>b_routings := b_routings s @ [e]\<rparr>)
          else Inl (B_check ''invoice_entitlement''))"

section \<open>Payment requests\<close>

definition closed_status :: "request_status \<Rightarrow> bool" where
  "closed_status x \<longleftrightarrow> x \<in> {R_paid, R_failed, R_cancelled, R_expired, R_rejected}"

definition active_status :: "request_status \<Rightarrow> bool" where
  "active_status x \<longleftrightarrow> x \<in> {R_created, R_sending, R_requested}"

definition request_ok_row :: "bill_request \<Rightarrow> bool" where
  "request_ok_row q \<longleftrightarrow>
     safe_amount (rq_amount q) \<and> (rq_status q \<in> {R_created, R_sending, R_rejected} \<longrightarrow> rq_paymentId q = None) \<and>
     (rq_status q \<in> {R_requested, R_paid, R_failed, R_expired} \<longrightarrow> rq_paymentId q \<noteq> None) \<and>
     (closed_status (rq_status q) \<longleftrightarrow> rq_closedAt q \<noteq> None) \<and> (rq_status q = R_sending \<longrightarrow> rq_sendingSince q \<noteq> None) \<and>
     (rq_mappingVersion q = 1 \<or> rq_mappingVersion q = 2) \<and> opt_all (\<lambda>c. 1 \<le> length c \<and> length c \<le> 64) (rq_failureCode q) \<and>
     opt_all (\<lambda>c. length c \<le> 128) (rq_correlationId q)"

text \<open>The unique indexes: one active and one paid request of an invoice, one request of a payment.\<close>

definition request_unique :: "bill_db \<Rightarrow> bill_request \<Rightarrow> bool" where
  "request_unique s q \<longleftrightarrow>
     list_all (\<lambda>x. rq_id x = rq_id q \<or>
       (\<not> (rq_invoiceId x = rq_invoiceId q \<and> active_status (rq_status x) \<and> active_status (rq_status q)) \<and>
        \<not> (rq_invoiceId x = rq_invoiceId q \<and> rq_status x = R_paid \<and> rq_status q = R_paid) \<and>
        \<not> (rq_paymentId q \<noteq> None \<and> rq_paymentId x = rq_paymentId q))) (b_requests s)"

definition created_shape :: "bill_request \<Rightarrow> bool" where
  "created_shape q \<longleftrightarrow> rq_status q = R_created \<and> rq_paymentId q = None \<and> rq_revision q = 0 \<and> rq_sendAttempts q = 0 \<and> rq_sendingSince q = None \<and>
     rq_cancelRequestedAt q = None \<and> rq_closedAt q = None \<and> rq_failureCode q = None"

definition payer_supported :: "bill_db \<Rightarrow> invoice_row \<Rightarrow> bool" where
  "payer_supported s r \<longleftrightarrow>
     bp_type (bi_payer r) = ''user'' \<or>
     (bp_type (bi_payer r) = ''organization'' \<and>
       ((bi_producer r = ASSISTANCE_PRODUCER \<and> map_option en_purpose (find_routing (bi_id r) s) = Some Assisted_settlement) \<or>
        (bi_producer r = RECOVERY_PRODUCER \<and> map_option en_purpose (find_routing (bi_id r) s) = Some Recovery_settlement)))"

definition insert_request :: "bill_request \<Rightarrow> bill_request btx" where
  "insert_request q0 s =
     (let q = q0\<lparr>rq_createdAt := b_now s, rq_updatedAt := b_now s\<rparr> in
      case find_invoice (rq_invoiceId q) s of
        None \<Rightarrow> Inl (B_check ''payment_request'')
      | Some r \<Rightarrow>
          if created_shape q \<and> bi_status r = I_open \<and> payer_supported s r \<and> rq_amount q = bi_total r \<and> rq_currency q = bi_currency r \<and>
             rq_mappingVersion q = 2 \<and> find_routing (rq_invoiceId q) s \<noteq> None \<and> request_ok_row q \<and> request_unique s q \<and>
             rq_id q \<notin> rq_id ` set (b_requests s)
          then Inr (q, s\<lparr>b_requests := b_requests s @ [q],
            b_deferred := b_deferred s @ [Need_history E_request (rq_id q) (St_request R_created) 0]\<rparr>)
          else Inl (B_check ''payment_request''))"

definition request_same_facts :: "bill_request \<Rightarrow> bill_request \<Rightarrow> bool" where
  "request_same_facts old new \<longleftrightarrow>
     rq_id new = rq_id old \<and> rq_invoiceId new = rq_invoiceId old \<and> rq_amount new = rq_amount old \<and> rq_currency new = rq_currency old \<and>
     rq_expiresAt new = rq_expiresAt old \<and> rq_mappingVersion new = rq_mappingVersion old \<and> rq_createdAt new = rq_createdAt old \<and>
     rq_createdByType new = rq_createdByType old \<and> rq_createdById new = rq_createdById old \<and> rq_correlationId new = rq_correlationId old"

text \<open>\<open>payment_request_20_lifecycle\<close>.\<close>

definition request_lifecycle_ok :: "bill_db \<Rightarrow> bill_request \<Rightarrow> bill_request \<Rightarrow> bool" where
  "request_lifecycle_ok s old new \<longleftrightarrow>
     request_trigger_moves (rq_status old) (rq_status new) \<and>
     (rq_status new \<noteq> rq_status old \<and> rq_status new = R_paid \<longrightarrow> map_option bi_status (find_invoice (rq_invoiceId new) s) = Some I_open) \<and>
     (rq_paymentId new = rq_paymentId old \<or> (rq_paymentId old = None \<and> rq_status old = R_sending \<and> rq_status new = R_requested)) \<and>
     (rq_cancelRequestedAt old \<noteq> None \<longrightarrow> rq_cancelRequestedAt new = rq_cancelRequestedAt old) \<and>
     (rq_closedAt old \<noteq> None \<longrightarrow> rq_status new = rq_status old)"

definition request_touched :: "bill_db \<Rightarrow> bill_request \<Rightarrow> bill_request \<Rightarrow> bill_request" where
  "request_touched s old new =
     (let moves = rq_status new \<noteq> rq_status old in
      new\<lparr>rq_closedAt := (if moves \<and> closed_status (rq_status new) then Some (b_now s) else rq_closedAt new),
          rq_sendingSince := (if moves \<and> rq_status new = R_sending then Some (b_now s) else rq_sendingSince new),
          rq_updatedAt := b_now s, rq_revision := rq_revision old + (if moves then 1 else 0)\<rparr>)"

text \<open>The settlement channel of an assistance request follows the payment request it names (0030).\<close>

definition channel_target :: "request_status \<Rightarrow> channel_status option" where
  "channel_target x =
     (if x \<in> {R_created, R_requested} then Some CH_open else if x = R_sending then Some CH_uncertain
      else if x \<in> {R_failed, R_cancelled, R_expired, R_rejected} then Some CH_closed else None)"

definition follow_request :: "bill_db \<Rightarrow> bill_request \<Rightarrow> channel_row list" where
  "follow_request s q =
     map (\<lambda>c. case channel_target (rq_status q) of
           Some x \<Rightarrow> if ch_paymentRequestId c = Some (rq_id q) \<and> ch_status c \<in> {CH_open, CH_uncertain} \<and> ch_status c \<noteq> x
             then c\<lparr>ch_status := x, ch_closedAt := (if x = CH_closed then Some (b_now s) else None)\<rparr> else c
         | None \<Rightarrow> c) (b_channels s)"

definition update_request :: "string \<Rightarrow> (bill_request \<Rightarrow> bill_request) \<Rightarrow> bill_request option btx" where
  "update_request i f s =
     (case find_request i s of
        None \<Rightarrow> Inr (None, s)
      | Some old \<Rightarrow>
          let q = request_touched s old (f old) in
          if request_same_facts old (f old) \<and> request_lifecycle_ok s old (f old) \<and> request_ok_row q \<and> request_unique s q
          then Inr (Some q, s\<lparr>b_requests := set_row rq_id i q (b_requests s), b_channels := follow_request s q,
            b_deferred := b_deferred s @ (if rq_status q \<noteq> rq_status old then [Need_history E_request i (St_request (rq_status q)) (rq_revision q)] else [])\<rparr>)
          else Inl (B_check ''payment_request''))"

section \<open>Receipts and history\<close>

text \<open>\<open>ON CONFLICT ("eventId") WHERE outcome = 'applied' DO NOTHING RETURNING id\<close>.\<close>

definition insert_receipt :: "receipt_row \<Rightarrow> string option btx" where
  "insert_receipt r s =
     (if \<not> opt_all (\<lambda>d. 1 \<le> length d \<and> length d \<le> 64) (rc_detailCode r) \<or> rc_paymentRevision r < 0 then Inl (B_check ''payment_event_receipt'')
      else if rc_outcome r = O_applied \<and> list_ex (\<lambda>x. rc_eventId x = rc_eventId r \<and> rc_outcome x = O_applied) (b_receipts s) then Inr (None, s)
      else if rc_id r \<in> rc_id ` set (b_receipts s) then Inl (B_check ''payment_event_receipt'')
      else Inr (Some (rc_id r), s\<lparr>b_receipts := b_receipts s @ [r]\<rparr>))"

definition insert_transition :: "transition_row \<Rightarrow> unit btx" where
  "insert_transition t s =
     (if (tr_from t = None \<longleftrightarrow> tr_revision t = 0) \<and> opt_all (\<lambda>c. length c \<le> 128) (tr_actorId t) \<and>
         opt_all (\<lambda>c. length c \<le> 128) (tr_causeId t) \<and> opt_all (\<lambda>c. length c \<le> 128) (tr_correlationId t) \<and>
         (tr_entity t, tr_entityId t, tr_revision t) \<notin> (\<lambda>x. (tr_entity x, tr_entityId x, tr_revision x)) ` set (b_transitions s)
      then Inr ((), s\<lparr>b_transitions := b_transitions s @ [t]\<rparr>)
      else Inl (B_check ''billing_transition''))"

definition recordTransition :: "entity \<Rightarrow> string \<Rightarrow> entity_status option \<Rightarrow> entity_status \<Rightarrow> nat \<Rightarrow> transition_ctx \<Rightarrow> unit btx" where
  "recordTransition e i old new n ctx =
     insert_transition \<lparr>tr_entity = e, tr_entityId = i, tr_from = old, tr_to = new, tr_revision = n, tr_actorType = ac_type (tc_actor ctx),
       tr_actorId = ac_id (tc_actor ctx), tr_cause = tc_cause ctx, tr_causeId = tc_causeId ctx, tr_correlationId = tc_correlationId ctx\<rparr>"

section \<open>Organization subscriptions\<close>

definition period_of :: "subscription_row \<Rightarrow> period_columns" where
  "period_of b = \<lparr>pe_status = sb_status b, pe_currentPeriodStart = sb_currentPeriodStart b, pe_currentPeriodEnd = sb_currentPeriodEnd b,
     pe_graceUntil = sb_graceUntil b, pe_effectiveTerminationAt = sb_effectiveTerminationAt b\<rparr>"

definition subscription_ok_row :: "subscription_row \<Rightarrow> bool" where
  "subscription_ok_row b \<longleftrightarrow> subscription_checks (period_of b) \<and> (sb_status b = S_pending \<longrightarrow> \<not> sb_cancelAtPeriodEnd b \<and> sb_billingAnchorAt b = None)"

definition pending_shape :: "subscription_row \<Rightarrow> bool" where
  "pending_shape b \<longleftrightarrow> sb_status b = S_pending \<and> sb_revision b = 0 \<and> sb_currentPeriodStart b = None \<and> sb_currentPeriodEnd b = None \<and>
     sb_graceUntil b = None \<and> sb_effectiveTerminationAt b = None \<and> \<not> sb_cancelAtPeriodEnd b"

text \<open>
  \<open>INSERT INTO subscription \<dots> ON CONFLICT ("organizationId") DO NOTHING RETURNING *\<close>: the trigger on the new
  row runs before the conflict is looked for, so a price that is not recurring, or that was retired, is
  refused even when the organization already has its row.
\<close>

definition insert_subscription :: "subscription_row \<Rightarrow> subscription_row option btx" where
  "insert_subscription b0 s =
     (let b = b0\<lparr>sb_createdAt := b_now s, sb_updatedAt := b_now s\<rparr>; pc = find_price (sb_priceId b) s in
      if \<not> pending_shape b \<or> \<not> opt_all (\<lambda>x. pc_interval x = Recurring \<and> pc_retiredAt x = None) pc then Inl (B_check ''subscription'')
      else if sb_organizationId b \<in> sb_organizationId ` set (b_subscriptions s) then Inr (None, s)
      else if map_option pc_productId pc \<noteq> Some (sb_productId b) \<or> \<not> subscription_ok_row b \<or> sb_id b \<in> sb_id ` set (b_subscriptions s)
        then Inl (B_check ''subscription'')
      else Inr (Some b, s\<lparr>b_subscriptions := b_subscriptions s @ [b],
        b_deferred := b_deferred s @ [Need_history E_subscription (sb_id b) (St_subscription S_pending) 0]\<rparr>))"

definition subscription_same_facts :: "subscription_row \<Rightarrow> subscription_row \<Rightarrow> bool" where
  "subscription_same_facts old new \<longleftrightarrow> sb_id new = sb_id old \<and> sb_organizationId new = sb_organizationId old \<and> sb_productId new = sb_productId old \<and>
     sb_priceId new = sb_priceId old \<and> sb_createdAt new = sb_createdAt old"

text \<open>\<open>subscription_20_lifecycle\<close> (0024) and \<open>subscription_30_touch\<close>; between them \<open>subscription_25_billing_anchor\<close> (0015).\<close>

definition subscription_touched :: "bill_db \<Rightarrow> subscription_row \<Rightarrow> subscription_row \<Rightarrow> subscription_row" where
  "subscription_touched s old new =
     new\<lparr>sb_cancelAtPeriodEnd := (if sb_currentPeriodEnd new \<noteq> sb_currentPeriodEnd old then False else sb_cancelAtPeriodEnd new),
         sb_effectiveTerminationAt := (if sb_status new = S_active then None else sb_effectiveTerminationAt new),
         sb_updatedAt := b_now s, sb_revision := sb_revision old + 1\<rparr>"

definition anchor_ok :: "bill_db \<Rightarrow> subscription_row \<Rightarrow> subscription_row \<Rightarrow> bool" where
  "anchor_ok s old new \<longleftrightarrow>
     sb_status new = S_pending \<or>
     ((case map_option pc_intervalUnit (find_price (sb_priceId new) s) of
         Some (Some u) \<Rightarrow> calendar_unit u \<longleftrightarrow> sb_billingAnchorAt new \<noteq> None
       | _ \<Rightarrow> True) \<and>
      (sb_billingAnchorAt new = sb_billingAnchorAt old \<or>
        (sb_currentPeriodStart new \<noteq> sb_currentPeriodStart old \<and>
          (sb_billingAnchorAt new = None \<or> sb_currentPeriodStart new = None \<or> sb_billingAnchorAt new = sb_currentPeriodStart new))))"

definition period_moves :: "subscription_row \<Rightarrow> subscription_row \<Rightarrow> bool" where
  "period_moves old new \<longleftrightarrow>
     sb_currentPeriodStart new \<noteq> sb_currentPeriodStart old \<or>
     (case (sb_currentPeriodEnd new, sb_currentPeriodEnd old) of (Some e, Some e0) \<Rightarrow> e0 < e | (Some _, None) \<Rightarrow> True | (None, _) \<Rightarrow> False)"

definition update_subscription :: "string \<Rightarrow> (subscription_row \<Rightarrow> subscription_row) \<Rightarrow> subscription_row option btx" where
  "update_subscription i f s =
     (case get_row sb_id i (b_subscriptions s) of
        None \<Rightarrow> Inr (None, s)
      | Some old \<Rightarrow>
          let b = subscription_touched s old (f old) in
          if subscription_same_facts old (f old) \<and> subscription_trigger_moves (sb_status old) (sb_status b) \<and> anchor_ok s old b \<and> subscription_ok_row b
          then Inr (Some b, s\<lparr>b_subscriptions := set_row sb_id i b (b_subscriptions s),
            b_deferred := b_deferred s @ [Need_history E_subscription i (St_subscription (sb_status b)) (sb_revision b)] @
              (if period_moves old b then [Need_settlement i] else [])\<rparr>)
          else Inl (B_check ''subscription''))"

text \<open>The evidence every settlement needs: the applied \<open>payment.succeeded\<close> receipt of a request that is paid, as its invoice is.\<close>

definition verified_settlement :: "bill_db \<Rightarrow> string \<Rightarrow> string \<Rightarrow> string \<Rightarrow> bool" where
  "verified_settlement s receiptId requestId invoiceId \<longleftrightarrow>
     list_ex (\<lambda>r. rc_id r = receiptId \<and> rc_outcome r = O_applied \<and> rc_eventName r = Ev_succeeded \<and> rc_paymentRequestId r = requestId) (b_receipts s) \<and>
     (case find_request requestId s of
        Some q \<Rightarrow> rq_invoiceId q = invoiceId \<and> rq_status q = R_paid \<and> map_option bi_status (find_invoice invoiceId s) = Some I_paid
      | None \<Rightarrow> False)"

definition insert_settlement :: "settlement_row \<Rightarrow> string option btx" where
  "insert_settlement r0 s =
     (let r = r0\<lparr>ss_transactionId := b_xid s\<rparr> in
      if \<not> verified_settlement s (ss_receiptId r) (ss_paymentRequestId r) (ss_invoiceId r) then Inl (B_check ''subscription_settlement'')
      else if ss_invoiceId r \<in> ss_invoiceId ` set (b_settlements s) \<or> ss_receiptId r \<in> ss_receiptId ` set (b_settlements s) \<or>
        ss_id r \<in> ss_id ` set (b_settlements s) then Inr (None, s)
      else if list_ex (\<lambda>e. en_invoiceId e = ss_invoiceId r \<and> en_purpose e = Organization_subscription \<and>
               en_organizationId e = Some (ss_organizationId r) \<and> en_productId e = Some (ss_productId r)) (b_routings s) \<and>
             list_ex (\<lambda>b. sb_id b = ss_subscriptionId r \<and> sb_organizationId b = ss_organizationId r \<and> sb_productId b = ss_productId r) (b_subscriptions s)
        then Inr (Some (ss_id r), s\<lparr>b_settlements := b_settlements s @ [r]\<rparr>)
      else Inl (B_check ''subscription_settlement''))"

section \<open>Personal subscriptions\<close>

text \<open>
  The purchases a ledger keeps, joined with their prices; a purchase is admitted only with a recurring
  price, so the join loses none. Then the row that would come last.
\<close>

definition kept_as :: "bill_db \<Rightarrow> string \<Rightarrow> instant \<Rightarrow> string \<Rightarrow> kept_purchase option" where
  "kept_as s i settled priceId =
     (case find_price priceId s of
        Some p \<Rightarrow> (case (pc_intervalUnit p, pc_intervalCount p) of
            (Some u, Some n) \<Rightarrow> Some \<lparr>kp_id = i, kp_settled = settled, kp_unit = u, kp_count = n\<rparr> | _ \<Rightarrow> None)
      | None \<Rightarrow> None)"

definition counts_from :: "purchase_row \<Rightarrow> instant" where
  "counts_from p = (case pu_appliedAt p of Some t \<Rightarrow> t | None \<Rightarrow> pu_settledAt p)"

definition kept_purchases :: "string \<Rightarrow> bill_db \<Rightarrow> kept_purchase list" where
  "kept_purchases personal s =
     List.map_filter (\<lambda>p. kept_as s (pu_id p) (counts_from p) (pu_priceId p))
       (filter (\<lambda>p. pu_personalSubscriptionId p = personal \<and> pu_id p \<notin> fst ` set (b_reversals s)) (b_purchases s))"

definition insert_personal :: "bill_cfg \<Rightarrow> string \<Rightarrow> string \<Rightarrow> unit btx" where
  "insert_personal cfg userId productId =
     tx_bind (b_fresh cfg) (\<lambda>i s.
       case find_product productId s of
         None \<Rightarrow> Inr ((), s)
       | Some p \<Rightarrow>
           if pd_target p \<noteq> Target_personal then Inr ((), s)
           else (case pd_platformId p of
               None \<Rightarrow> Inl (B_check ''personal_subscription'')
             | Some g \<Rightarrow>
                 if userId = '''' \<or> 128 < length userId then Inl (B_check ''personal_subscription'')
                 else if (userId, productId) \<in> (\<lambda>x. (ps_userId x, ps_productId x)) ` set (b_personals s) then Inr ((), s)
                 else if i \<in> ps_id ` set (b_personals s) then Inl (B_check ''personal_subscription'')
                 else Inr ((), s\<lparr>b_personals := b_personals s @ [\<lparr>ps_id = i, ps_userId = userId, ps_platformId = g, ps_productId = productId\<rparr>]\<rparr>)))"

definition find_personal :: "string \<Rightarrow> string \<Rightarrow> bill_db \<Rightarrow> personal_row option" where
  "find_personal userId productId s = find (\<lambda>x. ps_userId x = userId \<and> ps_productId x = productId) (b_personals s)"

text \<open>The guard of an assisted purchase that is not applied later (0044).\<close>

definition assisted_applicable :: "bill_db \<Rightarrow> purchase_row \<Rightarrow> bool" where
  "assisted_applicable s r \<longleftrightarrow>
     (case pu_assistanceRequestId r of
        Some a \<Rightarrow> pu_purpose r = Assisted_settlement \<longrightarrow>
          (list_ex (\<lambda>x. ar_id x = a \<and> ar_status x = AR_cash_collected) (b_assistance s) \<and> a \<notin> set (b_cashReturns s) \<and>
           list_ex (\<lambda>c. ch_invoiceId c = pu_invoiceId r \<and> ch_assistanceRequestId c = a \<and> ch_status c \<in> {CH_open, CH_uncertain}) (b_channels s))
      | None \<Rightarrow> True)"

definition purchase_references :: "bill_db \<Rightarrow> purchase_row \<Rightarrow> bool" where
  "purchase_references s r \<longleftrightarrow>
     list_ex (\<lambda>e. en_invoiceId e = pu_invoiceId r \<and> en_purpose e = pu_purpose r \<and> en_beneficiaryUserId e = Some (pu_beneficiaryUserId r) \<and>
       en_productId e = Some (pu_productId r) \<and> (pu_assistanceRequestId r \<noteq> None \<longrightarrow> en_assistanceRequestId e = pu_assistanceRequestId r)) (b_routings s) \<and>
     list_ex (\<lambda>x. ps_id x = pu_personalSubscriptionId r \<and> ps_userId x = pu_beneficiaryUserId r \<and> ps_productId x = pu_productId r) (b_personals s) \<and>
     map_option pc_productId (find_price (pu_priceId r) s) = Some (pu_productId r)"

text \<open>The trigger lays the period of the new row after those the ledger keeps.\<close>

definition lay_purchase :: "bill_db \<Rightarrow> purchase_row \<Rightarrow> purchase_row option" where
  "lay_purchase s r =
     (case kept_as s '''' (counts_from r) (pu_priceId r) of
        None \<Rightarrow> None
      | Some k \<Rightarrow>
          let x = last (personal_spans (kept_purchases (pu_personalSubscriptionId r) s @ [k]))
          in Some (r\<lparr>pu_originalStart := sp_start x, pu_originalEnd := sp_end x, pu_transactionId := b_xid s\<rparr>))"

definition purchase_conflicts :: "bill_db \<Rightarrow> purchase_row \<Rightarrow> bool" where
  "purchase_conflicts s r \<longleftrightarrow>
     list_ex (\<lambda>x. pu_id x = pu_id r \<or> pu_invoiceId x = pu_invoiceId r \<or> pu_receiptId x = pu_receiptId r \<or>
       (pu_assistanceRequestId r \<noteq> None \<and> pu_assistanceRequestId x = pu_assistanceRequestId r)) (b_purchases s)"

definition insert_purchase :: "purchase_row \<Rightarrow> string option btx" where
  "insert_purchase r0 s =
     (if \<not> assisted_applicable s r0 \<or> \<not> verified_settlement s (pu_receiptId r0) (pu_paymentRequestId r0) (pu_invoiceId r0) \<or>
         \<not> list_ex (\<lambda>l. ln_invoiceId l = pu_invoiceId r0 \<and> ln_priceId l = pu_priceId r0 \<and> ln_productId l = pu_productId r0) (b_lines s)
      then Inl (B_check ''subscription_purchase'')
      else case lay_purchase s r0 of
        None \<Rightarrow> Inl (B_check ''subscription_purchase'')
      | Some r \<Rightarrow>
          if \<not> ((pu_purpose r = Direct_purchase \<and> pu_assistanceRequestId r = None) \<or> (pu_purpose r = Assisted_settlement \<and> pu_assistanceRequestId r \<noteq> None)) \<or>
             \<not> (pu_originalStart r < pu_originalEnd r \<and> pu_settledAt r \<le> pu_originalStart r) \<or>
             \<not> opt_all (\<lambda>t. pu_purpose r = Assisted_settlement \<and> pu_settledAt r \<le> t) (pu_appliedAt r) then Inl (B_check ''subscription_purchase'')
          else if purchase_conflicts s r then Inr (None, s)
          else if \<not> purchase_references s r then Inl (B_check ''subscription_purchase'')
          else Inr (Some (pu_id r), s\<lparr>b_purchases := b_purchases s @ [r]\<rparr>))"

section \<open>Assistance and recovery\<close>

text \<open>A channel that becomes settled, and a request that does (0030, 0036).\<close>

definition settle_channel :: "string \<Rightarrow> unit btx" where
  "settle_channel i s =
     (if list_all (\<lambda>c. ch_id c = i \<longrightarrow> ch_status c = CH_settled \<or>
           (ch_status c \<noteq> CH_closed \<and> list_ex (\<lambda>p. pu_invoiceId p = ch_invoiceId c) (b_purchases s))) (b_channels s)
      then Inr ((), s\<lparr>b_channels := map (\<lambda>c. if ch_id c = i then c\<lparr>ch_status := CH_settled, ch_closedAt := None\<rparr> else c) (b_channels s)\<rparr>)
      else Inl (B_check ''assistance_settlement_channel''))"

definition settle_assistance :: "string \<Rightarrow> unit btx" where
  "settle_assistance i s =
     (if list_all (\<lambda>a. ar_id a = i \<longrightarrow> ar_status a = AR_cash_collected \<and> list_ex (\<lambda>p. pu_assistanceRequestId p = Some i) (b_purchases s)) (b_assistance s)
      then Inr ((), s\<lparr>b_assistance := map (\<lambda>a. if ar_id a = i then a\<lparr>ar_status := AR_settled\<rparr> else a) (b_assistance s)\<rparr>)
      else Inl (B_check ''assistance_request''))"

definition insert_late :: "late_settlement_row \<Rightarrow> unit btx" where
  "insert_late r s =
     (if \<not> (list_ex (\<lambda>x. rc_id x = lt_receiptId r \<and> rc_outcome x = O_applied \<and> rc_eventName x = Ev_succeeded \<and>
              rc_paymentRequestId x = lt_paymentRequestId r) (b_receipts s) \<and>
            (case find_request (lt_paymentRequestId r) s of Some q \<Rightarrow> rq_invoiceId q = lt_invoiceId r \<and> rq_status q = R_paid | None \<Rightarrow> False) \<and>
            list_ex (\<lambda>c. ch_invoiceId c = lt_invoiceId r \<and> ch_assistanceRequestId c = lt_assistanceRequestId r) (b_channels s))
      then Inl (B_check ''assistance_late_settlement'')
      else if lt_invoiceId r \<in> lt_invoiceId ` set (b_late s) \<or> lt_receiptId r \<in> lt_receiptId ` set (b_late s) then Inr ((), s)
      else Inr ((), s\<lparr>b_late := b_late s @ [r]\<rparr>))"

definition find_obligation :: "string \<Rightarrow> bill_db \<Rightarrow> obligation_row option" where
  "find_obligation i s = get_row ob_id i (b_obligations s)"

definition recovery_outstanding :: "bill_db \<Rightarrow> obligation_row \<Rightarrow> int" where
  "recovery_outstanding s b = ob_baseAmount b - sum_list (map rp_principalAmount (filter (\<lambda>p. rp_obligationId p = ob_id b) (b_recoveryPayments s)))"

text \<open>The database splits the amount into the principal that recovers the base and the surplus.\<close>

definition insert_recovery_payment :: "recovery_payment_row \<Rightarrow> recovery_payment_row btx" where
  "insert_recovery_payment r0 s =
     (case (find_obligation (rp_obligationId r0) s, find_request (rp_paymentRequestId r0) s) of
        (Some b, Some q) \<Rightarrow>
          let principal = min (rp_amount r0) (max 0 (recovery_outstanding s b));
              r = r0\<lparr>rp_principalAmount := principal, rp_surplusAmount := rp_amount r0 - principal\<rparr> in
          if rq_invoiceId q = rp_invoiceId r \<and> rq_status q = R_paid \<and> rp_amount r = rq_amount q \<and> rp_currency r = rq_currency q \<and>
             list_ex (\<lambda>x. rc_id x = rp_receiptId r \<and> rc_outcome x = O_applied \<and> rc_eventName x = Ev_succeeded \<and> rc_paymentRequestId x = rq_id q) (b_receipts s) \<and>
             rp_currency r = ob_currency b \<and> 0 < rp_amount r \<and>
             list_ex (\<lambda>e. en_invoiceId e = rp_invoiceId r \<and> en_recoveryObligationId e = Some (rp_obligationId r)) (b_routings s) \<and>
             list_all (\<lambda>x. rp_id x \<noteq> rp_id r \<and> rp_paymentRequestId x \<noteq> rp_paymentRequestId r \<and> rp_receiptId x \<noteq> rp_receiptId r) (b_recoveryPayments s)
          then Inr (r, s\<lparr>b_recoveryPayments := b_recoveryPayments s @ [r]\<rparr>)
          else Inl (B_check ''recovery_payment'')
      | _ \<Rightarrow> Inl (B_check ''recovery_payment''))"

definition insert_surplus :: "surplus_row \<Rightarrow> unit btx" where
  "insert_surplus r s =
     (if 0 < su_amount r \<and>
         list_ex (\<lambda>p. rp_id p = su_recoveryPaymentId r \<and> rp_obligationId p = su_obligationId r \<and> rp_surplusAmount p = su_amount r \<and>
           rp_currency p = su_currency r) (b_recoveryPayments s) \<and>
         map_option ob_organizationId (find_obligation (su_obligationId r) s) = Some (su_organizationId r) \<and>
         su_id r \<notin> su_id ` set (b_surpluses s) \<and> su_recoveryPaymentId r \<notin> su_recoveryPaymentId ` set (b_surpluses s)
      then Inr ((), s\<lparr>b_surpluses := b_surpluses s @ [r]\<rparr>)
      else Inl (B_check ''recovery_surplus''))"

definition loss_remaining :: "bill_db \<Rightarrow> loss_row \<Rightarrow> int" where
  "loss_remaining s l = lo_amount l + sum_list (map aj_amount (filter (\<lambda>a. aj_lossId a = lo_id l) (b_adjustments s)))"

definition insert_adjustment :: "adjustment_row \<Rightarrow> unit btx" where
  "insert_adjustment a s =
     (case (get_row lo_id (aj_lossId a) (b_losses s), get_row rp_id (aj_recoveryPaymentId a) (b_recoveryPayments s)) of
        (Some l, Some p) \<Rightarrow>
          if rp_obligationId p = lo_writeOffOf l \<and> lo_recordedAt l \<le> b_now s \<and> 0 < loss_remaining s l \<and>
             - aj_amount a = min (rp_principalAmount p) (loss_remaining s l) \<and> aj_amount a < 0 \<and>
             aj_recoveryPaymentId a \<notin> aj_recoveryPaymentId ` set (b_adjustments s)
          then Inr ((), s\<lparr>b_adjustments := b_adjustments s @ [a]\<rparr>)
          else Inl (B_check ''financial_loss_adjustment'')
      | _ \<Rightarrow> Inl (B_check ''financial_loss_adjustment''))"

text \<open>\<open>\<dots> WHERE id = $1 AND status = 'open' AND billing_recovery_outstanding($1) <= 0 RETURNING id\<close>: whether a row was updated.\<close>

definition recover_obligation :: "string \<Rightarrow> bool btx" where
  "recover_obligation i s =
     (case find_obligation i s of
        None \<Rightarrow> Inr (False, s)
      | Some b \<Rightarrow>
          if \<not> ob_recovered b \<and> recovery_outstanding s b \<le> 0
          then Inr (True, s\<lparr>b_obligations := set_row ob_id i (b\<lparr>ob_recovered := True, ob_recoveredAt := Some (b_now s)\<rparr>) (b_obligations s)\<rparr>)
          else Inr (False, s))"

section \<open>Checkouts\<close>

definition insert_checkout :: "checkout_row \<Rightarrow> unit btx" where
  "insert_checkout r s =
     (if (ck_buyerUserId r, ck_key r) \<in> (\<lambda>x. (ck_buyerUserId x, ck_key x)) ` set (b_checkouts s) \<or> \<not> is_correlation (ck_key r) \<or>
         ck_responseStatus r < 200 \<or> 299 < ck_responseStatus r
      then Inl (B_check ''checkout_idempotency'')
      else Inr ((), s\<lparr>b_checkouts := b_checkouts s @ [r]\<rparr>))"

section \<open>Transactions\<close>

text \<open>Equality of \<open>jsonb\<close> objects: the same members in any order.\<close>

definition same_members :: "(string \<times> js_value) list \<Rightarrow> (string \<times> js_value) list \<Rightarrow> bool" where
  "same_members a b \<longleftrightarrow> list_all (\<lambda>k. map_of a k = map_of b k) (map fst a @ map fst b)"

definition issuer_reference :: "string \<Rightarrow> string \<Rightarrow> (string \<times> js_value) list" where
  "issuer_reference companyId platformId =
     [(''schemaVersion'', V_number (JInt 2)), (''partyType'', V_string ''company''), (''companyId'', V_string companyId),
      (''platformId'', V_string platformId), (''legalIdentity'', V_string ''not_determined'')]"

definition bill_to_reference :: "string \<Rightarrow> (string \<times> js_value) list" where
  "bill_to_reference userId =
     [(''schemaVersion'', V_number (JInt 2)), (''partyType'', V_string ''user''), (''userId'', V_string userId),
      (''legalIdentity'', V_string ''not_determined'')]"

text \<open>\<open>billing_checkout_invoice_check\<close> (0026): the shape of a direct checkout at COMMIT.\<close>

definition checkout_line_ok :: "bill_db \<Rightarrow> invoice_row \<Rightarrow> line_row \<Rightarrow> bool" where
  "checkout_line_ok s r l \<longleftrightarrow> ln_quantity l = 1 \<and> ln_currency l = bi_currency r \<and>
     (case find_product (ln_productId l) s of
        None \<Rightarrow> False
      | Some p \<Rightarrow> pd_target p = Target_personal \<and> pd_seller p = bi_seller r \<and>
          (case pd_platformId p of
             None \<Rightarrow> False
           | Some g \<Rightarrow>
               (case get_row pf_platformId g (b_platforms s) of
                  None \<Rightarrow> False
                | Some f \<Rightarrow> bp_id (bi_seller r) = pf_companyId f \<and> bi_currency r = pf_currency f \<and>
                    same_members (bi_issuerSnapshot r) (issuer_reference (bp_id (bi_seller r)) g))))"

definition checkout_shape :: "bill_db \<Rightarrow> invoice_row \<Rightarrow> bool" where
  "checkout_shape s r \<longleftrightarrow> bp_type (bi_payer r) = ''user'' \<and> bi_organizationId r = None \<and> bp_type (bi_seller r) = ''company'' \<and> bi_status r \<noteq> I_draft \<and>
     (case filter (\<lambda>l. ln_invoiceId l = bi_id r) (b_lines s) of [l] \<Rightarrow> checkout_line_ok s r l | _ \<Rightarrow> False) \<and>
     same_members (bi_billToSnapshot r) (bill_to_reference (bp_id (bi_payer r))) \<and>
     list_ex (\<lambda>e. en_invoiceId e = bi_id r \<and> en_purpose e = Direct_purchase \<and> en_beneficiaryUserId e = Some (bp_id (bi_payer r))) (b_routings s) \<and>
     list_ex (\<lambda>q. rq_invoiceId q = bi_id r) (b_requests s)"

definition totals_ok :: "bill_db \<Rightarrow> invoice_row \<Rightarrow> bool" where
  "totals_ok s r \<longleftrightarrow>
     (let ls = filter (\<lambda>l. ln_invoiceId l = bi_id r) (b_lines s); st = sum_list (map ln_lineTotal ls); tx = sum_list (map ln_taxAmount ls) in
      1 \<le> length ls \<and> length ls \<le> 100 \<and> st = bi_subtotal r \<and> tx = bi_taxTotal r \<and> st + tx = bi_total r)"

definition has_history :: "bill_db \<Rightarrow> entity \<Rightarrow> string \<Rightarrow> entity_status \<Rightarrow> nat \<Rightarrow> bool" where
  "has_history s e i st n \<longleftrightarrow> list_ex (\<lambda>t. tr_entity t = e \<and> tr_entityId t = i \<and> tr_to t = st \<and> tr_revision t = n) (b_transitions s)"

fun deferred_ok :: "bill_db \<Rightarrow> deferred \<Rightarrow> bool" where
  "deferred_ok s (Need_history e i st n) \<longleftrightarrow> has_history s e i st n"
| "deferred_ok s (Need_totals i) \<longleftrightarrow> opt_all (totals_ok s) (find_invoice i s)"
| "deferred_ok s (Need_routing i) \<longleftrightarrow> find_routing i s \<noteq> None"
| "deferred_ok s (Need_settlement i) \<longleftrightarrow> list_ex (\<lambda>x. ss_subscriptionId x = i \<and> ss_transactionId x = b_xid s) (b_settlements s)"
| "deferred_ok s (Need_checkout i) \<longleftrightarrow> opt_all (\<lambda>r. bi_producer r = CHECKOUT_PRODUCER \<longrightarrow> checkout_shape s r) (find_invoice i s)"

text \<open>
  \<open>db.tx\<close>: a new transaction id, the statements, then the deferred checks of COMMIT. \<open>commit\<close> of the prelude
  runs it to the end: after an error the state is the one before.
\<close>

definition begin_tx :: "bill_db \<Rightarrow> bill_db" where
  "begin_tx s = s\<lparr>b_xid := b_xid s + 1, b_deferred := []\<rparr>"

definition end_tx :: "'a \<Rightarrow> 'a btx" where
  "end_tx x s = (if list_all (deferred_ok s) (b_deferred s) then Inr (x, s\<lparr>b_deferred := []\<rparr>) else Inl (B_check ''deferred''))"

definition db_tx :: "'a btx \<Rightarrow> 'a btx" where
  "db_tx t s = tx_bind t end_tx (begin_tx s)"

end
