(* ===== verification/BillingLedgers.thy ===== *)
theory BillingLedgers
  imports BillingStore
begin

text \<open>
  The ledgers a settled payment moves: the subscription of an organization
  (\<open>subscriptions/subscription.repository.ts\<close>), the purchases of a member
  (\<open>subscriptions/personal-subscription.repository.ts\<close>), the assisted settlement (in
  \<open>invoices/payment-request.repository.ts\<close>) and the recovery of an obligation (\<open>recovery/recovery-ledger.ts\<close>).
  Locks do not appear: the transactions of the model run one after the other.
\<close>

definition b_refuse :: "nat \<Rightarrow> string \<Rightarrow> 'a btx" where
  "b_refuse st code = tx_lift (billingError st code)"

definition nat_text :: "nat \<Rightarrow> string" where
  "nat_text n = pg_decimal (int n)"

section \<open>Organization subscriptions\<close>

definition record_subscription :: "subscription_row \<Rightarrow> subscription_row \<Rightarrow> transition_ctx \<Rightarrow> unit btx" where
  "record_subscription old new ctx =
     recordTransition E_subscription (sb_id new) (Some (St_subscription (sb_status old))) (St_subscription (sb_status new)) (sb_revision new) ctx"

definition subscription_draft :: "string \<Rightarrow> string \<Rightarrow> string \<Rightarrow> string \<Rightarrow> subscription_row" where
  "subscription_draft i org productId priceId =
     \<lparr>sb_id = i, sb_organizationId = org, sb_productId = productId, sb_priceId = priceId, sb_status = S_pending, sb_currentPeriodStart = None,
      sb_currentPeriodEnd = None, sb_graceUntil = None, sb_cancelAtPeriodEnd = False, sb_effectiveTerminationAt = None,
      sb_billingAnchorAt = None, sb_revision = 0, sb_createdAt = 0, sb_updatedAt = 0\<rparr>"

text \<open>The result is the row and whether it was written.\<close>

definition createTx :: "bill_cfg \<Rightarrow> string \<Rightarrow> string \<Rightarrow> string \<Rightarrow> transition_ctx \<Rightarrow> (subscription_row \<times> bool) btx" where
  "createTx cfg org productId priceId ctx =
     tx_bind (b_fresh cfg) (\<lambda>i.
     tx_bind (insert_subscription (subscription_draft i org productId priceId)) (\<lambda>inserted.
       case inserted of
         Some b \<Rightarrow>
           tx_bind (recordTransition E_subscription (sb_id b) None (St_subscription S_pending) (sb_revision b) ctx) (\<lambda>_. tx_return (b, True))
       | None \<Rightarrow>
           tx_bind (b_read (find_subscription org)) (\<lambda>existing.
             case existing of
               None \<Rightarrow> b_refuse 409 ''subscription_conflict''
             | Some b \<Rightarrow>
                 if sb_productId b \<noteq> productId \<or> sb_priceId b \<noteq> priceId then b_refuse 409 ''subscription_conflict''
                 else tx_return (b, False))))"

definition create_subscription :: "bill_cfg \<Rightarrow> string \<Rightarrow> string \<Rightarrow> string \<Rightarrow> transition_ctx \<Rightarrow> (subscription_row \<times> bool) btx" where
  "create_subscription cfg org productId priceId ctx = db_tx (createTx cfg org productId priceId ctx)"

text \<open>
  The computed columns of the UPDATE of \<open>rollPeriod\<close>: the billing anchor and the end of the period that
  starts at the given instant. \<open>None\<close>: the end is NULL.
\<close>

definition next_period :: "price_row \<Rightarrow> subscription_row \<Rightarrow> instant \<Rightarrow> bool \<Rightarrow> (instant option \<times> instant) option" where
  "next_period p cur start reset =
     (case (pc_intervalUnit p, pc_intervalCount p) of
        (Some u, Some n) \<Rightarrow>
          if calendar_unit u then
            (case (if reset then Some start else sb_billingAnchorAt cur) of
               Some a \<Rightarrow> Some (Some a, period_end start a u n) | None \<Rightarrow> None)
          else Some (None, period_end start start u n)
      | _ \<Rightarrow> None)"

definition roll_columns :: "instant \<Rightarrow> instant option \<times> instant \<Rightarrow> subscription_row \<Rightarrow> subscription_row" where
  "roll_columns start x b =
     b\<lparr>sb_status := S_active, sb_currentPeriodStart := Some start, sb_currentPeriodEnd := Some (snd x), sb_billingAnchorAt := fst x,
       sb_graceUntil := Some (snd x + DAY_MS)\<rparr>"

definition rollPeriod :: "subscription_row \<Rightarrow> instant \<Rightarrow> bool \<Rightarrow> transition_ctx \<Rightarrow> subscription_row btx" where
  "rollPeriod b start reset ctx =
     tx_bind (b_read (get_row sb_id (sb_id b) \<circ> b_subscriptions)) (\<lambda>cur.
     tx_bind (b_the cur) (\<lambda>cur.
     tx_bind (b_read (find_price (sb_priceId cur))) (\<lambda>p.
     tx_bind (b_the p) (\<lambda>p.
       case next_period p cur start reset of
         None \<Rightarrow> tx_throw (B_check ''subscription'')
       | Some x \<Rightarrow>
           tx_bind (update_subscription (sb_id b) (roll_columns start x)) (\<lambda>r.
           tx_bind (b_the r) (\<lambda>updated.
           tx_bind (record_subscription b updated ctx) (\<lambda>_. tx_return updated)))))))"

record settlement_params =
  sq_organizationId :: string
  sq_productId :: string
  sq_priceId :: string
  sq_settledAt :: instant
  sq_invoiceId :: string
  sq_paymentRequestId :: string
  sq_receiptId :: string

definition settlement_draft :: "string \<Rightarrow> string \<Rightarrow> settlement_params \<Rightarrow> settlement_row" where
  "settlement_draft i sub q =
     \<lparr>ss_id = i, ss_invoiceId = sq_invoiceId q, ss_organizationId = sq_organizationId q, ss_productId = sq_productId q, ss_subscriptionId = sub,
      ss_paymentRequestId = sq_paymentRequestId q, ss_receiptId = sq_receiptId q, ss_settledAt = sq_settledAt q, ss_transactionId = 0\<rparr>"

definition renewal_basis_of :: "subscription_row \<Rightarrow> renewal_basis option" where
  "renewal_basis_of b =
     (if sb_status b = S_pending then None
      else Some \<lparr>rn_currentPeriodEnd = the (sb_currentPeriodEnd b), rn_graceUntil = sb_graceUntil b\<rparr>)"

text \<open>The instants of \<open>changes.period_end\<close> in their ISO form.\<close>

definition audit_settlement :: "bill_cfg \<Rightarrow> subscription_row \<Rightarrow> subscription_row \<Rightarrow> transition_ctx \<Rightarrow> unit btx" where
  "audit_settlement cfg old new ctx =
     (if sb_status old = S_pending then
        record_audit cfg ''subscription.activated'' (Some (sb_organizationId new)) (''subscription'', sb_id new)
          [(''product_id'', V_string (sb_productId new)), (''price_id'', V_string (sb_priceId new))] [] ctx
      else if sb_status old = S_active \<or> sb_status old = S_grace then
        record_audit cfg ''subscription.renewed'' (Some (sb_organizationId new)) (''subscription'', sb_id new)
          [(''period_end'', V_object [(''from'', V_date (sb_currentPeriodEnd old)), (''to'', V_date (sb_currentPeriodEnd new))])]
          [nat_text (sb_revision new)] ctx
      else tx_return ())"

definition applySettlement :: "bill_cfg \<Rightarrow> settlement_params \<Rightarrow> transition_ctx \<Rightarrow> (subscription_row \<times> bool) btx" where
  "applySettlement cfg q ctx =
     tx_bind (createTx cfg (sq_organizationId q) (sq_productId q) (sq_priceId q) ctx) (\<lambda>_.
     tx_bind (lock_subscription (sq_organizationId q)) (\<lambda>b.
     tx_bind (b_fresh cfg) (\<lambda>i.
     tx_bind (insert_settlement (settlement_draft i (sb_id b) q)) (\<lambda>settled.
       if settled = None then tx_return (b, False)
       else
         (let basis = renewal_basis_of b;
              anchor = (case basis of Some x \<Rightarrow> renewalAnchor x (sq_settledAt q) | None \<Rightarrow> sq_settledAt q);
              reset = (case basis of Some x \<Rightarrow> isLateRenewal x (sq_settledAt q) | None \<Rightarrow> True) in
          tx_bind (rollPeriod b anchor reset ctx) (\<lambda>updated.
          tx_bind (audit_settlement cfg b updated ctx) (\<lambda>_. tx_return (updated, True))))))))"

text \<open>\<open>update\<close> then \<open>record\<close>: the shared end of the operations below.\<close>

definition move_subscription :: "subscription_row \<Rightarrow> (subscription_row \<Rightarrow> subscription_row) \<Rightarrow> transition_ctx \<Rightarrow> (subscription_row \<times> bool) btx" where
  "move_subscription b f ctx =
     tx_bind (update_subscription (sb_id b) f) (\<lambda>r.
     tx_bind (b_the r) (\<lambda>updated.
     tx_bind (record_subscription b updated ctx) (\<lambda>_. tx_return (updated, True))))"

definition enterGrace :: "string \<Rightarrow> transition_ctx \<Rightarrow> (subscription_row \<times> bool) btx" where
  "enterGrace org ctx = db_tx (tx_bind (lock_subscription org) (\<lambda>b.
     if sb_status b \<noteq> S_active then b_refuse 409 ''invalid_subscription_transition''
     else if sb_graceUntil b = None then b_refuse 409 ''subscription_grace_unavailable''
     else move_subscription b (\<lambda>x. x\<lparr>sb_status := S_grace\<rparr>) ctx))"

definition expire :: "string \<Rightarrow> transition_ctx \<Rightarrow> (subscription_row \<times> bool) btx" where
  "expire org ctx = db_tx (tx_bind (lock_subscription org) (\<lambda>b.
     if sb_status b \<noteq> S_active \<and> sb_status b \<noteq> S_grace then b_refuse 409 ''invalid_subscription_transition''
     else move_subscription b (\<lambda>x. x\<lparr>sb_status := S_expired\<rparr>) ctx))"

definition setCancellation :: "string \<Rightarrow> bool \<Rightarrow> transition_ctx \<Rightarrow> (subscription_row \<times> bool) btx" where
  "setCancellation org cancels ctx = db_tx (tx_bind (lock_subscription org) (\<lambda>b.
     if sb_status b \<noteq> S_active then b_refuse 409 ''invalid_subscription_transition''
     else if sb_cancelAtPeriodEnd b = cancels then tx_return (b, False)
     else move_subscription b (\<lambda>x. x\<lparr>sb_cancelAtPeriodEnd := cancels, sb_status := S_active\<rparr>) ctx))"

definition terminate :: "string \<Rightarrow> transition_ctx \<Rightarrow> (subscription_row \<times> bool) btx" where
  "terminate org ctx = db_tx (tx_bind (lock_subscription org) (\<lambda>b.
     if sb_status b \<noteq> S_active \<and> sb_status b \<noteq> S_grace then b_refuse 409 ''invalid_subscription_transition''
     else tx_bind (b_read b_now) (\<lambda>t. move_subscription b (\<lambda>x. x\<lparr>sb_status := S_expired, sb_effectiveTerminationAt := Some t\<rparr>) ctx)))"

section \<open>Personal subscriptions\<close>

text \<open>A settled purchase as the application of a payment event hands it over: its evidence is a receipt, and it is not applied later.\<close>

record settled_purchase =
  sx_userId :: string
  sx_productId :: string
  sx_priceId :: string
  sx_invoiceId :: string
  sx_paymentRequestId :: string
  sx_receiptId :: string
  sx_settledAt :: instant
  sx_assistanceRequestId :: "string option"

definition purchase_draft :: "string \<Rightarrow> string \<Rightarrow> settled_purchase \<Rightarrow> purchase_row" where
  "purchase_draft i personal q =
     \<lparr>pu_id = i, pu_personalSubscriptionId = personal, pu_invoiceId = sx_invoiceId q,
      pu_purpose = (if some_text (sx_assistanceRequestId q) then Assisted_settlement else Direct_purchase), pu_beneficiaryUserId = sx_userId q,
      pu_productId = sx_productId q, pu_priceId = sx_priceId q, pu_paymentRequestId = sx_paymentRequestId q, pu_receiptId = sx_receiptId q,
      pu_settledAt = sx_settledAt q, pu_originalStart = sx_settledAt q, pu_originalEnd = sx_settledAt q + 1000, pu_transactionId = 0,
      pu_assistanceRequestId = sx_assistanceRequestId q, pu_appliedAt = None\<rparr>"

definition recordPurchase :: "bill_cfg \<Rightarrow> settled_purchase \<Rightarrow> (personal_row \<times> bool) btx" where
  "recordPurchase cfg q =
     tx_bind (insert_personal cfg (sx_userId q) (sx_productId q)) (\<lambda>_.
     tx_bind (b_read (find_personal (sx_userId q) (sx_productId q))) (\<lambda>p.
       case p of
         None \<Rightarrow> tx_throw (B_internal ''personal purchase: the product is not a personal subscription product'')
       | Some b \<Rightarrow>
           tx_bind (b_fresh cfg) (\<lambda>i.
           tx_bind (insert_purchase (purchase_draft i (ps_id b) q)) (\<lambda>r. tx_return (b, r \<noteq> None)))))"

text \<open>What the spans of a recorded subscription are, and the member's entitlement under its holds.\<close>

definition spans_of :: "string \<Rightarrow> bill_db \<Rightarrow> span list" where
  "spans_of personal s = personal_spans (kept_purchases personal s)"

definition member_entitlement :: "string \<Rightarrow> string \<Rightarrow> string \<Rightarrow> (string \<Rightarrow> hold_window list) \<Rightarrow> instant \<Rightarrow> bill_db \<Rightarrow> entitlement" where
  "member_entitlement userId platformId productId holds t s =
     (case find_personal userId productId s of
        None \<Rightarrow> NO_ENTITLEMENT
      | Some b \<Rightarrow> if ps_platformId b \<noteq> platformId then NO_ENTITLEMENT else entitlementOf (spans_of (ps_id b) s) (holds (ps_id b)) t)"

section \<open>Assisted settlements\<close>

datatype subscription_outcome = Out_settled | Out_purchased | Out_late | Out_conflict | Out_unrouted | Out_recovery | Out_recovered

definition recurring_lines :: "string \<Rightarrow> string \<Rightarrow> bill_db \<Rightarrow> line_row list" where
  "recurring_lines i productId s = filter (\<lambda>l. ln_invoiceId l = i \<and> ln_productId l = productId \<and> ln_interval l = Recurring) (b_lines s)"

definition late_reason :: "bill_db \<Rightarrow> assistance_row \<Rightarrow> channel_row option \<Rightarrow> string option" where
  "late_reason s a ch =
     (if (case ch of None \<Rightarrow> True | Some c \<Rightarrow> ch_status c = CH_closed \<or> ch_status c = CH_settled) then Some ''channel_closed''
      else if list_ex (\<lambda>p. pu_assistanceRequestId p = Some (ar_id a)) (b_purchases s) then Some ''purchase_exists''
      else if ar_id a \<in> set (b_cashReturns s) then Some ''cash_return_obligation_exists''
      else if ar_status a \<noteq> AR_cash_collected then Some ''request_not_settleable''
      else None)"

definition applyAssistedSettlement ::
    "bill_cfg \<Rightarrow> string \<Rightarrow> string \<Rightarrow> string \<Rightarrow> string \<Rightarrow> string \<Rightarrow> string \<Rightarrow> instant \<Rightarrow> subscription_outcome btx" where
  "applyAssistedSettlement cfg i beneficiary productId assistanceId requestId receiptId settledAt =
     tx_bind (b_read (get_row ar_id assistanceId \<circ> b_assistance)) (\<lambda>a.
     tx_bind (b_the a) (\<lambda>a.
     tx_bind (b_read (get_row ch_invoiceId i \<circ> b_channels)) (\<lambda>ch.
     tx_bind (b_read (\<lambda>s. late_reason s a ch)) (\<lambda>reason.
       case reason of
         Some why \<Rightarrow>
           tx_bind (insert_late \<lparr>lt_assistanceRequestId = assistanceId, lt_invoiceId = i, lt_paymentRequestId = requestId,
             lt_receiptId = receiptId, lt_reason = why, lt_settledAt = settledAt\<rparr>) (\<lambda>_. tx_return Out_late)
       | None \<Rightarrow>
           tx_bind (b_read (recurring_lines i productId)) (\<lambda>ls.
             case ls of
               [l] \<Rightarrow>
                 tx_bind (recordPurchase cfg \<lparr>sx_userId = beneficiary, sx_productId = productId, sx_priceId = ln_priceId l, sx_invoiceId = i,
                   sx_paymentRequestId = requestId, sx_receiptId = receiptId, sx_settledAt = settledAt, sx_assistanceRequestId = Some assistanceId\<rparr>) (\<lambda>_.
                 tx_bind (settle_channel (case ch of Some c \<Rightarrow> ch_id c | None \<Rightarrow> '''')) (\<lambda>_.
                 tx_bind (settle_assistance assistanceId) (\<lambda>_. tx_return Out_purchased)))
             | _ \<Rightarrow> tx_return Out_unrouted)))))"

section \<open>Recovery\<close>

record recovery_params =
  ry_obligationId :: string
  ry_invoiceId :: string
  ry_paymentRequestId :: string
  ry_receiptId :: string
  ry_amount :: int
  ry_currency :: string

definition recovery_draft :: "string \<Rightarrow> recovery_params \<Rightarrow> recovery_payment_row" where
  "recovery_draft i p =
     \<lparr>rp_id = i, rp_obligationId = ry_obligationId p, rp_invoiceId = ry_invoiceId p, rp_paymentRequestId = ry_paymentRequestId p,
      rp_receiptId = ry_receiptId p, rp_amount = ry_amount p, rp_currency = ry_currency p, rp_principalAmount = 0, rp_surplusAmount = 0\<rparr>"

definition record_surplus :: "bill_cfg \<Rightarrow> obligation_row \<Rightarrow> recovery_payment_row \<Rightarrow> transition_ctx \<Rightarrow> unit btx" where
  "record_surplus cfg b pay ctx =
     (if rp_surplusAmount pay \<le> 0 then tx_return ()
      else tx_bind (b_fresh cfg) (\<lambda>i.
           tx_bind (insert_surplus \<lparr>su_id = i, su_recoveryPaymentId = rp_id pay, su_obligationId = ob_id b, su_organizationId = ob_organizationId b,
             su_amount = rp_surplusAmount pay, su_currency = rp_currency pay\<rparr>) (\<lambda>_.
             record_audit cfg ''recovery_surplus.recorded'' (Some (ob_organizationId b)) (''recovery_surplus'', i)
               [(''amount'', V_number (JInt (rp_surplusAmount pay)))] [] ctx)))"

text \<open>The write-off of the obligation, if there is one, is reduced by the principal that came back.\<close>

definition reduce_loss :: "bill_cfg \<Rightarrow> obligation_row \<Rightarrow> recovery_payment_row \<Rightarrow> transition_ctx \<Rightarrow> unit btx" where
  "reduce_loss cfg b pay ctx =
     (if rp_principalAmount pay \<le> 0 then tx_return ()
      else tx_bind (b_read (find (\<lambda>l. lo_writeOffOf l = ob_id b) \<circ> b_losses)) (\<lambda>loss.
        case loss of
          None \<Rightarrow> tx_return ()
        | Some l \<Rightarrow>
            tx_bind (b_read (\<lambda>s. loss_remaining s l)) (\<lambda>remaining.
              if remaining \<le> 0 then tx_return ()
              else
                (let reduce = min (rp_principalAmount pay) remaining in
                 tx_bind (insert_adjustment \<lparr>aj_lossId = lo_id l, aj_amount = - reduce, aj_recoveryPaymentId = rp_id pay\<rparr>) (\<lambda>_.
                   record_audit cfg ''financial_loss.adjusted'' (Some (ob_organizationId b)) (''financial_loss'', lo_id l)
                     [(''reason'', V_string ''recovered_after_write_off''), (''amount'', V_number (JInt reduce))] [rp_id pay] ctx)))))"

definition applyRecoveryPayment :: "bill_cfg \<Rightarrow> recovery_params \<Rightarrow> transition_ctx \<Rightarrow> subscription_outcome btx" where
  "applyRecoveryPayment cfg p ctx =
     tx_bind (b_read (find_obligation (ry_obligationId p))) (\<lambda>b.
     tx_bind (b_the b) (\<lambda>b.
     tx_bind (b_fresh cfg) (\<lambda>i.
     tx_bind (insert_recovery_payment (recovery_draft i p)) (\<lambda>pay.
     tx_bind (record_audit cfg ''recovery_payment.recorded'' (Some (ob_organizationId b)) (''recovery_obligation'', ry_obligationId p)
        [(''payment_request_id'', V_string (ry_paymentRequestId p)), (''recovered_amount'', V_number (JInt (rp_principalAmount pay))),
         (''surplus_amount'', V_number (JInt (rp_surplusAmount pay)))] [rp_id pay] ctx) (\<lambda>_.
     tx_bind (record_surplus cfg b pay ctx) (\<lambda>_.
     tx_bind (reduce_loss cfg b pay ctx) (\<lambda>_.
     tx_bind (recover_obligation (ry_obligationId p)) (\<lambda>done.
       if done then
         tx_bind (record_audit cfg ''recovery_obligation.recovered'' (Some (ob_organizationId b)) (''recovery_obligation'', ry_obligationId p) [] [] ctx)
           (\<lambda>_. tx_return Out_recovered)
       else tx_return Out_recovery))))))))"

end
