(* ===== verification/BillingInvoices.thy ===== *)
theory BillingInvoices
  imports BillingLedgers
begin

text \<open>
  Invoices (\<open>invoices/invoice.repository.ts\<close>): creating a draft from catalogue prices or replaying the identical
  earlier request, planning and making the issue with its routing record and number, discarding a draft,
  reading for a caller. The hash that tells an identical request is over the canonical form
  (\<open>domain/canonical.ts\<close>).
\<close>

section \<open>The canonical form of a request\<close>

fun text_less :: "string \<Rightarrow> string \<Rightarrow> bool" where
  "text_less [] ys \<longleftrightarrow> True"
| "text_less (x # xs) [] \<longleftrightarrow> False"
| "text_less (x # xs) (y # ys) \<longleftrightarrow> char_code x < char_code y \<or> (x = y \<and> text_less xs ys)"

fun insert_key :: "string \<times> 'a \<Rightarrow> (string \<times> 'a) list \<Rightarrow> (string \<times> 'a) list" where
  "insert_key m [] = [m]"
| "insert_key m (n # ms) = (if text_less (fst m) (fst n) then m # n # ms else n # insert_key m ms)"

definition sort_keys :: "(string \<times> 'a) list \<Rightarrow> (string \<times> 'a) list" where
  "sort_keys ms = foldr insert_key ms []"

text \<open>\<open>normalise\<close>; the text of an instant (\<open>toISOString\<close>) is a parameter.\<close>

fun canonical :: "(instant \<Rightarrow> string) \<Rightarrow> js_value \<Rightarrow> js_value" and canonical_members :: "(instant \<Rightarrow> string) \<Rightarrow> (string \<times> js_value) list \<Rightarrow> (string \<times> js_value) list" where
  "canonical txt V_undefined = V_null"
| "canonical txt V_null = V_null"
| "canonical txt (V_bool b) = V_bool b"
| "canonical txt (V_number n) = V_number n"
| "canonical txt (V_string s) = V_string s"
| "canonical txt (V_date d) = (case d of Some t \<Rightarrow> V_string (txt t) | None \<Rightarrow> V_date None)"
| "canonical txt (V_array vs) = V_array (map (canonical txt) vs)"
| "canonical txt (V_object ms) = V_object (sort_keys (canonical_members txt ms))"
| "canonical_members txt [] = []"
| "canonical_members txt ((k, v) # ms) = (k, canonical txt v) # canonical_members txt ms"

definition requestHash :: "bill_cfg \<Rightarrow> js_value \<Rightarrow> string" where
  "requestHash cfg v = bc_digest cfg (canonical (bc_iso cfg) v)"

text \<open>\<open>{ producer, ...input }\<close>.\<close>

definition create_key :: "string \<Rightarrow> invoice_request \<Rightarrow> js_value" where
  "create_key producer input =
     (case request_js input of V_object ms \<Rightarrow> V_object ((''producer'', V_string producer) # ms) | v \<Rightarrow> v)"

section \<open>Reads\<close>

record invoice_record =
  ir_row :: invoice_row
  ir_lines :: "line_row list"
  ir_routing :: "routing_row option"

definition withLines :: "invoice_row \<Rightarrow> bill_db \<Rightarrow> invoice_record" where
  "withLines r s = \<lparr>ir_row = r, ir_lines = lines_of (bi_id r) s, ir_routing = find_routing (bi_id r) s\<rparr>"

definition load_invoice :: "string \<Rightarrow> bill_db \<Rightarrow> invoice_record option" where
  "load_invoice i s = map_option (\<lambda>r. withLines r s) (find_invoice i s)"

definition findByNaturalKey :: "string \<Rightarrow> string \<Rightarrow> bill_db \<Rightarrow> invoice_record option" where
  "findByNaturalKey producer rid s = map_option (\<lambda>r. withLines r s) (get_row natural_key (producer, rid) (b_invoices s))"

definition naturalKeyExists :: "string \<Rightarrow> string \<Rightarrow> bill_db \<Rightarrow> bool" where
  "naturalKeyExists producer rid s \<longleftrightarrow> get_row natural_key (producer, rid) (b_invoices s) \<noteq> None"

definition invoice_relation :: "invoice_row \<Rightarrow> caller \<Rightarrow> relation option" where
  "invoice_relation r c = relationTo (bi_producer r) (bp_type (bi_payer r)) (bp_id (bi_payer r)) c"

definition find_invoice_for :: "string \<Rightarrow> caller \<Rightarrow> bill_db \<Rightarrow> bill_error + invoice_record" where
  "find_invoice_for i c s =
     (case load_invoice i s of
        None \<Rightarrow> notFound
      | Some x \<Rightarrow> if invoice_relation (ir_row x) c = None then notFound else Inr x)"

definition lock_for_caller :: "string \<Rightarrow> caller \<Rightarrow> invoice_row btx" where
  "lock_for_caller i c s =
     (case find_invoice i s of
        None \<Rightarrow> notFound
      | Some r \<Rightarrow>
          (case invoice_relation r c of
             None \<Rightarrow> notFound
           | Some Rel_producer \<Rightarrow> Inr (r, s)
           | Some Rel_payer \<Rightarrow> operationNotPermitted))"

text \<open>
  \<open>listForCaller\<close>: the scope of the caller, then the filters, the cursor, the order (newest first, then by id)
  and one row more than the page. The cursor's instant is at the database's precision. \<open>active\<close> is the
  request in flight.
\<close>

definition in_scope :: "caller \<Rightarrow> invoice_row \<Rightarrow> bool" where
  "in_scope c r =
     (case c of Service_caller p \<Rightarrow> bi_producer r = p | User_caller u \<Rightarrow> bp_type (bi_payer r) = ''user'' \<and> bp_id (bi_payer r) = u)"

definition invoice_status_text :: "invoice_status \<Rightarrow> string" where
  "invoice_status_text x = (case x of I_draft \<Rightarrow> ''draft'' | I_open \<Rightarrow> ''open'' | I_paid \<Rightarrow> ''paid'' | I_void \<Rightarrow> ''void'')"

definition passes_filters :: "list_filters \<Rightarrow> invoice_row \<Rightarrow> bool" where
  "passes_filters f r \<longleftrightarrow>
     opt_all (\<lambda>x. invoice_status_text (bi_status r) = x) (lf_status f) \<and> opt_all (\<lambda>x. bi_sourceType r = x) (lf_sourceType f) \<and>
     opt_all (\<lambda>x. bi_sourceId r = x) (lf_sourceId f) \<and> opt_all (\<lambda>x. bp_type (bi_payer r) = x) (lf_payerType f) \<and>
     opt_all (\<lambda>x. bp_id (bi_payer r) = x) (lf_payerId f) \<and>
     opt_all (\<lambda>x. case bi_dueAt r of None \<Rightarrow> False | Some d \<Rightarrow> d < x) (lf_dueBefore f)"

definition before_in_list :: "instant \<times> string \<Rightarrow> instant \<times> string \<Rightarrow> bool" where
  "before_in_list a b \<longleftrightarrow> fst a < fst b \<or> (fst a = fst b \<and> snd a \<noteq> snd b \<and> text_less (snd a) (snd b))"

definition list_position :: "invoice_row \<Rightarrow> instant \<times> string" where
  "list_position r = (bi_createdAt r, bi_id r)"

fun insert_newest :: "invoice_row \<Rightarrow> invoice_row list \<Rightarrow> invoice_row list" where
  "insert_newest r [] = [r]"
| "insert_newest r (x # xs) = (if before_in_list (list_position r) (list_position x) then x # insert_newest r xs else r # x # xs)"

definition newest_first :: "invoice_row list \<Rightarrow> invoice_row list" where
  "newest_first rs = foldr insert_newest rs []"

definition find_active_request :: "string \<Rightarrow> bill_db \<Rightarrow> bill_request option" where
  "find_active_request i s = find (\<lambda>q. rq_invoiceId q = i \<and> rq_status q \<in> set ACTIVE_PAYMENT_REQUEST_STATUSES) (b_requests s)"

record list_row =
  lr_row :: invoice_row
  lr_isOverdue :: bool
  lr_active :: "bill_request option"

definition list_for_caller :: "caller \<Rightarrow> list_filters \<Rightarrow> nat \<Rightarrow> (instant \<times> string) option \<Rightarrow> bill_db \<Rightarrow> list_row list" where
  "list_for_caller c f limit cursor s =
     map (\<lambda>r. \<lparr>lr_row = r, lr_isOverdue = isOverdue (bi_status r) (bi_dueAt r) (b_now s), lr_active = find_active_request (bi_id r) s\<rparr>)
       (take (limit + 1) (newest_first
         (filter (\<lambda>r. in_scope c r \<and> passes_filters f r \<and> opt_all (before_in_list (list_position r)) cursor) (b_invoices s))))"

section \<open>Creating a draft\<close>

record price_for_invoice =
  pf_priceId :: string
  pf_productId :: string
  pf_productCode :: string
  pf_productName :: string
  pf_seller :: bparty
  pf_entitlementKind :: string
  pf_priceCurrency :: string
  pf_unitAmount :: int
  pf_interval :: price_interval
  pf_intervalUnit :: "string option"
  pf_intervalCount :: "int option"
  pf_available :: bool

text \<open>\<open>loadPrices\<close>: one price joined with its product, or nothing.\<close>

definition load_price :: "bill_db \<Rightarrow> string \<Rightarrow> price_for_invoice option" where
  "load_price s i =
     (case find_price i s of
        None \<Rightarrow> None
      | Some p \<Rightarrow>
          map_option (\<lambda>d. \<lparr>pf_priceId = pc_id p, pf_productId = pd_id d, pf_productCode = pd_code d, pf_productName = pd_name d, pf_seller = pd_seller d,
            pf_entitlementKind = pd_entitlementKind d, pf_priceCurrency = pc_currency p, pf_unitAmount = pc_unitAmount p, pf_interval = pc_interval p,
            pf_intervalUnit = pc_intervalUnit p, pf_intervalCount = pc_intervalCount p,
            pf_available = (pc_retiredAt p = None \<and> pc_effectiveFrom p \<le> b_now s \<and> pd_active d)\<rparr>) (find_product (pc_productId p) s))"

definition price_line :: "bill_db \<Rightarrow> string \<Rightarrow> bparty \<Rightarrow> line_request \<Rightarrow> bill_error + line_request \<times> price_for_invoice" where
  "price_line s producer seller l =
     (case load_price s (lq_priceId l) of
        None \<Rightarrow> billingError 422 ''price_not_available''
      | Some p \<Rightarrow>
          if (\<not> pf_available p \<and> producer \<noteq> ASSISTANCE_PRODUCER) \<or> pf_seller p \<noteq> seller then billingError 422 ''price_not_available''
          else Inr (l, p))"

definition line_totals_input :: "line_request \<times> price_for_invoice \<Rightarrow> bill_error + line_input" where
  "line_totals_input x = err_bind (read_amount (pf_unitAmount (snd x))) (\<lambda>u. Inr \<lparr>li_quantity = JInt (lq_quantity (fst x)), li_unitAmount = u\<rparr>)"

text \<open>Everything before the INSERT: the priced lines, their currency and the totals.\<close>

definition price_lines :: "bill_cfg \<Rightarrow> bill_db \<Rightarrow> string \<Rightarrow> invoice_request \<Rightarrow> bill_error + (line_request \<times> price_for_invoice) list \<times> string \<times> invoice_totals" where
  "price_lines cfg s producer input =
     err_bind (each (price_line s producer (iq_seller input)) (iq_lines input)) (\<lambda>priced.
       case priced of
         [] \<Rightarrow> Inl (B_internal ''undefined'')
       | x0 # _ \<Rightarrow>
           let currency = pf_priceCurrency (snd x0) in
           if list_ex (\<lambda>x. pf_priceCurrency (snd x) \<noteq> currency) priced then billingError 422 ''price_not_available''
           else if currency \<notin> set (bc_supportedCurrencies cfg) then billingError 422 ''unsupported_currency''
           else if 1 < length (filter (\<lambda>x. pf_interval (snd x) = Recurring) priced) then billingError 422 ''ambiguous_subscription_obligation''
           else err_bind (each line_totals_input priced) (\<lambda>ls.
             case computeTotals ls of Inl _ \<Rightarrow> Inl (B_internal ''money'') | Inr t \<Rightarrow> Inr (priced, currency, t)))"

definition invoice_draft :: "string \<Rightarrow> string \<Rightarrow> string \<Rightarrow> invoice_request \<Rightarrow> string \<Rightarrow> invoice_totals \<Rightarrow> invoice_row" where
  "invoice_draft i producer h input currency t =
     \<lparr>bi_id = i, bi_producer = producer, bi_invoiceRequestId = iq_invoiceRequestId input, bi_requestHash = h, bi_seller = iq_seller input,
      bi_payer = iq_payer input, bi_organizationId = iq_organizationId input, bi_sourceType = iq_sourceType input, bi_sourceId = iq_sourceId input,
      bi_currency = currency, bi_subtotal = it_subtotal t, bi_taxTotal = it_taxTotal t, bi_total = it_total t, bi_description = iq_description input,
      bi_dueAt = iq_dueAt input, bi_number = None, bi_status = I_draft, bi_revision = 0, bi_createdAt = 0, bi_issuedAt = None, bi_paidAt = None,
      bi_voidedAt = None, bi_overdueAt = None, bi_updatedAt = 0, bi_voidReasonCode = None, bi_issuerSnapshot = iq_issuerSnapshot input,
      bi_billToSnapshot = iq_billToSnapshot input, bi_presentation = None\<rparr>"

definition line_draft :: "string \<Rightarrow> string \<Rightarrow> string \<Rightarrow> (line_request \<times> price_for_invoice) \<times> computed_line \<Rightarrow> line_row" where
  "line_draft i invoiceId currency x =
     (let l = fst (fst x); p = snd (fst x); c = snd x in
      \<lparr>ln_id = i, ln_invoiceId = invoiceId, ln_currency = currency, ln_lineNumber = cl_lineNumber c, ln_priceId = pf_priceId p,
       ln_productId = pf_productId p, ln_productCode = pf_productCode p,
       ln_description = (case lq_description l of Some d \<Rightarrow> d | None \<Rightarrow> pf_productName p), ln_quantity = cl_quantity c,
       ln_unitAmount = cl_unitAmount c, ln_lineTotal = cl_lineTotal c, ln_taxAmount = cl_taxAmount c, ln_entitlementKind = pf_entitlementKind p,
       ln_interval = pf_interval p, ln_intervalUnit = pf_intervalUnit p, ln_intervalCount = pf_intervalCount p,
       ln_sourceType = lq_sourceType l, ln_sourceId = lq_sourceId l\<rparr>)"

definition insert_draft_line :: "bill_cfg \<Rightarrow> string \<Rightarrow> string \<Rightarrow> (line_request \<times> price_for_invoice) \<times> computed_line \<Rightarrow> unit btx" where
  "insert_draft_line cfg invoiceId currency x = tx_bind (b_fresh cfg) (\<lambda>i. insert_line (line_draft i invoiceId currency x))"

definition replay_invoice :: "invoice_record \<Rightarrow> string \<Rightarrow> bill_error + invoice_record \<times> bool" where
  "replay_invoice x h = (if bi_requestHash (ir_row x) \<noteq> h then billingError 409 ''invoice_request_conflict'' else Inr (x, False))"

text \<open>The result of a write is the invoice and whether anything was written.\<close>

definition reload :: "string \<Rightarrow> invoice_record btx" where
  "reload i = tx_bind (b_read (load_invoice i)) b_the"

definition createDraftIn :: "bill_cfg \<Rightarrow> string \<Rightarrow> invoice_request \<Rightarrow> transition_ctx \<Rightarrow> (invoice_record \<times> bool) btx" where
  "createDraftIn cfg producer input ctx =
     (let h = requestHash cfg (create_key producer input) in
      tx_bind (b_read (findByNaturalKey producer (iq_invoiceRequestId input))) (\<lambda>existing.
        case existing of
          Some x \<Rightarrow> tx_lift (replay_invoice x h)
        | None \<Rightarrow>
            tx_bind (b_read (\<lambda>s. price_lines cfg s producer input)) (\<lambda>plan.
            tx_bind (tx_lift plan) (\<lambda>(priced, currency, t).
            tx_bind (b_fresh cfg) (\<lambda>i.
            tx_bind (insert_invoice cfg (invoice_draft i producer h input currency t)) (\<lambda>inserted.
              case inserted of
                None \<Rightarrow>
                  tx_bind (b_read (findByNaturalKey producer (iq_invoiceRequestId input))) (\<lambda>winner.
                    case winner of None \<Rightarrow> b_refuse 409 ''invoice_request_conflict'' | Some x \<Rightarrow> tx_lift (replay_invoice x h))
              | Some r \<Rightarrow>
                  tx_bind (tx_each (insert_draft_line cfg (bi_id r) currency) (zip priced (it_lines t))) (\<lambda>_.
                  tx_bind (recordTransition E_invoice (bi_id r) None (St_invoice I_draft) (bi_revision r) ctx) (\<lambda>_.
                  tx_bind (reload (bi_id r)) (\<lambda>x. tx_return (x, True))))))))))"

definition createDraft :: "bill_cfg \<Rightarrow> string \<Rightarrow> invoice_request \<Rightarrow> transition_ctx \<Rightarrow> (invoice_record \<times> bool) btx" where
  "createDraft cfg producer input ctx = db_tx (createDraftIn cfg producer input ctx)"

section \<open>Issuing and discarding\<close>

definition routing_line_of :: "bill_db \<Rightarrow> line_row \<Rightarrow> routing_line option" where
  "routing_line_of s l =
     map_option (\<lambda>d. \<lparr>rl_productId = ln_productId l, rl_target = pd_target d, rl_platformId = pd_platformId d\<rparr>) (find_product (ln_productId l) s)"

definition assistance_ref_of :: "bill_db \<Rightarrow> string \<Rightarrow> assistance_ref option" where
  "assistance_ref_of s i =
     (case get_row ch_invoiceId i (b_channels s) of
        None \<Rightarrow> None
      | Some c \<Rightarrow>
          map_option (\<lambda>a. \<lparr>as_id = ar_id a, as_beneficiaryUserId = ar_beneficiaryRef a, as_organizationId = ar_organizationId a, as_productId = ar_productId a\<rparr>)
            (get_row ar_id (ch_assistanceRequestId c) (b_assistance s)))"

definition recovery_ref_of :: "bill_db \<Rightarrow> string \<Rightarrow> recovery_ref option" where
  "recovery_ref_of s i =
     (case map_of (b_recoveryChannels s) i of
        None \<Rightarrow> None
      | Some b \<Rightarrow> map_option (\<lambda>x. \<lparr>rr_obligationId = ob_id x, rr_organizationId = ob_organizationId x\<rparr>) (find_obligation b s))"

definition routing_input_of :: "bill_db \<Rightarrow> invoice_row \<Rightarrow> routing_input" where
  "routing_input_of s r =
     \<lparr>ri_payerType = bp_type (bi_payer r), ri_payerId = bp_id (bi_payer r), ri_organizationId = bi_organizationId r,
      ri_lines = List.map_filter (routing_line_of s) (lines_of (bi_id r) s),
      ri_assistance = (if bi_producer r = ASSISTANCE_PRODUCER then assistance_ref_of s (bi_id r) else None),
      ri_recovery = (if bi_producer r = RECOVERY_PRODUCER then recovery_ref_of s (bi_id r) else None)\<rparr>"

text \<open>\<open>None\<close>: the invoice is no longer a draft.\<close>

definition planIssue :: "string \<Rightarrow> caller \<Rightarrow> bill_db \<Rightarrow> bill_error + (routing_refusal + routing) option" where
  "planIssue i c s =
     (case find_invoice i s of
        None \<Rightarrow> notFound
      | Some r \<Rightarrow>
          if invoice_relation r c = None then notFound
          else if bi_status r \<noteq> I_draft then Inr None
          else Inr (Some (decideRouting (routing_input_of s r))))"

record verified_scope =
  vs_callerPlatforms :: "string list"
  vs_organizationPlatformId :: "string option"

definition routing_draft :: "invoice_row \<Rightarrow> routing \<Rightarrow> routing_row" where
  "routing_draft r x =
     \<lparr>en_invoiceId = bi_id r, en_purpose = ro_purpose x, en_target = ro_target x, en_payer = bi_payer r,
      en_beneficiaryUserId = ro_beneficiaryUserId x, en_organizationId = ro_organizationId x, en_productId = ro_productId x,
      en_assistanceRequestId = ro_assistanceRequestId x, en_recoveryObligationId = ro_recoveryObligationId x\<rparr>"

text \<open>Every refusal of the routing is the 422 of \<open>routingInvalid\<close>; its reason code is left out.\<close>

definition routing_admitted :: "routing \<Rightarrow> verified_scope \<Rightarrow> bool" where
  "routing_admitted x v \<longleftrightarrow>
     (case ro_platformId x of None \<Rightarrow> True | Some g \<Rightarrow> g \<in> set (vs_callerPlatforms v)) \<and>
     (ro_purpose x = Organization_subscription \<longrightarrow> vs_organizationPlatformId v = ro_platformId x)"

definition issueIn :: "bill_cfg \<Rightarrow> string \<Rightarrow> caller \<Rightarrow> string \<Rightarrow> string \<Rightarrow> transition_ctx \<Rightarrow> verified_scope \<Rightarrow> (invoice_record \<times> bool) btx" where
  "issueIn cfg i c template lang ctx v =
     tx_bind (lock_for_caller i c) (\<lambda>r.
       if bi_status r = I_open then tx_bind (reload i) (\<lambda>x. tx_return (x, False))
       else if bi_status r \<noteq> I_draft then b_refuse 409 ''invalid_state_transition''
       else
         tx_bind (b_read (\<lambda>s. decideRouting (routing_input_of s r))) (\<lambda>decision.
           case decision of
             Inl _ \<Rightarrow> b_refuse 422 ''invoice_routing_invalid''
           | Inr x \<Rightarrow>
               if \<not> routing_admitted x v then b_refuse 422 ''invoice_routing_invalid''
               else
                 tx_bind (insert_routing (routing_draft r x)) (\<lambda>_.
                 case buildPresentationSnapshot template lang of
                   None \<Rightarrow> b_refuse 400 ''invalid_invoice_request''
                 | Some pn \<Rightarrow>
                     tx_bind (update_invoice cfg i (\<lambda>b. b\<lparr>bi_status := I_open, bi_presentation := Some pn\<rparr>)) (\<lambda>u.
                     tx_bind (b_the u) (\<lambda>u.
                     tx_bind (recordTransition E_invoice i (Some (St_invoice I_draft)) (St_invoice I_open) (bi_revision u) ctx) (\<lambda>_.
                     tx_bind (reload i) (\<lambda>inv.
                     tx_bind (tx_lift (invoiceCreatedEvent (ir_row inv) (ir_lines inv) ctx)) (\<lambda>ev.
                     tx_bind (outbox_enqueue (bc_eventId cfg [i, ''invoice.created'']) ev) (\<lambda>_.
                     tx_bind (record_audit cfg ''invoice.issued'' (bi_organizationId u) (''invoice'', i) [] [] ctx) (\<lambda>_.
                       tx_return (inv, True)))))))))))"

definition issue :: "bill_cfg \<Rightarrow> string \<Rightarrow> caller \<Rightarrow> string \<Rightarrow> string \<Rightarrow> transition_ctx \<Rightarrow> verified_scope \<Rightarrow> (invoice_record \<times> bool) btx" where
  "issue cfg i c template lang ctx v = db_tx (issueIn cfg i c template lang ctx v)"

definition discard :: "bill_cfg \<Rightarrow> string \<Rightarrow> caller \<Rightarrow> transition_ctx \<Rightarrow> (invoice_record \<times> bool) btx" where
  "discard cfg i c ctx = db_tx (tx_bind (lock_for_caller i c) (\<lambda>r.
     if bi_status r = I_void \<and> bi_number r = None then tx_bind (reload i) (\<lambda>x. tx_return (x, False))
     else if bi_status r \<noteq> I_draft then b_refuse 409 ''invalid_state_transition''
     else
       tx_bind (update_invoice cfg i (\<lambda>b. b\<lparr>bi_status := I_void, bi_voidReasonCode := Some ''discarded''\<rparr>)) (\<lambda>u.
       tx_bind (b_the u) (\<lambda>u.
       tx_bind (recordTransition E_invoice i (Some (St_invoice I_draft)) (St_invoice I_void) (bi_revision u) ctx) (\<lambda>_.
       tx_bind (record_audit cfg ''invoice.discarded'' (bi_organizationId u) (''invoice'', i) [] [] ctx) (\<lambda>_.
       tx_bind (reload i) (\<lambda>x. tx_return (x, True))))))))"

end
