(* ===== verification/BillingRequests.thy ===== *)
theory BillingRequests
  imports BillingInvoices
begin

text \<open>
  Payment requests and the consumption of Payment events (\<open>invoices/payment-request.repository.ts\<close>), the
  dispatcher's and the reconciler's use of them, and the direct checkout (\<open>checkout/checkout.service.ts\<close>).
\<close>

section \<open>Creating a request\<close>

definition request_draft :: "string \<Rightarrow> invoice_row \<Rightarrow> actor \<Rightarrow> transition_ctx \<Rightarrow> bill_request" where
  "request_draft i r a ctx =
     \<lparr>rq_id = i, rq_invoiceId = bi_id r, rq_amount = bi_total r, rq_currency = bi_currency r, rq_status = R_created, rq_paymentId = None,
      rq_expiresAt = None, rq_mappingVersion = 2, rq_sendAttempts = 0, rq_sendingSince = None, rq_cancelRequestedAt = None,
      rq_failureCode = None, rq_createdByType = ac_type a, rq_createdById = ac_id a, rq_correlationId = tc_correlationId ctx, rq_revision = 0,
      rq_createdAt = 0, rq_closedAt = None, rq_updatedAt = 0\<rparr>"

definition payer_may_request :: "invoice_row \<Rightarrow> bool" where
  "payer_may_request r \<longleftrightarrow> bp_type (bi_payer r) = ''user'' \<or>
     (bp_type (bi_payer r) = ''organization'' \<and> (bi_producer r = ASSISTANCE_PRODUCER \<or> bi_producer r = RECOVERY_PRODUCER))"

definition record_request :: "bill_request \<Rightarrow> request_status option \<Rightarrow> transition_ctx \<Rightarrow> unit btx" where
  "record_request q old ctx = recordTransition E_request (rq_id q) (map_option St_request old) (St_request (rq_status q)) (rq_revision q) ctx"

definition audit_request :: "bill_cfg \<Rightarrow> string \<Rightarrow> string option \<Rightarrow> string \<Rightarrow> string \<Rightarrow> transition_ctx \<Rightarrow> unit btx" where
  "audit_request cfg action org requestId invoiceId ctx =
     record_audit cfg action org (''payment_request'', requestId) [(''invoice_id'', V_string invoiceId)] [] ctx"

text \<open>The result is the request and whether it was created.\<close>

definition createForInvoiceIn :: "bill_cfg \<Rightarrow> string \<Rightarrow> caller \<Rightarrow> transition_ctx \<Rightarrow> (bill_request \<times> bool) btx" where
  "createForInvoiceIn cfg i c ctx =
     tx_bind (b_read (find_invoice i)) (\<lambda>found.
       case found of
         None \<Rightarrow> tx_lift notFound
       | Some r \<Rightarrow>
           if invoice_relation r c = None then tx_lift notFound
           else if bi_status r \<noteq> I_open then b_refuse 409 ''invoice_not_payable''
           else if \<not> payer_may_request r then b_refuse 409 ''payment_request_not_supported''
           else
             tx_bind (b_read (find_active_request i)) (\<lambda>active.
               case active of
                 Some q \<Rightarrow> tx_return (q, False)
               | None \<Rightarrow>
                   tx_bind (b_read (find_routing i)) (\<lambda>routed.
                     if routed = None then b_refuse 422 ''invoice_routing_invalid''
                     else
                       tx_bind (b_fresh cfg) (\<lambda>n.
                       tx_bind (insert_request (request_draft n r (actorOf c) ctx)) (\<lambda>q.
                       tx_bind (record_request q None ctx) (\<lambda>_.
                       tx_bind (audit_request cfg ''payment_request.created'' (bi_organizationId r) (rq_id q) i ctx) (\<lambda>_.
                         tx_return (q, True))))))))"

definition createForInvoice :: "bill_cfg \<Rightarrow> string \<Rightarrow> caller \<Rightarrow> transition_ctx \<Rightarrow> (bill_request \<times> bool) btx" where
  "createForInvoice cfg i c ctx = db_tx (createForInvoiceIn cfg i c ctx)"

section \<open>Sending\<close>

record dispatch_claim =
  dc_request :: request_for_mapping
  dc_invoice :: invoice_for_mapping
  dc_mappingVersion :: nat
  dc_correlationId :: string
  dc_wasStale :: bool

definition correlation_of :: "string \<Rightarrow> bill_request \<Rightarrow> string" where
  "correlation_of prefix q = (case rq_correlationId q of Some c \<Rightarrow> c | None \<Rightarrow> prefix @ rq_id q)"

text \<open>Rows waiting to be sent, or sent too long ago without an answer, in the order of creation.\<close>

definition dispatchable :: "int \<Rightarrow> bill_db \<Rightarrow> bill_request \<Rightarrow> bool" where
  "dispatchable staleSendingMs s q \<longleftrightarrow>
     rq_status q = R_created \<or>
     (rq_status q = R_sending \<and> (case rq_sendingSince q of Some t \<Rightarrow> t < b_now s - staleSendingMs | None \<Rightarrow> False))"

definition dispatch_candidates :: "nat \<Rightarrow> int \<Rightarrow> bill_db \<Rightarrow> bill_request list" where
  "dispatch_candidates limit staleSendingMs s = take limit (sort_key rq_createdAt (filter (dispatchable staleSendingMs s) (b_requests s)))"

definition invoice_for_mapping_of :: "invoice_row \<Rightarrow> routing_row option \<Rightarrow> invoice_for_mapping" where
  "invoice_for_mapping_of r e =
     \<lparr>im_id = bi_id r, im_number = bi_number r, im_payerType = bp_type (bi_payer r), im_payerId = bp_id (bi_payer r),
      im_sellerType = bp_type (bi_seller r), im_sellerId = bp_id (bi_seller r), im_organizationId = bi_organizationId r,
      im_currency = bi_currency r, im_description = bi_description r, im_purpose = map_option (purpose_text \<circ> en_purpose) e,
      im_beneficiaryUserId = (case e of Some x \<Rightarrow> en_beneficiaryUserId x | None \<Rightarrow> None)\<rparr>"

definition claim_one :: "transition_ctx \<Rightarrow> bill_request \<Rightarrow> dispatch_claim option btx" where
  "claim_one ctx q =
     (let correlationId = correlation_of ''dispatch:'' q;
          row_ctx = \<lparr>tc_actor = tc_actor ctx, tc_cause = Cause_dispatcher, tc_causeId = Some (rq_id q), tc_correlationId = Some correlationId\<rparr> in
      tx_bind (b_read b_now) (\<lambda>t.
      tx_bind (update_request (rq_id q) (\<lambda>x. x\<lparr>rq_status := R_sending, rq_sendAttempts := rq_sendAttempts x + 1, rq_sendingSince := Some t\<rparr>)) (\<lambda>u.
      tx_bind (b_the u) (\<lambda>u.
      tx_bind (if rq_status q \<noteq> rq_status u then record_request u (Some (rq_status q)) row_ctx else tx_return ()) (\<lambda>_.
      tx_bind (b_read (find_invoice (rq_invoiceId q))) (\<lambda>found.
        case found of
          None \<Rightarrow> tx_return None
        | Some r \<Rightarrow>
            tx_bind (b_read (find_routing (rq_invoiceId q))) (\<lambda>e.
            tx_bind (tx_lift (read_amount (rq_amount u))) (\<lambda>n.
              tx_return (Some \<lparr>dc_request = \<lparr>rm_id = rq_id u, rm_amount = n, rm_expiresAt = rq_expiresAt u\<rparr>,
                dc_invoice = invoice_for_mapping_of r e, dc_mappingVersion = rq_mappingVersion u, dc_correlationId = correlationId,
                dc_wasStale = (rq_status q = R_sending)\<rparr>)))))))))"

definition claimForDispatch :: "nat \<Rightarrow> int \<Rightarrow> transition_ctx \<Rightarrow> dispatch_claim list btx" where
  "claimForDispatch limit staleSendingMs ctx = db_tx (
     tx_bind (b_read (dispatch_candidates limit staleSendingMs)) (\<lambda>qs.
     tx_bind (tx_each (claim_one ctx) qs) (\<lambda>cs. tx_return (List.map_filter (\<lambda>c. c) cs))))"

text \<open>A single statement: its own transaction.\<close>

definition renew_one :: "string \<Rightarrow> unit btx" where
  "renew_one i =
     tx_bind (b_read (find_request i)) (\<lambda>found.
       case found of
         Some q \<Rightarrow>
           if rq_status q = R_sending then
             tx_bind (b_read b_now) (\<lambda>t. tx_bind (update_request i (\<lambda>x. x\<lparr>rq_sendingSince := Some t\<rparr>)) (\<lambda>_. tx_return ()))
           else tx_return ()
       | None \<Rightarrow> tx_return ())"

definition renewSending :: "string list \<Rightarrow> unit btx" where
  "renewSending ids = (if ids = [] then tx_return () else db_tx (tx_bind (tx_each renew_one ids) (\<lambda>_. tx_return ())))"

text \<open>\<open>transitionRequest\<close>, and the same shape in the other operations: the update and its history row.\<close>

definition transitionRequest :: "bill_request \<Rightarrow> (bill_request \<Rightarrow> bill_request) \<Rightarrow> transition_ctx \<Rightarrow> bill_request btx" where
  "transitionRequest q f ctx =
     tx_bind (update_request (rq_id q) f) (\<lambda>u.
     tx_bind (b_the u) (\<lambda>u.
     tx_bind (record_request u (Some (rq_status q)) ctx) (\<lambda>_. tx_return u)))"

definition from_sending :: "string \<Rightarrow> (bill_request \<Rightarrow> bill_request) \<Rightarrow> transition_ctx \<Rightarrow> unit btx" where
  "from_sending i f ctx = db_tx (
     tx_bind (b_read (find_request i)) (\<lambda>found.
       case found of
         None \<Rightarrow> tx_return ()
       | Some q \<Rightarrow> if rq_status q \<noteq> R_sending then tx_return () else tx_bind (transitionRequest q f ctx) (\<lambda>_. tx_return ())))"

definition markRequested :: "string \<Rightarrow> string \<Rightarrow> transition_ctx \<Rightarrow> unit btx" where
  "markRequested i paymentId ctx = from_sending i (\<lambda>x. x\<lparr>rq_status := R_requested, rq_paymentId := Some paymentId\<rparr>) ctx"

definition markRejected :: "string \<Rightarrow> transition_ctx \<Rightarrow> unit btx" where
  "markRejected i ctx = from_sending i (\<lambda>x. x\<lparr>rq_status := R_rejected\<rparr>) ctx"

section \<open>Cancelling and reading\<close>

text \<open>The request joined with its invoice, for a caller.\<close>

definition request_for :: "string \<Rightarrow> caller \<Rightarrow> bill_db \<Rightarrow> bill_error + bill_request \<times> invoice_row" where
  "request_for i c s =
     (case find_request i s of
        None \<Rightarrow> notFound
      | Some q \<Rightarrow>
          (case find_invoice (rq_invoiceId q) s of
             None \<Rightarrow> notFound
           | Some r \<Rightarrow> if invoice_relation r c = None then notFound else Inr (q, r)))"

definition find_request_for :: "string \<Rightarrow> caller \<Rightarrow> bill_db \<Rightarrow> bill_error + bill_request" where
  "find_request_for i c s = err_bind (request_for i c s) (\<lambda>(q, _). Inr q)"

definition cancelUnsent :: "bill_cfg \<Rightarrow> string \<Rightarrow> caller \<Rightarrow> transition_ctx \<Rightarrow> bill_request btx" where
  "cancelUnsent cfg i c ctx = db_tx (
     tx_bind (b_read (request_for i c)) (\<lambda>found.
     tx_bind (tx_lift found) (\<lambda>(q, r).
       if rq_status q \<noteq> R_created then b_refuse 409 ''payment_request_in_flight''
       else
         tx_bind (transitionRequest q (\<lambda>x. x\<lparr>rq_status := R_cancelled\<rparr>) ctx) (\<lambda>u.
         tx_bind (audit_request cfg ''payment_request.cancelled'' (bi_organizationId r) i (rq_invoiceId q) ctx) (\<lambda>_. tx_return u)))))"

definition markCancelRequested :: "string \<Rightarrow> caller \<Rightarrow> bill_request btx" where
  "markCancelRequested i c = db_tx (
     tx_bind (b_read (request_for i c)) (\<lambda>found.
     tx_bind (tx_lift found) (\<lambda>(q, r).
       if rq_status q \<noteq> R_requested \<or> \<not> some_text (rq_paymentId q) then b_refuse 409 ''payment_request_in_flight''
       else if rq_cancelRequestedAt q \<noteq> None then tx_return q
       else
         tx_bind (b_read b_now) (\<lambda>t.
         tx_bind (update_request i (\<lambda>x. x\<lparr>rq_cancelRequestedAt := Some t\<rparr>)) b_the))))"

text \<open>\<open>findStaleRequested\<close>: rows to ask Payment about, in the order of the scan, strictly after where the last pass stopped.\<close>

record stale_requested =
  sr_id :: string
  sr_paymentId :: string
  sr_correlationId :: string
  sr_position :: "instant \<times> string"

definition scan_position :: "bill_request \<Rightarrow> instant \<times> string" where
  "scan_position q = (rq_updatedAt q, rq_id q)"

definition stale_candidate :: "int \<Rightarrow> (instant \<times> string) option \<Rightarrow> bill_db \<Rightarrow> bill_request \<Rightarrow> bool" where
  "stale_candidate staleMs after s q \<longleftrightarrow> rq_status q = R_requested \<and> rq_paymentId q \<noteq> None \<and> rq_updatedAt q < b_now s - staleMs \<and>
     opt_all (\<lambda>p. before_in_list p (scan_position q)) after"

fun insert_scan :: "bill_request \<Rightarrow> bill_request list \<Rightarrow> bill_request list" where
  "insert_scan q [] = [q]"
| "insert_scan q (x # xs) = (if before_in_list (scan_position x) (scan_position q) then x # insert_scan q xs else q # x # xs)"

definition findStaleRequested :: "nat \<Rightarrow> int \<Rightarrow> (instant \<times> string) option \<Rightarrow> bill_db \<Rightarrow> stale_requested list" where
  "findStaleRequested limit staleMs after s =
     map (\<lambda>q. \<lparr>sr_id = rq_id q, sr_paymentId = the (rq_paymentId q), sr_correlationId = correlation_of ''reconcile:'' q, sr_position = scan_position q\<rparr>)
       (take limit (foldr insert_scan (filter (stale_candidate staleMs after s) (b_requests s)) []))"

section \<open>Applying a Payment event\<close>

definition conflict_text :: "conflict_detail \<Rightarrow> string" where
  "conflict_text d = (case d of Wrong_source \<Rightarrow> ''wrong_source'' | Producer_mismatch \<Rightarrow> ''producer_mismatch'' | Payment_id_mismatch \<Rightarrow> ''payment_id_mismatch''
     | Snapshot_mismatch \<Rightarrow> ''snapshot_mismatch'' | Amount_mismatch \<Rightarrow> ''amount_mismatch'' | Invalid_amount \<Rightarrow> ''invalid_amount''
     | Request_already_terminal \<Rightarrow> ''request_already_terminal'' | Invoice_not_open \<Rightarrow> ''invoice_not_open'' | Invoice_missing \<Rightarrow> ''invoice_missing''
     | Non_live_event \<Rightarrow> ''non_live_event'')"

fun decision_outcome :: "event_decision \<Rightarrow> receipt_outcome" where
  "decision_outcome Ignored_unknown = O_ignored"
| "decision_outcome Ignored_already_applied = O_ignored"
| "decision_outcome Deferred = O_deferred"
| "decision_outcome (Conflict _) = O_conflict"
| "decision_outcome (Applied _ _) = O_applied"

fun decision_detail :: "event_decision \<Rightarrow> string option" where
  "decision_detail Ignored_unknown = Some ''unknown_payment_request''"
| "decision_detail Ignored_already_applied = Some ''already_applied''"
| "decision_detail Deferred = Some ''payment_id_not_recorded''"
| "decision_detail (Conflict d) = Some (conflict_text d)"
| "decision_detail (Applied _ _) = None"

record event_application =
  ea_outcome :: receipt_outcome
  ea_detail :: "string option"
  ea_firstDelivery :: bool
  ea_subscription :: "subscription_outcome option"

definition request_facts_of :: "bill_request \<Rightarrow> bill_error + request_facts" where
  "request_facts_of q = err_bind (read_amount (rq_amount q)) (\<lambda>n.
     Inr \<lparr>rf_status = rq_status q, rf_paymentId = rq_paymentId q, rf_amount = n, rf_currency = rq_currency q, rf_mappingVersion = Some (rq_mappingVersion q)\<rparr>)"

definition invoice_facts_of :: "invoice_row \<Rightarrow> routing_row option \<Rightarrow> bill_error + invoice_facts" where
  "invoice_facts_of r e = err_bind (read_amount (bi_total r)) (\<lambda>n.
     Inr \<lparr>if_id = bi_id r, if_status = bi_status r, if_payerType = bp_type (bi_payer r), if_payerId = bp_id (bi_payer r),
       if_sellerType = bp_type (bi_seller r), if_sellerId = bp_id (bi_seller r), if_organizationId = bi_organizationId r,
       if_currency = bi_currency r, if_total = n, if_purpose = map_option (purpose_text \<circ> en_purpose) e,
       if_beneficiaryUserId = (case e of Some x \<Rightarrow> en_beneficiaryUserId x | None \<Rightarrow> None)\<rparr>)"

fun lift_option :: "('a \<Rightarrow> 'e + 'b) \<Rightarrow> 'a option \<Rightarrow> 'e + 'b option" where
  "lift_option f None = Inr None"
| "lift_option f (Some x) = err_bind (f x) (\<lambda>y. Inr (Some y))"

text \<open>
  \<open>linkSubscription\<close>: the paid invoice's effect. An error of \<open>applySettlement\<close> with the code
  \<open>subscription_conflict\<close> is caught: what that statement sequence wrote before it stays, which is
  nothing, since only \<open>createTx\<close> raises it, before any write but the unused row id.
\<close>

definition organization_settlement :: "bill_cfg \<Rightarrow> settlement_params \<Rightarrow> transition_ctx \<Rightarrow> subscription_outcome option btx" where
  "organization_settlement cfg p ctx s =
     (case applySettlement cfg p ctx s of
        Inr (_, u) \<Rightarrow> Inr (Some Out_settled, u)
      | Inl (B_http st code) \<Rightarrow> if code = ''subscription_conflict'' then Inr (Some Out_conflict, s) else Inl (B_http st code)
      | Inl e \<Rightarrow> Inl e)"

definition link_organization :: "bill_cfg \<Rightarrow> invoice_row \<Rightarrow> routing_row option \<Rightarrow> string \<Rightarrow> string \<Rightarrow> instant \<Rightarrow> transition_ctx \<Rightarrow> subscription_outcome option btx" where
  "link_organization cfg r e requestId receiptId settledAt ctx =
     (case bi_organizationId r of
        None \<Rightarrow> tx_return None
      | Some org \<Rightarrow>
          tx_bind (b_read (\<lambda>s. filter (\<lambda>l. ln_invoiceId l = bi_id r \<and> ln_interval l = Recurring) (b_lines s))) (\<lambda>recurring.
            case recurring of
              [l] \<Rightarrow>
                (case e of
                   None \<Rightarrow> tx_return (Some Out_unrouted)
                 | Some x \<Rightarrow>
                     if en_purpose x \<noteq> Organization_subscription then tx_return None
                     else if en_organizationId x \<noteq> Some org \<or> en_productId x \<noteq> Some (ln_productId l) then tx_return (Some Out_unrouted)
                     else organization_settlement cfg \<lparr>sq_organizationId = org, sq_productId = ln_productId l, sq_priceId = ln_priceId l,
                       sq_settledAt = settledAt, sq_invoiceId = bi_id r, sq_paymentRequestId = requestId, sq_receiptId = receiptId\<rparr> ctx)
            | _ \<Rightarrow> tx_return None))"

definition linkSubscription :: "bill_cfg \<Rightarrow> invoice_row \<Rightarrow> string \<Rightarrow> string \<Rightarrow> instant \<Rightarrow> transition_ctx \<Rightarrow> subscription_outcome option btx" where
  "linkSubscription cfg r requestId receiptId settledAt ctx =
     tx_bind (b_read (find_routing (bi_id r))) (\<lambda>e.
       case e of
         Some x \<Rightarrow>
           if en_purpose x = Assisted_settlement then
             tx_bind (applyAssistedSettlement cfg (bi_id r) (the (en_beneficiaryUserId x)) (the (en_productId x)) (the (en_assistanceRequestId x))
               requestId receiptId settledAt) (\<lambda>y. tx_return (Some y))
           else if en_purpose x = Recovery_settlement then
             tx_bind (b_read (find_request requestId)) (\<lambda>q.
             tx_bind (b_the q) (\<lambda>q.
             tx_bind (applyRecoveryPayment cfg \<lparr>ry_obligationId = the (en_recoveryObligationId x), ry_invoiceId = bi_id r, ry_paymentRequestId = requestId,
               ry_receiptId = receiptId, ry_amount = rq_amount q, ry_currency = rq_currency q\<rparr> ctx) (\<lambda>y. tx_return (Some y))))
           else if en_purpose x = Direct_purchase then
             tx_bind (b_read (recurring_lines (bi_id r) (the (en_productId x)))) (\<lambda>ls.
               case ls of
                 [l] \<Rightarrow>
                   tx_bind (recordPurchase cfg \<lparr>sx_userId = the (en_beneficiaryUserId x), sx_productId = the (en_productId x), sx_priceId = ln_priceId l,
                     sx_invoiceId = bi_id r, sx_paymentRequestId = requestId, sx_receiptId = receiptId, sx_settledAt = settledAt,
                     sx_assistanceRequestId = None\<rparr>) (\<lambda>_. tx_return (Some Out_purchased))
               | _ \<Rightarrow> tx_return (Some Out_unrouted))
           else link_organization cfg r e requestId receiptId settledAt ctx
       | None \<Rightarrow> link_organization cfg r e requestId receiptId settledAt ctx)"

text \<open>The invoice becomes paid, then its effect.\<close>

definition settle_invoice :: "bill_cfg \<Rightarrow> invoice_row \<Rightarrow> string \<Rightarrow> string \<Rightarrow> instant \<Rightarrow> transition_ctx \<Rightarrow> subscription_outcome option btx" where
  "settle_invoice cfg r requestId receiptId settledAt ctx =
     tx_bind (b_read b_now) (\<lambda>t.
     tx_bind (update_invoice cfg (bi_id r) (\<lambda>b. b\<lparr>bi_status := I_paid, bi_paidAt := Some t\<rparr>)) (\<lambda>u.
     tx_bind (b_the u) (\<lambda>u.
     tx_bind (recordTransition E_invoice (bi_id r) (Some (St_invoice I_open)) (St_invoice I_paid) (bi_revision u) ctx) (\<lambda>_.
     tx_bind (record_audit cfg ''invoice.paid'' (bi_organizationId r) (''invoice'', bi_id r) [] [] ctx) (\<lambda>_.
       linkSubscription cfg r requestId receiptId settledAt ctx)))))"

definition apply_decision :: "bill_cfg \<Rightarrow> bill_request \<Rightarrow> invoice_row \<Rightarrow> request_status \<Rightarrow> invoice_status option \<Rightarrow> string \<Rightarrow> instant \<Rightarrow> transition_ctx \<Rightarrow> subscription_outcome option btx" where
  "apply_decision cfg q r to invoiceTo receiptId settledAt ctx =
     tx_bind (transitionRequest q (\<lambda>x. x\<lparr>rq_status := to\<rparr>) ctx) (\<lambda>_.
     tx_bind (if to = R_cancelled then audit_request cfg ''payment_request.cancelled'' (bi_organizationId r) (rq_id q) (bi_id r) ctx else tx_return ()) (\<lambda>_.
       if invoiceTo = Some I_paid then settle_invoice cfg r (rq_id q) receiptId settledAt ctx else tx_return None))"

definition application :: "event_decision \<Rightarrow> bool \<Rightarrow> subscription_outcome option \<Rightarrow> event_application" where
  "application d first sub = \<lparr>ea_outcome = decision_outcome d, ea_detail = decision_detail d, ea_firstDelivery = first, ea_subscription = sub\<rparr>"

definition applied_receipt :: "string \<Rightarrow> bill_db \<Rightarrow> receipt_row option" where
  "applied_receipt eventId s = find (\<lambda>x. rc_eventId x = eventId \<and> rc_outcome x = O_applied) (b_receipts s)"

definition decide_and_apply :: "bill_cfg \<Rightarrow> string \<Rightarrow> event_facts \<Rightarrow> transition_ctx \<Rightarrow> instant \<Rightarrow> bill_request option \<Rightarrow> invoice_row option \<Rightarrow> event_application btx" where
  "decide_and_apply cfg eventId e ctx settledAt request found =
     tx_bind (b_read (\<lambda>s. case found of Some r \<Rightarrow> find_routing (bi_id r) s | None \<Rightarrow> None)) (\<lambda>routing.
     tx_bind (tx_lift (lift_option request_facts_of request)) (\<lambda>rf.
     tx_bind (tx_lift (lift_option (\<lambda>r. invoice_facts_of r routing) found)) (\<lambda>inf.
       let d = decidePaymentEvent e rf inf (bc_isProduction cfg) in
       tx_bind (b_fresh cfg) (\<lambda>n.
       tx_bind (insert_receipt \<lparr>rc_id = n, rc_eventId = eventId, rc_eventName = ev_name e, rc_paymentRequestId = ev_paymentRequestId e,
         rc_paymentId = (case request of Some q \<Rightarrow> rq_paymentId q | None \<Rightarrow> None), rc_outcome = decision_outcome d,
         rc_detailCode = decision_detail d, rc_paymentRevision = ev_revision e\<rparr>) (\<lambda>receipt.
         case receipt of
           None \<Rightarrow> tx_return (application d False None)
         | Some receiptId \<Rightarrow>
             (case (d, request, found) of
                (Applied to invoiceTo, Some q, Some r) \<Rightarrow>
                  tx_bind (apply_decision cfg q r to invoiceTo receiptId settledAt ctx) (\<lambda>sub. tx_return (application d True sub))
              | _ \<Rightarrow> tx_return (application d True None)))))))"

definition applyPaymentEventIn :: "bill_cfg \<Rightarrow> string \<Rightarrow> event_facts \<Rightarrow> transition_ctx \<Rightarrow> instant \<Rightarrow> event_application btx" where
  "applyPaymentEventIn cfg eventId e ctx settledAt =
     tx_bind (b_read (find_request (ev_paymentRequestId e))) (\<lambda>request.
     tx_bind (b_read (\<lambda>s. case request of Some q \<Rightarrow> find_invoice (rq_invoiceId q) s | None \<Rightarrow> None)) (\<lambda>found.
     tx_bind (b_read (applied_receipt eventId)) (\<lambda>seen.
       case seen of
         Some x \<Rightarrow> tx_return \<lparr>ea_outcome = O_applied, ea_detail = rc_detailCode x, ea_firstDelivery = False, ea_subscription = None\<rparr>
       | None \<Rightarrow> decide_and_apply cfg eventId e ctx settledAt request found)))"

definition applyPaymentEvent :: "bill_cfg \<Rightarrow> string \<Rightarrow> event_facts \<Rightarrow> transition_ctx \<Rightarrow> instant \<Rightarrow> event_application btx" where
  "applyPaymentEvent cfg eventId e ctx settledAt = db_tx (applyPaymentEventIn cfg eventId e ctx settledAt)"

section \<open>Reconciliation\<close>

text \<open>
  A Payment answer as \<open>parseSnapshot\<close> keeps it. The organization is the one field it does not check; any value
  but a text or null equals no organization, and is represented by the empty text, the id of none.
\<close>

record payment_snapshot =
  sn_paymentId :: string
  sn_paymentRequestId :: string
  sn_status :: string
  sn_amount :: js_number
  sn_currency :: string
  sn_sourceType :: string
  sn_sourceId :: string
  sn_payer :: bparty
  sn_seller :: bparty
  sn_organizationId :: "string option"
  sn_closedAt :: "instant option"
  sn_purpose :: "string option"
  sn_beneficiaryUserId :: "string option"
  sn_liveMode :: "bool option"

definition terminal_event :: "string \<Rightarrow> payment_event_name option" where
  "terminal_event st =
     (if st = ''succeeded'' then Some Ev_succeeded else if st = ''failed'' then Some Ev_failed
      else if st = ''cancelled'' then Some Ev_cancelled else if st = ''expired'' then Some Ev_expired else None)"

definition snapshot_facts :: "payment_snapshot \<Rightarrow> payment_event_name \<Rightarrow> event_facts" where
  "snapshot_facts n name =
     \<lparr>ev_name = name, ev_source = ''payment-service'', ev_paymentId = sn_paymentId n, ev_producer = EXPECTED_PRODUCER,
      ev_paymentRequestId = sn_paymentRequestId n, ev_sourceType = sn_sourceType n, ev_sourceId = sn_sourceId n, ev_payer = sn_payer n,
      ev_seller = sn_seller n, ev_organizationId = sn_organizationId n, ev_amount = Some (sn_amount n), ev_currency = sn_currency n,
      ev_revision = 0, ev_purpose = sn_purpose n, ev_beneficiaryUserId = sn_beneficiaryUserId n, ev_liveMode = sn_liveMode n\<rparr>"

text \<open>\<open>clock\<close> is \<open>new Date()\<close>, read only for a terminal payment without a closing instant.\<close>

definition applyReconciledSnapshot :: "bill_cfg \<Rightarrow> payment_snapshot \<Rightarrow> transition_ctx \<Rightarrow> instant \<Rightarrow> event_application option btx" where
  "applyReconciledSnapshot cfg n ctx clock =
     (case terminal_event (sn_status n) of
        None \<Rightarrow> tx_return None
      | Some name \<Rightarrow>
          tx_bind (applyPaymentEvent cfg (bc_eventId cfg [sn_paymentId n, sn_status n, ''reconciliation'']) (snapshot_facts n name) ctx
            (case sn_closedAt n of Some t \<Rightarrow> t | None \<Rightarrow> clock)) (\<lambda>a. tx_return (Some a)))"

section \<open>Direct checkout\<close>

record checkout_result =
  cx_status :: nat
  cx_body :: checkout_body
  cx_replayed :: bool

definition checkout_hash :: "bill_cfg \<Rightarrow> checkout_request \<Rightarrow> string" where
  "checkout_hash cfg q = requestHash cfg (V_object [(''operation'', V_string ''checkout.direct''), (''platformId'', V_string (kq_platformId q)),
     (''productId'', V_string (kq_productId q)), (''priceId'', V_string (kq_priceId q))])"

definition checkout_product_ok :: "checkout_request \<Rightarrow> string \<Rightarrow> bill_db \<Rightarrow> bool" where
  "checkout_product_ok q companyId s \<longleftrightarrow>
     (case find_product (kq_productId q) s of
        Some p \<Rightarrow> pd_platformId p = Some (kq_platformId q) \<and> pd_target p = Target_personal \<and> pd_active p \<and>
          pd_seller p = \<lparr>bp_type = ''company'', bp_id = companyId\<rparr> \<and> pd_producer p = OWNER_CATALOG_PRODUCER
      | None \<Rightarrow> False)"

definition checkout_price_ok :: "checkout_request \<Rightarrow> string \<Rightarrow> bill_db \<Rightarrow> bool" where
  "checkout_price_ok q currency s \<longleftrightarrow>
     (case find_price (kq_priceId q) s of
        Some p \<Rightarrow> pc_productId p = kq_productId q \<and> pc_retiredAt p = None \<and> pc_effectiveFrom p \<le> b_now s \<and> pc_interval p = Recurring \<and>
          pc_currency p = currency
      | None \<Rightarrow> False)"

text \<open>The buyer's unfinished checkouts of the product, with the price each is for; the newest is the answer.\<close>

definition checkouts_in_flight :: "string \<Rightarrow> string \<Rightarrow> bill_db \<Rightarrow> (bill_request \<times> string) list" where
  "checkouts_in_flight buyer productId s =
     concat (map (\<lambda>q. case find_invoice (rq_invoiceId q) s of
         Some r \<Rightarrow>
           if bi_producer r = CHECKOUT_PRODUCER \<and> bi_payer r = \<lparr>bp_type = ''user'', bp_id = buyer\<rparr> \<and> rq_status q \<in> set ACTIVE_PAYMENT_REQUEST_STATUSES
           then map (\<lambda>l. (q, ln_priceId l)) (filter (\<lambda>l. ln_invoiceId l = bi_id r \<and> ln_productId l = productId) (b_lines s)) else []
       | None \<Rightarrow> []) (b_requests s))"

definition newest_checkout :: "string \<Rightarrow> string \<Rightarrow> bill_db \<Rightarrow> (bill_request \<times> string) option" where
  "newest_checkout buyer productId s =
     (case rev (sort_key (\<lambda>x. rq_createdAt (fst x)) (checkouts_in_flight buyer productId s)) of [] \<Rightarrow> None | x # _ \<Rightarrow> Some x)"

definition checkout_invoice_js :: "string \<Rightarrow> string \<Rightarrow> string \<Rightarrow> checkout_request \<Rightarrow> js_value" where
  "checkout_invoice_js rid companyId buyer q = V_object [
     (''invoiceRequestId'', V_string rid), (''seller'', party_js \<lparr>bp_type = ''company'', bp_id = companyId\<rparr>),
     (''payer'', party_js \<lparr>bp_type = ''user'', bp_id = buyer\<rparr>), (''sourceType'', V_string ''direct_checkout''), (''sourceId'', V_string rid),
     (''issuerSnapshot'', V_object (issuer_reference companyId (kq_platformId q))), (''billToSnapshot'', V_object (bill_to_reference buyer)),
     (''lines'', V_array [V_object [(''priceId'', V_string (kq_priceId q)), (''quantity'', V_number (JInt 1))]])]"

definition checkout_body_of :: "bill_request \<Rightarrow> checkout_body" where
  "checkout_body_of q = \<lparr>cb_invoiceId = rq_invoiceId q, cb_paymentRequestId = rq_id q, cb_paymentId = rq_paymentId q, cb_status = rq_status q\<rparr>"

definition perform_new :: "bill_cfg \<Rightarrow> string \<Rightarrow> checkout_request \<Rightarrow> string \<Rightarrow> string \<Rightarrow> transition_ctx \<Rightarrow> (nat \<times> checkout_body) btx" where
  "perform_new cfg buyer q companyId lang ctx =
     tx_bind (b_fresh cfg) (\<lambda>rid.
     tx_bind (tx_lift (normaliseCreateInvoiceInput (bc_parseInstant cfg) (bc_numberBytes cfg) (checkout_invoice_js rid companyId buyer q))) (\<lambda>draft.
     tx_bind (createDraftIn cfg CHECKOUT_PRODUCER draft ctx) (\<lambda>(inv, _).
     tx_bind (issueIn cfg (bi_id (ir_row inv)) (Service_caller CHECKOUT_PRODUCER) SYSTEM_TEMPLATE_V1 lang ctx
        \<lparr>vs_callerPlatforms = [kq_platformId q], vs_organizationPlatformId = None\<rparr>) (\<lambda>_.
     tx_bind (createForInvoiceIn cfg (bi_id (ir_row inv)) (User_caller buyer) ctx) (\<lambda>(r, _).
       tx_return (201, \<lparr>cb_invoiceId = bi_id (ir_row inv), cb_paymentRequestId = rq_id r, cb_paymentId = rq_paymentId r, cb_status = rq_status r\<rparr>))))))"

definition perform :: "bill_cfg \<Rightarrow> string \<Rightarrow> checkout_request \<Rightarrow> string \<Rightarrow> transition_ctx \<Rightarrow> (nat \<times> checkout_body) btx" where
  "perform cfg buyer q lang ctx =
     tx_bind (b_read (get_row pf_platformId (kq_platformId q) \<circ> b_platforms)) (\<lambda>found.
       case found of
         None \<Rightarrow> b_refuse 409 ''platform_not_configured''
       | Some f \<Rightarrow>
           tx_bind (b_read (checkout_product_ok q (pf_companyId f))) (\<lambda>product_ok.
           tx_bind (b_read (checkout_price_ok q (pg_trim (pf_currency f)))) (\<lambda>price_ok.
             if \<not> product_ok then b_refuse 409 ''product_not_available''
             else if \<not> price_ok then b_refuse 422 ''price_not_available''
             else
               tx_bind (b_read (newest_checkout buyer (kq_productId q))) (\<lambda>active.
                 case active of
                   Some (r, priceId) \<Rightarrow>
                     if priceId \<noteq> kq_priceId q then b_refuse 409 ''checkout_uncertain'' else tx_return (200, checkout_body_of r)
                 | None \<Rightarrow> perform_new cfg buyer q (pf_companyId f) lang ctx))))"

definition checkout :: "bill_cfg \<Rightarrow> string \<Rightarrow> string \<Rightarrow> checkout_request \<Rightarrow> string \<Rightarrow> transition_ctx \<Rightarrow> checkout_result btx" where
  "checkout cfg buyer key q lang ctx =
     (if bc_isProduction cfg then tx_lift notFound
      else db_tx (
        tx_bind (b_read (find (\<lambda>x. ck_buyerUserId x = buyer \<and> ck_key x = key) \<circ> b_checkouts)) (\<lambda>stored.
          case stored of
            Some x \<Rightarrow>
              if ck_requestHash x \<noteq> checkout_hash cfg q then b_refuse 409 ''idempotency_key_conflict''
              else tx_return \<lparr>cx_status = ck_responseStatus x, cx_body = ck_responseBody x, cx_replayed = True\<rparr>
          | None \<Rightarrow>
              tx_bind (perform cfg buyer q lang ctx) (\<lambda>(st, body).
              tx_bind (insert_checkout \<lparr>ck_buyerUserId = buyer, ck_key = key, ck_requestHash = checkout_hash cfg q, ck_responseStatus = st,
                ck_responseBody = body\<rparr>) (\<lambda>_. tx_return \<lparr>cx_status = st, cx_body = body, cx_replayed = False\<rparr>)))))"

end
