(* ===== verification/BillingWorkers.thy ===== *)
theory BillingWorkers
  imports BillingRequests
begin

text \<open>
  The processes that connect billing to Payment: the client's reading of Payment's answers
  (\<open>payment-integration/payment-client.ts\<close>), a pass of the dispatcher (\<open>payment-dispatcher.ts\<close>), a pass of the
  reconciler (\<open>payment-reconciler.ts\<close>) and the consumer of Payment's terminal events
  (\<open>payment-event-consumer.ts\<close>). What Payment answers is a parameter. Log lines are left out.
\<close>

section \<open>Payment's answers\<close>

text \<open>An answer is its HTTP status (0: no answer) and its body, \<open>None\<close> when it does not parse as JSON.\<close>

record http_answer =
  ha_status :: nat
  ha_body :: "js_value option"

text \<open>\<open>v?.k\<close> of a parsed value: only an object has members to read.\<close>

definition member :: "js_value \<Rightarrow> string \<Rightarrow> js_value" where
  "member v k = (case v of V_object ms \<Rightarrow> js_get ms k | _ \<Rightarrow> V_undefined)"

fun as_number :: "js_value \<Rightarrow> js_number option" where
  "as_number (V_number n) = Some n"
| "as_number _ = None"

fun as_bool :: "js_value \<Rightarrow> bool option" where
  "as_bool (V_bool b) = Some b"
| "as_bool _ = None"

definition party_member :: "js_value \<Rightarrow> string \<Rightarrow> bparty option" where
  "party_member v k =
     (case (as_string (member (member v k) ''type''), as_string (member (member v k) ''id'')) of
        (Some t, Some i) \<Rightarrow> Some \<lparr>bp_type = t, bp_id = i\<rparr> | _ \<Rightarrow> None)"

definition or_absent :: "(js_value \<Rightarrow> 'a option) \<Rightarrow> js_value \<Rightarrow> 'a option option" where
  "or_absent f v = (if js_absent v then Some None else map_option Some (f v))"

definition opt_bind :: "'a option \<Rightarrow> ('a \<Rightarrow> 'b option) \<Rightarrow> 'b option" where
  "opt_bind x f = (case x of Some y \<Rightarrow> f y | None \<Rightarrow> None)"

definition parseSnapshot :: "(string \<Rightarrow> instant option) \<Rightarrow> js_value option \<Rightarrow> payment_snapshot option" where
  "parseSnapshot parse body =
     opt_bind body (\<lambda>v.
     opt_bind (as_string (member v ''id'')) (\<lambda>i.
     opt_bind (as_string (member v ''paymentRequestId'')) (\<lambda>rid.
     opt_bind (as_string (member v ''status'')) (\<lambda>st.
     opt_bind (as_number (member v ''amount'')) (\<lambda>n.
     opt_bind (as_string (member v ''currency'')) (\<lambda>c.
     opt_bind (as_string (member v ''sourceType'')) (\<lambda>so.
     opt_bind (as_string (member v ''sourceId'')) (\<lambda>si.
     opt_bind (party_member v ''payer'') (\<lambda>payer.
     opt_bind (party_member v ''seller'') (\<lambda>seller.
     opt_bind (or_absent (\<lambda>x. opt_bind (as_string x) parse) (member v ''closedAt'')) (\<lambda>closed.
     opt_bind (or_absent as_string (member v ''purpose'')) (\<lambda>purpose.
     opt_bind (or_absent as_string (member v ''beneficiaryUserId'')) (\<lambda>beneficiary.
     opt_bind (or_absent as_bool (member v ''liveMode'')) (\<lambda>live.
       Some \<lparr>sn_paymentId = i, sn_paymentRequestId = rid, sn_status = st, sn_amount = n, sn_currency = c, sn_sourceType = so, sn_sourceId = si,
         sn_payer = payer, sn_seller = seller,
         sn_organizationId = (let g = member v ''organizationId'' in if js_absent g then None else case g of V_string s \<Rightarrow> Some s | _ \<Rightarrow> Some ''''),
         sn_closedAt = closed, sn_purpose = purpose, sn_beneficiaryUserId = beneficiary, sn_liveMode = live\<rparr>))))))))))))))"

datatype create_outcome = Create_accepted payment_snapshot | Create_rejected "string option" | Create_transient | Create_auth_fault

definition createPayment :: "(string \<Rightarrow> instant option) \<Rightarrow> http_answer \<Rightarrow> create_outcome" where
  "createPayment parse a =
     (if ha_status a = 201 \<or> ha_status a = 200 then (case parseSnapshot parse (ha_body a) of None \<Rightarrow> Create_transient | Some n \<Rightarrow> Create_accepted n)
      else if ha_status a \<in> {400, 409, 422} then Create_rejected (opt_bind (ha_body a) (\<lambda>v. as_string (member v ''code'')))
      else if ha_status a = 401 \<or> ha_status a = 403 then Create_auth_fault
      else Create_transient)"

text \<open>\<open>Inl\<close>: the error it throws.\<close>

definition getPayment :: "(string \<Rightarrow> instant option) \<Rightarrow> http_answer \<Rightarrow> string + payment_snapshot option" where
  "getPayment parse a =
     (if ha_status a = 404 then Inr None
      else case (if ha_status a = 200 then parseSnapshot parse (ha_body a) else None) of
        None \<Rightarrow> Inl ''payment-service GET failed'' | Some n \<Rightarrow> Inr (Some n))"

datatype cancel_answer = Cancel_cancelled | Cancel_in_flight | Cancel_already_terminal | Cancel_not_found | Cancel_transient | Cancel_auth_fault

definition cancelPayment :: "http_answer \<Rightarrow> cancel_answer" where
  "cancelPayment a =
     (if ha_status a = 200 then Cancel_cancelled
      else if ha_status a = 202 then Cancel_in_flight
      else if ha_status a = 404 then Cancel_not_found
      else if ha_status a = 401 \<or> ha_status a = 403 then Cancel_auth_fault
      else if ha_status a = 409 then
        (case opt_bind (ha_body a) (\<lambda>v. as_string (member v ''code'')) of
           Some c \<Rightarrow> if c = ''payment_has_open_attempt'' \<or> c = ''cash_submission_exists'' then Cancel_in_flight else Cancel_already_terminal
         | None \<Rightarrow> Cancel_already_terminal)
      else Cancel_transient)"

section \<open>A pass of the dispatcher\<close>

text \<open>
  The dispatcher's own flag \<open>running\<close> only skips overlapping passes. What Payment does with a body is
  \<open>call\<close>; \<open>renew i\<close> says whether a quarter of the stale window went by before the \<open>i\<close>-th send. An exception
  of a send is caught and leaves the request \<open>sending\<close>.
\<close>

definition claim_ctx :: "transition_ctx \<Rightarrow> dispatch_claim \<Rightarrow> transition_ctx" where
  "claim_ctx pass c = \<lparr>tc_actor = tc_actor pass, tc_cause = Cause_dispatcher, tc_causeId = Some (rm_id (dc_request c)), tc_correlationId = Some (dc_correlationId c)\<rparr>"

definition send_claim :: "(payment_body \<Rightarrow> create_outcome) \<Rightarrow> transition_ctx \<Rightarrow> dispatch_claim \<Rightarrow> bill_db \<Rightarrow> nat \<times> bill_db" where
  "send_claim call pass c s =
     (case buildPaymentRequestBody (dc_invoice c) (dc_request c) (dc_mappingVersion c) of
        None \<Rightarrow> (0, s)
      | Some body \<Rightarrow>
          (case call body of
             Create_accepted n \<Rightarrow>
               (case commit (markRequested (rm_id (dc_request c)) (sn_paymentId n) (claim_ctx pass c)) s of
                  (Inr _, t) \<Rightarrow> (1, t) | (Inl _, t) \<Rightarrow> (0, t))
           | Create_rejected _ \<Rightarrow> (0, snd (commit (markRejected (rm_id (dc_request c)) (claim_ctx pass c)) s))
           | Create_transient \<Rightarrow> (0, s)
           | Create_auth_fault \<Rightarrow> (0, s)))"

fun send_claims :: "(payment_body \<Rightarrow> create_outcome) \<Rightarrow> (nat \<Rightarrow> bool) \<Rightarrow> transition_ctx \<Rightarrow> nat \<Rightarrow> dispatch_claim list \<Rightarrow> bill_db \<Rightarrow> nat \<times> bill_db" where
  "send_claims call renew pass i [] s = (0, s)"
| "send_claims call renew pass i (c # cs) s =
     (let s1 = (if renew i then snd (commit (renewSending (map (\<lambda>x. rm_id (dc_request x)) (c # cs))) s) else s);
          (n, s2) = send_claim call pass c s1;
          (m, s3) = send_claims call renew pass (i + 1) cs s2
      in (n + m, s3))"

text \<open>\<open>passId\<close> is the random id of the pass. A claim that fails ends the pass.\<close>

definition dispatchOnce :: "(payment_body \<Rightarrow> create_outcome) \<Rightarrow> (nat \<Rightarrow> bool) \<Rightarrow> string \<Rightarrow> int \<Rightarrow> nat \<Rightarrow> bill_db \<Rightarrow> (bill_error + nat) \<times> bill_db" where
  "dispatchOnce call renew passId staleSendingMs batchSize s =
     (let pass = jobTransitionContext Cause_dispatcher None (''dispatch-pass:'' @ passId) in
      case commit (claimForDispatch batchSize staleSendingMs pass) s of
        (Inl e, t) \<Rightarrow> (Inl e, t)
      | (Inr claims, t) \<Rightarrow> (let (n, u) = send_claims call renew pass 0 claims t in (Inr n, u)))"

section \<open>A pass of the reconciler\<close>

text \<open>The result counts the settled ones; an exception of one request is caught.\<close>

definition reconcile_one :: "bill_cfg \<Rightarrow> (string \<Rightarrow> string + payment_snapshot option) \<Rightarrow> stale_requested \<Rightarrow> bill_db \<Rightarrow> nat \<times> bill_db" where
  "reconcile_one cfg get x s =
     (case get (sr_paymentId x) of
        Inl _ \<Rightarrow> (0, s)
      | Inr None \<Rightarrow> (0, s)
      | Inr (Some n) \<Rightarrow>
          (case commit (applyReconciledSnapshot cfg n (jobTransitionContext Cause_reconciliation (Some (sr_id x)) (sr_correlationId x)) (b_now s)) s of
             (Inr (Some a), t) \<Rightarrow> (if ea_outcome a = O_applied then 1 else 0, t)
           | (_, t) \<Rightarrow> (0, t)))"

fun reconcile_all :: "bill_cfg \<Rightarrow> (string \<Rightarrow> string + payment_snapshot option) \<Rightarrow> stale_requested list \<Rightarrow> bill_db \<Rightarrow> nat \<times> bill_db" where
  "reconcile_all cfg get [] s = (0, s)"
| "reconcile_all cfg get (x # xs) s =
     (let (n, t) = reconcile_one cfg get x s; (m, u) = reconcile_all cfg get xs t in (n + m, u))"

text \<open>The cursor is the state the reconciler keeps between passes: after a full page the next one resumes where it ended.\<close>

definition next_cursor :: "nat \<Rightarrow> stale_requested list \<Rightarrow> (instant \<times> string) option" where
  "next_cursor batchSize xs = (if length xs < batchSize then None else Some (sr_position (last xs)))"

definition reconcileRequests :: "bill_cfg \<Rightarrow> (string \<Rightarrow> string + payment_snapshot option) \<Rightarrow> int \<Rightarrow> nat \<Rightarrow> (instant \<times> string) option \<Rightarrow> bill_db \<Rightarrow>
    (nat \<times> nat) \<times> (instant \<times> string) option \<times> bill_db" where
  "reconcileRequests cfg get staleRequestedMs batchSize cursor s =
     (let xs = findStaleRequested batchSize staleRequestedMs cursor s; (n, t) = reconcile_all cfg get xs s
      in ((length xs, n), next_cursor batchSize xs, t))"

section \<open>The consumer of Payment's events\<close>

text \<open>The trusted envelope of a delivery and the names of the payment outcomes with their one source and version (\<open>events/event-catalog.ts\<close>).\<close>

record trusted_envelope =
  te_eventId :: string
  te_name :: string
  te_source :: string
  te_version :: int
  te_occurredAt :: string
  te_correlationId :: "string option"

definition outcome_event :: "string \<Rightarrow> payment_event_name option" where
  "outcome_event name =
     (if name = ''payment.succeeded'' then Some Ev_succeeded else if name = ''payment.failed'' then Some Ev_failed
      else if name = ''payment.cancelled'' then Some Ev_cancelled else if name = ''payment.expired'' then Some Ev_expired else None)"

definition if_present :: "(js_value \<Rightarrow> 'a option) \<Rightarrow> js_value \<Rightarrow> 'a option option" where
  "if_present f v = (if v = V_undefined then Some None else map_option Some (f v))"

definition organization_of :: "js_value \<Rightarrow> string option option" where
  "organization_of v = (case v of V_null \<Rightarrow> Some None | V_string g \<Rightarrow> Some (Some g) | _ \<Rightarrow> None)"

text \<open>\<open>None\<close>: a \<open>MalformedPaymentEventError\<close>. A revision that is no integer is one the database refuses for good, like a malformed one.\<close>

definition integral :: "js_number \<Rightarrow> int option" where
  "integral n = (case n of JInt i \<Rightarrow> Some i | JNonInt \<Rightarrow> None)"

definition parseFacts :: "js_value \<Rightarrow> trusted_envelope \<Rightarrow> event_facts option" where
  "parseFacts p t =
     opt_bind (outcome_event (te_name t)) (\<lambda>name.
     opt_bind (as_string (member p ''paymentId'')) (\<lambda>pid.
     opt_bind (as_string (member p ''producer'')) (\<lambda>producer.
     opt_bind (as_string (member p ''paymentRequestId'')) (\<lambda>rid.
     opt_bind (as_string (member p ''sourceType'')) (\<lambda>so.
     opt_bind (as_string (member p ''sourceId'')) (\<lambda>si.
     opt_bind (party_member p ''payer'') (\<lambda>payer.
     opt_bind (party_member p ''seller'') (\<lambda>seller.
     opt_bind (organization_of (member p ''organizationId'')) (\<lambda>org.
     opt_bind (as_string (member p ''currency'')) (\<lambda>c.
     opt_bind (opt_bind (as_number (member p ''revision'')) integral) (\<lambda>n.
     opt_bind (if_present as_string (member p ''purpose'')) (\<lambda>purpose.
     opt_bind (if_present as_string (member p ''beneficiaryUserId'')) (\<lambda>beneficiary.
     opt_bind (if_present as_bool (member p ''liveMode'')) (\<lambda>live.
       Some \<lparr>ev_name = name, ev_source = te_source t, ev_paymentId = pid, ev_producer = producer, ev_paymentRequestId = rid, ev_sourceType = so,
         ev_sourceId = si, ev_payer = payer, ev_seller = seller, ev_organizationId = org, ev_amount = as_number (member p ''amount''),
         ev_currency = c, ev_revision = n, ev_purpose = purpose, ev_beneficiaryUserId = beneficiary, ev_liveMode = live\<rparr>))))))))))))))"

text \<open>
  \<open>process\<close> on a payment outcome: acknowledged with what was recorded, dead-lettered for good, or failed
  and retried. The other bound events go to the refund, dispute and late success services.
\<close>

datatype delivery_result = Acknowledged event_application | Dead_letter string | Retry bill_error | Other_event

definition process_event :: "bill_cfg \<Rightarrow> js_value \<Rightarrow> trusted_envelope \<Rightarrow> bill_db \<Rightarrow> delivery_result \<times> bill_db" where
  "process_event cfg p t s =
     (if outcome_event (te_name t) = None then (Other_event, s)
      else if te_version t \<noteq> 1 then (Dead_letter ''unsupported_version'', s)
      else if te_source t \<noteq> ''payment-service'' then (Dead_letter ''wrong_source'', s)
      else case (parseFacts p t, bc_parseInstant cfg (te_occurredAt t)) of
        (Some facts, Some settledAt) \<Rightarrow>
          (let ctx = \<lparr>tc_actor = \<lparr>ac_type = Actor_system, ac_id = None, ac_userKind = None\<rparr>, tc_cause = Cause_payment_event,
                 tc_causeId = Some (te_eventId t),
                 tc_correlationId = Some (case te_correlationId t of Some c \<Rightarrow> c | None \<Rightarrow> ''event:'' @ te_eventId t)\<rparr> in
           case commit (applyPaymentEvent cfg (te_eventId t) facts ctx settledAt) s of
             (Inr a, u) \<Rightarrow> (Acknowledged a, u)
           | (Inl e, u) \<Rightarrow> (Retry e, u))
      | _ \<Rightarrow> (Dead_letter ''malformed_payload'', s))"

end
