(* ===== verification/BillingFrame.thy ===== *)
theory BillingFrame
  imports BillingWorkers
begin

text \<open>
  What every operation of the billing service respects. The tables of invoices, requests, receipts, history,
  subscriptions and settlements are the core; the other statements leave the core alone. A relation that
  the core's statements and a statement outside the core respect is respected by every operation: the locale \<open>billing_writes\<close> proves it once.
\<close>

section \<open>The core\<close>

definition same_core :: "bill_db \<Rightarrow> bill_db \<Rightarrow> bool" where
  "same_core s t \<longleftrightarrow>
     b_xid t = b_xid s \<and> b_deferred t = b_deferred s \<and> b_currencies t = b_currencies s \<and> b_invoices t = b_invoices s \<and> b_lines t = b_lines s \<and>
     b_counters t = b_counters s \<and> b_routings t = b_routings s \<and> b_requests t = b_requests s \<and> b_receipts t = b_receipts s \<and>
     b_transitions t = b_transitions s \<and> b_subscriptions t = b_subscriptions s \<and> b_settlements t = b_settlements s"

lemma same_core_refl [simp]: "same_core s s"
  by (simp add: same_core_def)

lemma same_core_trans: "same_core s t \<Longrightarrow> same_core t u \<Longrightarrow> same_core s u"
  by (simp add: same_core_def)

interpretation core: tx_relation same_core
  by unfold_locales (auto intro: same_core_trans)

lemmas b_tx_defs = b_read_def b_the_def b_refuse_def tx_return_def tx_throw_def

lemma core_fresh: "core.keeps s (b_fresh cfg s)"
  by (simp add: b_fresh_def core.keeps_def same_core_def)

lemma core_enqueue: "core.keeps s (outbox_enqueue i ev s)"
  by (auto simp: outbox_enqueue_def core.keeps_def same_core_def)

lemma core_audit: "core.keeps s (record_audit cfg a g r c n ctx s)"
  unfolding record_audit_def by (rule core.keeps_bind) (auto simp: core_enqueue split: prod.splits)

lemma core_settle_channel: "core.keeps s (settle_channel i s)"
  by (auto simp: settle_channel_def core.keeps_def same_core_def)

lemma core_settle_assistance: "core.keeps s (settle_assistance i s)"
  by (auto simp: settle_assistance_def core.keeps_def same_core_def)

lemma core_insert_late: "core.keeps s (insert_late r s)"
  by (auto simp: insert_late_def core.keeps_def same_core_def)

lemma core_insert_recovery_payment: "core.keeps s (insert_recovery_payment r s)"
  by (auto simp: insert_recovery_payment_def core.keeps_def same_core_def Let_def split: option.splits if_splits)

lemma core_insert_surplus: "core.keeps s (insert_surplus r s)"
  by (auto simp: insert_surplus_def core.keeps_def same_core_def)

lemma core_insert_adjustment: "core.keeps s (insert_adjustment a s)"
  by (auto simp: insert_adjustment_def core.keeps_def same_core_def split: option.splits if_splits)

lemma core_recover_obligation: "core.keeps s (recover_obligation i s)"
  by (auto simp: recover_obligation_def core.keeps_def same_core_def split: option.splits)

lemma core_insert_checkout: "core.keeps s (insert_checkout r s)"
  by (auto simp: insert_checkout_def core.keeps_def same_core_def)

lemma core_insert_personal: "core.keeps s (insert_personal cfg u p s)"
  unfolding insert_personal_def
  by (rule core.keeps_bind [OF core_fresh]) (auto simp: core.keeps_def same_core_def split: option.splits if_splits)

lemma core_insert_purchase: "core.keeps s (insert_purchase r s)"
  by (auto simp: insert_purchase_def core.keeps_def same_core_def split: option.splits if_splits)

section \<open>What every operation respects\<close>

locale billing_writes = tx_relation R for R :: "bill_db \<Rightarrow> bill_db \<Rightarrow> bool" +
  fixes cfg :: bill_cfg and may :: "request_status \<Rightarrow> bool"
  assumes frame: "same_core s t \<Longrightarrow> R s t"
    and may: "x \<noteq> R_paid \<Longrightarrow> may x"
    and w_insert_invoice: "insert_invoice cfg r s = Inr (x1, t) \<Longrightarrow> R s t"
    and w_update_invoice: "update_invoice cfg i f s = Inr (x1, t) \<Longrightarrow> R s t"
    and w_insert_line: "insert_line l s = Inr (x2, t) \<Longrightarrow> R s t"
    and w_insert_routing: "insert_routing e s = Inr (x2, t) \<Longrightarrow> R s t"
    and w_insert_request: "insert_request q s = Inr (x3, t) \<Longrightarrow> R s t"
    and w_update_request: "(\<And>x. rq_status (g x) = rq_status x \<or> may (rq_status (g x))) \<Longrightarrow> update_request i g s = Inr (x4, t) \<Longrightarrow> R s t"
    and w_insert_receipt: "insert_receipt rc s = Inr (x5, t) \<Longrightarrow> R s t"
    and w_insert_transition: "insert_transition tr s = Inr (x2, t) \<Longrightarrow> R s t"
    and w_insert_subscription: "insert_subscription b s = Inr (x6, t) \<Longrightarrow> R s t"
    and w_update_subscription: "update_subscription i h s = Inr (x6, t) \<Longrightarrow> R s t"
    and w_insert_settlement: "insert_settlement ss s = Inr (x5, t) \<Longrightarrow> R s t"
begin

lemma from_core: "core.keeps s res \<Longrightarrow> keeps s res"
  by (auto simp: keeps_def core.keeps_def intro: frame)

lemma b_keeps_read: "keeps s (b_read f s)"
  by (auto simp: b_read_def keeps_def R_refl)

lemma b_keeps_the: "keeps s (b_the x s)"
  by (cases x) (auto simp: b_the_def keeps_def R_refl)

lemma b_keeps_refuse: "keeps s (b_refuse st c s)"
  by (auto simp: b_refuse_def)

lemma b_keeps_throw: "keeps s (tx_throw e s)"
  by auto

lemmas basics = b_keeps_read b_keeps_the b_keeps_refuse b_keeps_throw keeps_return keeps_lift keeps_same keeps_error
  from_core [OF core_fresh] from_core [OF core_enqueue] from_core [OF core_audit] from_core [OF core_settle_channel]
  from_core [OF core_settle_assistance] from_core [OF core_insert_late] from_core [OF core_insert_recovery_payment]
  from_core [OF core_insert_surplus] from_core [OF core_insert_adjustment] from_core [OF core_recover_obligation]
  from_core [OF core_insert_checkout] from_core [OF core_insert_personal] from_core [OF core_insert_purchase]

lemma writes:
  "keeps s (insert_invoice cfg r s)" "keeps s (update_invoice cfg i f s)" "keeps s (insert_line l s)" "keeps s (insert_routing e s)"
  "keeps s (insert_request q s)" "keeps s (insert_receipt rc s)" "keeps s (insert_transition tr s)" "keeps s (recordTransition en i old new n ctx s)"
  "keeps s (insert_subscription b s)" "keeps s (update_subscription i h s)" "keeps s (insert_settlement ss s)"
  unfolding keeps_def recordTransition_def
  by (auto dest: w_insert_invoice w_update_invoice w_insert_line w_insert_routing w_insert_request w_insert_receipt w_insert_transition
    w_insert_subscription w_update_subscription w_insert_settlement)

lemma writes_request: "(\<And>x. rq_status (g x) = rq_status x \<or> may (rq_status (g x))) \<Longrightarrow> keeps s (update_request i g s)"
  unfolding keeps_def by (auto dest: w_update_request [rotated])

lemmas all_writes = basics writes

lemma keeps_if: "(b \<Longrightarrow> keeps s (f s)) \<Longrightarrow> (\<not> b \<Longrightarrow> keeps s (g s)) \<Longrightarrow> keeps s ((if b then f else g) s)"
  by simp

lemma keeps_option: "(\<And>y. x = Some y \<Longrightarrow> keeps s (f y s)) \<Longrightarrow> (x = None \<Longrightarrow> keeps s (g s)) \<Longrightarrow> keeps s ((case x of None \<Rightarrow> g | Some y \<Rightarrow> f y) s)"
  by (cases x) auto

lemma keeps_pair: "(\<And>a b. p = (a, b) \<Longrightarrow> keeps s (f a b s)) \<Longrightarrow> keeps s ((case p of (a, b) \<Rightarrow> f a b) s)"
  by (cases p) auto

lemma keeps_singleton:
  "(\<And>l. x = [l] \<Longrightarrow> keeps s (f l s)) \<Longrightarrow> keeps s (g s) \<Longrightarrow> keeps s ((case x of [] \<Rightarrow> g | [l] \<Rightarrow> f l | _ \<Rightarrow> g) s)"
  by (auto split: list.splits)

lemma keeps_each: "(\<And>x s. keeps s (f x s)) \<Longrightarrow> keeps s (tx_each f xs s)"
  by (induction xs arbitrary: s) (auto intro!: keeps_bind)

lemmas steps = keeps_bind keeps_if keeps_option keeps_pair keeps_singleton keeps_each

text \<open>A committed transaction: from its begin a run of statements to a state whose deferred checks pass.\<close>

definition commits :: "bill_db \<Rightarrow> bill_db \<Rightarrow> bool" where
  "commits s t \<longleftrightarrow> b_deferred s = [] \<and>
     (\<exists>v. R (begin_tx s) v \<and> list_all (deferred_ok v) (b_deferred v) \<and> t = v\<lparr>b_deferred := []\<rparr>)"

lemma db_tx_commits:
  assumes "\<And>s. keeps s (t s)" and "db_tx t s = Inr (x, u)" and "b_deferred s = []"
  shows "commits s u"
proof -
  obtain v where v: "t (begin_tx s) = Inr (x, v)" "list_all (deferred_ok v) (b_deferred v)" "u = v\<lparr>b_deferred := []\<rparr>"
    using assms(2) by (auto simp: db_tx_def tx_bind_Inr_iff end_tx_def split: if_splits)
  then show ?thesis using keeps_run [OF assms(1) v(1)] assms(3) by (auto simp: commits_def)
qed

end

end
