(* ===== verification/BillingOps.thy ===== *)
theory BillingOps
  imports BillingFrame
begin

text \<open>
  Every operation of the billing service is a run of guarded statements: proved once in the locale
  \<open>billing_writes\<close>, first for the ledgers and the parts of operations, then for each transaction body.
\<close>

context billing_writes
begin

lemmas parts = all_writes

lemma k_lock_subscription: "keeps s (lock_subscription org s)"
  by (auto simp: lock_subscription_def notFound_def billingError_def split: option.splits)

lemma k_lock_for_caller: "keeps s (lock_for_caller i c s)"
  by (auto simp: lock_for_caller_def notFound_def operationNotPermitted_def billingError_def split: option.splits relation.splits)

lemma k_record_subscription: "keeps s (record_subscription b u ctx s)"
  unfolding record_subscription_def by (rule writes)

lemma k_record_request: "keeps s (record_request q x ctx s)"
  unfolding record_request_def by (rule writes)

lemma k_audit_request: "keeps s (audit_request cfg a g i j ctx s)"
  unfolding audit_request_def by (rule from_core [OF core_audit])

lemma k_reload: "keeps s (reload i s)"
  unfolding reload_def by (intro steps basics)

lemmas helpers = k_lock_subscription k_lock_for_caller k_record_subscription k_record_request k_audit_request k_reload

lemma k_createTx: "keeps s (createTx cfg org p pr ctx s)"
  unfolding createTx_def by (intro steps all_writes helpers)

lemma k_rollPeriod: "keeps s (rollPeriod b start reset ctx s)"
  unfolding rollPeriod_def by (intro steps all_writes helpers)

lemma k_audit_settlement: "keeps s (audit_settlement cfg old new ctx s)"
  unfolding audit_settlement_def by (intro steps all_writes helpers)

lemma k_applySettlement: "keeps s (applySettlement cfg q ctx s)"
  unfolding applySettlement_def Let_def by (intro steps all_writes helpers k_createTx k_rollPeriod k_audit_settlement)

lemma k_move_subscription: "keeps s (move_subscription b f ctx s)"
  unfolding move_subscription_def by (intro steps all_writes helpers)

lemma k_recordPurchase: "keeps s (recordPurchase cfg q s)"
  unfolding recordPurchase_def by (intro steps all_writes helpers)

lemma k_applyAssistedSettlement: "keeps s (applyAssistedSettlement cfg i ben p a rq rc t s)"
  unfolding applyAssistedSettlement_def by (intro steps all_writes helpers k_recordPurchase)

lemma k_applyRecoveryPayment: "keeps s (applyRecoveryPayment cfg p ctx s)"
  unfolding applyRecoveryPayment_def record_surplus_def reduce_loss_def Let_def by (intro steps all_writes helpers)


section \<open>Invoices\<close>

lemma k_createDraftIn: "keeps s (createDraftIn cfg producer input ctx s)"
  unfolding createDraftIn_def insert_draft_line_def Let_def by (intro steps all_writes helpers)

lemma k_issueIn: "keeps s (issueIn cfg i c template lang ctx v s)"
  unfolding issueIn_def by (intro steps all_writes helpers) (auto split: sum.split intro!: steps all_writes helpers)

lemma k_createForInvoiceIn: "keeps s (createForInvoiceIn cfg i c ctx s)"
  unfolding createForInvoiceIn_def by (intro steps all_writes helpers)

section \<open>Requests\<close>

lemma k_update_sending: "keeps s (update_request i (\<lambda>x. x\<lparr>rq_status := R_sending, rq_sendAttempts := n x, rq_sendingSince := t\<rparr>) s)"
  by (rule writes_request) (simp add: may)

lemma k_update_same: "(\<And>x. rq_status (g x) = rq_status x) \<Longrightarrow> keeps s (update_request i g s)"
  by (rule writes_request) simp

lemma k_transitionRequest: "(\<And>x. may (rq_status (f x))) \<Longrightarrow> keeps s (transitionRequest q f ctx s)"
  unfolding transitionRequest_def by (intro steps all_writes helpers writes_request) simp

lemma k_claim_one: "keeps s (claim_one ctx q s)"
  unfolding claim_one_def Let_def by (intro steps all_writes helpers k_update_sending)

lemma k_renew_one: "keeps s (renew_one i s)"
  unfolding renew_one_def by (intro steps all_writes helpers k_update_same) simp_all

section \<open>Payment events\<close>

lemma k_organization_settlement: "keeps s (organization_settlement cfg p ctx s)"
proof (cases "applySettlement cfg p ctx s")
  case (Inl e)
  then show ?thesis by (cases e) (auto simp: organization_settlement_def)
next
  case (Inr y)
  then show ?thesis using k_applySettlement [of s p ctx] by (cases y) (auto simp: organization_settlement_def keeps_def)
qed

lemma k_link_organization: "keeps s (link_organization cfg r e q rc t ctx s)"
  unfolding link_organization_def by (intro steps all_writes helpers k_organization_settlement)

lemma k_linkSubscription: "keeps s (linkSubscription cfg r q rc t ctx s)"
  unfolding linkSubscription_def
  by (intro steps all_writes helpers k_applyAssistedSettlement k_applyRecoveryPayment k_recordPurchase k_link_organization)

lemma k_settle_invoice: "keeps s (settle_invoice cfg r q rc t ctx s)"
  unfolding settle_invoice_def by (intro steps all_writes helpers k_linkSubscription)

lemma k_apply_decision: "may to \<Longrightarrow> keeps s (apply_decision cfg q r to ito rc t ctx s)"
  unfolding apply_decision_def by (intro steps all_writes helpers k_transitionRequest k_settle_invoice) simp

lemma may_all: "may R_paid \<Longrightarrow> may x"
  using may by (cases "x = R_paid") auto

lemma k_decided:
  "may R_paid \<Longrightarrow> keeps s ((case (d, q, f) of (Applied to ito, Some x, Some r) \<Rightarrow> tx_bind (apply_decision cfg x r to ito rc t ctx) g | _ \<Rightarrow> h) s)"
  if "\<And>y s. keeps s (g y s)" and "\<And>s. keeps s (h s)"
  using that may_all by (cases d; cases q; cases f) (auto intro!: keeps_bind k_apply_decision)

lemma k_decide_and_apply: "may R_paid \<Longrightarrow> keeps s (decide_and_apply cfg ev e ctx t q f s)"
  unfolding decide_and_apply_def Let_def by (intro steps all_writes helpers k_decided)

lemma k_applyPaymentEventIn: "may R_paid \<Longrightarrow> keeps s (applyPaymentEventIn cfg ev e ctx t s)"
  unfolding applyPaymentEventIn_def by (intro steps all_writes helpers k_decide_and_apply)

section \<open>Checkout\<close>

lemma k_perform_new: "keeps s (perform_new cfg buyer q company lang ctx s)"
  unfolding perform_new_def by (intro steps all_writes helpers k_createDraftIn k_issueIn k_createForInvoiceIn)

lemma k_perform: "keeps s (perform cfg buyer q lang ctx s)"
  unfolding perform_def by (intro keeps_bind basics) (auto split: option.split intro!: steps all_writes k_perform_new)

section \<open>Transactions and the passes of the workers\<close>

definition lands :: "bill_db \<Rightarrow> bill_error + 'a \<times> bill_db \<Rightarrow> bool" where
  "lands s res \<longleftrightarrow> (b_deferred s = [] \<longrightarrow> (\<forall>x t. res = Inr (x, t) \<longrightarrow> reaches commits s t \<and> b_deferred t = []))"

lemma lands_db_tx:
  assumes "\<And>s. keeps s (t s)"
  shows "lands s (db_tx t s)"
  unfolding lands_def
proof (intro impI allI)
  fix x u
  assume "b_deferred s = []" and "db_tx t s = Inr (x, u)"
  then have c: "commits s u" by (intro db_tx_commits [OF assms])
  then have "b_deferred u = []" by (auto simp: commits_def)
  with c show "reaches commits s u \<and> b_deferred u = []" by (simp add: reaches_one)
qed

lemma lands_return: "lands s (Inr (x, s))"
  by (simp add: lands_def reaches.here)

lemma lands_lift: "lands s (tx_lift m s)"
  by (cases m) (simp_all add: lands_def reaches.here)

lemma lands_bind: "lands s (t s) \<Longrightarrow> (\<And>x u. lands u (k x u)) \<Longrightarrow> lands s (tx_bind t k s)"
  unfolding lands_def tx_bind_Inr_iff by (blast intro: reaches_trans)

lemma lands_commit: "lands s (t s) \<Longrightarrow> b_deferred s = [] \<Longrightarrow> reaches commits s (snd (commit t s)) \<and> b_deferred (snd (commit t s)) = []"
  by (cases "t s") (auto simp: lands_def commit_def intro: reaches.here)

lemma lands_invoices:
  "lands s (createDraft cfg producer input ctx s)" "lands s (issue cfg i c template lang ctx v s)" "lands s (discard cfg i c ctx s)"
  unfolding createDraft_def issue_def discard_def
  by (intro lands_db_tx steps all_writes helpers k_createDraftIn k_issueIn)+

lemma lands_createForInvoice: "lands s (createForInvoice cfg i c ctx s)"
  unfolding createForInvoice_def by (intro lands_db_tx k_createForInvoiceIn)

lemma lands_claimForDispatch: "lands s (claimForDispatch n m ctx s)"
  unfolding claimForDispatch_def by (intro lands_db_tx steps all_writes k_claim_one)

lemma lands_renewSending: "lands s (renewSending is s)"
  unfolding renewSending_def
  by (cases "is = []") (auto intro!: lands_return lands_db_tx keeps_bind keeps_each k_renew_one)

lemma lands_from_sending: "(\<And>x. may (rq_status (f x))) \<Longrightarrow> lands s (from_sending i f ctx s)"
  unfolding from_sending_def by (intro lands_db_tx steps all_writes k_transitionRequest)

lemma lands_marks: "lands s (markRequested i p ctx s)" "lands s (markRejected i ctx s)"
  unfolding markRequested_def markRejected_def by (rule lands_from_sending, simp add: may)+

lemma lands_cancelUnsent: "lands s (cancelUnsent cfg i c ctx s)"
  unfolding cancelUnsent_def by (intro lands_db_tx steps all_writes helpers k_transitionRequest) (simp add: may)

lemma lands_markCancelRequested: "lands s (markCancelRequested i c s)"
  unfolding markCancelRequested_def by (intro lands_db_tx steps all_writes k_update_same) simp

lemmas lands_requests = lands_createForInvoice lands_claimForDispatch lands_renewSending lands_marks lands_cancelUnsent lands_markCancelRequested

lemma lands_subscriptions:
  "lands s (create_subscription cfg org p pr ctx s)" "lands s (enterGrace org ctx s)" "lands s (expire org ctx s)"
  "lands s (setCancellation org b ctx s)" "lands s (terminate org ctx s)"
  unfolding create_subscription_def enterGrace_def expire_def setCancellation_def terminate_def
  by (intro lands_db_tx steps all_writes helpers k_createTx k_move_subscription)+

lemma lands_checkout: "lands s (checkout cfg buyer key q lang ctx s)"
  unfolding checkout_def by (cases "bc_isProduction cfg") (auto intro!: lands_lift lands_db_tx steps all_writes k_perform)

text \<open>A pass of a worker: several transactions one after the other.\<close>

definition settles :: "bill_db \<Rightarrow> bill_db \<Rightarrow> bool" where
  "settles s t \<longleftrightarrow> (b_deferred s = [] \<longrightarrow> reaches commits s t \<and> b_deferred t = [])"

lemma settles_refl: "settles s s"
  by (simp add: settles_def reaches.here)

lemma settles_trans: "settles s t \<Longrightarrow> settles t u \<Longrightarrow> settles s u"
  unfolding settles_def by (blast intro: reaches_trans)

lemma settles_commit: "(\<And>s. lands s (t s)) \<Longrightarrow> settles s (snd (commit t s))"
  unfolding settles_def by (blast dest: lands_commit)

lemma settles_answer: "(\<And>s. lands s (t s)) \<Longrightarrow> settles s (snd (case commit t s of (Inr x, u) \<Rightarrow> (f x, u) | (Inl e, u) \<Rightarrow> (g e, u)))"
  using settles_commit [of t s] by (auto split: prod.split sum.split)

lemma settles_send_claim: "settles s (snd (send_claim call pass c s))"
proof (cases "buildPaymentRequestBody (dc_invoice c) (dc_request c) (dc_mappingVersion c)")
  case None
  then show ?thesis by (simp add: send_claim_def settles_refl)
next
  case (Some body)
  then show ?thesis
    by (cases "call body") (auto simp: send_claim_def settles_refl intro!: settles_commit settles_answer lands_marks)
qed

lemma settles_send_claims: "settles s (snd (send_claims call renew pass i cs s))"
proof (induction cs arbitrary: i s)
  case (Cons c cs)
  define s1 where "s1 = (if renew i then snd (commit (renewSending (map (\<lambda>x. rm_id (dc_request x)) (c # cs))) s) else s)"
  have 1: "settles s s1" unfolding s1_def using settles_commit [OF lands_renewSending] by (simp add: settles_refl)
  have 2: "settles s1 (snd (send_claim call pass c s1))" by (rule settles_send_claim)
  have 3: "settles (snd (send_claim call pass c s1)) (snd (send_claims call renew pass (i + 1) cs (snd (send_claim call pass c s1))))"
    by (rule Cons.IH)
  have "snd (send_claims call renew pass i (c # cs) s) = snd (send_claims call renew pass (i + 1) cs (snd (send_claim call pass c s1)))"
    unfolding send_claims.simps Let_def s1_def [symmetric] by (simp add: split_beta)
  with settles_trans [OF 1 settles_trans [OF 2 3]] show ?case by simp
qed (simp add: settles_refl)

lemma settles_dispatchOnce: "settles s (snd (dispatchOnce call renew passId m n s))"
proof -
  define pass where "pass = jobTransitionContext Cause_dispatcher None (''dispatch-pass:'' @ passId)"
  obtain x t where c: "commit (claimForDispatch n m pass) s = (x, t)" by fastforce
  have "settles s (snd (commit (claimForDispatch n m pass) s))" by (intro settles_commit lands_claimForDispatch)
  then have t: "settles s t" by (simp add: c)
  have "settles s (snd (send_claims call renew pass 0 cs t))" for cs by (rule settles_trans [OF t settles_send_claims])
  with t show ?thesis
    unfolding dispatchOnce_def Let_def pass_def [symmetric] c by (cases x) (simp_all add: split_beta)
qed

end

text \<open>A relation that also respects the whole body of an applied payment event, whatever it does to a request.\<close>

locale billing_events = billing_writes +
  assumes w_event: "applyPaymentEventIn cfg ev e ctx at s = Inr (x7, t) \<Longrightarrow> R s t"
begin

lemma lands_applyPaymentEvent: "lands s (applyPaymentEvent cfg ev e ctx t s)"
  unfolding applyPaymentEvent_def by (intro lands_db_tx) (auto simp: keeps_def dest: w_event)

lemma lands_reconciled: "lands s (applyReconciledSnapshot cfg n ctx clock s)"
  unfolding applyReconciledSnapshot_def
  by (cases "terminal_event (sn_status n)") (auto intro!: lands_return lands_bind lands_applyPaymentEvent)

lemma settles_reconcile_one: "settles s (snd (reconcile_one cfg get x s))"
proof -
  have "settles s (snd (case commit (applyReconciledSnapshot cfg n ctx clock) s of
      (Inr (Some a), t) \<Rightarrow> (if ea_outcome a = O_applied then 1 :: nat else 0, t) | (_, t) \<Rightarrow> (0, t)))" for n ctx clock
  proof -
    have "settles s (snd (commit (applyReconciledSnapshot cfg n ctx clock) s))" by (intro settles_commit lands_reconciled)
    then show ?thesis by (auto split: prod.split sum.split option.split)
  qed
  then show ?thesis by (auto simp: reconcile_one_def settles_refl split: sum.split option.split)
qed

lemma settles_reconcile_all: "settles s (snd (reconcile_all cfg get xs s))"
proof (induction xs arbitrary: s)
  case (Cons x xs)
  have "settles s (snd (reconcile_one cfg get x s))" by (rule settles_reconcile_one)
  then show ?case using Cons.IH [of "snd (reconcile_one cfg get x s)"] by (auto simp: Let_def split_beta intro: settles_trans)
qed (simp add: settles_refl)

lemma settles_reconcileRequests: "settles s (snd (snd (reconcileRequests cfg get m n c s)))"
  by (simp add: reconcileRequests_def Let_def split_beta settles_reconcile_all)

lemma settles_process_event: "settles s (snd (process_event cfg p t s))"
  by (auto simp: process_event_def settles_refl Let_def split: option.split intro!: settles_answer lands_applyPaymentEvent)

end

end
