(* ===== verification/BillingSystem.thy ===== *)
theory BillingSystem
  imports BillingOps
begin

text \<open>
  The billing service as a transition system. Inside a transaction a step is one guarded statement, or the
  whole body of an applied payment event: nothing else makes a request \<open>paid\<close>. A step of the system is a
  committed transaction, whatever statements it runs, or a change outside the core (the clock, the catalogue,
  the tables of other components). Every operation is a run of committed transactions; a failed one changes
  nothing.
\<close>

section \<open>Statements and steps\<close>

inductive bill_write :: "bill_cfg \<Rightarrow> (request_status \<Rightarrow> bool) \<Rightarrow> bill_db \<Rightarrow> bill_db \<Rightarrow> bool" for cfg may where
  w_core: "same_core s t \<Longrightarrow> bill_write cfg may s t"
| w_invoice: "insert_invoice cfg r s = Inr (x, t) \<Longrightarrow> bill_write cfg may s t"
| w_invoice_set: "update_invoice cfg i f s = Inr (x, t) \<Longrightarrow> bill_write cfg may s t"
| w_line: "insert_line l s = Inr (x, t) \<Longrightarrow> bill_write cfg may s t"
| w_routing: "insert_routing e s = Inr (x, t) \<Longrightarrow> bill_write cfg may s t"
| w_request: "insert_request q s = Inr (x, t) \<Longrightarrow> bill_write cfg may s t"
| w_request_set: "(\<forall>q. rq_status (g q) = rq_status q \<or> may (rq_status (g q))) \<Longrightarrow> update_request i g s = Inr (x, t) \<Longrightarrow> bill_write cfg may s t"
| w_receipt: "insert_receipt rc s = Inr (x, t) \<Longrightarrow> bill_write cfg may s t"
| w_transition: "insert_transition tr s = Inr (x, t) \<Longrightarrow> bill_write cfg may s t"
| w_subscription: "insert_subscription b s = Inr (x, t) \<Longrightarrow> bill_write cfg may s t"
| w_subscription_set: "update_subscription i h s = Inr (x, t) \<Longrightarrow> bill_write cfg may s t"
| w_settlement: "insert_settlement ss s = Inr (x, t) \<Longrightarrow> bill_write cfg may s t"

abbreviation statement :: "bill_cfg \<Rightarrow> bill_db \<Rightarrow> bill_db \<Rightarrow> bool" where
  "statement cfg \<equiv> bill_write cfg (\<lambda>_. True)"

inductive bill_body :: "bill_cfg \<Rightarrow> bill_db \<Rightarrow> bill_db \<Rightarrow> bool" for cfg where
  body_statement: "bill_write cfg (\<lambda>x. x \<noteq> R_paid) s t \<Longrightarrow> bill_body cfg s t"
| body_event: "applyPaymentEventIn cfg ev e ctx at s = Inr (x, t) \<Longrightarrow> bill_body cfg s t"

inductive bill_step :: "bill_cfg \<Rightarrow> bill_db \<Rightarrow> bill_db \<Rightarrow> bool" for cfg where
  step_tx: "b_deferred s = [] \<Longrightarrow> reaches (bill_body cfg) (begin_tx s) v \<Longrightarrow> list_all (deferred_ok v) (b_deferred v) \<Longrightarrow>
    t = v\<lparr>b_deferred := []\<rparr> \<Longrightarrow> bill_step cfg s t"
| step_other: "same_core (s\<lparr>b_xid := b_xid t\<rparr>) t \<Longrightarrow> b_xid s \<le> b_xid t \<Longrightarrow> bill_step cfg s t"

lemma reaches_body:
  "bill_write cfg (\<lambda>x. x \<noteq> R_paid) s t \<Longrightarrow> reaches (bill_body cfg) s t"
  "applyPaymentEventIn cfg ev e ctx at s = Inr (x, t) \<Longrightarrow> reaches (bill_body cfg) s t"
  by (auto intro: reaches_one bill_body.intros)

interpretation statements: billing_writes "reaches (statement cfg)" cfg "\<lambda>_. True" for cfg
  by unfold_locales (auto intro: reaches.here reaches_trans reaches_one bill_write.intros)

interpretation billing: billing_events "reaches (bill_body cfg)" cfg "\<lambda>x. x \<noteq> R_paid" for cfg
  by unfold_locales (auto intro: reaches.here reaches_trans reaches_body bill_write.intros)

lemma write_mono: "bill_write cfg may s t \<Longrightarrow> statement cfg s t"
  by (induction rule: bill_write.cases) (auto intro: bill_write.intros)

text \<open>A body is a run of guarded statements: what the database's guards keep, the service keeps.\<close>

lemma body_statements: "bill_body cfg s t \<Longrightarrow> reaches (statement cfg) s t"
proof (induction rule: bill_body.cases)
  case (body_statement s t)
  then show ?case by (auto intro: reaches_one write_mono)
next
  case (body_event ev e ctx at s x t)
  then show ?case using statements.k_applyPaymentEventIn [of cfg s] by (auto simp: statements.keeps_def)
qed

lemma bodies_statements: "reaches (bill_body cfg) s t \<Longrightarrow> reaches (statement cfg) s t"
  by (induction rule: reaches.induct) (auto intro: reaches.here body_statements reaches_trans)

lemma commits_step: "billing.commits cfg s t \<Longrightarrow> bill_step cfg s t"
  unfolding billing.commits_def by (auto intro: bill_step.step_tx)

lemma commits_steps: "reaches (billing.commits cfg) s t \<Longrightarrow> reaches (bill_step cfg) s t"
  by (induction rule: reaches.induct) (auto intro: reaches.intros commits_step)

lemma settles_steps: "billing.settles cfg s t \<Longrightarrow> b_deferred s = [] \<Longrightarrow> reaches (bill_step cfg) s t \<and> b_deferred t = []"
  unfolding billing.settles_def by (auto intro: commits_steps)

section \<open>Reachable databases\<close>

definition empty_db :: "string list \<Rightarrow> bill_db" where
  "empty_db currencies =
     \<lparr>b_now = 0, b_xid = 0, b_next = 0, b_deferred = [], b_currencies = currencies, b_products = [], b_prices = [], b_platforms = [],
      b_invoices = [], b_lines = [], b_counters = [], b_routings = [], b_requests = [], b_receipts = [], b_transitions = [],
      b_subscriptions = [], b_settlements = [], b_personals = [], b_purchases = [], b_reversals = [], b_assistance = [], b_channels = [],
      b_cashReturns = [], b_late = [], b_obligations = [], b_recoveryChannels = [], b_recoveryPayments = [], b_surpluses = [],
      b_losses = [], b_adjustments = [], b_checkouts = [], b_outbox = []\<rparr>"

definition bill_reachable :: "bill_cfg \<Rightarrow> bill_db \<Rightarrow> bool" where
  "bill_reachable cfg s \<longleftrightarrow> (\<exists>cs. reaches (bill_step cfg) (empty_db cs) s)"

lemma reachable_steps: "bill_reachable cfg s \<Longrightarrow> reaches (bill_step cfg) s t \<Longrightarrow> bill_reachable cfg t"
  unfolding bill_reachable_def by (blast intro: reaches_trans)

text \<open>
  An invariant of the states inside a transaction that the bodies of transactions keep, that does not depend on
  the id of the transaction, and that the checks of COMMIT let through, holds in every reachable database. What
  every statement keeps, every body keeps.
\<close>

locale body_invariant =
  fixes cfg :: bill_cfg and I :: "bill_db \<Rightarrow> bool"
  assumes I_body: "I s \<Longrightarrow> bill_body cfg s t \<Longrightarrow> I t"
    and I_begin: "I s \<Longrightarrow> b_deferred s = [] \<Longrightarrow> I (begin_tx s)"
    and I_end: "I s \<Longrightarrow> list_all (deferred_ok s) (b_deferred s) \<Longrightarrow> I (s\<lparr>b_deferred := []\<rparr>)"
    and I_xid: "I s \<Longrightarrow> b_xid s \<le> n \<Longrightarrow> b_deferred s = [] \<Longrightarrow> I (s\<lparr>b_xid := n\<rparr>)"
    and I_empty: "I (empty_db cs)"
begin

lemma bodies_keep: "reaches (bill_body cfg) s t \<Longrightarrow> I s \<Longrightarrow> I t"
  by (induction rule: reaches.induct) (auto intro: I_body)

lemma step_keeps: "bill_step cfg s t \<Longrightarrow> I s \<and> b_deferred s = [] \<Longrightarrow> I t \<and> b_deferred t = []"
proof (induction rule: bill_step.cases)
  case (step_tx s v t)
  then have "I v" using bodies_keep I_begin by blast
  with step_tx show ?case using I_end by simp
next
  case (step_other t' s')
  then have "I (s'\<lparr>b_xid := b_xid t'\<rparr>)" by (simp add: I_xid)
  then have "I t'" using step_other by (auto intro: I_body bill_body.body_statement bill_write.w_core)
  with step_other show ?case by (auto simp: same_core_def)
qed

lemma steps_keep: "reaches (bill_step cfg) s t \<Longrightarrow> I s \<and> b_deferred s = [] \<Longrightarrow> I t \<and> b_deferred t = []"
  by (induction rule: reaches.induct) (auto dest: step_keeps)

lemma in_reachable: "bill_reachable cfg s \<Longrightarrow> I s \<and> b_deferred s = []"
  unfolding bill_reachable_def using steps_keep I_empty by (auto simp: empty_db_def)

end

locale core_invariant =
  fixes cfg :: bill_cfg and I :: "bill_db \<Rightarrow> bool"
  assumes S_statement: "I s \<Longrightarrow> statement cfg s t \<Longrightarrow> I t"
    and S_begin: "I s \<Longrightarrow> b_deferred s = [] \<Longrightarrow> I (begin_tx s)"
    and S_end: "I s \<Longrightarrow> list_all (deferred_ok s) (b_deferred s) \<Longrightarrow> I (s\<lparr>b_deferred := []\<rparr>)"
    and S_xid: "I s \<Longrightarrow> b_xid s \<le> n \<Longrightarrow> b_deferred s = [] \<Longrightarrow> I (s\<lparr>b_xid := n\<rparr>)"
    and S_empty: "I (empty_db cs)"
begin

lemma statements_keep: "reaches (statement cfg) s t \<Longrightarrow> I s \<Longrightarrow> I t"
  by (induction rule: reaches.induct) (auto intro: S_statement)

end

sublocale core_invariant \<subseteq> body_invariant cfg I
proof unfold_locales
  fix s t
  assume "I s" and "bill_body cfg s t"
  then show "I t" using statements_keep [OF body_statements] by blast
qed (fact S_begin S_end S_xid S_empty)+

end
