(* ===== verification/BillingEffects.thy ===== *)
theory BillingEffects
  imports BillingSystem
begin

text \<open>
  What a guarded statement does to the core, with the guards it passed: one case for each statement that
  changes something (\<open>write_cases\<close>). The invariants are proved by these cases.
\<close>

lemma same_facts_fields:
  assumes "invoice_same_facts old new"
  shows "bi_id new = bi_id old" "bi_producer new = bi_producer old" "bi_invoiceRequestId new = bi_invoiceRequestId old"
    "bi_requestHash new = bi_requestHash old" "bi_seller new = bi_seller old" "bi_payer new = bi_payer old"
    "bi_organizationId new = bi_organizationId old" "bi_currency new = bi_currency old" "bi_subtotal new = bi_subtotal old"
    "bi_taxTotal new = bi_taxTotal old" "bi_total new = bi_total old" "bi_createdAt new = bi_createdAt old"
    "natural_key new = natural_key old"
  using assms by (cases old; cases new; simp add: invoice_same_facts_def natural_key_def)+

lemma invoice_touched_same: "invoice_same_facts old (invoice_touched s old new n) \<longleftrightarrow> invoice_same_facts old new"
  by (cases old; cases new) (simp add: invoice_same_facts_def invoice_touched_def Let_def)

text \<open>What an update of an invoice did.\<close>

definition invoice_changed :: "bill_cfg \<Rightarrow> bill_db \<Rightarrow> invoice_row \<Rightarrow> invoice_row \<Rightarrow> bill_db \<Rightarrow> bool" where
  "invoice_changed cfg s old r t \<longleftrightarrow>
     (let issuing = bi_status old = I_draft \<and> bi_status r = I_open in
      find_invoice (bi_id old) s = Some old \<and> invoice_same_facts old r \<and> invoice_trigger_moves (bi_status old) (bi_status r) \<and>
      bi_revision r = bi_revision old + (if bi_status r \<noteq> bi_status old then 1 else 0) \<and>
      (if issuing then bi_number r = Some (pg_decimal (int (next_number s (bi_seller old)))) else bi_number r = bi_number old) \<and>
      (bi_status old = I_open \<and> bi_status r = I_paid \<longrightarrow> paid_in_full s r) \<and>
      (bi_status old = I_open \<and> bi_status r = I_paid \<or> bi_paidAt r = bi_paidAt old) \<and>
      (bi_presentation r = bi_presentation old \<or> bi_presentation old = None) \<and>
      invoice_facts_ok cfg s r \<and> invoice_state_ok r \<and> \<not> number_taken s r \<and>
      t = s\<lparr>b_counters := (if issuing then (bi_seller old, next_number s (bi_seller old) + 1) # filter (\<lambda>(p, _). p \<noteq> bi_seller old) (b_counters s)
              else b_counters s),
            b_invoices := set_row bi_id (bi_id old) r (b_invoices s), b_deferred := b_deferred s @ invoice_deferred old r\<rparr>)"

lemma facts_ok_counters [simp]: "invoice_facts_ok cfg (s\<lparr>b_counters := c\<rparr>) r = invoice_facts_ok cfg s r"
  by (simp add: invoice_facts_ok_def)

lemma number_taken_counters [simp]: "number_taken (s\<lparr>b_counters := c\<rparr>) r = number_taken s r"
  by (simp add: number_taken_def)

lemma touched_counters [simp]: "invoice_touched (s\<lparr>b_counters := c\<rparr>) old new n = invoice_touched s old new n"
  by (simp add: invoice_touched_def Let_def)

lemma touched_fields [simp]:
  "bi_status (invoice_touched s old new n) = bi_status new" "bi_presentation (invoice_touched s old new n) = bi_presentation new"
  "bi_paidAt (invoice_touched s old new n) = bi_paidAt new" "bi_id (invoice_touched s old new n) = bi_id new"
  "bi_total (invoice_touched s old new n) = bi_total new"
  "bi_revision (invoice_touched s old new n) = bi_revision old + (if bi_status new \<noteq> bi_status old then 1 else 0)"
  "bi_number (invoice_touched s old new n) = (if bi_status old = I_draft \<and> bi_status new = I_open then Some (pg_decimal (int n)) else bi_number new)"
  by (auto simp: invoice_touched_def Let_def)

lemma paid_in_full_touched [simp]: "paid_in_full s (invoice_touched s' old new n) = paid_in_full s new"
  by (simp add: paid_in_full_def)

lemma lifecycle_facts:
  assumes "invoice_lifecycle_ok s old new"
  shows "invoice_trigger_moves (bi_status old) (bi_status new)"
    and "\<not> (bi_status old = I_draft \<and> bi_status new = I_open) \<Longrightarrow> bi_number new = bi_number old"
    and "bi_status old = I_open \<and> bi_status new = I_paid \<Longrightarrow> paid_in_full s new"
    and "bi_status old = I_open \<and> bi_status new = I_paid \<or> bi_paidAt new = bi_paidAt old"
    and "bi_presentation new = bi_presentation old \<or> bi_presentation old = None"
  using assms unfolding invoice_lifecycle_ok_def Let_def by (auto split: if_splits)

text \<open>The draw of a number, and the rest of the update on the state it leaves.\<close>

lemma update_invoice_parts:
  assumes "update_invoice cfg i f s = Inr (x, t)" and "find_invoice i s = Some old"
  obtains n u where "(if bi_status old = I_draft \<and> bi_status (f old) = I_open then take_number (bi_seller old) else tx_return 0) s = Inr (n, u)"
    "invoice_same_facts old (f old)" "invoice_lifecycle_ok s old (f old)"
    "invoice_facts_ok cfg u (invoice_touched u old (f old) n)" "invoice_state_ok (invoice_touched u old (f old) n)"
    "\<not> number_taken u (invoice_touched u old (f old) n)" "x = Some (invoice_touched u old (f old) n)"
    "t = u\<lparr>b_invoices := set_row bi_id i (invoice_touched u old (f old) n) (b_invoices u),
            b_deferred := b_deferred u @ invoice_deferred old (invoice_touched u old (f old) n)\<rparr>"
  using assms unfolding update_invoice_def tx_bind_def Let_def
  by (simp split: if_splits sum.splits prod.splits)

lemma take_number_run:
  "take_number seller s = Inr (n, u) \<Longrightarrow>
     n = next_number s seller \<and> u = s\<lparr>b_counters := (seller, n + 1) # filter (\<lambda>(p, _). p \<noteq> seller) (b_counters s)\<rparr>"
  by (auto simp: take_number_def Let_def split: if_splits)

lemma update_invoice_cases:
  assumes "update_invoice cfg i f s = Inr (x, t)"
  obtains (same) "t = s" "x = None" "find_invoice i s = None"
    | (changed) old r where "invoice_changed cfg s old r t" "bi_id old = i" "find_invoice i s = Some old" "x = Some r" "bi_status r = bi_status (f old)"
proof (cases "find_invoice i s")
  case None
  then show ?thesis using assms that(1) by (simp add: update_invoice_def)
next
  case (Some old)
  have i: "bi_id old = i" using Some by (auto simp: find_invoice_def dest: get_row_SomeD)
  obtain n u where u: "(if bi_status old = I_draft \<and> bi_status (f old) = I_open then take_number (bi_seller old) else tx_return 0) s = Inr (n, u)"
    and g: "invoice_same_facts old (f old)" "invoice_lifecycle_ok s old (f old)"
    and ok: "invoice_facts_ok cfg u (invoice_touched u old (f old) n)" "invoice_state_ok (invoice_touched u old (f old) n)"
      "\<not> number_taken u (invoice_touched u old (f old) n)"
    and x: "x = Some (invoice_touched u old (f old) n)"
    and t: "t = u\<lparr>b_invoices := set_row bi_id i (invoice_touched u old (f old) n) (b_invoices u),
            b_deferred := b_deferred u @ invoice_deferred old (invoice_touched u old (f old) n)\<rparr>"
    by (rule update_invoice_parts [OF assms Some])
  note lc = lifecycle_facts [OF g(2)]
  have same: "invoice_same_facts old (invoice_touched u old (f old) n)" using g(1) by (simp add: invoice_touched_same)
  have "invoice_changed cfg s old (invoice_touched u old (f old) n) t"
  proof (cases "bi_status old = I_draft \<and> bi_status (f old) = I_open")
    case True
    then have u': "n = next_number s (bi_seller old)"
      "u = s\<lparr>b_counters := (bi_seller old, n + 1) # filter (\<lambda>(p, _). p \<noteq> bi_seller old) (b_counters s)\<rparr>"
      using take_number_run u by auto
    have issuing: "(bi_status old = I_draft \<and> bi_status (f old) = I_open) = True" using True by blast
    show ?thesis
      unfolding invoice_changed_def Let_def touched_fields issuing if_True
      by (intro conjI) (use same ok lc Some i u' t in \<open>simp_all\<close>)
  next
    case False
    then have u': "u = s" using u by (simp split: if_splits)
    have issuing: "(bi_status old = I_draft \<and> bi_status (f old) = I_open) = False" using False by blast
    show ?thesis
      unfolding invoice_changed_def Let_def touched_fields issuing if_False
      by (intro conjI) (use same ok lc False Some i u' t in \<open>simp_all\<close>)
  qed
  then show ?thesis using that(2) i x Some by simp
qed

section \<open>Requests and subscriptions\<close>

definition request_changed :: "bill_db \<Rightarrow> bill_request \<Rightarrow> bill_request \<Rightarrow> bill_db \<Rightarrow> bool" where
  "request_changed s old q t \<longleftrightarrow>
     find_request (rq_id old) s = Some old \<and> request_same_facts old q \<and> request_trigger_moves (rq_status old) (rq_status q) \<and>
     (rq_status q \<noteq> rq_status old \<and> rq_status q = R_paid \<longrightarrow> map_option bi_status (find_invoice (rq_invoiceId q) s) = Some I_open) \<and>
     (rq_paymentId q = rq_paymentId old \<or> (rq_paymentId old = None \<and> rq_status old = R_sending \<and> rq_status q = R_requested)) \<and>
     rq_revision q = rq_revision old + (if rq_status q \<noteq> rq_status old then 1 else 0) \<and> request_ok_row q \<and> request_unique s q \<and>
     t = s\<lparr>b_requests := set_row rq_id (rq_id old) q (b_requests s), b_channels := follow_request s q,
            b_deferred := b_deferred s @ (if rq_status q \<noteq> rq_status old then [Need_history E_request (rq_id old) (St_request (rq_status q)) (rq_revision q)] else [])\<rparr>"

lemma request_touched_fields [simp]:
  "rq_status (request_touched s old new) = rq_status new" "rq_paymentId (request_touched s old new) = rq_paymentId new"
  "rq_invoiceId (request_touched s old new) = rq_invoiceId new"
  "rq_revision (request_touched s old new) = rq_revision old + (if rq_status new \<noteq> rq_status old then 1 else 0)"
  "request_same_facts old (request_touched s old new) = request_same_facts old new"
  by (auto simp: request_touched_def request_same_facts_def Let_def)

lemma update_request_cases:
  assumes "update_request i g s = Inr (x, t)"
  obtains (same) "t = s" "x = None" "find_request i s = None"
    | (changed) old q where "request_changed s old q t" "rq_id old = i" "find_request i s = Some old" "x = Some q" "rq_status q = rq_status (g old)"
proof (cases "find_request i s")
  case None
  then show ?thesis using assms that(1) by (simp add: update_request_def)
next
  case (Some old)
  have i: "rq_id old = i" using Some by (auto simp: find_request_def dest: get_row_SomeD)
  have "request_changed s old (request_touched s old (g old)) t \<and> x = Some (request_touched s old (g old))"
    using assms Some i unfolding update_request_def request_changed_def request_lifecycle_ok_def
    by (auto simp: Let_def split: if_splits)
  then show ?thesis using i Some by (intro that(2) [of old "request_touched s old (g old)"]) simp_all
qed

definition subscription_changed :: "bill_db \<Rightarrow> subscription_row \<Rightarrow> subscription_row \<Rightarrow> bill_db \<Rightarrow> bool" where
  "subscription_changed s old b t \<longleftrightarrow>
     get_row sb_id (sb_id old) (b_subscriptions s) = Some old \<and> subscription_same_facts old b \<and>
     subscription_trigger_moves (sb_status old) (sb_status b) \<and> subscription_ok_row b \<and> sb_revision b = sb_revision old + 1 \<and>
     t = s\<lparr>b_subscriptions := set_row sb_id (sb_id old) b (b_subscriptions s),
            b_deferred := b_deferred s @ [Need_history E_subscription (sb_id old) (St_subscription (sb_status b)) (sb_revision b)] @
              (if period_moves old b then [Need_settlement (sb_id old)] else [])\<rparr>"

lemma subscription_touched_fields [simp]:
  "sb_status (subscription_touched s old new) = sb_status new" "sb_revision (subscription_touched s old new) = sb_revision old + 1"
  "subscription_same_facts old (subscription_touched s old new) = subscription_same_facts old new"
  by (auto simp: subscription_touched_def subscription_same_facts_def)

lemma update_subscription_cases:
  assumes "update_subscription i h s = Inr (x, t)"
  obtains (same) "t = s" "x = None" "get_row sb_id i (b_subscriptions s) = None"
    | (changed) old b where "subscription_changed s old b t" "sb_id old = i" "get_row sb_id i (b_subscriptions s) = Some old" "x = Some b" "sb_status b = sb_status (h old)"
proof (cases "get_row sb_id i (b_subscriptions s)")
  case None
  then show ?thesis using assms that(1) by (simp add: update_subscription_def)
next
  case (Some old)
  have i: "sb_id old = i" using Some by (auto dest: get_row_SomeD)
  have "subscription_changed s old (subscription_touched s old (h old)) t \<and> x = Some (subscription_touched s old (h old))"
    using assms Some i unfolding update_subscription_def subscription_changed_def by (auto simp: Let_def split: if_splits)
  then show ?thesis using i Some by (intro that(2) [of old "subscription_touched s old (h old)"]) simp_all
qed

section \<open>The cases of a statement\<close>

lemma insert_invoice_cases:
  assumes "insert_invoice cfg r0 s = Inr (x, t)"
  obtains (same) "t = s" | (added) r where "draft_shape r" "invoice_facts_ok cfg s r" "natural_key r \<notin> natural_key ` set (b_invoices s)"
    "bi_id r \<notin> bi_id ` set (b_invoices s)"
    "t = s\<lparr>b_invoices := b_invoices s @ [r],
            b_deferred := b_deferred s @ [Need_history E_invoice (bi_id r) (St_invoice I_draft) 0, Need_totals (bi_id r), Need_checkout (bi_id r)]\<rparr>"
proof -
  let ?r = "r0\<lparr>bi_createdAt := b_now s, bi_updatedAt := b_now s\<rparr>"
  show ?thesis
  proof (cases "natural_key ?r \<in> natural_key ` set (b_invoices s)")
    case True
    then show ?thesis using assms by (intro that(1)) (simp add: insert_invoice_def Let_def split: if_splits)
  next
    case False
    then show ?thesis using assms by (intro that(2) [of ?r]) (simp_all add: insert_invoice_def Let_def split: if_splits)
  qed
qed

lemma insert_line_cases:
  assumes "insert_line l s = Inr (x, t)"
  obtains r where "find_invoice (ln_invoiceId l) s = Some r" "bi_status r = I_draft" "bi_currency r = ln_currency l" "line_ok_row l"
    "ln_id l \<notin> ln_id ` set (b_lines s)" "(ln_invoiceId l, ln_lineNumber l) \<notin> (\<lambda>x. (ln_invoiceId x, ln_lineNumber x)) ` set (b_lines s)"
    "t = s\<lparr>b_lines := b_lines s @ [l], b_deferred := b_deferred s @ [Need_totals (ln_invoiceId l), Need_checkout (ln_invoiceId l)]\<rparr>"
  using assms unfolding insert_line_def by (auto split: if_splits option.splits)

lemma insert_routing_cases:
  assumes "insert_routing e s = Inr (x, t)"
  obtains r where "find_invoice (en_invoiceId e) s = Some r" "bi_status r = I_draft" "en_payer e = bi_payer r" "routing_combination e"
    "routing_references s e" "en_invoiceId e \<notin> en_invoiceId ` set (b_routings s)" "t = s\<lparr>b_routings := b_routings s @ [e]\<rparr>"
  using assms unfolding insert_routing_def by (auto split: if_splits option.splits)

lemma insert_request_cases:
  assumes "insert_request q0 s = Inr (x, t)"
  obtains r where "find_invoice (rq_invoiceId x) s = Some r" "created_shape x" "bi_status r = I_open" "payer_supported s r"
    "rq_amount x = bi_total r" "rq_currency x = bi_currency r" "rq_mappingVersion x = 2" "find_routing (rq_invoiceId x) s \<noteq> None"
    "request_ok_row x" "request_unique s x" "rq_id x \<notin> rq_id ` set (b_requests s)"
    "x = q0\<lparr>rq_createdAt := b_now s, rq_updatedAt := b_now s\<rparr>"
    "t = s\<lparr>b_requests := b_requests s @ [x], b_deferred := b_deferred s @ [Need_history E_request (rq_id x) (St_request R_created) 0]\<rparr>"
proof (cases "find_invoice (rq_invoiceId q0) s")
  case None
  then show ?thesis using assms by (simp add: insert_request_def Let_def)
next
  case (Some r)
  have x: "x = q0\<lparr>rq_createdAt := b_now s, rq_updatedAt := b_now s\<rparr>"
    using assms Some by (simp add: insert_request_def Let_def split: if_splits)
  show ?thesis
    using assms Some unfolding x by (intro that [of r]) (simp_all add: insert_request_def x Let_def split: if_splits)
qed

lemma insert_receipt_cases:
  assumes "insert_receipt r s = Inr (x, t)"
  obtains (same) "t = s" "x = None" "\<exists>y\<in>set (b_receipts s). rc_eventId y = rc_eventId r \<and> rc_outcome y = O_applied"
    | (added) "x = Some (rc_id r)" "rc_id r \<notin> rc_id ` set (b_receipts s)"
    "rc_outcome r = O_applied \<Longrightarrow> \<forall>y\<in>set (b_receipts s). rc_eventId y = rc_eventId r \<longrightarrow> rc_outcome y \<noteq> O_applied"
    "t = s\<lparr>b_receipts := b_receipts s @ [r]\<rparr>"
proof (cases "rc_outcome r = O_applied \<and> list_ex (\<lambda>y. rc_eventId y = rc_eventId r \<and> rc_outcome y = O_applied) (b_receipts s)")
  case True
  then show ?thesis using assms by (intro that(1)) (simp_all add: insert_receipt_def list_ex_iff split: if_splits)
next
  case False
  then show ?thesis using assms by (intro that(2)) (auto simp: insert_receipt_def list_ex_iff split: if_splits)
qed

lemma insert_transition_cases:
  assumes "insert_transition tr s = Inr (x, t)"
  obtains "tr_from tr = None \<longleftrightarrow> tr_revision tr = 0"
    "(tr_entity tr, tr_entityId tr, tr_revision tr) \<notin> (\<lambda>x. (tr_entity x, tr_entityId x, tr_revision x)) ` set (b_transitions s)"
    "t = s\<lparr>b_transitions := b_transitions s @ [tr]\<rparr>"
  using assms unfolding insert_transition_def by (auto split: if_splits)

lemma insert_subscription_cases:
  assumes "insert_subscription b0 s = Inr (x, t)"
  obtains (same) "t = s" "x = None" | (added) b where "x = Some b" "pending_shape b" "subscription_ok_row b" "sb_organizationId b \<notin> sb_organizationId ` set (b_subscriptions s)"
    "sb_id b \<notin> sb_id ` set (b_subscriptions s)"
    "t = s\<lparr>b_subscriptions := b_subscriptions s @ [b], b_deferred := b_deferred s @ [Need_history E_subscription (sb_id b) (St_subscription S_pending) 0]\<rparr>"
proof -
  let ?b = "b0\<lparr>sb_createdAt := b_now s, sb_updatedAt := b_now s\<rparr>"
  show ?thesis
  proof (cases "sb_organizationId ?b \<in> sb_organizationId ` set (b_subscriptions s)")
    case True
    then show ?thesis using assms by (intro that(1)) (simp_all add: insert_subscription_def Let_def split: if_splits)
  next
    case False
    then show ?thesis using assms by (intro that(2) [of ?b]) (simp_all add: insert_subscription_def Let_def split: if_splits)
  qed
qed

lemma insert_settlement_cases:
  assumes "insert_settlement r0 s = Inr (x, t)"
  obtains (same) "t = s" "x = None" | (added) r where "r = r0\<lparr>ss_transactionId := b_xid s\<rparr>" "x = Some (ss_id r)"
    "verified_settlement s (ss_receiptId r) (ss_paymentRequestId r) (ss_invoiceId r)"
    "ss_invoiceId r \<notin> ss_invoiceId ` set (b_settlements s)" "ss_receiptId r \<notin> ss_receiptId ` set (b_settlements s)" "ss_id r \<notin> ss_id ` set (b_settlements s)"
    "\<exists>e\<in>set (b_routings s). en_invoiceId e = ss_invoiceId r \<and> en_purpose e = Organization_subscription \<and>
       en_organizationId e = Some (ss_organizationId r) \<and> en_productId e = Some (ss_productId r)"
    "\<exists>b\<in>set (b_subscriptions s). sb_id b = ss_subscriptionId r \<and> sb_organizationId b = ss_organizationId r \<and> sb_productId b = ss_productId r"
    "t = s\<lparr>b_settlements := b_settlements s @ [r]\<rparr>"
proof -
  let ?r = "r0\<lparr>ss_transactionId := b_xid s\<rparr>"
  show ?thesis
  proof (cases "ss_invoiceId ?r \<in> ss_invoiceId ` set (b_settlements s) \<or> ss_receiptId ?r \<in> ss_receiptId ` set (b_settlements s) \<or>
      ss_id ?r \<in> ss_id ` set (b_settlements s)")
    case True
    then show ?thesis using assms by (intro that(1)) (simp_all add: insert_settlement_def Let_def split: if_splits)
  next
    case False
    then show ?thesis using assms by (intro that(2) [of ?r]) (simp_all add: insert_settlement_def Let_def list_ex_iff split: if_splits)
  qed
qed

lemma write_cases [consumes 1, case_names core invoice invoice_set line routing request request_set receipt transition subscription
    subscription_set settlement]:
  assumes "bill_write cfg may s t"
    and "same_core s t \<Longrightarrow> P"
    and "\<And>r. draft_shape r \<Longrightarrow> invoice_facts_ok cfg s r \<Longrightarrow> natural_key r \<notin> natural_key ` set (b_invoices s) \<Longrightarrow>
      bi_id r \<notin> bi_id ` set (b_invoices s) \<Longrightarrow> t = s\<lparr>b_invoices := b_invoices s @ [r],
        b_deferred := b_deferred s @ [Need_history E_invoice (bi_id r) (St_invoice I_draft) 0, Need_totals (bi_id r), Need_checkout (bi_id r)]\<rparr> \<Longrightarrow> P"
    and "\<And>old r. invoice_changed cfg s old r t \<Longrightarrow> P"
    and "\<And>l x. insert_line l s = Inr (x, t) \<Longrightarrow> P"
    and "\<And>e x. insert_routing e s = Inr (x, t) \<Longrightarrow> P"
    and "\<And>q0 q. insert_request q0 s = Inr (q, t) \<Longrightarrow> P"
    and "\<And>old q. request_changed s old q t \<Longrightarrow> rq_status q = rq_status old \<or> may (rq_status q) \<Longrightarrow> P"
    and "\<And>r. rc_id r \<notin> rc_id ` set (b_receipts s) \<Longrightarrow>
      (rc_outcome r = O_applied \<Longrightarrow> \<forall>y\<in>set (b_receipts s). rc_eventId y = rc_eventId r \<longrightarrow> rc_outcome y \<noteq> O_applied) \<Longrightarrow>
      t = s\<lparr>b_receipts := b_receipts s @ [r]\<rparr> \<Longrightarrow> P"
    and "\<And>tr x. insert_transition tr s = Inr (x, t) \<Longrightarrow> P"
    and "\<And>b0 b. insert_subscription b0 s = Inr (Some b, t) \<Longrightarrow> P"
    and "\<And>old b. subscription_changed s old b t \<Longrightarrow> P"
    and "\<And>r0 i. insert_settlement r0 s = Inr (Some i, t) \<Longrightarrow> P"
  shows P
  using assms(1)
proof (cases rule: bill_write.cases)
  case (w_invoice r x)
  then show ?thesis
  proof (cases rule: insert_invoice_cases)
    case same
    show ?thesis by (rule assms(2)) (simp add: same)
  qed (rule assms(3))
next
  case (w_invoice_set i f x)
  then show ?thesis
  proof (cases rule: update_invoice_cases)
    case same
    show ?thesis by (rule assms(2)) (simp add: same)
  qed (rule assms(4))
next
  case (w_request_set g i x)
  show ?thesis using w_request_set(2)
  proof (cases rule: update_request_cases)
    case same
    show ?thesis by (rule assms(2)) (simp add: same)
  next
    case (changed old q)
    have "rq_status q = rq_status old \<or> may (rq_status q)" using w_request_set(1) changed(5) by metis
    with changed(1) show ?thesis by (rule assms(8))
  qed
next
  case (w_receipt rc x)
  then show ?thesis
  proof (cases rule: insert_receipt_cases)
    case same
    show ?thesis by (rule assms(2)) (simp add: same)
  next
    case added
    from added(2,3,4) show ?thesis by (rule assms(9))
  qed
next
  case (w_subscription b x)
  show ?thesis
  proof (cases x)
    case None
    from w_subscription have "t = s" by (cases rule: insert_subscription_cases) (use None in simp_all)
    then show ?thesis by (intro assms(2)) simp
  next
    case (Some y)
    with w_subscription show ?thesis by (intro assms(11)) simp
  qed
next
  case (w_subscription_set i h x)
  then show ?thesis
  proof (cases rule: update_subscription_cases)
    case same
    show ?thesis by (rule assms(2)) (simp add: same)
  qed (rule assms(12))
next
  case (w_settlement ss x)
  show ?thesis
  proof (cases x)
    case None
    from w_settlement have "t = s" by (cases rule: insert_settlement_cases) (use None in simp_all)
    then show ?thesis by (intro assms(2)) simp
  next
    case (Some y)
    with w_settlement show ?thesis by (intro assms(13)) simp
  qed
next
  case w_core
  then show ?thesis by (rule assms(2))
next
  case (w_line l x)
  then show ?thesis by (rule assms(5))
next
  case (w_routing e x)
  then show ?thesis by (rule assms(6))
next
  case (w_request q x)
  then show ?thesis by (rule assms(7))
next
  case (w_transition tr x)
  then show ?thesis by (rule assms(10))
qed

end
