(* ===== verification/BillingFootprint.thy ===== *)
theory BillingFootprint
  imports BillingEffects
begin

text \<open>
  Which statement writes which table, and how the core grows: rows of the append-only tables stay, an invoice
  keeps its facts, its number and a final status, a request its facts and a final status. An invariant of one
  table is then proved from the statements that write it.
\<close>

section \<open>The statements of each table\<close>

lemma insert_line_effect: "insert_line l s = Inr (x, t) \<Longrightarrow>
    t = s\<lparr>b_lines := b_lines s @ [l], b_deferred := b_deferred s @ [Need_totals (ln_invoiceId l), Need_checkout (ln_invoiceId l)]\<rparr>"
  by (erule insert_line_cases)

lemma insert_routing_effect: "insert_routing e s = Inr (x, t) \<Longrightarrow> t = s\<lparr>b_routings := b_routings s @ [e]\<rparr>"
  by (erule insert_routing_cases)

lemma insert_request_effect: "insert_request q0 s = Inr (q, t) \<Longrightarrow>
    t = s\<lparr>b_requests := b_requests s @ [q], b_deferred := b_deferred s @ [Need_history E_request (rq_id q) (St_request R_created) 0]\<rparr>"
  by (erule insert_request_cases)

lemma insert_transition_effect: "insert_transition tr s = Inr (x, t) \<Longrightarrow> t = s\<lparr>b_transitions := b_transitions s @ [tr]\<rparr>"
  by (erule insert_transition_cases)

lemma insert_subscription_effect: "insert_subscription b0 s = Inr (Some b, t) \<Longrightarrow>
    t = s\<lparr>b_subscriptions := b_subscriptions s @ [b], b_deferred := b_deferred s @ [Need_history E_subscription (sb_id b) (St_subscription S_pending) 0]\<rparr>"
  by (erule insert_subscription_cases) simp_all

lemma insert_settlement_effect: "insert_settlement r0 s = Inr (Some i, t) \<Longrightarrow>
    t = s\<lparr>b_settlements := b_settlements s @ [r0\<lparr>ss_transactionId := b_xid s\<rparr>]\<rparr>"
  by (erule insert_settlement_cases) simp_all

lemma invoice_changed_effect: "invoice_changed cfg s old r t \<Longrightarrow>
    \<exists>cs. t = s\<lparr>b_counters := cs, b_invoices := set_row bi_id (bi_id old) r (b_invoices s), b_deferred := b_deferred s @ invoice_deferred old r\<rparr>"
  unfolding invoice_changed_def Let_def by blast

lemma request_changed_effect: "request_changed s old q t \<Longrightarrow>
    \<exists>ds. t = s\<lparr>b_requests := set_row rq_id (rq_id old) q (b_requests s), b_channels := follow_request s q, b_deferred := b_deferred s @ ds\<rparr>"
  unfolding request_changed_def by blast

lemma subscription_changed_effect: "subscription_changed s old b t \<Longrightarrow>
    \<exists>ds. t = s\<lparr>b_subscriptions := set_row sb_id (sb_id old) b (b_subscriptions s), b_deferred := b_deferred s @ ds\<rparr>"
  unfolding subscription_changed_def by blast

lemmas effects = insert_line_effect insert_routing_effect insert_request_effect insert_transition_effect insert_subscription_effect
  insert_settlement_effect invoice_changed_effect request_changed_effect subscription_changed_effect

lemma write_invoices:
  assumes "bill_write cfg may s t"
  obtains (same) "b_invoices t = b_invoices s" | (added) r where "draft_shape r" "invoice_facts_ok cfg s r" "natural_key r \<notin> natural_key ` set (b_invoices s)"
      "bi_id r \<notin> bi_id ` set (b_invoices s)" "b_invoices t = b_invoices s @ [r]"
    | (changed) old r where "invoice_changed cfg s old r t"
  using assms
proof (cases rule: write_cases)
  case (invoice r)
  then show ?thesis by (intro that(2) [of r]) simp_all
next
  case (invoice_set old r)
  then show ?thesis by (rule that(3))
qed (rule that(1); auto dest!: effects simp: same_core_def)+

lemma write_lines: "bill_write cfg may s t \<Longrightarrow> b_lines t = b_lines s \<or> (\<exists>l x. insert_line l s = Inr (x, t))"
  by (cases rule: write_cases) (auto dest: effects simp: same_core_def)

lemma write_routings: "bill_write cfg may s t \<Longrightarrow> b_routings t = b_routings s \<or> (\<exists>e x. insert_routing e s = Inr (x, t))"
  by (cases rule: write_cases) (auto dest: effects simp: same_core_def)

lemma write_requests:
  "bill_write cfg may s t \<Longrightarrow> b_requests t = b_requests s \<or> (\<exists>q0 q. insert_request q0 s = Inr (q, t)) \<or>
     (\<exists>old q. request_changed s old q t \<and> (rq_status q = rq_status old \<or> may (rq_status q)))"
  by (cases rule: write_cases) (auto dest: effects simp: same_core_def)

lemma write_transitions: "bill_write cfg may s t \<Longrightarrow> b_transitions t = b_transitions s \<or> (\<exists>tr x. insert_transition tr s = Inr (x, t))"
  by (cases rule: write_cases) (auto dest: effects simp: same_core_def)

lemma write_receipts:
  "bill_write cfg may s t \<Longrightarrow> b_receipts t = b_receipts s \<or> (\<exists>r. rc_id r \<notin> rc_id ` set (b_receipts s) \<and>
     (rc_outcome r = O_applied \<longrightarrow> (\<forall>y\<in>set (b_receipts s). rc_eventId y = rc_eventId r \<longrightarrow> rc_outcome y \<noteq> O_applied)) \<and>
     t = s\<lparr>b_receipts := b_receipts s @ [r]\<rparr>)"
  by (cases rule: write_cases) (auto dest: effects simp: same_core_def)

lemma write_subscriptions:
  "bill_write cfg may s t \<Longrightarrow> b_subscriptions t = b_subscriptions s \<or> (\<exists>b0 b. insert_subscription b0 s = Inr (Some b, t)) \<or>
     (\<exists>old b. subscription_changed s old b t)"
  by (cases rule: write_cases) (auto dest: effects simp: same_core_def)

lemma write_settlements: "bill_write cfg may s t \<Longrightarrow> b_settlements t = b_settlements s \<or> (\<exists>r0 i. insert_settlement r0 s = Inr (Some i, t))"
  by (cases rule: write_cases) (auto dest: effects simp: same_core_def)

lemma write_currencies: "bill_write cfg may s t \<Longrightarrow> b_currencies t = b_currencies s"
  by (cases rule: write_cases) (auto dest!: effects simp: same_core_def)

end
