(* ===== verification/BillingInvariant.thy ===== *)
theory BillingInvariant
  imports BillingFootprint
begin

text \<open>
  The invariants of the billing database: how the core grows (\<open>grows\<close>), and what every statement keeps of
  the invoices, their lines, routing records and requests, the receipts, the history, the subscriptions and
  their settlements.
\<close>

section \<open>Growth\<close>

definition status_grows :: "invoice_status \<Rightarrow> invoice_status \<Rightarrow> bool" where
  "status_grows x y \<longleftrightarrow> x = y \<or> x = I_draft \<or> (x = I_open \<and> y = I_paid)"

definition invoice_grows :: "invoice_row \<Rightarrow> invoice_row \<Rightarrow> bool" where
  "invoice_grows r r' \<longleftrightarrow> invoice_same_facts r r' \<and> status_grows (bi_status r) (bi_status r') \<and>
     (bi_status r = I_draft \<or> bi_number r' = bi_number r)"

definition request_grows :: "bill_request \<Rightarrow> bill_request \<Rightarrow> bool" where
  "request_grows q q' \<longleftrightarrow> request_same_facts q q' \<and> (closed_status (rq_status q) \<longrightarrow> rq_status q' = rq_status q) \<and>
     (rq_paymentId q \<noteq> None \<longrightarrow> rq_paymentId q' = rq_paymentId q)"

definition subscription_grows :: "subscription_row \<Rightarrow> subscription_row \<Rightarrow> bool" where
  "subscription_grows b b' \<longleftrightarrow> subscription_same_facts b b' \<and> (sb_status b \<noteq> S_pending \<longrightarrow> sb_status b' \<noteq> S_pending)"

definition rows_grow :: "('a \<Rightarrow> 'a \<Rightarrow> bool) \<Rightarrow> 'a list \<Rightarrow> 'a list \<Rightarrow> bool" where
  "rows_grow R xs ys \<longleftrightarrow> (\<forall>x\<in>set xs. \<exists>y\<in>set ys. R x y)"

definition grows :: "bill_db \<Rightarrow> bill_db \<Rightarrow> bool" where
  "grows s t \<longleftrightarrow>
     rows_grow invoice_grows (b_invoices s) (b_invoices t) \<and> rows_grow request_grows (b_requests s) (b_requests t) \<and>
     rows_grow subscription_grows (b_subscriptions s) (b_subscriptions t) \<and>
     set (b_lines s) \<subseteq> set (b_lines t) \<and> set (b_routings s) \<subseteq> set (b_routings t) \<and> set (b_receipts s) \<subseteq> set (b_receipts t) \<and>
     set (b_transitions s) \<subseteq> set (b_transitions t) \<and> set (b_settlements s) \<subseteq> set (b_settlements t)"

lemma invoice_same_refl [simp]: "invoice_same_facts r r"
  by (simp add: invoice_same_facts_def)

lemma invoice_same_trans: "invoice_same_facts a b \<Longrightarrow> invoice_same_facts b c \<Longrightarrow> invoice_same_facts a c"
  by (cases a; cases b; cases c) (simp add: invoice_same_facts_def)

lemma request_same_refl [simp]: "request_same_facts q q"
  by (simp add: request_same_facts_def)

lemma subscription_same_refl [simp]: "subscription_same_facts b b"
  by (simp add: subscription_same_facts_def)

lemma row_grows_refl: "invoice_grows r r" "request_grows q q" "subscription_grows b b"
  by (simp_all add: invoice_grows_def status_grows_def request_grows_def subscription_grows_def)

lemma rows_grow_refl: "(\<And>x. R x x) \<Longrightarrow> rows_grow R xs xs"
  by (auto simp: rows_grow_def)

lemma rows_grow_append: "(\<And>x. R x x) \<Longrightarrow> rows_grow R xs (xs @ ys)"
  by (auto simp: rows_grow_def)

lemma rows_grow_trans:
  assumes "rows_grow R xs ys" and "rows_grow R ys zs" and "\<And>a b c. R a b \<Longrightarrow> R b c \<Longrightarrow> R a c"
  shows "rows_grow R xs zs"
  unfolding rows_grow_def
proof
  fix x
  assume "x \<in> set xs"
  with assms(1) obtain y where y: "y \<in> set ys" "R x y" unfolding rows_grow_def by blast
  with assms(2) obtain z where z: "z \<in> set zs" "R y z" unfolding rows_grow_def by blast
  from assms(3) [OF y(2) z(2)] z(1) show "\<exists>z\<in>set zs. R x z" by blast
qed

lemma grows_refl: "grows s s"
  by (simp add: grows_def rows_grow_refl row_grows_refl)

lemma status_grows_trans: "status_grows x y \<Longrightarrow> status_grows y z \<Longrightarrow> status_grows x z"
  by (auto simp: status_grows_def)

lemma invoice_grows_trans:
  assumes "invoice_grows a b" and "invoice_grows b c"
  shows "invoice_grows a c"
proof -
  have "invoice_same_facts a c" "status_grows (bi_status a) (bi_status c)"
    using assms invoice_same_trans status_grows_trans unfolding invoice_grows_def by blast+
  moreover have "bi_status a = I_draft \<or> bi_number c = bi_number a"
    using assms unfolding invoice_grows_def status_grows_def by (elim conjE disjE) simp_all
  ultimately show ?thesis by (simp add: invoice_grows_def)
qed

lemma request_grows_trans: "request_grows p q \<Longrightarrow> request_grows q u \<Longrightarrow> request_grows p u"
  by (simp add: request_grows_def request_same_facts_def)

lemma subscription_grows_trans: "subscription_grows x y \<Longrightarrow> subscription_grows y z \<Longrightarrow> subscription_grows x z"
  by (simp add: subscription_grows_def subscription_same_facts_def)

lemma grows_trans: "grows s t \<Longrightarrow> grows t u \<Longrightarrow> grows s u"
proof -
  assume "grows s t" and "grows t u"
  note g = this [unfolded grows_def]
  show ?thesis
    unfolding grows_def
    using g rows_grow_trans [of invoice_grows "b_invoices s" "b_invoices t" "b_invoices u"] invoice_grows_trans
      rows_grow_trans [of request_grows "b_requests s" "b_requests t" "b_requests u"] request_grows_trans
      rows_grow_trans [of subscription_grows "b_subscriptions s" "b_subscriptions t" "b_subscriptions u"] subscription_grows_trans
    by (meson subset_trans)
qed

interpretation growth: tx_relation grows
  by unfold_locales (auto intro: grows_refl grows_trans)

lemma invoice_changed_grows: "invoice_changed cfg s old r t \<Longrightarrow> invoice_grows old r"
  unfolding invoice_changed_def invoice_grows_def status_grows_def invoice_trigger_moves_def Let_def by auto

lemma request_changed_grows: "request_changed s old q t \<Longrightarrow> request_grows old q"
  unfolding request_changed_def request_grows_def request_trigger_moves_def closed_status_def by auto

lemma subscription_changed_grows: "subscription_changed s old b t \<Longrightarrow> subscription_grows old b"
  unfolding subscription_changed_def subscription_grows_def subscription_trigger_moves_def by (auto split: if_splits)

lemma changed_row_grows:
  assumes "t_rows = set_row key (key old) new rows" and "get_row key (key old) rows = Some old"
    and refl: "\<And>r. R r r" and new: "R old new" and "unique_keys key rows"
  shows "rows_grow R rows t_rows"
  unfolding rows_grow_def
proof
  fix r
  assume r: "r \<in> set rows"
  show "\<exists>r'\<in>set t_rows. R r r'"
  proof (cases "key r = key old")
    case True
    then have "r = old" using assms(2,5) r by (metis get_row_unique option.inject)
    then show ?thesis using assms(1) new r by (force simp: set_set_row)
  next
    case False
    then show ?thesis using assms(1) refl r by (auto simp: set_set_row)
  qed
qed

section \<open>Keys\<close>

definition billing_keys :: "bill_db \<Rightarrow> bool" where
  "billing_keys s \<longleftrightarrow> unique_keys bi_id (b_invoices s) \<and> unique_keys natural_key (b_invoices s) \<and> unique_keys rq_id (b_requests s) \<and>
     unique_keys ln_id (b_lines s) \<and> unique_keys (\<lambda>l. (ln_invoiceId l, ln_lineNumber l)) (b_lines s) \<and>
     unique_keys en_invoiceId (b_routings s) \<and> unique_keys rc_id (b_receipts s) \<and>
     unique_keys (\<lambda>x. (tr_entity x, tr_entityId x, tr_revision x)) (b_transitions s) \<and>
     unique_keys sb_id (b_subscriptions s) \<and> unique_keys sb_organizationId (b_subscriptions s) \<and>
     unique_keys ss_id (b_settlements s) \<and> unique_keys ss_invoiceId (b_settlements s) \<and> unique_keys ss_receiptId (b_settlements s)"

lemma set_row_map:
  "get_row key k rows = Some old \<Longrightarrow> unique_keys key rows \<Longrightarrow> f new = f old \<Longrightarrow> map f (set_row key k new rows) = map f rows"
  by (auto simp: set_row_def dest!: get_row_SomeD dest: unique_keysD intro!: map_cong)

lemma set_row_unique:
  "get_row key k rows = Some old \<Longrightarrow> unique_keys key rows \<Longrightarrow> f new = f old \<Longrightarrow> unique_keys f (set_row key k new rows) = unique_keys f rows"
  by (simp add: unique_keys_def [of f] set_row_map)

lemma invoice_changed_old:
  assumes "invoice_changed cfg s old r t"
  shows "get_row bi_id (bi_id old) (b_invoices s) = Some old" "invoice_same_facts old r" "bi_id r = bi_id old" "natural_key r = natural_key old"
    "b_invoices t = set_row bi_id (bi_id old) r (b_invoices s)"
  using assms same_facts_fields(1,13) [of old r] by (simp_all add: invoice_changed_def find_invoice_def Let_def)

lemma request_changed_old:
  assumes "request_changed s old q t"
  shows "get_row rq_id (rq_id old) (b_requests s) = Some old" "request_same_facts old q" "rq_id q = rq_id old"
    "b_requests t = set_row rq_id (rq_id old) q (b_requests s)"
  using assms by (simp_all add: request_changed_def find_request_def request_same_facts_def)

lemma subscription_changed_old:
  assumes "subscription_changed s old b t"
  shows "get_row sb_id (sb_id old) (b_subscriptions s) = Some old" "subscription_same_facts old b" "sb_id b = sb_id old"
    "sb_organizationId b = sb_organizationId old" "b_subscriptions t = set_row sb_id (sb_id old) b (b_subscriptions s)"
  using assms by (simp_all add: subscription_changed_def subscription_same_facts_def)

lemma keys_invoices: "bill_write cfg may s t \<Longrightarrow> unique_keys bi_id (b_invoices s) \<and> unique_keys natural_key (b_invoices s) \<Longrightarrow>
    unique_keys bi_id (b_invoices t) \<and> unique_keys natural_key (b_invoices t)"
proof (erule write_invoices)
  fix old r
  assume u: "unique_keys bi_id (b_invoices s) \<and> unique_keys natural_key (b_invoices s)" and c: "invoice_changed cfg s old r t"
  note o = invoice_changed_old [OF c]
  show ?thesis
    using set_row_unique [OF o(1), of bi_id r] set_row_unique [OF o(1), of natural_key r] u o(3,4) unfolding o(5) by blast
qed auto

lemma keys_requests: "bill_write cfg may s t \<Longrightarrow> unique_keys rq_id (b_requests s) \<Longrightarrow> unique_keys rq_id (b_requests t)"
proof -
  assume w: "bill_write cfg may s t" and u: "unique_keys rq_id (b_requests s)"
  from write_requests [OF w] show ?thesis
  proof (elim disjE exE conjE)
    fix q0 q
    assume "insert_request q0 s = Inr (q, t)"
    then show ?thesis using u by (auto elim!: insert_request_cases)
  next
    fix old q
    assume c: "request_changed s old q t"
    show ?thesis unfolding request_changed_old(4) [OF c] using u request_changed_old(3) [OF c] by simp
  next
    fix old q
    assume c: "request_changed s old q t"
    show ?thesis unfolding request_changed_old(4) [OF c] using u request_changed_old(3) [OF c] by simp
  qed (simp add: u)
qed

lemma keys_subscriptions: "bill_write cfg may s t \<Longrightarrow> unique_keys sb_id (b_subscriptions s) \<and> unique_keys sb_organizationId (b_subscriptions s) \<Longrightarrow>
    unique_keys sb_id (b_subscriptions t) \<and> unique_keys sb_organizationId (b_subscriptions t)"
proof (drule write_subscriptions, elim disjE exE)
  fix b0 b
  assume u: "unique_keys sb_id (b_subscriptions s) \<and> unique_keys sb_organizationId (b_subscriptions s)" and "insert_subscription b0 s = Inr (Some b, t)"
  then show ?thesis by (auto elim!: insert_subscription_cases)
next
  fix old b
  assume u: "unique_keys sb_id (b_subscriptions s) \<and> unique_keys sb_organizationId (b_subscriptions s)" and c: "subscription_changed s old b t"
  note o = subscription_changed_old [OF c]
  show ?thesis
    using set_row_unique [OF o(1), of sb_id b] set_row_unique [OF o(1), of sb_organizationId b] u o(3,4) unfolding o(5) by blast
qed auto

lemma keys_lines: "bill_write cfg may s t \<Longrightarrow>
    unique_keys ln_id (b_lines s) \<and> unique_keys (\<lambda>l. (ln_invoiceId l, ln_lineNumber l)) (b_lines s) \<Longrightarrow>
    unique_keys ln_id (b_lines t) \<and> unique_keys (\<lambda>l. (ln_invoiceId l, ln_lineNumber l)) (b_lines t)"
  by (drule write_lines) (auto elim!: insert_line_cases)

lemma keys_routings: "bill_write cfg may s t \<Longrightarrow> unique_keys en_invoiceId (b_routings s) \<Longrightarrow> unique_keys en_invoiceId (b_routings t)"
  by (drule write_routings) (auto elim!: insert_routing_cases)

lemma keys_receipts: "bill_write cfg may s t \<Longrightarrow> unique_keys rc_id (b_receipts s) \<Longrightarrow> unique_keys rc_id (b_receipts t)"
  by (drule write_receipts) auto

lemma keys_transitions: "bill_write cfg may s t \<Longrightarrow> unique_keys (\<lambda>x. (tr_entity x, tr_entityId x, tr_revision x)) (b_transitions s) \<Longrightarrow>
    unique_keys (\<lambda>x. (tr_entity x, tr_entityId x, tr_revision x)) (b_transitions t)"
  by (drule write_transitions) (auto elim!: insert_transition_cases)

lemma keys_settlements: "bill_write cfg may s t \<Longrightarrow>
    unique_keys ss_id (b_settlements s) \<and> unique_keys ss_invoiceId (b_settlements s) \<and> unique_keys ss_receiptId (b_settlements s) \<Longrightarrow>
    unique_keys ss_id (b_settlements t) \<and> unique_keys ss_invoiceId (b_settlements t) \<and> unique_keys ss_receiptId (b_settlements t)"
  by (drule write_settlements) (auto elim!: insert_settlement_cases)

lemma write_keys: "bill_write cfg may s t \<Longrightarrow> billing_keys s \<Longrightarrow> billing_keys t"
  unfolding billing_keys_def
  by (blast dest: keys_invoices keys_requests keys_subscriptions keys_lines keys_routings keys_receipts keys_transitions keys_settlements)

lemma write_grows:
  assumes w: "bill_write cfg may s t" and "billing_keys s"
  shows "grows s t"
proof -
  have u: "unique_keys bi_id (b_invoices s)" "unique_keys rq_id (b_requests s)" "unique_keys sb_id (b_subscriptions s)"
    using assms(2) by (auto simp: billing_keys_def)
  have i: "rows_grow invoice_grows (b_invoices s) (b_invoices t)"
    using w
  proof (cases rule: write_invoices)
    case (changed old r)
    note o = invoice_changed_old [OF changed]
    show ?thesis by (rule changed_row_grows [OF o(5,1) row_grows_refl(1) invoice_changed_grows [OF changed] u(1)])
  qed (simp_all add: rows_grow_refl rows_grow_append row_grows_refl)
  have q: "rows_grow request_grows (b_requests s) (b_requests t)"
    using write_requests [OF w]
  proof (elim disjE exE)
    fix old q
    assume "request_changed s old q t \<and> (rq_status q = rq_status old \<or> may (rq_status q))"
    then have c: "request_changed s old q t" by blast
    note o = request_changed_old [OF c]
    show ?thesis by (rule changed_row_grows [OF o(4,1) row_grows_refl(2) request_changed_grows [OF c] u(2)])
  qed (auto dest!: insert_request_effect simp: rows_grow_refl rows_grow_append row_grows_refl)
  have b: "rows_grow subscription_grows (b_subscriptions s) (b_subscriptions t)"
    using write_subscriptions [OF w]
  proof (elim disjE exE)
    fix old b
    assume c: "subscription_changed s old b t"
    note o = subscription_changed_old [OF c]
    show ?thesis by (rule changed_row_grows [OF o(5,1) row_grows_refl(3) subscription_changed_grows [OF c] u(3)])
  qed (auto dest!: insert_subscription_effect simp: rows_grow_refl rows_grow_append row_grows_refl)
  have "set (b_lines s) \<subseteq> set (b_lines t)" using write_lines [OF w] by (auto dest!: insert_line_effect)
  moreover have "set (b_routings s) \<subseteq> set (b_routings t)" using write_routings [OF w] by (auto dest!: insert_routing_effect)
  moreover have "set (b_receipts s) \<subseteq> set (b_receipts t)" using write_receipts [OF w] by auto
  moreover have "set (b_transitions s) \<subseteq> set (b_transitions t)" using write_transitions [OF w] by (auto dest!: insert_transition_effect)
  moreover have "set (b_settlements s) \<subseteq> set (b_settlements t)" using write_settlements [OF w] by (auto dest!: insert_settlement_effect)
  ultimately show ?thesis unfolding grows_def using i q b by simp
qed

end
