(* ===== verification/BillingRows.thy ===== *)
theory BillingRows
  imports BillingInvariant
begin

text \<open>
  Every row of the core is well formed, in every state a statement can lead to: the CHECK constraints of its
  table, the references to other rows, and what makes an invoice issued, payable and paid.
\<close>

section \<open>Finding grown rows\<close>

lemma grows_invoice:
  assumes "grows s t" and "\<exists>r\<in>set (b_invoices s). invoice_same_facts r0 r \<and> status_grows (bi_status r0) (bi_status r)"
  shows "\<exists>r\<in>set (b_invoices t). invoice_same_facts r0 r \<and> status_grows (bi_status r0) (bi_status r)"
proof -
  obtain r where r: "r \<in> set (b_invoices s)" "invoice_same_facts r0 r" "status_grows (bi_status r0) (bi_status r)" using assms(2) by blast
  then obtain r' where "r' \<in> set (b_invoices t)" "invoice_grows r r'" using assms(1) unfolding grows_def rows_grow_def by blast
  with r show ?thesis using invoice_same_trans status_grows_trans unfolding invoice_grows_def by blast
qed

lemma grows_invoice_row: "grows s t \<Longrightarrow> r \<in> set (b_invoices s) \<Longrightarrow> \<exists>r'\<in>set (b_invoices t). invoice_grows r r'"
  unfolding grows_def rows_grow_def by blast

lemma grows_request_row: "grows s t \<Longrightarrow> q \<in> set (b_requests s) \<Longrightarrow> \<exists>q'\<in>set (b_requests t). request_grows q q'"
  unfolding grows_def rows_grow_def by blast

lemma grows_subscription_row: "grows s t \<Longrightarrow> b \<in> set (b_subscriptions s) \<Longrightarrow> \<exists>b'\<in>set (b_subscriptions t). subscription_grows b b'"
  unfolding grows_def rows_grow_def by blast

lemma grows_paid:
  assumes "grows s t" and "billing_keys s" and "billing_keys t" and "map_option bi_status (find_invoice i s) = Some I_paid"
  shows "map_option bi_status (find_invoice i t) = Some I_paid"
proof -
  obtain r where r: "r \<in> set (b_invoices s)" "bi_id r = i" "bi_status r = I_paid"
    using assms(4) by (auto simp: find_invoice_def dest: get_row_SomeD)
  obtain r' where r': "r' \<in> set (b_invoices t)" "invoice_grows r r'" using grows_invoice_row [OF assms(1) r(1)] by blast
  have "bi_id r' = i" "bi_status r' = I_paid"
    using r'(2) r same_facts_fields(1) [of r r'] by (auto simp: invoice_grows_def status_grows_def)
  then show ?thesis using r'(1) assms(3) get_row_unique [of bi_id "b_invoices t" r'] by (auto simp: billing_keys_def find_invoice_def)
qed

lemma grows_closed_request:
  assumes "grows s t" and "billing_keys s" and "billing_keys t" and "find_request i s = Some q" and "closed_status (rq_status q)"
  shows "\<exists>q'. find_request i t = Some q' \<and> request_same_facts q q' \<and> rq_status q' = rq_status q"
proof -
  have q: "q \<in> set (b_requests s)" "rq_id q = i" using assms(4) by (auto simp: find_request_def dest: get_row_SomeD)
  obtain q' where q': "q' \<in> set (b_requests t)" "request_grows q q'" using grows_request_row [OF assms(1) q(1)] by blast
  then show ?thesis
    using assms(3,5) q get_row_unique [of rq_id "b_requests t" q'] by (auto simp: billing_keys_def find_request_def request_grows_def request_same_facts_def)
qed

section \<open>Invoices\<close>

definition invoices_ok :: "bill_cfg \<Rightarrow> bill_db \<Rightarrow> bool" where
  "invoices_ok cfg s \<longleftrightarrow> (\<forall>r\<in>set (b_invoices s). invoice_facts_ok cfg s r \<and> invoice_state_ok r \<and> \<not> number_taken s r)"

lemma facts_ok_cong: "b_currencies t = b_currencies s \<Longrightarrow> invoice_facts_ok cfg t r = invoice_facts_ok cfg s r"
  by (simp add: invoice_facts_ok_def)

lemma number_taken_iff:
  "number_taken s r \<longleftrightarrow> bi_number r \<noteq> None \<and> (\<exists>x\<in>set (b_invoices s). bi_id x \<noteq> bi_id r \<and> bi_seller x = bi_seller r \<and> bi_number x = bi_number r)"
  by (simp add: number_taken_def list_ex_iff)

lemma draft_state_ok: "draft_shape r \<Longrightarrow> invoice_state_ok r"
  by (simp add: draft_shape_def invoice_state_ok_def)

lemma write_invoices_ok:
  assumes w: "bill_write cfg may s t" and k: "billing_keys s" and ok: "invoices_ok cfg s"
  shows "invoices_ok cfg t"
proof -
  note c = facts_ok_cong [OF write_currencies [OF w]]
  show ?thesis
    using w
  proof (cases rule: write_invoices)
    case same
    then show ?thesis using ok c by (simp add: invoices_ok_def number_taken_iff)
  next
    case (added r)
    have "bi_number r = None" using added(1) by (simp add: draft_shape_def)
    then show ?thesis
      using ok added c draft_state_ok [OF added(1)] unfolding invoices_ok_def number_taken_iff by auto
  next
    case (changed old r)
    note o = invoice_changed_old [OF changed]
    have new: "invoice_facts_ok cfg s r" "invoice_state_ok r" "\<not> number_taken s r"
      using changed by (simp_all add: invoice_changed_def Let_def)
    have u: "unique_keys bi_id (b_invoices s)" using k by (simp add: billing_keys_def)
    have rows: "x \<in> set (b_invoices t) \<Longrightarrow> x = r \<or> (x \<in> set (b_invoices s) \<and> bi_id x \<noteq> bi_id r)" for x
      using o(3) by (auto simp: o(5) set_set_row split: if_splits)
    have taken: "\<not> number_taken t x" if x: "x \<in> set (b_invoices t)" for x
    proof
      assume "number_taken t x"
      then obtain y where y: "y \<in> set (b_invoices t)" "bi_id y \<noteq> bi_id x" "bi_seller y = bi_seller x" "bi_number y = bi_number x" "bi_number x \<noteq> None"
        by (auto simp: number_taken_iff)
      consider "x = r" "y \<in> set (b_invoices s)" | "y = r" "x \<in> set (b_invoices s)" | "x \<in> set (b_invoices s)" "y \<in> set (b_invoices s)"
        using rows [OF x] rows [OF y(1)] y(2) by auto
      then show False
      proof cases
        case 1
        then show False using new(3) y by (auto simp: number_taken_iff)
      next
        case 2
        then have "number_taken s r" using y unfolding number_taken_iff by (intro conjI bexI [of _ x]) auto
        then show False using new(3) by blast
      next
        case 3
        then show False using ok y by (auto simp: invoices_ok_def number_taken_iff)
      qed
    qed
    show ?thesis unfolding invoices_ok_def using taken rows ok new c by (auto simp: invoices_ok_def)
  qed
qed

section \<open>Requests\<close>

definition payable_for :: "bill_db \<Rightarrow> bill_request \<Rightarrow> bool" where
  "payable_for s q \<longleftrightarrow>
     (\<exists>r\<in>set (b_invoices s). bi_id r = rq_invoiceId q \<and> bi_total r = rq_amount q \<and> bi_currency r = rq_currency q \<and>
        (bi_status r = I_open \<or> bi_status r = I_paid)) \<and>
     (\<exists>e\<in>set (b_routings s). en_invoiceId e = rq_invoiceId q)"

definition requests_ok :: "bill_db \<Rightarrow> bool" where
  "requests_ok s \<longleftrightarrow> (\<forall>q\<in>set (b_requests s). request_ok_row q \<and> request_unique s q \<and> payable_for s q)"

definition excludes :: "bill_request \<Rightarrow> bill_request \<Rightarrow> bool" where
  "excludes x q \<longleftrightarrow> rq_id x = rq_id q \<or>
     (\<not> (rq_invoiceId x = rq_invoiceId q \<and> active_status (rq_status x) \<and> active_status (rq_status q)) \<and>
      \<not> (rq_invoiceId x = rq_invoiceId q \<and> rq_status x = R_paid \<and> rq_status q = R_paid) \<and>
      \<not> (rq_paymentId q \<noteq> None \<and> rq_paymentId x = rq_paymentId q))"

lemma request_unique_iff: "request_unique s q \<longleftrightarrow> (\<forall>x\<in>set (b_requests s). excludes x q)"
  by (simp add: request_unique_def list_all_iff excludes_def)

lemma excludes_sym: "excludes x q \<Longrightarrow> excludes q x"
  unfolding excludes_def by auto

lemma excludes_self: "rq_id x = rq_id q \<Longrightarrow> excludes x q"
  by (simp add: excludes_def)

lemma grows_payable:
  assumes "grows s t" and "payable_for s q" and "request_same_facts q q'"
  shows "payable_for t q'"
proof -
  obtain r e where r: "r \<in> set (b_invoices s)" "bi_id r = rq_invoiceId q" "bi_total r = rq_amount q" "bi_currency r = rq_currency q"
      "bi_status r = I_open \<or> bi_status r = I_paid" and e: "e \<in> set (b_routings s)" "en_invoiceId e = rq_invoiceId q"
    using assms(2) by (auto simp: payable_for_def)
  obtain r' where r': "r' \<in> set (b_invoices t)" "invoice_grows r r'" using grows_invoice_row [OF assms(1) r(1)] by blast
  have "e \<in> set (b_routings t)" using assms(1) e by (auto simp: grows_def)
  moreover have "bi_id r' = rq_invoiceId q" "bi_total r' = rq_amount q" "bi_currency r' = rq_currency q" "bi_status r' = I_open \<or> bi_status r' = I_paid"
    using r'(2) r same_facts_fields [of r r'] by (auto simp: invoice_grows_def status_grows_def)
  ultimately show ?thesis using r' e assms(3) unfolding payable_for_def request_same_facts_def by auto
qed

lemma write_requests_ok:
  assumes w: "bill_write cfg may s t" and k: "billing_keys s" and ok: "requests_ok s"
  shows "requests_ok t"
proof -
  have g: "grows s t" by (rule write_grows [OF w k])
  have old_ok: "request_ok_row q" "payable_for t q" "\<And>x. x \<in> set (b_requests s) \<Longrightarrow> excludes x q" if "q \<in> set (b_requests s)" for q
    using ok that grows_payable [OF g _ request_same_refl] by (auto simp: requests_ok_def request_unique_iff)
  have new: "requests_ok t" if rows: "\<And>x. x \<in> set (b_requests t) \<Longrightarrow> x = n \<or> x \<in> set (b_requests s)"
    and n: "request_ok_row n" "request_unique s n" "payable_for t n" for n
    unfolding requests_ok_def request_unique_iff
  proof (intro ballI conjI)
    fix q x
    assume q: "q \<in> set (b_requests t)" and x: "x \<in> set (b_requests t)"
    have un: "y \<in> set (b_requests s) \<Longrightarrow> excludes y n" for y using n(2) by (simp add: request_unique_iff)
    show "excludes x q" using rows [OF q] rows [OF x] un excludes_sym excludes_self old_ok(3) by blast
  next
    fix q
    assume "q \<in> set (b_requests t)"
    from rows [OF this] show "request_ok_row q" "payable_for t q" using n old_ok by blast+
  qed
  show ?thesis
    using write_requests [OF w]
  proof (elim disjE exE)
    assume same: "b_requests t = b_requests s"
    show ?thesis unfolding requests_ok_def request_unique_iff same using old_ok by blast
  next
    fix q0 q
    assume i: "insert_request q0 s = Inr (q, t)"
    then show ?thesis
    proof (rule insert_request_cases)
      fix r
      assume r: "find_invoice (rq_invoiceId q) s = Some r" "bi_status r = I_open" "rq_amount q = bi_total r" "rq_currency q = bi_currency r"
        and e: "find_routing (rq_invoiceId q) s \<noteq> None" and q: "request_ok_row q" "request_unique s q"
        and t: "t = s\<lparr>b_requests := b_requests s @ [q], b_deferred := b_deferred s @ [Need_history E_request (rq_id q) (St_request R_created) 0]\<rparr>"
      have "payable_for s q" using r e by (force simp: payable_for_def find_invoice_def find_routing_def dest!: get_row_SomeD)
      then have "payable_for t q" by (rule grows_payable [OF g]) simp
      with q show ?thesis by (intro new [of q]) (auto simp: t)
    qed
  next
    fix old q
    assume "request_changed s old q t \<and> (rq_status q = rq_status old \<or> may (rq_status q))"
    then have c: "request_changed s old q t" by blast
    note o = request_changed_old [OF c]
    have "old \<in> set (b_requests s)" using o(1) by (auto dest: get_row_SomeD)
    then have "payable_for s old" using ok by (simp add: requests_ok_def)
    then have "payable_for t q" by (rule grows_payable [OF g]) (rule o(2))
    then show ?thesis
      using c by (intro new [of q]) (auto simp: o(4) set_set_row request_changed_def split: if_splits)
  qed
qed

text \<open>A paid invoice has its paid request.\<close>

definition paid_ok :: "bill_db \<Rightarrow> bool" where
  "paid_ok s \<longleftrightarrow> (\<forall>r\<in>set (b_invoices s). bi_status r = I_paid \<longrightarrow> paid_in_full s r)"

lemma grows_paid_in_full:
  assumes "grows s t" and "paid_in_full s r" and "bi_id r' = bi_id r" and "bi_total r' = bi_total r"
  shows "paid_in_full t r'"
proof -
  obtain q where q: "q \<in> set (b_requests s)" "rq_invoiceId q = bi_id r" "rq_status q = R_paid" "rq_amount q = bi_total r"
    using assms(2) by (auto simp: paid_in_full_def list_ex_iff)
  obtain q' where "q' \<in> set (b_requests t)" "request_grows q q'" using grows_request_row [OF assms(1) q(1)] by blast
  then show ?thesis
    using q assms(3,4) unfolding paid_in_full_def list_ex_iff by (intro bexI [of _ q']) (auto simp: request_grows_def request_same_facts_def closed_status_def)
qed

lemma write_paid_ok:
  assumes w: "bill_write cfg may s t" and k: "billing_keys s" and ok: "paid_ok s"
  shows "paid_ok t"
proof -
  have g: "grows s t" by (rule write_grows [OF w k])
  have old: "r \<in> set (b_invoices s) \<Longrightarrow> bi_status r = I_paid \<Longrightarrow> paid_in_full t r" for r
    using ok grows_paid_in_full [OF g] unfolding paid_ok_def by blast
  show ?thesis
    using w
  proof (cases rule: write_invoices)
    case same
    then show ?thesis using old by (simp add: paid_ok_def)
  next
    case (added r)
    then show ?thesis using old by (auto simp: paid_ok_def draft_shape_def)
  next
    case (changed ro r)
    note o = invoice_changed_old [OF changed]
    have "paid_in_full t r" if p: "bi_status r = I_paid"
    proof (cases "bi_status ro = I_paid")
      case True
      have "ro \<in> set (b_invoices s)" using o(1) by (auto dest: get_row_SomeD)
      then have "paid_in_full s ro" using ok True by (simp add: paid_ok_def)
      then show ?thesis using grows_paid_in_full [OF g] same_facts_fields [OF o(2)] by blast
    next
      case False
      then have "paid_in_full s r" using changed p by (auto simp: invoice_changed_def invoice_trigger_moves_def Let_def)
      then show ?thesis by (rule grows_paid_in_full [OF g]) simp_all
    qed
    then show ?thesis using old by (auto simp: paid_ok_def o(5) set_set_row split: if_splits)
  qed
qed

section \<open>Lines and routing records\<close>

definition lines_ok :: "bill_db \<Rightarrow> bool" where
  "lines_ok s \<longleftrightarrow> (\<forall>l\<in>set (b_lines s). line_ok_row l \<and> (\<exists>r\<in>set (b_invoices s). bi_id r = ln_invoiceId l \<and> bi_currency r = ln_currency l))"

definition routings_ok :: "bill_db \<Rightarrow> bool" where
  "routings_ok s \<longleftrightarrow> (\<forall>e\<in>set (b_routings s). routing_combination e \<and> (\<exists>r\<in>set (b_invoices s). bi_id r = en_invoiceId e \<and> bi_payer r = en_payer e))"

lemma grows_invoice_facts:
  assumes "grows s t" and "\<exists>r\<in>set (b_invoices s). bi_id r = i \<and> bi_currency r = c"
  shows "\<exists>r\<in>set (b_invoices t). bi_id r = i \<and> bi_currency r = c"
  using assms grows_invoice_row [OF assms(1)] same_facts_fields unfolding invoice_grows_def by metis

lemma grows_invoice_payer:
  assumes "grows s t" and "\<exists>r\<in>set (b_invoices s). bi_id r = i \<and> bi_payer r = p"
  shows "\<exists>r\<in>set (b_invoices t). bi_id r = i \<and> bi_payer r = p"
  using assms grows_invoice_row [OF assms(1)] same_facts_fields unfolding invoice_grows_def by metis

lemma write_lines_ok:
  assumes w: "bill_write cfg may s t" and k: "billing_keys s" and ok: "lines_ok s"
  shows "lines_ok t"
proof -
  have g: "grows s t" by (rule write_grows [OF w k])
  have old: "l \<in> set (b_lines s) \<Longrightarrow> line_ok_row l \<and> (\<exists>r\<in>set (b_invoices t). bi_id r = ln_invoiceId l \<and> bi_currency r = ln_currency l)" for l
    using ok grows_invoice_facts [OF g] unfolding lines_ok_def by blast
  show ?thesis
    using write_lines [OF w]
  proof (elim disjE exE)
    fix l x
    assume "insert_line l s = Inr (x, t)"
    then show ?thesis
    proof (rule insert_line_cases)
      fix r
      assume r: "find_invoice (ln_invoiceId l) s = Some r" "bi_currency r = ln_currency l" "line_ok_row l"
        and t: "t = s\<lparr>b_lines := b_lines s @ [l], b_deferred := b_deferred s @ [Need_totals (ln_invoiceId l), Need_checkout (ln_invoiceId l)]\<rparr>"
      have "\<exists>r\<in>set (b_invoices t). bi_id r = ln_invoiceId l \<and> bi_currency r = ln_currency l"
        using r by (force simp: t find_invoice_def dest!: get_row_SomeD)
      then show ?thesis using old r(3) unfolding lines_ok_def by (auto simp: t)
    qed
  qed (use old in \<open>simp add: lines_ok_def\<close>)
qed

lemma write_routings_ok:
  assumes w: "bill_write cfg may s t" and k: "billing_keys s" and ok: "routings_ok s"
  shows "routings_ok t"
proof -
  have g: "grows s t" by (rule write_grows [OF w k])
  have old: "e \<in> set (b_routings s) \<Longrightarrow> routing_combination e \<and> (\<exists>r\<in>set (b_invoices t). bi_id r = en_invoiceId e \<and> bi_payer r = en_payer e)" for e
    using ok grows_invoice_payer [OF g] unfolding routings_ok_def by blast
  show ?thesis
    using write_routings [OF w]
  proof (elim disjE exE)
    fix e x
    assume "insert_routing e s = Inr (x, t)"
    then show ?thesis
    proof (rule insert_routing_cases)
      fix r
      assume r: "find_invoice (en_invoiceId e) s = Some r" "en_payer e = bi_payer r" "routing_combination e"
        and t: "t = s\<lparr>b_routings := b_routings s @ [e]\<rparr>"
      have "\<exists>r\<in>set (b_invoices t). bi_id r = en_invoiceId e \<and> bi_payer r = en_payer e"
        using r by (force simp: t find_invoice_def dest!: get_row_SomeD)
      then show ?thesis using old r(3) unfolding routings_ok_def by (auto simp: t)
    qed
  qed (use old in \<open>simp add: routings_ok_def\<close>)
qed

end
