(* ===== verification/BillingEvidence.thy ===== *)
theory BillingEvidence
  imports BillingRows
begin

text \<open>
  What the core keeps as evidence: an event is applied once, a subscription's period has the shape of its
  status, a settlement rests on a verified success of a routed invoice, and the numbers of a seller's issued
  invoices are the numerals below its counter.
\<close>

section \<open>Receipts and subscriptions\<close>

definition receipts_ok :: "bill_db \<Rightarrow> bool" where
  "receipts_ok s \<longleftrightarrow> (\<forall>x\<in>set (b_receipts s). \<forall>y\<in>set (b_receipts s).
     rc_outcome x = O_applied \<and> rc_outcome y = O_applied \<and> rc_eventId x = rc_eventId y \<longrightarrow> x = y)"

lemma write_receipts_ok: "bill_write cfg may s t \<Longrightarrow> receipts_ok s \<Longrightarrow> receipts_ok t"
  by (drule write_receipts) (auto simp: receipts_ok_def)

definition subscriptions_ok :: "bill_db \<Rightarrow> bool" where
  "subscriptions_ok s \<longleftrightarrow> (\<forall>b\<in>set (b_subscriptions s). subscription_ok_row b)"

lemma write_subscriptions_ok:
  assumes w: "bill_write cfg may s t" and ok: "subscriptions_ok s"
  shows "subscriptions_ok t"
  using write_subscriptions [OF w]
proof (elim disjE exE)
  fix b0 b
  assume "insert_subscription b0 s = Inr (Some b, t)"
  then show ?thesis using ok by (auto elim!: insert_subscription_cases simp: subscriptions_ok_def)
next
  fix old b
  assume c: "subscription_changed s old b t"
  have "subscription_ok_row b" using c by (simp add: subscription_changed_def)
  then show ?thesis using ok by (auto simp: subscriptions_ok_def subscription_changed_old(5) [OF c] set_set_row split: if_splits)
qed (use ok in \<open>simp add: subscriptions_ok_def\<close>)

section \<open>Settlements\<close>

text \<open>What a settlement proves: the verified success of its request, the routing of its invoice, its subscription.\<close>

definition settled_for :: "bill_db \<Rightarrow> settlement_row \<Rightarrow> bool" where
  "settled_for s x \<longleftrightarrow>
     verified_settlement s (ss_receiptId x) (ss_paymentRequestId x) (ss_invoiceId x) \<and>
     (\<exists>e\<in>set (b_routings s). en_invoiceId e = ss_invoiceId x \<and> en_purpose e = Organization_subscription \<and>
        en_organizationId e = Some (ss_organizationId x) \<and> en_productId e = Some (ss_productId x)) \<and>
     (\<exists>b\<in>set (b_subscriptions s). sb_id b = ss_subscriptionId x \<and> sb_organizationId b = ss_organizationId x \<and> sb_productId b = ss_productId x)"

definition settlements_ok :: "bill_db \<Rightarrow> bool" where
  "settlements_ok s \<longleftrightarrow> (\<forall>x\<in>set (b_settlements s). settled_for s x \<and> ss_transactionId x \<le> b_xid s)"

lemma grows_verified:
  assumes g: "grows s t" and k: "billing_keys s" "billing_keys t" and v: "verified_settlement s c q i"
  shows "verified_settlement t c q i"
proof -
  obtain x where x: "find_request q s = Some x" "rq_invoiceId x = i" "rq_status x = R_paid" "map_option bi_status (find_invoice i s) = Some I_paid"
    and r: "list_ex (\<lambda>r. rc_id r = c \<and> rc_outcome r = O_applied \<and> rc_eventName r = Ev_succeeded \<and> rc_paymentRequestId r = q) (b_receipts s)"
    using v by (auto simp: verified_settlement_def split: option.splits)
  obtain y where y: "find_request q t = Some y" "request_same_facts x y" "rq_status y = rq_status x"
    using grows_closed_request [OF g k x(1)] x(3) by (auto simp: closed_status_def)
  have "set (b_receipts s) \<subseteq> set (b_receipts t)" using g by (simp add: grows_def)
  then have "list_ex (\<lambda>r. rc_id r = c \<and> rc_outcome r = O_applied \<and> rc_eventName r = Ev_succeeded \<and> rc_paymentRequestId r = q) (b_receipts t)"
    using r by (auto simp: list_ex_iff)
  then show ?thesis
    using y x grows_paid [OF g k x(4)] by (simp add: verified_settlement_def request_same_facts_def)
qed

lemma grows_settled:
  assumes g: "grows s t" and k: "billing_keys s" "billing_keys t" and v: "settled_for s x"
  shows "settled_for t x"
proof -
  obtain b where b: "b \<in> set (b_subscriptions s)" "sb_id b = ss_subscriptionId x" "sb_organizationId b = ss_organizationId x" "sb_productId b = ss_productId x"
    using v by (auto simp: settled_for_def)
  obtain b' where b': "b' \<in> set (b_subscriptions t)" "subscription_grows b b'" using grows_subscription_row [OF g b(1)] by blast
  have r: "set (b_routings s) \<subseteq> set (b_routings t)" using g by (simp add: grows_def)
  obtain e where e: "e \<in> set (b_routings s)" "en_invoiceId e = ss_invoiceId x \<and> en_purpose e = Organization_subscription \<and>
      en_organizationId e = Some (ss_organizationId x) \<and> en_productId e = Some (ss_productId x)"
    using v unfolding settled_for_def by blast
  have "verified_settlement s (ss_receiptId x) (ss_paymentRequestId x) (ss_invoiceId x)" using v by (simp add: settled_for_def)
  note grows_verified [OF g k this]
  moreover have "sb_id b' = ss_subscriptionId x \<and> sb_organizationId b' = ss_organizationId x \<and> sb_productId b' = ss_productId x"
    using b b'(2) by (simp add: subscription_grows_def subscription_same_facts_def)
  ultimately show ?thesis using r e b'(1) unfolding settled_for_def by blast
qed

lemma write_xid: "bill_write cfg may s t \<Longrightarrow> b_xid t = b_xid s"
  by (cases rule: write_cases) (auto dest!: effects simp: same_core_def)

lemma write_settlements_ok:
  assumes w: "bill_write cfg may s t" and k: "billing_keys s" and ok: "settlements_ok s"
  shows "settlements_ok t"
proof -
  note g = write_grows [OF w k] and kt = write_keys [OF w k] and x = write_xid [OF w]
  have old: "y \<in> set (b_settlements s) \<Longrightarrow> settled_for t y \<and> ss_transactionId y \<le> b_xid t" for y
    using ok grows_settled [OF g k kt] x by (auto simp: settlements_ok_def)
  show ?thesis
    using write_settlements [OF w]
  proof (elim disjE exE)
    fix r0 i
    assume "insert_settlement r0 s = Inr (Some i, t)"
    then show ?thesis
    proof (cases rule: insert_settlement_cases)
      case (added r)
      then have "settled_for s r" by (simp add: settled_for_def)
      then have "settled_for t r" by (rule grows_settled [OF g k kt])
      then show ?thesis using old added by (simp add: settlements_ok_def)
    qed simp
  qed (use old in \<open>simp add: settlements_ok_def\<close>)
qed

section \<open>Numbers\<close>

text \<open>The numbers a seller's invoices have are the numerals from 1 up to its counter: each once, with no gap.\<close>

definition numbers_of :: "bill_db \<Rightarrow> bparty \<Rightarrow> string set" where
  "numbers_of s p = {n. \<exists>r\<in>set (b_invoices s). bi_seller r = p \<and> bi_number r = Some n}"

definition numerals_below :: "nat \<Rightarrow> string set" where
  "numerals_below n = (\<lambda>k. pg_decimal (int k)) ` {1..<n}"

definition numbers_ok :: "bill_db \<Rightarrow> bool" where
  "numbers_ok s \<longleftrightarrow> (\<forall>p. 1 \<le> next_number s p \<and> numbers_of s p = numerals_below (next_number s p))"

lemma write_numbering:
  assumes "bill_write cfg may s t"
  obtains (same) "b_invoices t = b_invoices s" "b_counters t = b_counters s"
    | (added) r where "bi_number r = None" "b_invoices t = b_invoices s @ [r]" "b_counters t = b_counters s"
    | (changed) old r where "invoice_changed cfg s old r t"
  using assms
proof (cases rule: write_cases)
  case (invoice r)
  then show ?thesis by (intro that(2) [of r]) (simp_all add: draft_shape_def)
next
  case (invoice_set old r)
  then show ?thesis by (rule that(3))
qed (rule that(1); auto dest!: effects simp: same_core_def)+

lemma numerals_Suc: "1 \<le> n \<Longrightarrow> numerals_below (n + 1) = insert (pg_decimal (int n)) (numerals_below n)"
  by (simp add: numerals_below_def atLeastLessThanSuc)

lemma next_number_counters: "b_counters t = b_counters s \<Longrightarrow> next_number t p = next_number s p"
  by (simp add: next_number_def)

lemma next_number_drawn:
  "b_counters t = (p, n + 1) # filter (\<lambda>(x, _). x \<noteq> p) (b_counters s) \<Longrightarrow> next_number t x = (if x = p then n + 1 else next_number s x)"
proof -
  have "map_of (filter (\<lambda>(x, _). x \<noteq> p) cs) x = map_of cs x" if "x \<noteq> p" for cs :: "(bparty \<times> nat) list"
    using that by (induction cs) auto
  then show "b_counters t = (p, n + 1) # filter (\<lambda>(x, _). x \<noteq> p) (b_counters s) \<Longrightarrow> ?thesis"
    by (simp add: next_number_def)
qed

lemma numbers_changed:
  assumes c: "invoice_changed cfg s old r t" and u: "unique_keys bi_id (b_invoices s)"
    and number: "bi_number r = bi_number old \<or> bi_number old = None"
  shows "numbers_of t p = (if bi_seller old = p then (case bi_number r of Some n \<Rightarrow> insert n (numbers_of s p) | None \<Rightarrow> numbers_of s p) else numbers_of s p)"
proof -
  note o = invoice_changed_old [OF c]
  have old: "old \<in> set (b_invoices s)" using o(1) by (auto dest: get_row_SomeD)
  have seller: "bi_seller r = bi_seller old" using same_facts_fields [OF o(2)] by simp
  have at_old: "x = old" if "x \<in> set (b_invoices s)" "bi_id x = bi_id old" for x
    by (rule unique_keysD [OF u that(1) old that(2)])
  have rows: "x \<in> set (b_invoices t) \<longleftrightarrow> x = r \<or> (x \<in> set (b_invoices s) \<and> x \<noteq> old)" for x
    using o(1) at_old old by (auto simp: o(5) set_set_row image_iff split: if_splits)
  define rest where "rest n \<longleftrightarrow> (\<exists>x. x \<in> set (b_invoices s) \<and> x \<noteq> old \<and> bi_seller x = p \<and> bi_number x = Some n)" for n
  have new: "n \<in> numbers_of t p \<longleftrightarrow> (bi_seller old = p \<and> bi_number r = Some n) \<or> rest n" for n
    unfolding numbers_of_def Bex_def rows rest_def mem_Collect_eq seller [symmetric] by blast
  have before: "n \<in> numbers_of s p \<longleftrightarrow> (bi_seller old = p \<and> bi_number old = Some n) \<or> rest n" for n
    unfolding numbers_of_def rest_def mem_Collect_eq using old by blast
  show ?thesis
  proof (rule set_eqI)
    fix n
    show "n \<in> numbers_of t p \<longleftrightarrow>
        n \<in> (if bi_seller old = p then (case bi_number r of Some n \<Rightarrow> insert n (numbers_of s p) | None \<Rightarrow> numbers_of s p) else numbers_of s p)"
      using number by (cases "bi_number r") (auto simp: new before)
  qed
qed

lemma changed_number:
  assumes "invoice_changed cfg s old r t" and "invoice_state_ok old"
  obtains (drawn) "bi_number old = None" "bi_number r = Some (pg_decimal (int (next_number s (bi_seller old))))"
      "b_counters t = (bi_seller old, next_number s (bi_seller old) + 1) # filter (\<lambda>(x, _). x \<noteq> bi_seller old) (b_counters s)"
    | (kept) "bi_number r = bi_number old" "b_counters t = b_counters s"
proof (cases "bi_status old = I_draft \<and> bi_status r = I_open")
  case True
  then have "bi_number old = None" using assms(2) by (simp add: invoice_state_ok_def)
  then show ?thesis using True assms(1) unfolding invoice_changed_def Let_def by (intro that(1)) simp_all
next
  case False
  show ?thesis
    using assms(1) unfolding invoice_changed_def Let_def if_not_P [OF False] by (intro that(2)) simp_all
qed

lemma write_numbers_ok:
  assumes w: "bill_write cfg may s t" and k: "billing_keys s" and rows: "invoices_ok cfg s" and ok: "numbers_ok s"
  shows "numbers_ok t"
  using w
proof (cases rule: write_numbering)
  case same
  then show ?thesis using ok by (simp add: numbers_ok_def numbers_of_def next_number_def)
next
  case (added r)
  then have "numbers_of t p = numbers_of s p" for p by (auto simp: numbers_of_def)
  then show ?thesis using ok added by (simp add: numbers_ok_def next_number_def)
next
  case (changed old r)
  have u: "unique_keys bi_id (b_invoices s)" using k by (simp add: billing_keys_def)
  have old: "old \<in> set (b_invoices s)" using invoice_changed_old(1) [OF changed] by (auto dest: get_row_SomeD)
  then have state: "invoice_state_ok old" using rows by (simp add: invoices_ok_def)
  from changed state show ?thesis
  proof (cases rule: changed_number)
    case drawn
    have n: "numbers_of t p = (if bi_seller old = p then insert (pg_decimal (int (next_number s p))) (numbers_of s p) else numbers_of s p)" for p
      using numbers_changed [OF changed u, of p] drawn by simp
    show ?thesis
      unfolding numbers_ok_def n next_number_drawn [OF drawn(3)]
      using ok numerals_Suc [of "next_number s (bi_seller old)"] by (auto simp: numbers_ok_def)
  next
    case kept
    have "numbers_of t p = numbers_of s p" for p
      using numbers_changed [OF changed u, of p] kept old by (auto simp: numbers_of_def split: option.splits)
    then show ?thesis using ok kept by (simp add: numbers_ok_def next_number_def)
  qed
qed

end
