(* ===== verification/BillingCommit.thy ===== *)
theory BillingCommit
  imports BillingEvidence
begin

text \<open>
  What holds because COMMIT checks it. A deferred check is \<open>check_held\<close> when it is queued or passes already: the
  invariants of history, totals and routing are kept in this form by every statement, and are plain facts
  after COMMIT. The period of an organization's subscription moves only in a transaction that settles it.
\<close>

section \<open>Held checks\<close>

definition check_held :: "bill_db \<Rightarrow> deferred \<Rightarrow> bool" where
  "check_held s d \<longleftrightarrow> d \<in> set (b_deferred s) \<or> deferred_ok s d"

lemma committed_lookups [simp]:
  "find_invoice i (s\<lparr>b_deferred := ds\<rparr>) = find_invoice i s" "find_request i (s\<lparr>b_deferred := ds\<rparr>) = find_request i s"
  "find_routing i (s\<lparr>b_deferred := ds\<rparr>) = find_routing i s" "totals_ok (s\<lparr>b_deferred := ds\<rparr>) = totals_ok s"
  "checkout_shape (s\<lparr>b_deferred := ds\<rparr>) = checkout_shape s" "has_history (s\<lparr>b_deferred := ds\<rparr>) e j st n = has_history s e j st n"
  by (simp_all add: find_invoice_def find_request_def find_routing_def totals_ok_def checkout_shape_def checkout_line_ok_def find_product_def
    has_history_def fun_eq_iff cong: option.case_cong list.case_cong)

lemma deferred_ok_committed [simp]: "deferred_ok (s\<lparr>b_deferred := ds\<rparr>) d = deferred_ok s d"
  by (cases d) simp_all

lemma held_commit: "check_held s d \<Longrightarrow> list_all (deferred_ok s) (b_deferred s) \<Longrightarrow> check_held (s\<lparr>b_deferred := []\<rparr>) d"
  by (auto simp: check_held_def list_all_iff)

lemma write_deferred: "bill_write cfg may s t \<Longrightarrow> set (b_deferred s) \<subseteq> set (b_deferred t)"
  by (cases rule: write_cases) (auto dest!: effects simp: same_core_def)

lemma held_history:
  assumes "grows s t" and "set (b_deferred s) \<subseteq> set (b_deferred t)" and "check_held s (Need_history e i st n)"
  shows "check_held t (Need_history e i st n)"
proof -
  have "set (b_transitions s) \<subseteq> set (b_transitions t)" using assms(1) by (simp add: grows_def)
  then show ?thesis using assms(2,3) by (auto simp: check_held_def has_history_def list_ex_iff)
qed

section \<open>History\<close>

text \<open>Every revision of the row has its record, and the last one has the row's status.\<close>

definition recorded :: "bill_db \<Rightarrow> entity \<Rightarrow> string \<Rightarrow> entity_status \<Rightarrow> nat \<Rightarrow> bool" where
  "recorded s e i st n \<longleftrightarrow> check_held s (Need_history e i st n) \<and> (\<forall>m<n. \<exists>x. check_held s (Need_history e i x m))"

definition history_ok :: "bill_db \<Rightarrow> bool" where
  "history_ok s \<longleftrightarrow>
     (\<forall>r\<in>set (b_invoices s). recorded s E_invoice (bi_id r) (St_invoice (bi_status r)) (bi_revision r)) \<and>
     (\<forall>q\<in>set (b_requests s). recorded s E_request (rq_id q) (St_request (rq_status q)) (rq_revision q)) \<and>
     (\<forall>b\<in>set (b_subscriptions s). recorded s E_subscription (sb_id b) (St_subscription (sb_status b)) (sb_revision b))"

lemma recorded_grows: "grows s t \<Longrightarrow> set (b_deferred s) \<subseteq> set (b_deferred t) \<Longrightarrow> recorded s e i st n \<Longrightarrow> recorded t e i st n"
  unfolding recorded_def using held_history by blast

lemma recorded_first: "Need_history e i st 0 \<in> set (b_deferred t) \<Longrightarrow> recorded t e i st 0"
  by (simp add: recorded_def check_held_def)

lemma recorded_next:
  assumes "recorded t e i st n" and "Need_history e i st' (n + 1) \<in> set (b_deferred t)"
  shows "recorded t e i st' (n + 1)"
  unfolding recorded_def
proof (intro conjI allI impI)
  show "check_held t (Need_history e i st' (n + 1))" using assms(2) by (simp add: check_held_def)
  fix m
  assume "m < n + 1"
  then consider "m = n" | "m < n" by linarith
  then show "\<exists>x. check_held t (Need_history e i x m)" using assms(1) by cases (auto simp: recorded_def)
qed

lemma write_invoice_history:
  assumes w: "bill_write cfg may s t" and k: "billing_keys s"
    and ok: "\<forall>r\<in>set (b_invoices s). recorded s E_invoice (bi_id r) (St_invoice (bi_status r)) (bi_revision r)"
  shows "\<forall>r\<in>set (b_invoices t). recorded t E_invoice (bi_id r) (St_invoice (bi_status r)) (bi_revision r)"
proof -
  have old: "recorded t E_invoice (bi_id r) (St_invoice (bi_status r)) (bi_revision r)" if "r \<in> set (b_invoices s)" for r
    using ok that recorded_grows [OF write_grows [OF w k] write_deferred [OF w]] by blast
  show ?thesis
    using w
  proof (cases rule: write_cases)
    case (invoice r)
    have "recorded t E_invoice (bi_id r) (St_invoice I_draft) 0" using invoice(5) by (intro recorded_first) simp
    then show ?thesis using old invoice(1,5) by (auto simp: draft_shape_def)
  next
    case (invoice_set ro r)
    note o = invoice_changed_old [OF invoice_set]
    have ro: "ro \<in> set (b_invoices s)" using o(1) by (auto dest: get_row_SomeD)
    have rev: "bi_revision r = bi_revision ro + (if bi_status r \<noteq> bi_status ro then 1 else 0)"
      using invoice_set by (simp add: invoice_changed_def Let_def)
    have d: "invoice_deferred ro r = b \<Longrightarrow> set b \<subseteq> set (b_deferred t)" for b
      using invoice_changed_effect [OF invoice_set] by auto
    have "recorded t E_invoice (bi_id r) (St_invoice (bi_status r)) (bi_revision r)"
    proof (cases "bi_status r = bi_status ro")
      case True
      then show ?thesis using old [OF ro] rev o(3) by simp
    next
      case False
      then have "Need_history E_invoice (bi_id r) (St_invoice (bi_status r)) (bi_revision r) \<in> set (b_deferred t)"
        using d [OF refl] by (auto simp: invoice_deferred_def)
      then show ?thesis using recorded_next [OF old [OF ro]] rev o(3) False by simp
    qed
    then show ?thesis using old by (auto simp: o(5) set_set_row split: if_splits)
  qed (use old in \<open>auto dest!: effects simp: same_core_def\<close>)
qed

lemma write_request_history:
  assumes w: "bill_write cfg may s t" and k: "billing_keys s"
    and ok: "\<forall>q\<in>set (b_requests s). recorded s E_request (rq_id q) (St_request (rq_status q)) (rq_revision q)"
  shows "\<forall>q\<in>set (b_requests t). recorded t E_request (rq_id q) (St_request (rq_status q)) (rq_revision q)"
proof -
  have old: "recorded t E_request (rq_id q) (St_request (rq_status q)) (rq_revision q)" if "q \<in> set (b_requests s)" for q
    using ok that recorded_grows [OF write_grows [OF w k] write_deferred [OF w]] by blast
  show ?thesis
    using write_requests [OF w]
  proof (elim disjE exE conjE)
    fix q0 q
    assume i: "insert_request q0 s = Inr (q, t)"
    from i have t: "created_shape q" "t = s\<lparr>b_requests := b_requests s @ [q], b_deferred := b_deferred s @ [Need_history E_request (rq_id q) (St_request R_created) 0]\<rparr>"
      by (auto elim: insert_request_cases)
    then have "recorded t E_request (rq_id q) (St_request R_created) 0" by (intro recorded_first) simp
    then show ?thesis using old t by (auto simp: created_shape_def)
  next
    fix qo q
    assume c: "request_changed s qo q t"
    note o = request_changed_old [OF c]
    have qo: "qo \<in> set (b_requests s)" using o(1) by (auto dest: get_row_SomeD)
    have rev: "rq_revision q = rq_revision qo + (if rq_status q \<noteq> rq_status qo then 1 else 0)"
      using c by (simp add: request_changed_def)
    have "recorded t E_request (rq_id q) (St_request (rq_status q)) (rq_revision q)"
    proof (cases "rq_status q = rq_status qo")
      case True
      then show ?thesis using old [OF qo] rev o(3) by simp
    next
      case False
      then have "Need_history E_request (rq_id q) (St_request (rq_status q)) (rq_revision q) \<in> set (b_deferred t)"
        using c o(3) by (auto simp: request_changed_def)
      then show ?thesis using recorded_next [OF old [OF qo]] rev o(3) False by simp
    qed
    then show "\<forall>q\<in>set (b_requests t). recorded t E_request (rq_id q) (St_request (rq_status q)) (rq_revision q)"
      using old by (auto simp: o(4) set_set_row split: if_splits)
    then show "\<forall>q\<in>set (b_requests t). recorded t E_request (rq_id q) (St_request (rq_status q)) (rq_revision q)" .
  qed (use old in simp)
qed

lemma write_subscription_history:
  assumes w: "bill_write cfg may s t" and k: "billing_keys s"
    and ok: "\<forall>b\<in>set (b_subscriptions s). recorded s E_subscription (sb_id b) (St_subscription (sb_status b)) (sb_revision b)"
  shows "\<forall>b\<in>set (b_subscriptions t). recorded t E_subscription (sb_id b) (St_subscription (sb_status b)) (sb_revision b)"
proof -
  have old: "recorded t E_subscription (sb_id b) (St_subscription (sb_status b)) (sb_revision b)" if "b \<in> set (b_subscriptions s)" for b
    using ok that recorded_grows [OF write_grows [OF w k] write_deferred [OF w]] by blast
  show ?thesis
    using write_subscriptions [OF w]
  proof (elim disjE exE)
    fix b0 b
    assume i: "insert_subscription b0 s = Inr (Some b, t)"
    from i have "pending_shape b" by (auto elim: insert_subscription_cases)
    moreover have "recorded t E_subscription (sb_id b) (St_subscription S_pending) 0"
      by (rule recorded_first) (simp add: insert_subscription_effect [OF i])
    ultimately show ?thesis using old by (auto simp: insert_subscription_effect [OF i] pending_shape_def)
  next
    fix bo b
    assume c: "subscription_changed s bo b t"
    note o = subscription_changed_old [OF c]
    have bo: "bo \<in> set (b_subscriptions s)" using o(1) by (auto dest: get_row_SomeD)
    have "Need_history E_subscription (sb_id bo) (St_subscription (sb_status b)) (sb_revision bo + 1) \<in> set (b_deferred t)"
      using c by (auto simp: subscription_changed_def)
    then have "recorded t E_subscription (sb_id b) (St_subscription (sb_status b)) (sb_revision b)"
      using recorded_next [OF old [OF bo]] c o(3) by (simp add: subscription_changed_def)
    then show ?thesis using old by (auto simp: o(5) set_set_row split: if_splits)
  qed (use old in simp)
qed

lemma write_history_ok: "bill_write cfg may s t \<Longrightarrow> billing_keys s \<Longrightarrow> history_ok s \<Longrightarrow> history_ok t"
  unfolding history_ok_def by (blast dest: write_invoice_history write_request_history write_subscription_history)

section \<open>Totals and routing\<close>

text \<open>Every invoice adds up to its lines; every issued one has its routing record.\<close>

definition sums_ok :: "bill_db \<Rightarrow> bool" where
  "sums_ok s \<longleftrightarrow> (\<forall>r\<in>set (b_invoices s). Need_totals (bi_id r) \<in> set (b_deferred s) \<or> totals_ok s r)"

definition issued_routed :: "bill_db \<Rightarrow> bool" where
  "issued_routed s \<longleftrightarrow> (\<forall>r\<in>set (b_invoices s). bi_status r = I_open \<or> bi_status r = I_paid \<longrightarrow> check_held s (Need_routing (bi_id r)))"

lemma totals_lines: "b_lines t = b_lines s \<Longrightarrow> totals_ok t = totals_ok s"
  by (simp add: totals_ok_def fun_eq_iff)

lemma totals_facts: "invoice_same_facts r r' \<Longrightarrow> totals_ok s r' = totals_ok s r"
  using same_facts_fields [of r r'] by (simp add: totals_ok_def)

lemma totals_other_line: "i \<noteq> bi_id r \<Longrightarrow> b_lines t = b_lines s @ [l] \<Longrightarrow> ln_invoiceId l = i \<Longrightarrow> totals_ok t r = totals_ok s r"
  by (simp add: totals_ok_def)

lemma write_invoices_or_lines: "bill_write cfg may s t \<Longrightarrow> b_lines t = b_lines s \<or> b_invoices t = b_invoices s"
  by (cases rule: write_cases) (auto dest!: effects simp: same_core_def)

lemma write_new_invoice:
  "bill_write cfg may s t \<Longrightarrow> r \<in> set (b_invoices t) \<Longrightarrow> bi_id r \<notin> bi_id ` set (b_invoices s) \<Longrightarrow> Need_totals (bi_id r) \<in> set (b_deferred t)"
proof (induction rule: write_cases)
  case (invoice_set ro n)
  note o = invoice_changed_old [OF invoice_set(1)]
  have "ro \<in> set (b_invoices s)" using o(1) by (auto dest: get_row_SomeD)
  then show ?case using invoice_set(2,3) o(3) by (auto simp: o(5) set_set_row split: if_splits)
qed (auto dest!: effects simp: same_core_def)

lemma write_sums_ok:
  assumes w: "bill_write cfg may s t" and k: "billing_keys s" and ok: "sums_ok s"
  shows "sums_ok t"
proof (cases "b_lines t = b_lines s")
  case True
  note same = totals_lines [OF True]
  have old: "Need_totals (bi_id x) \<in> set (b_deferred t) \<or> totals_ok t x" if "x \<in> set (b_invoices s)" for x
    using ok that write_deferred [OF w] unfolding sums_ok_def same by blast
  show ?thesis
    using w
  proof (cases rule: write_invoices)
    case same
    then show ?thesis using old by (simp add: sums_ok_def)
  next
    case (added r)
    have "r \<in> set (b_invoices t)" by (simp add: added(5))
    then have "Need_totals (bi_id r) \<in> set (b_deferred t)" using write_new_invoice [OF w] added(4) by blast
    then show ?thesis using old by (auto simp: sums_ok_def added(5))
  next
    case (changed ro r)
    note o = invoice_changed_old [OF changed]
    have ro: "ro \<in> set (b_invoices s)" using o(1) by (auto dest: get_row_SomeD)
    have "Need_totals (bi_id r) \<in> set (b_deferred t) \<or> totals_ok t r"
      using old [OF ro] o(3) totals_facts [OF o(2)] by simp
    then show ?thesis using old by (auto simp: sums_ok_def o(5) set_set_row split: if_splits)
  qed
next
  case False
  then have e: "b_invoices t = b_invoices s" using write_invoices_or_lines [OF w] by blast
  obtain l x where "insert_line l s = Inr (x, t)" using False write_lines [OF w] by blast
  note t = insert_line_effect [OF this]
  have lines: "b_lines t = b_lines s @ [l]" "Need_totals (ln_invoiceId l) \<in> set (b_deferred t)" by (simp_all add: t)
  show ?thesis
    unfolding sums_ok_def e
  proof
    fix r
    assume r: "r \<in> set (b_invoices s)"
    show "Need_totals (bi_id r) \<in> set (b_deferred t) \<or> totals_ok t r"
    proof (cases "ln_invoiceId l = bi_id r")
      case True
      then show ?thesis using lines(2) by simp
    next
      case False
      show ?thesis using ok r write_deferred [OF w] unfolding sums_ok_def totals_other_line [OF False lines(1) refl] by blast
    qed
  qed
qed

lemma routed_iff: "find_routing i s \<noteq> None \<longleftrightarrow> i \<in> en_invoiceId ` set (b_routings s)"
  unfolding find_routing_def get_row_None_iff by blast

lemma held_routing:
  assumes "grows s t" and "set (b_deferred s) \<subseteq> set (b_deferred t)" and "check_held s (Need_routing i)"
  shows "check_held t (Need_routing i)"
proof -
  have "set (b_routings s) \<subseteq> set (b_routings t)" using assms(1) by (simp add: grows_def)
  then show ?thesis using assms(2,3) unfolding check_held_def deferred_ok.simps routed_iff by blast
qed

lemma write_issued_routed:
  assumes w: "bill_write cfg may s t" and k: "billing_keys s" and ok: "issued_routed s"
  shows "issued_routed t"
proof -
  have old: "check_held t (Need_routing (bi_id r))" if "r \<in> set (b_invoices s)" "bi_status r = I_open \<or> bi_status r = I_paid" for r
    using ok that held_routing [OF write_grows [OF w k] write_deferred [OF w]] by (auto simp: issued_routed_def)
  show ?thesis
    using w
  proof (cases rule: write_invoices)
    case same
    then show ?thesis using old by (auto simp: issued_routed_def)
  next
    case (added r)
    then show ?thesis using old by (auto simp: issued_routed_def draft_shape_def)
  next
    case (changed ro r)
    note o = invoice_changed_old [OF changed]
    have ro: "ro \<in> set (b_invoices s)" using o(1) by (auto dest: get_row_SomeD)
    have moves: "invoice_trigger_moves (bi_status ro) (bi_status r)" using changed by (simp add: invoice_changed_def Let_def)
    have "check_held t (Need_routing (bi_id r))" if r: "bi_status r = I_open \<or> bi_status r = I_paid"
    proof (cases "bi_status ro = I_draft")
      case True
      then have "bi_status r = I_open" using moves r by (auto simp: invoice_trigger_moves_def)
      then have "Need_routing (bi_id r) \<in> set (b_deferred t)"
        using True invoice_changed_effect [OF changed] by (auto simp: invoice_deferred_def)
      then show ?thesis by (simp add: check_held_def)
    next
      case False
      then have "bi_status ro = I_open \<or> bi_status ro = I_paid" using moves r by (cases "bi_status ro"; auto simp: invoice_trigger_moves_def)
      then show ?thesis using old [OF ro] o(3) by simp
    qed
    then show ?thesis using old by (auto simp: issued_routed_def o(5) set_set_row split: if_splits)
  qed
qed

section \<open>Periods\<close>

text \<open>What a transaction may not do alone: a row of \<open>s\<close> has its period moved, or a row that was not there has one.\<close>

definition period_moved :: "bill_db \<Rightarrow> subscription_row \<Rightarrow> bool" where
  "period_moved s b \<longleftrightarrow>
     (case get_row sb_id (sb_id b) (b_subscriptions s) of
        Some old \<Rightarrow> period_moves old b
      | None \<Rightarrow> sb_currentPeriodStart b \<noteq> None \<or> sb_currentPeriodEnd b \<noteq> None)"

definition moves_held :: "bill_db \<Rightarrow> bill_db \<Rightarrow> bool" where
  "moves_held s t \<longleftrightarrow> (\<forall>b\<in>set (b_subscriptions t). period_moved s b \<longrightarrow> Need_settlement (sb_id b) \<in> set (b_deferred t))"

lemma period_moves_refl [simp]: "\<not> period_moves b b"
  by (simp add: period_moves_def split: option.splits)

lemma period_moves_split: "period_moves a c \<Longrightarrow> period_moves a b \<or> period_moves b c"
  by (auto simp: period_moves_def split: option.splits)

lemma period_moved_step:
  assumes "period_moved s b" and "sb_id b = sb_id old"
  shows "period_moved s old \<or> period_moves old b"
proof (cases "get_row sb_id (sb_id b) (b_subscriptions s)")
  case None
  then show ?thesis using assms by (auto simp: period_moved_def period_moves_def split: option.splits)
next
  case (Some x)
  then show ?thesis using assms period_moves_split [of x b old] by (simp add: period_moved_def)
qed

lemma moves_held_start: "unique_keys sb_id (b_subscriptions s) \<Longrightarrow> b_subscriptions t = b_subscriptions s \<Longrightarrow> moves_held s t"
  by (auto simp: moves_held_def period_moved_def get_row_unique)

lemma write_moves_held:
  assumes w: "bill_write cfg may t u" and waits: "moves_held s t"
    and old_ids: "sb_id ` set (b_subscriptions s) \<subseteq> sb_id ` set (b_subscriptions t)"
  shows "moves_held s u"
proof -
  have old: "period_moved s b \<Longrightarrow> Need_settlement (sb_id b) \<in> set (b_deferred u)" if "b \<in> set (b_subscriptions t)" for b
    using waits that write_deferred [OF w] unfolding moves_held_def by blast
  show ?thesis
    using write_subscriptions [OF w]
  proof (elim disjE exE)
    fix b0 b
    assume i: "insert_subscription b0 t = Inr (Some b, u)"
    from i have b: "pending_shape b" "sb_id b \<notin> sb_id ` set (b_subscriptions t)" by (auto elim: insert_subscription_cases)
    then have "sb_id b \<notin> sb_id ` set (b_subscriptions s)" using old_ids by blast
    then have "get_row sb_id (sb_id b) (b_subscriptions s) = None" by (simp add: get_row_None_iff)
    then have "\<not> period_moved s b" using b(1) by (simp add: period_moved_def pending_shape_def)
    then show ?thesis using old by (auto simp: moves_held_def insert_subscription_effect [OF i])
  next
    fix bo b
    assume c: "subscription_changed t bo b u"
    note o = subscription_changed_old [OF c]
    have bo: "bo \<in> set (b_subscriptions t)" using o(1) by (auto dest: get_row_SomeD)
    have "Need_settlement (sb_id b) \<in> set (b_deferred u)" if m: "period_moved s b"
      using period_moved_step [OF m o(3)]
    proof
      assume "period_moved s bo"
      then show ?thesis using old [OF bo] o(3) by simp
    next
      assume "period_moves bo b"
      then show ?thesis using c o(3) by (auto simp: subscription_changed_def)
    qed
    then show ?thesis using old by (auto simp: moves_held_def o(5) set_set_row split: if_splits)
  qed (use old in \<open>simp add: moves_held_def\<close>)
qed

end
