(* ===== verification/BillingSafety.thy ===== *)
theory BillingSafety
  imports BillingCommit
begin

text \<open>
  The invariants together, as the invariant of the transition system; then what only a whole application of a
  Payment event can do: a request becomes \<open>paid\<close> with the receipt of its success, and its invoice with it.
\<close>

section \<open>The invariant of the database\<close>

definition billing_inv :: "bill_cfg \<Rightarrow> bill_db \<Rightarrow> bool" where
  "billing_inv cfg s \<longleftrightarrow> billing_keys s \<and> invoices_ok cfg s \<and> requests_ok s \<and> paid_ok s \<and> lines_ok s \<and> routings_ok s \<and> receipts_ok s \<and>
     subscriptions_ok s \<and> settlements_ok s \<and> numbers_ok s \<and> history_ok s \<and> sums_ok s \<and> issued_routed s"

lemma billing_inv_statement: "billing_inv cfg s \<Longrightarrow> bill_write cfg may s t \<Longrightarrow> billing_inv cfg t"
  unfolding billing_inv_def
  by (intro conjI; elim conjE; erule (1) write_keys write_invoices_ok write_requests_ok write_paid_ok write_lines_ok write_routings_ok
    write_receipts_ok write_subscriptions_ok write_settlements_ok write_numbers_ok write_history_ok write_sums_ok write_issued_routed; assumption?)

text \<open>Neither the id of the transaction nor the queue of checks is read by the facts about the rows.\<close>

lemma untouched_keys [simp]: "billing_keys (s\<lparr>b_deferred := ds\<rparr>) = billing_keys s" "billing_keys (s\<lparr>b_xid := n\<rparr>) = billing_keys s"
  by (simp_all add: billing_keys_def)

lemma untouched_invoices [simp]: "invoices_ok cfg (s\<lparr>b_deferred := ds\<rparr>) = invoices_ok cfg s" "invoices_ok cfg (s\<lparr>b_xid := n\<rparr>) = invoices_ok cfg s"
  by (simp_all add: invoices_ok_def invoice_facts_ok_def number_taken_def)

lemma untouched_requests [simp]: "requests_ok (s\<lparr>b_deferred := ds\<rparr>) = requests_ok s" "requests_ok (s\<lparr>b_xid := n\<rparr>) = requests_ok s"
  by (simp_all add: requests_ok_def request_unique_def payable_for_def)

lemma untouched_paid [simp]: "paid_ok (s\<lparr>b_deferred := ds\<rparr>) = paid_ok s" "paid_ok (s\<lparr>b_xid := n\<rparr>) = paid_ok s"
  by (simp_all add: paid_ok_def paid_in_full_def)

lemma untouched_lines [simp]: "lines_ok (s\<lparr>b_deferred := ds\<rparr>) = lines_ok s" "lines_ok (s\<lparr>b_xid := n\<rparr>) = lines_ok s"
  by (simp_all add: lines_ok_def)

lemma untouched_routings [simp]: "routings_ok (s\<lparr>b_deferred := ds\<rparr>) = routings_ok s" "routings_ok (s\<lparr>b_xid := n\<rparr>) = routings_ok s"
  by (simp_all add: routings_ok_def)

lemma untouched_receipts [simp]: "receipts_ok (s\<lparr>b_deferred := ds\<rparr>) = receipts_ok s" "receipts_ok (s\<lparr>b_xid := n\<rparr>) = receipts_ok s"
  by (simp_all add: receipts_ok_def)

lemma untouched_subscriptions [simp]: "subscriptions_ok (s\<lparr>b_deferred := ds\<rparr>) = subscriptions_ok s" "subscriptions_ok (s\<lparr>b_xid := n\<rparr>) = subscriptions_ok s"
  by (simp_all add: subscriptions_ok_def)

lemma untouched_settled [simp]: "settled_for (s\<lparr>b_deferred := ds\<rparr>) x = settled_for s x" "settled_for (s\<lparr>b_xid := n\<rparr>) x = settled_for s x"
  by (simp_all add: settled_for_def verified_settlement_def find_request_def find_invoice_def cong: option.case_cong)

lemma untouched_settlements [simp]: "settlements_ok (s\<lparr>b_deferred := ds\<rparr>) = settlements_ok s"
  by (simp add: settlements_ok_def)

lemma later_settlements: "settlements_ok s \<Longrightarrow> b_xid s \<le> n \<Longrightarrow> settlements_ok (s\<lparr>b_xid := n\<rparr>)"
  by (auto simp: settlements_ok_def)

lemma untouched_numbers [simp]: "numbers_ok (s\<lparr>b_deferred := ds\<rparr>) = numbers_ok s" "numbers_ok (s\<lparr>b_xid := n\<rparr>) = numbers_ok s"
  by (simp_all add: numbers_ok_def numbers_of_def next_number_def)

lemma recorded_commit: "recorded s e i st n \<Longrightarrow> list_all (deferred_ok s) (b_deferred s) \<Longrightarrow> recorded (s\<lparr>b_deferred := []\<rparr>) e i st n"
  unfolding recorded_def using held_commit by blast

lemma history_commit: "history_ok s \<Longrightarrow> list_all (deferred_ok s) (b_deferred s) \<Longrightarrow> history_ok (s\<lparr>b_deferred := []\<rparr>)"
  unfolding history_ok_def by (auto intro: recorded_commit)

lemma held_xid: "check_held (s\<lparr>b_xid := n\<rparr>) (Need_history e i st m) = check_held s (Need_history e i st m)"
  "check_held (s\<lparr>b_xid := n\<rparr>) (Need_routing i) = check_held s (Need_routing i)"
  by (simp_all add: check_held_def has_history_def find_routing_def)

lemma later_history: "history_ok (s\<lparr>b_xid := n\<rparr>) = history_ok s" "issued_routed (s\<lparr>b_xid := n\<rparr>) = issued_routed s" "sums_ok (s\<lparr>b_xid := n\<rparr>) = sums_ok s"
  by (simp_all add: history_ok_def recorded_def issued_routed_def held_xid sums_ok_def totals_ok_def)

lemma routed_commit: "issued_routed s \<Longrightarrow> list_all (deferred_ok s) (b_deferred s) \<Longrightarrow> issued_routed (s\<lparr>b_deferred := []\<rparr>)"
  unfolding issued_routed_def by (auto intro: held_commit)

lemma sums_commit:
  assumes "sums_ok s" and "billing_keys s" and "list_all (deferred_ok s) (b_deferred s)"
  shows "sums_ok (s\<lparr>b_deferred := []\<rparr>)"
  unfolding sums_ok_def
proof
  fix r
  assume "r \<in> set (b_invoices (s\<lparr>b_deferred := []\<rparr>))"
  then have r: "r \<in> set (b_invoices s)" by simp
  then have f: "find_invoice (bi_id r) s = Some r" using assms(2) by (simp add: find_invoice_def billing_keys_def get_row_unique)
  have "Need_totals (bi_id r) \<in> set (b_deferred s) \<Longrightarrow> totals_ok s r" using assms(3) f by (auto simp: list_all_iff)
  then show "Need_totals (bi_id r) \<in> set (b_deferred (s\<lparr>b_deferred := []\<rparr>)) \<or> totals_ok (s\<lparr>b_deferred := []\<rparr>) r"
    using assms(1) r by (auto simp: sums_ok_def)
qed

lemma billing_inv_commit: "billing_inv cfg s \<Longrightarrow> list_all (deferred_ok s) (b_deferred s) \<Longrightarrow> billing_inv cfg (s\<lparr>b_deferred := []\<rparr>)"
  unfolding billing_inv_def by (simp add: history_commit routed_commit sums_commit)

lemma billing_inv_xid: "billing_inv cfg s \<Longrightarrow> b_xid s \<le> n \<Longrightarrow> billing_inv cfg (s\<lparr>b_xid := n\<rparr>)"
  unfolding billing_inv_def by (simp add: later_settlements later_history)

lemma billing_inv_begin: "billing_inv cfg s \<Longrightarrow> b_deferred s = [] \<Longrightarrow> billing_inv cfg (begin_tx s)"
proof -
  assume "billing_inv cfg s" and d: "b_deferred s = []"
  then have "billing_inv cfg (s\<lparr>b_xid := b_xid s + 1\<rparr>)" by (simp add: billing_inv_xid)
  moreover have "begin_tx s = s\<lparr>b_xid := b_xid s + 1\<rparr>" using d by (cases s) (simp add: begin_tx_def)
  ultimately show ?thesis by simp
qed

lemma billing_inv_empty: "billing_inv cfg (empty_db cs)"
  by (simp add: billing_inv_def empty_db_def billing_keys_def invoices_ok_def requests_ok_def paid_ok_def lines_ok_def routings_ok_def receipts_ok_def
    subscriptions_ok_def settlements_ok_def numbers_ok_def next_number_def numbers_of_def numerals_below_def history_ok_def sums_ok_def issued_routed_def)

interpretation rows: core_invariant cfg "billing_inv cfg" for cfg
  by unfold_locales (blast intro: billing_inv_statement billing_inv_begin billing_inv_commit billing_inv_xid billing_inv_empty)+

end
