(* ===== verification/BillingPaid.thy ===== *)
theory BillingPaid
  imports BillingSafety
begin

text \<open>
  What only the application of a Payment event does: a request becomes \<open>paid\<close> with the receipt of its success
  before it and its invoice with it. In every reachable database a paid request is proved by that receipt and
  its invoice is paid.
\<close>

section \<open>The application of an event\<close>

abbreviation quiet_write :: "bill_cfg \<Rightarrow> bill_db \<Rightarrow> bill_db \<Rightarrow> bool" where
  "quiet_write cfg \<equiv> bill_write cfg (\<lambda>x. x \<noteq> R_paid)"

interpretation quiet: billing_writes "reaches (quiet_write cfg)" cfg "\<lambda>x. x \<noteq> R_paid" for cfg
  by unfold_locales (auto intro: reaches.here reaches_trans reaches_one bill_write.intros)

text \<open>The run that pays: the receipt, the request, its history, the invoice, and statements that make no request \<open>paid\<close>.\<close>

definition paying_run :: "bill_cfg \<Rightarrow> bill_db \<Rightarrow> bill_request \<Rightarrow> invoice_row \<Rightarrow> string \<Rightarrow> bill_db \<Rightarrow> bool" where
  "paying_run cfg s q r c t \<longleftrightarrow>
     (\<exists>q' u1 u2 r' u3 f. update_request (rq_id q) (\<lambda>x. x\<lparr>rq_status := R_paid\<rparr>) s = Inr (Some q', u1) \<and> reaches (quiet_write cfg) u1 u2 \<and>
        update_invoice cfg (bi_id r) f u2 = Inr (Some r', u3) \<and> bi_status r' = I_paid \<and> reaches (quiet_write cfg) u3 t)"

lemma update_invoice_status: "update_invoice cfg i f s = Inr (Some r, t) \<Longrightarrow> \<exists>old. bi_status r = bi_status (f old)"
  by (erule update_invoice_cases) auto

lemma settle_invoice_run:
  assumes "settle_invoice cfg r q c at ctx s = Inr (x, t)"
  obtains f r' u where "update_invoice cfg (bi_id r) f s = Inr (Some r', u)" "bi_status r' = I_paid" "reaches (quiet_write cfg) u t"
proof -
  from assms obtain n y u where u: "update_invoice cfg (bi_id r) (\<lambda>b. b\<lparr>bi_status := I_paid, bi_paidAt := Some n\<rparr>) s = Inr (y, u)"
    and rest: "tx_bind (b_the y) (\<lambda>u.
      tx_bind (recordTransition E_invoice (bi_id r) (Some (St_invoice I_open)) (St_invoice I_paid) (bi_revision u) ctx) (\<lambda>_.
      tx_bind (record_audit cfg ''invoice.paid'' (bi_organizationId r) (''invoice'', bi_id r) [] [] ctx) (\<lambda>_.
        linkSubscription cfg r q c at ctx))) u = Inr (x, t)"
    unfolding settle_invoice_def by (auto simp: tx_bind_Inr_iff b_read_def)
  obtain r' where y: "y = Some r'" using rest by (cases y) (auto simp: b_the_def tx_bind_def tx_throw_def)
  have "quiet.keeps cfg u (tx_bind (b_the y) (\<lambda>u.
      tx_bind (recordTransition E_invoice (bi_id r) (Some (St_invoice I_open)) (St_invoice I_paid) (bi_revision u) ctx) (\<lambda>_.
      tx_bind (record_audit cfg ''invoice.paid'' (bi_organizationId r) (''invoice'', bi_id r) [] [] ctx) (\<lambda>_.
        linkSubscription cfg r q c at ctx))) u)"
    by (intro quiet.steps quiet.all_writes quiet.k_linkSubscription)
  then have "reaches (quiet_write cfg) u t" using rest by (rule quiet.keeps_run)
  moreover have "bi_status r' = I_paid" using update_invoice_status [OF u [unfolded y]] by auto
  ultimately show ?thesis using that u y by blast
qed

lemma apply_decision_run:
  assumes "apply_decision cfg q r R_paid (Some I_paid) c at ctx s = Inr (x, t)"
  shows "paying_run cfg s q r c t"
proof -
  from assms obtain q1 u2 where mid: "transitionRequest q (\<lambda>x. x\<lparr>rq_status := R_paid\<rparr>) ctx s = Inr (q1, u2)"
    and rest: "settle_invoice cfg r (rq_id q) c at ctx u2 = Inr (x, t)"
    unfolding apply_decision_def by (auto simp: tx_bind_Inr_iff tx_return_def)
  from mid obtain y u1 where u: "update_request (rq_id q) (\<lambda>x. x\<lparr>rq_status := R_paid\<rparr>) s = Inr (y, u1)"
    and rec: "tx_bind (b_the y) (\<lambda>u. tx_bind (record_request u (Some (rq_status q)) ctx) (\<lambda>_. tx_return u)) u1 = Inr (q1, u2)"
    unfolding transitionRequest_def tx_bind_Inr_iff [of "update_request (rq_id q) (\<lambda>x. x\<lparr>rq_status := R_paid\<rparr>)"] by blast
  obtain q' where y: "y = Some q'" using rec by (cases y) (auto simp: b_the_def tx_bind_def tx_throw_def)
  have "quiet.keeps cfg u1 (tx_bind (b_the y) (\<lambda>u. tx_bind (record_request u (Some (rq_status q)) ctx) (\<lambda>_. tx_return u)) u1)"
    by (intro quiet.steps quiet.all_writes quiet.helpers)
  then have "reaches (quiet_write cfg) u1 u2" using rec by (rule quiet.keeps_run)
  moreover obtain f r' u3 where "update_invoice cfg (bi_id r) f u2 = Inr (Some r', u3)" "bi_status r' = I_paid" "reaches (quiet_write cfg) u3 t"
    by (rule settle_invoice_run [OF rest])
  ultimately show ?thesis unfolding paying_run_def using u y by blast
qed

definition success_receipt :: "receipt_row \<Rightarrow> string \<Rightarrow> bool" where
  "success_receipt x i \<longleftrightarrow> rc_outcome x = O_applied \<and> rc_eventName x = Ev_succeeded \<and> rc_paymentRequestId x = i"

text \<open>Every application is a run of statements that make nothing paid, or the receipt of a success and the run that pays.\<close>

lemma decide_paid: "decidePaymentEvent e rf i live = Applied R_paid to \<Longrightarrow> to = Some I_paid \<and> ev_name e = Ev_succeeded"
  unfolding decidePaymentEvent_def Let_def by (cases "ev_name e") (auto split: option.splits if_splits)

lemma quiet_decided:
  assumes "\<And>to. d \<noteq> Applied R_paid to" and "\<And>y s. quiet.keeps cfg s (g y s)" and "\<And>s. quiet.keeps cfg s (h s)"
  shows "quiet.keeps cfg s ((case (d, q, f) of (Applied to ito, Some x, Some r) \<Rightarrow> tx_bind (apply_decision cfg x r to ito c t ctx) g | _ \<Rightarrow> h) s)"
  using assms by (cases d; cases q; cases f) (auto intro!: quiet.keeps_bind quiet.k_apply_decision)

definition event_receipt :: "string \<Rightarrow> string \<Rightarrow> event_facts \<Rightarrow> bill_request option \<Rightarrow> event_decision \<Rightarrow> receipt_row" where
  "event_receipt n ev e request d =
     \<lparr>rc_id = n, rc_eventId = ev, rc_eventName = ev_name e, rc_paymentRequestId = ev_paymentRequestId e,
      rc_paymentId = (case request of Some q \<Rightarrow> rq_paymentId q | None \<Rightarrow> None), rc_outcome = decision_outcome d,
      rc_detailCode = decision_detail d, rc_paymentRevision = ev_revision e\<rparr>"

definition after_receipt :: "bill_cfg \<Rightarrow> bill_request option \<Rightarrow> invoice_row option \<Rightarrow> event_decision \<Rightarrow> instant \<Rightarrow> transition_ctx \<Rightarrow> string option \<Rightarrow> event_application btx" where
  "after_receipt cfg request found d at ctx receipt =
     (case receipt of
        None \<Rightarrow> tx_return (application d False None)
      | Some c \<Rightarrow>
          (case (d, request, found) of
             (Applied to ito, Some q, Some r) \<Rightarrow> tx_bind (apply_decision cfg q r to ito c at ctx) (\<lambda>sub. tx_return (application d True sub))
           | _ \<Rightarrow> tx_return (application d True None)))"

lemma decide_and_apply_run:
  assumes "decide_and_apply cfg ev e ctx at request found s = Inr (x, t)"
  obtains rf fi d c u where "d = decidePaymentEvent e rf fi (bc_isProduction cfg)"
    "lift_option request_facts_of request = Inr rf"
    "lift_option (\<lambda>r. invoice_facts_of r (case found of Some r \<Rightarrow> find_routing (bi_id r) s | None \<Rightarrow> None)) found = Inr fi"
    "insert_receipt (event_receipt (bc_uuid cfg (b_next s)) ev e request d) (s\<lparr>b_next := b_next s + 1\<rparr>) = Inr (c, u)"
    "after_receipt cfg request found d at ctx c u = Inr (x, t)"
  using assms unfolding decide_and_apply_def Let_def after_receipt_def event_receipt_def
  by (auto simp: tx_bind_Inr_iff b_read_def b_fresh_def tx_lift_def split: sum.splits)

lemma applied_event_cases:
  assumes "applyPaymentEventIn cfg ev e ctx at s = Inr (x, t)"
  obtains (quiet) "reaches (quiet_write cfg) s t"
    | (paid) q r rc c u1 u2 where "find_request (ev_paymentRequestId e) s = Some q" "find_invoice (rq_invoiceId q) s = Some r"
      "same_core s u1" "insert_receipt rc u1 = Inr (Some c, u2)" "success_receipt rc (rq_id q)" "paying_run cfg u2 q r c t"
proof -
  define request where "request = find_request (ev_paymentRequestId e) s"
  define found where "found = (case request of Some q \<Rightarrow> find_invoice (rq_invoiceId q) s | None \<Rightarrow> None)"
  show ?thesis
  proof (cases "applied_receipt ev s")
    case (Some y)
    then have "t = s" using assms by (simp add: applyPaymentEventIn_def b_read_def tx_bind_def tx_return_def)
    then show ?thesis by (intro quiet) (simp add: reaches.here)
  next
    case None
    then have run: "decide_and_apply cfg ev e ctx at request found s = Inr (x, t)"
      using assms by (simp add: applyPaymentEventIn_def b_read_def tx_bind_def request_def found_def)
    from run obtain rf fi d c u where d: "d = decidePaymentEvent e rf fi (bc_isProduction cfg)"
      and rc: "insert_receipt (event_receipt (bc_uuid cfg (b_next s)) ev e request d) (s\<lparr>b_next := b_next s + 1\<rparr>) = Inr (c, u)"
      and rest: "after_receipt cfg request found d at ctx c u = Inr (x, t)"
      by (rule decide_and_apply_run)
    have core: "same_core s (s\<lparr>b_next := b_next s + 1\<rparr>)" by (simp add: same_core_def)
    show ?thesis
    proof (cases "\<exists>to q r c'. d = Applied R_paid to \<and> request = Some q \<and> found = Some r \<and> c = Some c'")
      case True
      then obtain to q r c' where f: "d = Applied R_paid to" "request = Some q" "found = Some r" "c = Some c'" by blast
      have "to = Some I_paid" "ev_name e = Ev_succeeded" using decide_paid d f(1) by metis+
      then have "success_receipt (event_receipt (bc_uuid cfg (b_next s)) ev e request d) (rq_id q)"
        using f(1,2) request_def by (auto simp: success_receipt_def event_receipt_def find_request_def dest: get_row_SomeD)
      moreover have "find_invoice (rq_invoiceId q) s = Some r" using f(2,3) by (simp add: found_def)
      moreover obtain y where "apply_decision cfg q r R_paid (Some I_paid) c' at ctx u = Inr (y, t)"
        using rest f \<open>to = Some I_paid\<close> by (auto simp: after_receipt_def tx_bind_Inr_iff tx_return_def)
      ultimately show ?thesis using paid [OF _ _ core rc [unfolded f(4)] _ apply_decision_run] f(2) by (simp add: request_def)
    next
      case False
      have "quiet.keeps cfg u (after_receipt cfg request found d at ctx c u)"
      proof (cases "\<exists>to. d = Applied R_paid to")
        case True
        then show ?thesis using False by (cases c; cases request; cases found) (auto simp: after_receipt_def)
      next
        case False
        then have "quiet.keeps cfg u ((case (d, request, found) of
            (Applied to ito, Some q, Some r) \<Rightarrow> tx_bind (apply_decision cfg q r to ito c' at ctx) (\<lambda>sub. tx_return (application d True sub))
          | _ \<Rightarrow> tx_return (application d True None)) u)" for c'
          by (intro quiet_decided quiet.keeps_return) blast
        then show ?thesis by (cases c) (simp_all add: after_receipt_def quiet.keeps_return quiet.keeps_same)
      qed
      then have "reaches (quiet_write cfg) u t" using rest by (rule quiet.keeps_run)
      moreover have "quiet_write cfg (s\<lparr>b_next := b_next s + 1\<rparr>) u" using rc by (rule bill_write.w_receipt)
      moreover have "quiet_write cfg s (s\<lparr>b_next := b_next s + 1\<rparr>)" using core by (rule bill_write.w_core)
      ultimately show ?thesis by (intro quiet) (blast intro: reaches_trans reaches_one)
    qed
  qed
qed

section \<open>Paid requests are proved\<close>

definition proved :: "bill_db \<Rightarrow> bill_request \<Rightarrow> bool" where
  "proved s q \<longleftrightarrow> (\<exists>r\<in>set (b_invoices s). bi_id r = rq_invoiceId q \<and> bi_status r = I_paid) \<and> (\<exists>x\<in>set (b_receipts s). success_receipt x (rq_id q))"

text \<open>In the middle of the run that pays, one request may be left out.\<close>

definition paid_proved :: "string option \<Rightarrow> bill_db \<Rightarrow> bool" where
  "paid_proved i s \<longleftrightarrow> (\<forall>q\<in>set (b_requests s). rq_status q = R_paid \<and> Some (rq_id q) \<noteq> i \<longrightarrow> proved s q)"

lemma grows_proved:
  assumes "grows s t" and "proved s q" and "request_same_facts q q'"
  shows "proved t q'"
proof -
  obtain r where r: "r \<in> set (b_invoices s)" "bi_id r = rq_invoiceId q" "bi_status r = I_paid" using assms(2) by (auto simp: proved_def)
  obtain r' where r': "r' \<in> set (b_invoices t)" "invoice_grows r r'" using grows_invoice_row [OF assms(1) r(1)] by blast
  have "bi_id r' = rq_invoiceId q'" "bi_status r' = I_paid" "rq_id q' = rq_id q"
    using r'(2) r assms(3) same_facts_fields(1) [of r r'] by (auto simp: invoice_grows_def status_grows_def request_same_facts_def)
  moreover have "set (b_receipts s) \<subseteq> set (b_receipts t)" using assms(1) by (simp add: grows_def)
  ultimately show ?thesis using assms(2) r'(1) unfolding proved_def by auto
qed

lemma paid_before: "q \<in> S \<Longrightarrow> rq_status q = R_paid \<Longrightarrow> \<exists>x\<in>S. request_same_facts x q \<and> rq_status x = R_paid"
  using request_same_refl by blast

text \<open>A statement may make one request paid; it then is the one left out.\<close>

lemma write_paid_proved:
  assumes w: "bill_write cfg may s t" and k: "billing_keys s" and ok: "paid_proved i s"
    and may: "\<And>q. q \<in> set (b_requests t) \<Longrightarrow> rq_status q = R_paid \<Longrightarrow> Some (rq_id q) \<noteq> i \<Longrightarrow>
      \<exists>x\<in>set (b_requests s). request_same_facts x q \<and> rq_status x = R_paid"
  shows "paid_proved i t"
  unfolding paid_proved_def
proof (intro ballI impI)
  fix q
  assume q: "q \<in> set (b_requests t)" "rq_status q = R_paid \<and> Some (rq_id q) \<noteq> i"
  then obtain x where x: "x \<in> set (b_requests s)" "request_same_facts x q" "rq_status x = R_paid" using may by blast
  moreover have "Some (rq_id x) \<noteq> i" using q x by (simp add: request_same_facts_def)
  ultimately show "proved t q" using ok grows_proved [OF write_grows [OF w k]] by (auto simp: paid_proved_def)
qed

lemma quiet_paid:
  assumes "quiet_write cfg s t" and "q \<in> set (b_requests t)" and "rq_status q = R_paid"
  shows "\<exists>x\<in>set (b_requests s). request_same_facts x q \<and> rq_status x = R_paid"
  using write_requests [OF assms(1)]
proof (elim disjE exE conjE)
  assume "b_requests t = b_requests s"
  then show ?thesis using assms(2,3) by (simp add: paid_before)
next
  fix q0 n
  assume "insert_request q0 s = Inr (n, t)"
  then have "rq_status n = R_created" "b_requests t = b_requests s @ [n]" by (auto elim: insert_request_cases simp: created_shape_def)
  then have "q \<in> set (b_requests s)" using assms(2,3) by auto
  then show ?thesis using assms(3) by (rule paid_before)
next
  fix old n
  assume c: "request_changed s old n t" and st: "rq_status n = rq_status old"
  note o = request_changed_old [OF c]
  have "old \<in> set (b_requests s)" using o(1) by (auto dest: get_row_SomeD)
  moreover have "q = n \<or> q \<in> set (b_requests s)" using assms(2) by (auto simp: o(4) set_set_row split: if_splits)
  ultimately show ?thesis using assms(3) st o(2) paid_before by auto
next
  fix old n
  assume c: "request_changed s old n t" and st: "rq_status n \<noteq> R_paid"
  have "q = n \<or> q \<in> set (b_requests s)" using assms(2) by (auto simp: request_changed_old(4) [OF c] set_set_row split: if_splits)
  then show ?thesis using assms(3) st paid_before by auto
qed

lemma quiet_run:
  "reaches (quiet_write cfg) s t \<Longrightarrow> billing_keys s \<Longrightarrow> paid_proved i s \<Longrightarrow> billing_keys t \<and> paid_proved i t \<and> grows s t"
proof (induction rule: reaches.induct)
  case (here s)
  then show ?case by (simp add: grows_refl)
next
  case (there s t u)
  then show ?case
    using write_paid_proved [OF there.hyps(2), of i] quiet_paid [OF there.hyps(2)] write_keys [OF there.hyps(2)] write_grows [OF there.hyps(2)] grows_trans
    by blast
qed

lemma paying_run_proved:
  assumes run: "paying_run cfg s q r c t" and k: "billing_keys s" and ok: "paid_proved None s"
    and q: "find_request (rq_id q) s = Some q" and r: "bi_id r = rq_invoiceId q" and x: "x \<in> set (b_receipts s)" "success_receipt x (rq_id q)"
  shows "paid_proved None t"
proof -
  let ?i = "Some (rq_id q)"
  from run obtain q' u1 u2 r' u3 f where u1: "update_request (rq_id q) (\<lambda>x. x\<lparr>rq_status := R_paid\<rparr>) s = Inr (Some q', u1)"
    and u2: "reaches (quiet_write cfg) u1 u2" and u3: "update_invoice cfg (bi_id r) f u2 = Inr (Some r', u3)" "bi_status r' = I_paid"
    and t: "reaches (quiet_write cfg) u3 t"
    unfolding paying_run_def by blast
  have c: "request_changed s q q' u1" using u1 q by (auto elim: update_request_cases)
  note o = request_changed_old [OF c]
  have w1: "statement cfg s u1" using u1 by (auto intro: bill_write.w_request_set)
  have k1: "billing_keys u1" by (rule write_keys [OF w1 k])
  have "paid_proved ?i u1"
  proof (rule write_paid_proved [OF w1 k])
    show "paid_proved ?i s" using ok by (auto simp: paid_proved_def)
    fix y
    assume "y \<in> set (b_requests u1)" "rq_status y = R_paid" "Some (rq_id y) \<noteq> ?i"
    then have "y \<in> set (b_requests s)" using o(3) by (auto simp: o(4) set_set_row split: if_splits)
    then show "\<exists>x\<in>set (b_requests s). request_same_facts x y \<and> rq_status x = R_paid"
      using \<open>rq_status y = R_paid\<close> request_same_refl by blast
  qed
  note r2 = quiet_run [OF u2 k1 this]
  have w3: "statement cfg u2 u3" using u3(1) by (rule bill_write.w_invoice_set)
  have k2: "billing_keys u2" using r2 by blast
  have k3: "billing_keys u3" by (rule write_keys [OF w3 k2])
  obtain ro where c3: "invoice_changed cfg u2 ro r' u3" and id3: "bi_id ro = bi_id r" using u3(1) by (auto elim: update_invoice_cases)
  note o3 = invoice_changed_old [OF c3]
  have same: "b_requests u3 = b_requests u2" using invoice_changed_effect [OF c3] by auto
  have p3: "paid_proved ?i u3"
    using r2 by (intro write_paid_proved [OF w3 k2]) (simp_all add: same paid_before)
  have g: "grows s u3" using write_grows [OF w1 k] r2 write_grows [OF w3 k2] grows_trans by blast
  have "r' \<in> set (b_invoices u3)" using o3(1) by (auto simp: o3(5) set_set_row dest: get_row_SomeD)
  moreover have "x \<in> set (b_receipts u3)" using g x by (auto simp: grows_def)
  ultimately have here: "proved u3 y" if "y \<in> set (b_requests u3)" "rq_id y = rq_id q" for y
  proof -
    have "q \<in> set (b_requests s)" using q by (auto simp: find_request_def dest: get_row_SomeD)
    then obtain z where z: "z \<in> set (b_requests u3)" "request_grows q z" using grows_request_row [OF g] by blast
    have "z = y" using k3 z that by (auto simp: billing_keys_def request_grows_def request_same_facts_def dest: unique_keysD)
    then have "request_same_facts q y" using z(2) by (simp add: request_grows_def)
    then have "rq_invoiceId y = bi_id r'" using r o3(3) id3 by (simp add: request_same_facts_def)
    then show ?thesis
      using \<open>r' \<in> set (b_invoices u3)\<close> \<open>x \<in> set (b_receipts u3)\<close> x(2) that u3(2) unfolding proved_def by auto
  qed
  have "paid_proved None u3" using p3 here by (auto simp: paid_proved_def)
  then show ?thesis using quiet_run [OF t k3] by blast
qed

lemma body_paid_proved:
  assumes b: "bill_body cfg s t" and k: "billing_keys s" and ok: "paid_proved None s"
  shows "paid_proved None t"
  using b
proof (cases rule: bill_body.cases)
  case body_statement
  then show ?thesis using quiet_run [OF reaches_one k ok] by blast
next
  case (body_event ev e ctx at x)
  then show ?thesis
  proof (cases rule: applied_event_cases)
    case quiet
    then show ?thesis using quiet_run [OF _ k ok] by blast
  next
    case (paid q r rc c u1 u2)
    have w1: "quiet_write cfg s u1" using paid(3) by (rule bill_write.w_core)
    have w2: "quiet_write cfg u1 u2" using paid(4) by (rule bill_write.w_receipt)
    have p: "billing_keys u2" "paid_proved None u2" using quiet_run [OF _ k ok, of cfg u2] w1 w2 by (blast intro: reaches_one reaches_trans)+
    have i: "rq_id q = ev_paymentRequestId e" "bi_id r = rq_invoiceId q" using paid(1,2) by (auto simp: find_request_def find_invoice_def dest: get_row_SomeD)
    have t2: "b_requests u2 = b_requests s" "rc \<in> set (b_receipts u2)"
      using paid(3,4) by (auto elim!: insert_receipt_cases simp: same_core_def)
    show ?thesis
      by (rule paying_run_proved [OF paid(6) p _ i(2) t2(2) paid(5)]) (use paid(1) i(1) t2(1) in \<open>simp add: find_request_def\<close>)
  qed
qed

lemma paid_proved_committed [simp]: "paid_proved i (s\<lparr>b_deferred := ds\<rparr>) = paid_proved i s" "paid_proved i (s\<lparr>b_xid := n\<rparr>) = paid_proved i s"
  "paid_proved i (begin_tx s) = paid_proved i s"
  by (simp_all add: paid_proved_def proved_def begin_tx_def)

interpretation service: body_invariant cfg "\<lambda>s. billing_inv cfg s \<and> paid_proved None s" for cfg
proof unfold_locales
  fix s t
  assume i: "billing_inv cfg s \<and> paid_proved None s" and b: "bill_body cfg s t"
  have "billing_inv cfg t" using i b by (blast intro: rows.I_body)
  moreover have "billing_keys s" using i by (simp add: billing_inv_def)
  ultimately show "billing_inv cfg t \<and> paid_proved None t" using body_paid_proved [OF b] i by blast
next
  show "billing_inv cfg (empty_db cs) \<and> paid_proved None (empty_db cs)" for cs
    using billing_inv_empty by (simp add: paid_proved_def empty_db_def)
qed (simp_all add: billing_inv_begin billing_inv_commit billing_inv_xid)

lemma reachable_inv:
  assumes "bill_reachable cfg s"
  shows "billing_inv cfg s" and "paid_proved None s" and "b_deferred s = []"
  using service.in_reachable [OF assms] by simp_all

text \<open>What lands or settles from a reachable database is a run of the system.\<close>

lemma operation_run:
  "bill_reachable cfg s \<Longrightarrow> billing.lands cfg s (t s) \<Longrightarrow> reaches (bill_step cfg) s (snd (commit t s))"
  using billing.lands_commit [of cfg s t] reachable_inv(3) commits_steps by blast

lemma pass_run: "bill_reachable cfg s \<Longrightarrow> billing.settles cfg s t \<Longrightarrow> reaches (bill_step cfg) s t"
  using settles_steps reachable_inv(3) by blast

lemma operation_reachable: "bill_reachable cfg s \<Longrightarrow> billing.lands cfg s (t s) \<Longrightarrow> bill_reachable cfg (snd (commit t s))"
  by (rule reachable_steps [OF _ operation_run])

end
