(* ===== verification/BillingDemo.thy ===== *)
theory BillingDemo
  imports BillingPaid
begin

text \<open>
  One run of the billing service, for the witnesses of its properties: an organization's subscription is
  invoiced, issued, requested, sent and paid by Payment's event; a second invoice, which grants nothing, is left
  waiting for its payment.
\<close>

definition bill0_cfg :: bill_cfg where
  "bill0_cfg =
     \<lparr>bc_uuid = (\<lambda>n. ''id'' @ nat_text n), bc_eventId = concat, bc_digest = (\<lambda>v. replicate 64 CHR ''0''), bc_iso = (\<lambda>t. ''t''),
      bc_jsonbBytes = (\<lambda>v. 2), bc_parseInstant = (\<lambda>t. Some 5000), bc_numberBytes = (\<lambda>n. 1), bc_isProduction = False,
      bc_supportedCurrencies = [''TND'']\<rparr>"

definition demo_company :: bparty where
  "demo_company = \<lparr>bp_type = ''company'', bp_id = ''c1''\<rparr>"

definition demo_buyer :: bparty where
  "demo_buyer = \<lparr>bp_type = ''user'', bp_id = ''u1''\<rparr>"

definition demo_products :: "product_row list" where
  "demo_products =
     [\<lparr>pd_id = ''plan'', pd_producer = ''shop'', pd_seller = demo_company, pd_code = ''plan'', pd_name = ''Plan'', pd_entitlementKind = ''organization_license'',
       pd_active = True, pd_platformId = Some ''f1'', pd_target = Target_organization\<rparr>,
      \<lparr>pd_id = ''item'', pd_producer = ''shop'', pd_seller = demo_company, pd_code = ''item'', pd_name = ''Item'', pd_entitlementKind = ''none'',
       pd_active = True, pd_platformId = None, pd_target = Target_none\<rparr>]"

definition demo_prices :: "price_row list" where
  "demo_prices =
     [\<lparr>pc_id = ''monthly'', pc_productId = ''plan'', pc_currency = ''TND'', pc_unitAmount = 9000, pc_interval = Recurring, pc_intervalUnit = Some ''month'',
       pc_intervalCount = Some 1, pc_effectiveFrom = 0, pc_retiredAt = None\<rparr>,
      \<lparr>pc_id = ''once'', pc_productId = ''item'', pc_currency = ''TND'', pc_unitAmount = 500, pc_interval = One_time, pc_intervalUnit = None,
       pc_intervalCount = None, pc_effectiveFrom = 0, pc_retiredAt = None\<rparr>]"

definition bill0 :: bill_db where
  "bill0 = (empty_db [''TND''])\<lparr>b_now := 1000, b_products := demo_products, b_prices := demo_prices\<rparr>"

definition party_text :: "string \<Rightarrow> (string \<times> js_value) list" where
  "party_text n = [(''schemaVersion'', V_number (JInt 1)), (''name'', V_string n)]"

definition demo_order :: "string \<Rightarrow> string option \<Rightarrow> string \<Rightarrow> int \<Rightarrow> invoice_request" where
  "demo_order i org price n =
     \<lparr>iq_invoiceRequestId = i, iq_seller = demo_company, iq_payer = demo_buyer, iq_organizationId = org, iq_sourceType = ''order'',
      iq_sourceId = i, iq_description = None, iq_dueAt = None, iq_issuerSnapshot = party_text ''Company'', iq_billToSnapshot = party_text ''Buyer'',
      iq_lines = [\<lparr>lq_priceId = price, lq_quantity = n, lq_description = None, lq_sourceType = None, lq_sourceId = None\<rparr>]\<rparr>"

definition demo_ctx :: transition_ctx where
  "demo_ctx = \<lparr>tc_actor = actorOf (Service_caller ''shop''), tc_cause = Cause_request, tc_causeId = None, tc_correlationId = None\<rparr>"

definition consumer_ctx :: transition_ctx where
  "consumer_ctx = \<lparr>tc_actor = \<lparr>ac_type = Actor_system, ac_id = None, ac_userKind = None\<rparr>, tc_cause = Cause_payment_event, tc_causeId = None, tc_correlationId = None\<rparr>"

definition demo_scope :: verified_scope where
  "demo_scope = \<lparr>vs_callerPlatforms = [''f1''], vs_organizationPlatformId = Some ''f1''\<rparr>"

definition success_event :: "string \<Rightarrow> string \<Rightarrow> string \<Rightarrow> string \<Rightarrow> int \<Rightarrow> string option \<Rightarrow> event_facts" where
  "success_event q p i purpose n org =
     \<lparr>ev_name = Ev_succeeded, ev_source = ''payment-service'', ev_paymentId = p, ev_producer = ''billing-service'', ev_paymentRequestId = q,
      ev_sourceType = ''invoice'', ev_sourceId = i, ev_payer = demo_buyer, ev_seller = demo_company, ev_organizationId = org,
      ev_amount = Some (JInt n), ev_currency = ''TND'', ev_revision = 2, ev_purpose = Some purpose, ev_beneficiaryUserId = None,
      ev_liveMode = Some False\<rparr>"

definition plan_order :: invoice_request where
  "plan_order = demo_order ''o1'' (Some ''g1'') ''monthly'' 2"

definition item_order :: invoice_request where
  "item_order = demo_order ''o2'' None ''once'' 2"

definition plan_success :: event_facts where
  "plan_success = success_event ''id4'' ''p1'' ''id0'' ''organization_subscription'' 18000 (Some ''g1'')"

definition item_success :: event_facts where
  "item_success = success_event ''id5'' ''p2'' ''id2'' ''non_entitlement'' 1000 None"

text \<open>Two drafts, both issued, requested, claimed and in Payment's hands; then the plan is paid.\<close>

definition ordered :: bill_db where
  "ordered = snd (commit (createDraft bill0_cfg ''shop'' plan_order demo_ctx) bill0)"

definition drafted :: bill_db where
  "drafted = snd (commit (createDraft bill0_cfg ''shop'' item_order demo_ctx) ordered)"

definition issued :: bill_db where
  "issued = snd (commit (issue bill0_cfg ''id2'' (Service_caller ''shop'') ''invoice-v1'' ''fr-TN'' demo_ctx demo_scope)
     (snd (commit (issue bill0_cfg ''id0'' (Service_caller ''shop'') ''invoice-v1'' ''fr-TN'' demo_ctx demo_scope) drafted)))"

definition waiting :: bill_db where
  "waiting = snd (commit (markRequested ''id5'' ''p2'' demo_ctx) (snd (commit (markRequested ''id4'' ''p1'' demo_ctx)
     (snd (commit (claimForDispatch 10 0 demo_ctx) (snd (commit (createForInvoice bill0_cfg ''id2'' (Service_caller ''shop'') demo_ctx)
       (snd (commit (createForInvoice bill0_cfg ''id0'' (Service_caller ''shop'') demo_ctx) issued)))))))))"

definition outcome :: "(bill_error + event_application) \<times> bill_db" where
  "outcome = commit (applyPaymentEvent bill0_cfg ''e1'' plan_success consumer_ctx 5000) waiting"

definition settled :: bill_db where
  "settled = snd outcome"

lemma bill0_reachable: "bill_reachable bill0_cfg bill0"
proof -
  have "bill_step bill0_cfg (empty_db [''TND'']) bill0"
    by (rule bill_step.step_other) (simp_all add: bill0_def empty_db_def same_core_def)
  then show ?thesis unfolding bill_reachable_def by (blast intro: reaches_one)
qed

lemma ordered_reachable: "bill_reachable bill0_cfg ordered"
  unfolding ordered_def by (intro operation_reachable bill0_reachable billing.lands_invoices)

lemma drafted_reachable: "bill_reachable bill0_cfg drafted"
  unfolding drafted_def by (intro operation_reachable ordered_reachable billing.lands_invoices)

lemma issued_reachable: "bill_reachable bill0_cfg issued"
  unfolding issued_def by (intro operation_reachable drafted_reachable billing.lands_invoices)

lemma waiting_reachable: "bill_reachable bill0_cfg waiting"
  unfolding waiting_def by (intro operation_reachable issued_reachable billing.lands_requests)

lemma settled_reachable: "bill_reachable bill0_cfg settled"
  unfolding settled_def outcome_def by (intro operation_reachable waiting_reachable billing.lands_applyPaymentEvent)

lemma operation_later:
  "bill_reachable cfg s \<Longrightarrow> reaches (bill_step cfg) s u \<Longrightarrow> billing.lands cfg u (t u) \<Longrightarrow> reaches (bill_step cfg) s (snd (commit t u))"
  by (rule reaches_trans [OF operation_run [OF reachable_steps]])

lemma ordered_to_settled: "reaches (bill_step bill0_cfg) ordered settled"
  unfolding settled_def outcome_def waiting_def issued_def drafted_def
  by (intro operation_later [OF ordered_reachable] reaches.here billing.lands_invoices billing.lands_requests billing.lands_applyPaymentEvent)

lemma ordering: "\<exists>x. createDraft bill0_cfg ''shop'' plan_order demo_ctx bill0 = Inr ((x, True), ordered)"
proof -
  have "case fst (commit (createDraft bill0_cfg ''shop'' plan_order demo_ctx) bill0) of Inl e \<Rightarrow> False | Inr (x, w) \<Rightarrow> w" by code_simp
  then show ?thesis unfolding ordered_def commit_def by (auto split: sum.splits prod.splits)
qed

text \<open>What the run led to.\<close>

definition invoice_view :: "bill_db \<Rightarrow> (string \<times> string option \<times> invoice_status \<times> nat \<times> int) list" where
  "invoice_view s = map (\<lambda>r. (bi_id r, bi_number r, bi_status r, bi_revision r, bi_total r)) (b_invoices s)"

definition request_view :: "bill_db \<Rightarrow> (string \<times> string \<times> request_status \<times> nat) list" where
  "request_view s = map (\<lambda>q. (rq_id q, rq_invoiceId q, rq_status q, rq_revision q)) (b_requests s)"

definition subscription_view :: "bill_db \<Rightarrow> (string \<times> subscription_status \<times> instant option) list" where
  "subscription_view s = map (\<lambda>b. (sb_id b, sb_status b, sb_currentPeriodStart b)) (b_subscriptions s)"

definition demo_view where
  "demo_view s = (invoice_view s, request_view s, subscription_view s, map rc_eventId (b_receipts s), length (b_transitions s))"

lemma waiting_view:
  "demo_view waiting = ([(''id0'', Some ''1'', I_open, 1, 18000), (''id2'', Some ''2'', I_open, 1, 1000)],
     [(''id4'', ''id0'', R_requested, 2), (''id5'', ''id2'', R_requested, 2)], [], [], 10)"
  by code_simp

lemma outcome_view:
  "map_prod id demo_view outcome =
     (Inr \<lparr>ea_outcome = O_applied, ea_detail = None, ea_firstDelivery = True, ea_subscription = Some Out_settled\<rparr>,
      [(''id0'', Some ''1'', I_paid, 2, 18000), (''id2'', Some ''2'', I_open, 1, 1000)],
      [(''id4'', ''id0'', R_paid, 3), (''id5'', ''id2'', R_requested, 2)], [(''id7'', S_active, Some 5000)], [''e1''], 14)"
  by code_simp

lemma settled_view:
  "invoice_view settled = [(''id0'', Some ''1'', I_paid, 2, 18000), (''id2'', Some ''2'', I_open, 1, 1000)]"
  "subscription_view settled = [(''id7'', S_active, Some 5000)]"
proof -
  have "demo_view settled = snd (map_prod id demo_view outcome)" by (simp only: settled_def snd_map_prod)
  then have "demo_view settled = ([(''id0'', Some ''1'', I_paid, 2, 18000), (''id2'', Some ''2'', I_open, 1, 1000)],
      [(''id4'', ''id0'', R_paid, 3), (''id5'', ''id2'', R_requested, 2)], [(''id7'', S_active, Some 5000)], [''e1''], 14)"
    by (simp only: outcome_view snd_conv)
  then show "invoice_view settled = [(''id0'', Some ''1'', I_paid, 2, 18000), (''id2'', Some ''2'', I_open, 1, 1000)]"
    and "subscription_view settled = [(''id7'', S_active, Some 5000)]"
    by (simp_all only: demo_view_def prod.inject)
qed

lemma settled_invoices: "map bi_status (b_invoices settled) = [I_paid, I_open]"
proof -
  have "map bi_status (b_invoices settled) = map (\<lambda>(i, n, x, k, m). x) (invoice_view settled)" by (simp add: invoice_view_def)
  then show ?thesis by (simp add: settled_view)
qed

lemma settling:
  "applyPaymentEvent bill0_cfg ''e1'' plan_success consumer_ctx 5000 waiting =
     Inr (\<lparr>ea_outcome = O_applied, ea_detail = None, ea_firstDelivery = True, ea_subscription = Some Out_settled\<rparr>, settled)"
proof -
  have "id (fst outcome) = fst (map_prod id demo_view outcome)" by simp
  then have "fst outcome = Inr \<lparr>ea_outcome = O_applied, ea_detail = None, ea_firstDelivery = True, ea_subscription = Some Out_settled\<rparr>"
    by (simp only: outcome_view fst_conv id_apply)
  then show ?thesis unfolding settled_def outcome_def commit_def by (auto split: sum.splits)
qed

end
