(* ===== verification/BillingClaims.thy ===== *)
theory BillingClaims
  imports BillingDemo
begin

text \<open>
  What holds of every reachable database of the billing service: every row is valid, a paid invoice is proved,
  histories are complete, periods move only with a settlement, and the numbers of invoices have no gap.
\<close>

lemma reachable_parts:
  assumes "bill_reachable cfg s"
  shows "billing_keys s" "invoices_ok cfg s" "requests_ok s" "paid_ok s" "lines_ok s" "routings_ok s" "receipts_ok s" "subscriptions_ok s"
    "settlements_ok s" "numbers_ok s" "history_ok s" "sums_ok s" "issued_routed s"
  using reachable_inv(1) [OF assms] by (simp_all add: billing_inv_def)

lemma settled_paid:
  "hd (b_invoices settled) \<in> set (b_invoices settled)" "bi_status (hd (b_invoices settled)) = I_paid"
proof -
  obtain r rs where "b_invoices settled = r # rs" using settled_invoices by (cases "b_invoices settled") auto
  then show "hd (b_invoices settled) \<in> set (b_invoices settled)" "bi_status (hd (b_invoices settled)) = I_paid"
    using settled_invoices by auto
qed

text \<open>C31: In every reachable database every row is well formed and refers to what it should: an invoice's amounts,
  parties and texts are within their bounds, its columns fit its status, it has 1 to 100 lines and adds up to them;
  a request asks the whole total of its invoice in its currency, once that is issued; a line has its invoice's
  currency, a routing record its invoice's payer; a subscription's columns fit its status; the keys are unique.\<close>

theorem reachable_rows_are_valid:
  assumes "bill_reachable cfg s"
  shows "(\<forall>r\<in>set (b_invoices s). invoice_facts_ok cfg s r \<and> invoice_state_ok r \<and> totals_ok s r) \<and>
    (\<forall>q\<in>set (b_requests s). request_ok_row q \<and> (\<exists>r\<in>set (b_invoices s). bi_id r = rq_invoiceId q \<and> bi_total r = rq_amount q \<and>
       bi_currency r = rq_currency q \<and> (bi_status r = I_open \<or> bi_status r = I_paid))) \<and>
    (\<forall>l\<in>set (b_lines s). line_ok_row l \<and> (\<exists>r\<in>set (b_invoices s). bi_id r = ln_invoiceId l \<and> bi_currency r = ln_currency l)) \<and>
    (\<forall>e\<in>set (b_routings s). routing_combination e \<and> (\<exists>r\<in>set (b_invoices s). bi_id r = en_invoiceId e \<and> bi_payer r = en_payer e)) \<and>
    (\<forall>b\<in>set (b_subscriptions s). subscription_ok_row b) \<and> billing_keys s"
proof (intro conjI)
  note p = reachable_parts [OF assms] and d = reachable_inv(3) [OF assms]
  show "\<forall>r\<in>set (b_invoices s). invoice_facts_ok cfg s r \<and> invoice_state_ok r \<and> totals_ok s r"
    using p(2,12) d by (simp add: invoices_ok_def sums_ok_def)
  show "\<forall>q\<in>set (b_requests s). request_ok_row q \<and> (\<exists>r\<in>set (b_invoices s). bi_id r = rq_invoiceId q \<and> bi_total r = rq_amount q \<and>
       bi_currency r = rq_currency q \<and> (bi_status r = I_open \<or> bi_status r = I_paid))"
    using p(3) by (simp add: requests_ok_def payable_for_def)
qed (use reachable_parts [OF assms] in \<open>simp_all add: lines_ok_def routings_ok_def subscriptions_ok_def\<close>)

theorem reachable_rows_are_valid_witness:
  "map bi_status (b_invoices settled) = [I_paid, I_open] \<and> totals_ok settled (hd (b_invoices settled))"
  using reachable_rows_are_valid [OF settled_reachable] settled_invoices settled_paid(1) by blast



text \<open>A complete history.\<close>

definition history_complete :: "bill_db \<Rightarrow> entity \<Rightarrow> string \<Rightarrow> entity_status \<Rightarrow> nat \<Rightarrow> bool" where
  "history_complete s e i st n \<longleftrightarrow>
     (\<exists>tr\<in>set (b_transitions s). tr_entity tr = e \<and> tr_entityId tr = i \<and> tr_revision tr = n \<and> tr_to tr = st) \<and>
     (\<forall>m\<le>n. \<exists>!tr. tr \<in> set (b_transitions s) \<and> tr_entity tr = e \<and> tr_entityId tr = i \<and> tr_revision tr = m)"

lemma recorded_complete:
  assumes r: "recorded s e i st n" and d: "b_deferred s = []" and k: "billing_keys s"
  shows "history_complete s e i st n"
proof -
  have one: "x = y" if "x \<in> set (b_transitions s)" "y \<in> set (b_transitions s)" "tr_entity x = tr_entity y" "tr_entityId x = tr_entityId y"
      "tr_revision x = tr_revision y" for x y
    using k that unfolding billing_keys_def by (blast dest: unique_keysD [of "\<lambda>x. (tr_entity x, tr_entityId x, tr_revision x)"])
  have some: "\<exists>tr\<in>set (b_transitions s). tr_entity tr = e \<and> tr_entityId tr = i \<and> tr_revision tr = m \<and> tr_to tr = x"
    if "check_held s (Need_history e i x m)" for m x
    using that d by (auto simp: check_held_def has_history_def list_ex_iff)
  have "\<exists>tr\<in>set (b_transitions s). tr_entity tr = e \<and> tr_entityId tr = i \<and> tr_revision tr = m" if "m \<le> n" for m
  proof -
    have "\<exists>x. check_held s (Need_history e i x m)" using r that unfolding recorded_def by (cases "m = n") (auto simp: le_less)
    then show ?thesis using some by blast
  qed
  then have "\<exists>!tr. tr \<in> set (b_transitions s) \<and> tr_entity tr = e \<and> tr_entityId tr = i \<and> tr_revision tr = m" if "m \<le> n" for m
    using that one by (intro ex_ex1I) (blast, metis)
  moreover have "\<exists>tr\<in>set (b_transitions s). tr_entity tr = e \<and> tr_entityId tr = i \<and> tr_revision tr = n \<and> tr_to tr = st"
    using r some by (simp add: recorded_def)
  ultimately show ?thesis by (simp add: history_complete_def)
qed

text \<open>C33: In every reachable database the history of every invoice, request and subscription is complete: each of its revisions
  from 0 on has exactly one record, and the record of the current revision names the row's status.\<close>

theorem history_is_complete:
  assumes "bill_reachable cfg s"
  shows "(\<forall>r\<in>set (b_invoices s). history_complete s E_invoice (bi_id r) (St_invoice (bi_status r)) (bi_revision r)) \<and>
    (\<forall>q\<in>set (b_requests s). history_complete s E_request (rq_id q) (St_request (rq_status q)) (rq_revision q)) \<and>
    (\<forall>b\<in>set (b_subscriptions s). history_complete s E_subscription (sb_id b) (St_subscription (sb_status b)) (sb_revision b))"
  using reachable_parts(1,11) [OF assms] reachable_inv(3) [OF assms] unfolding history_ok_def by (blast intro: recorded_complete)

theorem history_is_complete_witness:
  "history_complete settled E_invoice (bi_id (hd (b_invoices settled))) (St_invoice I_paid) (bi_revision (hd (b_invoices settled)))"
  using history_is_complete [OF settled_reachable] settled_paid by metis

lemma statements_moves_held:
  "reaches (statement cfg) t u \<Longrightarrow> billing_keys t \<Longrightarrow> moves_held s t \<Longrightarrow> sb_id ` set (b_subscriptions s) \<subseteq> sb_id ` set (b_subscriptions t) \<Longrightarrow>
     billing_keys u \<and> moves_held s u \<and> sb_id ` set (b_subscriptions s) \<subseteq> sb_id ` set (b_subscriptions u)"
proof (induction rule: reaches.induct)
  case (there t u v)
  then have k: "billing_keys u" and m: "moves_held s u" and ids: "sb_id ` set (b_subscriptions s) \<subseteq> sb_id ` set (b_subscriptions u)" by blast+
  note w = there.hyps(2)
  have "sb_id b \<in> sb_id ` set (b_subscriptions v)" if b: "b \<in> set (b_subscriptions u)" for b
  proof -
    obtain b' where "b' \<in> set (b_subscriptions v)" "subscription_grows b b'" using grows_subscription_row [OF write_grows [OF w k] b] by blast
    then show ?thesis by (intro image_eqI [of _ _ b']) (simp_all add: subscription_grows_def subscription_same_facts_def)
  qed
  then have "sb_id ` set (b_subscriptions u) \<subseteq> sb_id ` set (b_subscriptions v)" by (rule image_subsetI)
  with ids have "sb_id ` set (b_subscriptions s) \<subseteq> sb_id ` set (b_subscriptions v)" by (rule subset_trans)
  then show ?case using write_keys [OF w k] write_moves_held [OF w m ids] by simp
qed simp

lemma statements_xid: "reaches (statement cfg) s t \<Longrightarrow> b_xid t = b_xid s"
  by (induction rule: reaches.induct) (auto dest: write_xid)

text \<open>C34: A step of the service moves the period of an organization's subscription, or gives one its first period, only with a
  new settlement of that subscription, which rests on the receipt of a verified success, the paid request and invoice
  it belongs to, and the invoice's routing to that organization and product.\<close>

theorem periods_move_with_settlements:
  assumes s: "bill_reachable cfg s" and step: "bill_step cfg s t" and b: "b \<in> set (b_subscriptions t)" and moved: "period_moved s b"
  shows "\<exists>x\<in>set (b_settlements t) - set (b_settlements s). ss_subscriptionId x = sb_id b \<and> settled_for t x"
  using step
proof (cases rule: bill_step.cases)
  case (step_tx v)
  have run: "reaches (statement cfg) (begin_tx s) v" by (rule bodies_statements [OF step_tx(2)])
  have k: "billing_keys s" and ok: "settlements_ok s" using reachable_parts [OF s] by simp_all
  have "moves_held s (begin_tx s)" using k by (intro moves_held_start) (simp_all add: billing_keys_def begin_tx_def)
  then have m: "moves_held s v" using statements_moves_held [OF run] k by (simp add: begin_tx_def billing_keys_def)
  have "b \<in> set (b_subscriptions v)" using b step_tx(4) by simp
  then have "Need_settlement (sb_id b) \<in> set (b_deferred v)" using m moved by (simp add: moves_held_def)
  then have "deferred_ok v (Need_settlement (sb_id b))" using step_tx(3) unfolding list_all_iff by blast
  then obtain x where x: "x \<in> set (b_settlements v)" "ss_subscriptionId x = sb_id b" "ss_transactionId x = b_xid v"
    by (auto simp: list_ex_iff)
  have "b_xid v = b_xid s + 1" using statements_xid [OF run] by (simp add: begin_tx_def)
  then have "x \<notin> set (b_settlements s)" using ok x(3) by (auto simp: settlements_ok_def)
  moreover have "bill_reachable cfg t" using s step by (blast intro: reachable_steps reaches_one)
  then have "settlements_ok t" by (rule reachable_parts)
  then have "settled_for t x" using x(1) step_tx(4) by (simp add: settlements_ok_def)
  ultimately show ?thesis using x step_tx(4) by auto
next
  case step_other
  have "b_subscriptions t = b_subscriptions s" using step_other(1) by (simp add: same_core_def)
  then have "moves_held s (t\<lparr>b_deferred := []\<rparr>)" using reachable_parts(1) [OF s] by (intro moves_held_start) (simp_all add: billing_keys_def)
  then show ?thesis using b moved by (simp add: moves_held_def)
qed

lemma event_step:
  assumes "applyPaymentEvent cfg ev e ctx at s = Inr (x, t)" and "b_deferred s = []"
  shows "bill_step cfg s t"
proof -
  have "billing.commits cfg s t"
    using assms unfolding applyPaymentEvent_def
    by (intro billing.db_tx_commits [of cfg "applyPaymentEventIn cfg ev e ctx at"]) (auto simp: billing.keeps_def dest: billing.w_event)
  then show ?thesis by (rule commits_step)
qed

theorem periods_move_with_settlements_witness:
  "\<exists>x\<in>set (b_settlements settled) - set (b_settlements waiting). ss_subscriptionId x = ''id7'' \<and> settled_for settled x"
proof -
  obtain b where b: "b_subscriptions settled = [b]" "sb_id b = ''id7''" "sb_currentPeriodStart b = Some 5000"
    using settled_view(2) by (auto simp: subscription_view_def)
  have "b_subscriptions waiting = []" using waiting_view by (simp add: demo_view_def subscription_view_def)
  then have "period_moved waiting b" using b(3) by (simp add: period_moved_def get_row_def)
  then show ?thesis
    using periods_move_with_settlements [OF waiting_reachable event_step [OF settling reachable_inv(3) [OF waiting_reachable]]] b by simp
qed

text \<open>C35: In every reachable database the numbers a seller's invoices carry are exactly the numerals from 1 up to its counter:
  no number is skipped and no two invoices of a seller share one, an issued invoice has one and a draft has none.\<close>

theorem numbers_have_no_gap:
  assumes "bill_reachable cfg s"
  shows "(\<forall>n. (\<exists>r\<in>set (b_invoices s). bi_seller r = p \<and> bi_number r = Some n) \<longleftrightarrow> (\<exists>k. 1 \<le> k \<and> k < next_number s p \<and> n = pg_decimal (int k))) \<and>
    (\<forall>r\<in>set (b_invoices s). \<forall>r'\<in>set (b_invoices s). bi_seller r = bi_seller r' \<and> bi_number r = bi_number r' \<and> bi_number r \<noteq> None \<longrightarrow> r = r') \<and>
    (\<forall>r\<in>set (b_invoices s). (bi_status r = I_open \<or> bi_status r = I_paid \<longrightarrow> bi_number r \<noteq> None) \<and> (bi_status r = I_draft \<longrightarrow> bi_number r = None))"
proof (intro conjI)
  note parts = reachable_parts [OF assms]
  have n: "numbers_of s p = numerals_below (next_number s p)" using parts(10) by (simp add: numbers_ok_def)
  show "\<forall>n. (\<exists>r\<in>set (b_invoices s). bi_seller r = p \<and> bi_number r = Some n) \<longleftrightarrow> (\<exists>k. 1 \<le> k \<and> k < next_number s p \<and> n = pg_decimal (int k))"
    using n unfolding numbers_of_def numerals_below_def set_eq_iff image_iff by auto
  have u: "unique_keys bi_id (b_invoices s)" using parts(1) by (simp add: billing_keys_def)
  have "bi_id r = bi_id r'" if "r \<in> set (b_invoices s)" "r' \<in> set (b_invoices s)" "bi_seller r = bi_seller r'" "bi_number r = bi_number r'" "bi_number r \<noteq> None" for r r'
    using parts(2) that unfolding invoices_ok_def number_taken_iff by metis
  then show "\<forall>r\<in>set (b_invoices s). \<forall>r'\<in>set (b_invoices s). bi_seller r = bi_seller r' \<and> bi_number r = bi_number r' \<and> bi_number r \<noteq> None \<longrightarrow> r = r'"
    using unique_keysD [OF u] by blast
  show "\<forall>r\<in>set (b_invoices s). (bi_status r = I_open \<or> bi_status r = I_paid \<longrightarrow> bi_number r \<noteq> None) \<and> (bi_status r = I_draft \<longrightarrow> bi_number r = None)"
    using parts(2) by (auto simp: invoices_ok_def invoice_state_ok_def)
qed

theorem numbers_have_no_gap_witness:
  "(\<exists>k. 1 \<le> k \<and> k < next_number settled (bi_seller (hd (b_invoices settled))) \<and> ''1'' = pg_decimal (int k)) \<and> invoice_view settled \<noteq> []"
proof -
  have "bi_number (hd (b_invoices settled)) = Some ''1''" using settled_view(1) by (cases "b_invoices settled") (auto simp: invoice_view_def)
  then have "\<exists>r\<in>set (b_invoices settled). bi_seller r = bi_seller (hd (b_invoices settled)) \<and> bi_number r = Some ''1''"
    using settled_paid(1) by blast
  then have "\<exists>k. 1 \<le> k \<and> k < next_number settled (bi_seller (hd (b_invoices settled))) \<and> ''1'' = pg_decimal (int k)"
    using numbers_have_no_gap [OF settled_reachable, of "bi_seller (hd (b_invoices settled))"] by blast
  then show ?thesis by (simp add: settled_view)
qed



end
