(* ===== verification/BillingReplay.thy ===== *)
theory BillingReplay
  imports BillingClaims
begin

text \<open>
  Repeating: an event that was applied and a draft that was created answer the same for ever, in every later
  database, and change nothing. Both rest on the growth of the core along the runs of the system.
\<close>

section \<open>Growth along runs\<close>

lemma statements_grow: "reaches (statement cfg) s t \<Longrightarrow> billing_keys s \<Longrightarrow> grows s t \<and> billing_keys t"
proof (induction rule: reaches.induct)
  case (there s t u)
  then show ?case using write_grows [OF there.hyps(2)] write_keys [OF there.hyps(2)] grows_trans by blast
qed (simp add: grows_refl)

lemma grows_tables:
  assumes "b_invoices t = b_invoices s" "b_requests t = b_requests s" "b_subscriptions t = b_subscriptions s" "b_lines t = b_lines s"
    "b_routings t = b_routings s" "b_receipts t = b_receipts s" "b_transitions t = b_transitions s" "b_settlements t = b_settlements s"
  shows "grows s t"
  using assms by (simp add: grows_def rows_grow_refl row_grows_refl)

lemma step_grows:
  assumes "bill_step cfg s t" and "bill_reachable cfg s"
  shows "grows s t"
  using assms(1)
proof (cases rule: bill_step.cases)
  case (step_tx v)
  have "billing_keys (begin_tx s)" using reachable_parts(1) [OF assms(2)] by (simp add: begin_tx_def)
  then have "grows (begin_tx s) v" using statements_grow [OF bodies_statements [OF step_tx(2)]] by blast
  moreover have "grows s (begin_tx s)" by (rule grows_tables) (simp_all add: begin_tx_def)
  moreover have "grows v t" by (rule grows_tables) (simp_all add: step_tx(4))
  ultimately show ?thesis by (blast intro: grows_trans)
next
  case step_other
  then show ?thesis by (intro grows_tables) (simp_all add: same_core_def)
qed

lemma run_grows: "reaches (bill_step cfg) s t \<Longrightarrow> bill_reachable cfg s \<Longrightarrow> grows s t"
proof (induction rule: reaches.induct)
  case (there s t u)
  then have "bill_reachable cfg t" by (blast intro: reachable_steps)
  then show ?case using there step_grows grows_trans by blast
qed (rule grows_refl)

lemma db_tx_run:
  assumes "db_tx m s = Inr (x, t)"
  obtains v where "m (begin_tx s) = Inr (x, v)" "t = v\<lparr>b_deferred := []\<rparr>"
  using assms by (auto simp: db_tx_def tx_bind_Inr_iff end_tx_def split: if_splits)

lemma db_tx_reads: "m (begin_tx s) = Inr (x, begin_tx s) \<Longrightarrow> b_deferred s = [] \<Longrightarrow> db_tx m s = Inr (x, s\<lparr>b_xid := b_xid s + 1\<rparr>)"
  by (cases s) (simp add: db_tx_def tx_bind_def end_tx_def begin_tx_def)

section \<open>Events\<close>

lemma k_after_receipt: "statements.keeps cfg s (after_receipt cfg q f d at ctx c s)"
  by (cases c; cases d; cases q; cases f)
    (auto simp: after_receipt_def intro!: statements.keeps_bind statements.k_apply_decision statements.keeps_return statements.keeps_same)

lemma after_receipt_outcome: "after_receipt cfg q f d at ctx c s = Inr (a, t) \<Longrightarrow> ea_outcome a = decision_outcome d"
  by (cases c; cases d; cases q; cases f) (auto simp: after_receipt_def application_def tx_bind_Inr_iff tx_return_def)

lemma applied_has_receipt:
  assumes run: "applyPaymentEventIn cfg ev e ctx at s = Inr (a, t)" and k: "billing_keys s" and a: "ea_outcome a = O_applied"
  shows "\<exists>x\<in>set (b_receipts t). rc_eventId x = ev \<and> rc_outcome x = O_applied"
proof (cases "applied_receipt ev s")
  case (Some y)
  then have "t = s" using run by (simp add: applyPaymentEventIn_def b_read_def tx_bind_def tx_return_def)
  then show ?thesis using Some by (auto simp: applied_receipt_def find_Some_iff)
next
  case None
  then obtain q f where "decide_and_apply cfg ev e ctx at q f s = Inr (a, t)"
    using run by (auto simp: applyPaymentEventIn_def b_read_def tx_bind_def)
  then obtain d c u n where rc: "insert_receipt (event_receipt n ev e q d) (s\<lparr>b_next := b_next s + 1\<rparr>) = Inr (c, u)"
    and rest: "after_receipt cfg q f d at ctx c u = Inr (a, t)"
    by (rule decide_and_apply_run)
  have d: "decision_outcome d = O_applied" using after_receipt_outcome [OF rest] a by simp
  have here: "\<exists>x\<in>set (b_receipts u). rc_eventId x = ev \<and> rc_outcome x = O_applied"
    using rc by (cases rule: insert_receipt_cases) (use d in \<open>auto simp: event_receipt_def\<close>)
  have "billing_keys (s\<lparr>b_next := b_next s + 1\<rparr>)" using k by (simp add: billing_keys_def)
  then have "billing_keys u" using write_keys [OF bill_write.w_receipt [OF rc]] by blast
  moreover have "reaches (statement cfg) u t" by (rule statements.keeps_run [OF k_after_receipt rest])
  ultimately have "grows u t" using statements_grow by blast
  then show ?thesis using here unfolding grows_def by blast
qed

text \<open>C37: An event that was applied is applied once and for all: whatever happens afterwards, a later delivery of an event with its
  id, whatever that one says, answers that it was applied before and changes nothing.\<close>

theorem applied_events_are_final:
  assumes s: "bill_reachable cfg s" and run: "applyPaymentEvent cfg ev e ctx at s = Inr (a, t)" and a: "ea_outcome a = O_applied"
    and later: "reaches (bill_step cfg) t u"
  shows "\<exists>a'. applyPaymentEvent cfg ev e' ctx' at' u = Inr (a', u\<lparr>b_xid := b_xid u + 1\<rparr>) \<and> ea_outcome a' = O_applied \<and>
    \<not> ea_firstDelivery a' \<and> ea_subscription a' = None"
proof -
  obtain v where v: "applyPaymentEventIn cfg ev e ctx at (begin_tx s) = Inr (a, v)" "t = v\<lparr>b_deferred := []\<rparr>"
    using run unfolding applyPaymentEvent_def by (rule db_tx_run)
  have "billing_keys (begin_tx s)" using reachable_parts(1) [OF s] by (simp add: begin_tx_def)
  then obtain x where x: "x \<in> set (b_receipts t)" "rc_eventId x = ev" "rc_outcome x = O_applied"
    using applied_has_receipt [OF v(1) _ a] v(2) by auto
  have "bill_step cfg s t" by (rule event_step [OF run reachable_inv(3) [OF s]])
  then have t: "bill_reachable cfg t" using s by (blast intro: reachable_steps reaches_one)
  then have u: "bill_reachable cfg u" using later by (rule reachable_steps)
  have "x \<in> set (b_receipts (begin_tx u))" using run_grows [OF later t] x(1) by (auto simp: grows_def begin_tx_def)
  then obtain y where "applied_receipt ev (begin_tx u) = Some y"
    using x(2,3) by (cases "applied_receipt ev (begin_tx u)") (auto simp: applied_receipt_def find_None_iff)
  then have "applyPaymentEventIn cfg ev e' ctx' at' (begin_tx u) =
      Inr (\<lparr>ea_outcome = O_applied, ea_detail = rc_detailCode y, ea_firstDelivery = False, ea_subscription = None\<rparr>, begin_tx u)"
    by (simp add: applyPaymentEventIn_def b_read_def tx_bind_def tx_return_def)
  from db_tx_reads [of "applyPaymentEventIn cfg ev e' ctx' at'", OF this reachable_inv(3) [OF u]] show ?thesis unfolding applyPaymentEvent_def by auto
qed

theorem applied_events_are_final_witness:
  "\<exists>a'. applyPaymentEvent bill0_cfg ''e1'' item_success consumer_ctx 9000 settled = Inr (a', settled\<lparr>b_xid := b_xid settled + 1\<rparr>) \<and>
    \<not> ea_firstDelivery a'"
  using applied_events_are_final [OF waiting_reachable settling _ reaches.here] by fastforce

section \<open>Drafts\<close>

definition created_as :: "bill_cfg \<Rightarrow> string \<Rightarrow> invoice_request \<Rightarrow> invoice_row \<Rightarrow> bool" where
  "created_as cfg producer input r \<longleftrightarrow>
     natural_key r = (producer, iq_invoiceRequestId input) \<and> bi_requestHash r = requestHash cfg (create_key producer input)"

lemma same_created: "invoice_same_facts r r' \<Longrightarrow> created_as cfg producer input r' = created_as cfg producer input r"
  using same_facts_fields [of r r'] by (simp add: created_as_def)

lemma replayed_key:
  assumes "findByNaturalKey producer (iq_invoiceRequestId input) s = Some y"
    and "replay_invoice y (requestHash cfg (create_key producer input)) = Inr (x, w)"
  shows "ir_row x \<in> set (b_invoices s) \<and> created_as cfg producer input (ir_row x)"
proof -
  obtain r where r: "get_row natural_key (producer, iq_invoiceRequestId input) (b_invoices s) = Some r" "y = withLines r s"
    using assms(1) by (auto simp: findByNaturalKey_def)
  then have "r \<in> set (b_invoices s)" "natural_key r = (producer, iq_invoiceRequestId input)" by (auto dest: get_row_SomeD)
  then show ?thesis
    using assms(2) r(2) by (auto simp: replay_invoice_def created_as_def withLines_def billingError_def split: if_splits)
qed

text \<open>What runs after the row of the draft is there.\<close>

definition fill_draft :: "bill_cfg \<Rightarrow> (line_request \<times> price_for_invoice) list \<Rightarrow> string \<Rightarrow> invoice_totals \<Rightarrow> transition_ctx \<Rightarrow> invoice_row \<Rightarrow> (invoice_record \<times> bool) btx" where
  "fill_draft cfg priced currency n ctx r =
     tx_bind (tx_each (insert_draft_line cfg (bi_id r) currency) (zip priced (it_lines n))) (\<lambda>_.
     tx_bind (recordTransition E_invoice (bi_id r) None (St_invoice I_draft) (bi_revision r) ctx) (\<lambda>_.
     tx_bind (reload (bi_id r)) (\<lambda>x. tx_return (x, True))))"

lemma fill_draft_run:
  assumes run: "fill_draft cfg priced currency n ctx r s = Inr ((x, w), t)" and k: "billing_keys s" and r: "r \<in> set (b_invoices s)"
  shows "ir_row x \<in> set (b_invoices t) \<and> invoice_grows r (ir_row x)"
proof -
  obtain ys v u where v: "tx_each (insert_draft_line cfg (bi_id r) currency) (zip priced (it_lines n)) s = Inr (ys, v)"
    and u: "recordTransition E_invoice (bi_id r) None (St_invoice I_draft) (bi_revision r) ctx v = Inr ((), u)"
    and load: "load_invoice (bi_id r) u = Some x" and t: "t = u"
    using run unfolding fill_draft_def
    by (auto simp: tx_bind_Inr_iff reload_def b_read_def b_the_def split: option.splits)
  have "statements.keeps cfg s (tx_each (insert_draft_line cfg (bi_id r) currency) (zip priced (it_lines n)) s)"
    unfolding insert_draft_line_def by (intro statements.steps statements.all_writes)
  then have "reaches (statement cfg) s v" using v by (rule statements.keeps_run)
  moreover have "reaches (statement cfg) v u" by (rule statements.keeps_run [OF statements.writes(8) u])
  ultimately have "reaches (statement cfg) s u" by (blast intro: reaches_trans)
  from statements_grow [OF this k] have g: "grows s u" and ku: "billing_keys u" by blast+
  obtain r' where r': "r' \<in> set (b_invoices u)" "invoice_grows r r'" using grows_invoice_row [OF g r] by blast
  have i: "bi_id r' = bi_id r" using r'(2) same_facts_fields(1) by (simp add: invoice_grows_def)
  have "unique_keys bi_id (b_invoices u)" using ku by (simp add: billing_keys_def)
  then have "find_invoice (bi_id r) u = Some r'" using get_row_unique [OF _ r'(1)] i by (metis find_invoice_def)
  then have "ir_row x = r'" using load by (auto simp: load_invoice_def withLines_def)
  then show ?thesis using r' t by simp
qed

lemma created_key:
  assumes run: "createDraftIn cfg producer input ctx s = Inr ((x, w), t)" and k: "billing_keys s"
  shows "ir_row x \<in> set (b_invoices t) \<and> created_as cfg producer input (ir_row x)"
proof (cases "findByNaturalKey producer (iq_invoiceRequestId input) s")
  case (Some y)
  then have "replay_invoice y (requestHash cfg (create_key producer input)) = Inr (x, w)" "t = s"
    using run by (auto simp: createDraftIn_def Let_def b_read_def tx_bind_def tx_lift_def split: sum.splits)
  then show ?thesis using replayed_key [OF Some] by blast
next
  case None
  define h where "h = requestHash cfg (create_key producer input)"
  from run None obtain priced currency n inserted u where
    ins: "insert_invoice cfg (invoice_draft (bc_uuid cfg (b_next s)) producer h input currency n) (s\<lparr>b_next := b_next s + 1\<rparr>) = Inr (inserted, u)"
    and rest: "(case inserted of
        None \<Rightarrow> tx_bind (b_read (findByNaturalKey producer (iq_invoiceRequestId input))) (\<lambda>winner.
          case winner of None \<Rightarrow> b_refuse 409 ''invoice_request_conflict'' | Some x \<Rightarrow> tx_lift (replay_invoice x h))
      | Some r \<Rightarrow> fill_draft cfg priced currency n ctx r) u = Inr ((x, w), t)"
    unfolding createDraftIn_def Let_def h_def [symmetric] fill_draft_def [symmetric]
    by (auto simp: b_read_def tx_bind_Inr_iff tx_lift_def b_fresh_def split: sum.splits)
  show ?thesis
  proof (cases inserted)
    case None
    then obtain y where y: "findByNaturalKey producer (iq_invoiceRequestId input) u = Some y" "replay_invoice y h = Inr (x, w)" "t = u"
      using rest by (auto simp: b_read_def tx_bind_def tx_lift_def b_refuse_def billingError_def split: option.splits sum.splits)
    then show ?thesis using replayed_key [OF y(1)] by (simp add: h_def)
  next
    case (Some r)
    have k1: "billing_keys (s\<lparr>b_next := b_next s + 1\<rparr>)" using k by (simp add: billing_keys_def)
    have "billing_keys u" by (rule write_keys [OF bill_write.w_invoice [OF ins] k1])
    moreover have r: "r \<in> set (b_invoices u)" "created_as cfg producer input r"
      using ins Some by (auto simp: insert_invoice_def Let_def invoice_draft_def created_as_def natural_key_def h_def split: if_splits)
    moreover have "fill_draft cfg priced currency n ctx r u = Inr ((x, w), t)" using rest Some by simp
    ultimately have "ir_row x \<in> set (b_invoices t)" "invoice_grows r (ir_row x)" using fill_draft_run by blast+
    moreover from this(2) have "invoice_same_facts r (ir_row x)" by (simp add: invoice_grows_def)
    ultimately show ?thesis using r(2) same_created by blast
  qed
qed

lemma known_key:
  assumes "billing_keys s" and "r \<in> set (b_invoices s)" and "created_as cfg producer input r"
  shows "findByNaturalKey producer (iq_invoiceRequestId input) s = Some (withLines r s)"
proof -
  have "unique_keys natural_key (b_invoices s)" using assms(1) by (simp add: billing_keys_def)
  from get_row_unique [OF this assms(2)] show ?thesis using assms(3) by (simp add: findByNaturalKey_def created_as_def)
qed

lemma draft_step:
  assumes "createDraft cfg producer input ctx s = Inr (x, t)" and "b_deferred s = []"
  shows "bill_step cfg s t"
  using assms unfolding createDraft_def by (intro commits_step billing.db_tx_commits [of cfg "createDraftIn cfg producer input ctx"] billing.k_createDraftIn)

text \<open>C38: A draft that was created is created once and for all: whatever happens afterwards, also to the prices, the identical request
  of the same producer answers the same invoice as a replay and changes nothing, and a request with its id that is
  not identical is refused as a conflict.\<close>

theorem drafts_are_created_once:
  assumes s: "bill_reachable cfg s" and run: "createDraft cfg producer input ctx s = Inr ((x, w), t)" and later: "reaches (bill_step cfg) t u"
  shows "(\<exists>x'. createDraft cfg producer input ctx' u = Inr ((x', False), u\<lparr>b_xid := b_xid u + 1\<rparr>) \<and> invoice_grows (ir_row x) (ir_row x')) \<and>
    (\<forall>other. iq_invoiceRequestId other = iq_invoiceRequestId input \<and>
       requestHash cfg (create_key producer other) \<noteq> requestHash cfg (create_key producer input) \<longrightarrow>
       createDraft cfg producer other ctx' u = Inl (B_http 409 ''invoice_request_conflict''))"
proof -
  obtain v where v: "createDraftIn cfg producer input ctx (begin_tx s) = Inr ((x, w), v)" "t = v\<lparr>b_deferred := []\<rparr>"
    using run unfolding createDraft_def by (rule db_tx_run)
  have "billing_keys (begin_tx s)" using reachable_parts(1) [OF s] by (simp add: begin_tx_def)
  then have x: "ir_row x \<in> set (b_invoices t)" "created_as cfg producer input (ir_row x)" using created_key [OF v(1)] v(2) by simp_all
  have "bill_step cfg s t" by (rule draft_step [OF run reachable_inv(3) [OF s]])
  then have t: "bill_reachable cfg t" using s by (blast intro: reachable_steps reaches_one)
  then have u: "bill_reachable cfg u" using later by (rule reachable_steps)
  obtain r where r: "r \<in> set (b_invoices u)" "invoice_grows (ir_row x) r" using grows_invoice_row [OF run_grows [OF later t] x(1)] by blast
  then have made: "created_as cfg producer input r" using same_created x(2) unfolding invoice_grows_def by blast
  have found: "findByNaturalKey producer (iq_invoiceRequestId input) (begin_tx u) = Some (withLines r (begin_tx u))"
    using reachable_parts(1) [OF u] r(1) made by (intro known_key) (simp_all add: begin_tx_def)
  have "createDraftIn cfg producer input ctx' (begin_tx u) = Inr ((withLines r (begin_tx u), False), begin_tx u)"
    using made by (simp add: createDraftIn_def Let_def b_read_def tx_bind_def found replay_invoice_def withLines_def created_as_def)
  from db_tx_reads [of "createDraftIn cfg producer input ctx'", OF this reachable_inv(3) [OF u]]
  have same: "\<exists>x'. createDraft cfg producer input ctx' u = Inr ((x', False), u\<lparr>b_xid := b_xid u + 1\<rparr>) \<and> invoice_grows (ir_row x) (ir_row x')"
    using r(2) unfolding createDraft_def by (auto simp: withLines_def)
  have "createDraft cfg producer other ctx' u = Inl (B_http 409 ''invoice_request_conflict'')"
    if "iq_invoiceRequestId other = iq_invoiceRequestId input"
      "requestHash cfg (create_key producer other) \<noteq> requestHash cfg (create_key producer input)" for other
    using that made found
    by (simp add: createDraft_def db_tx_def createDraftIn_def Let_def b_read_def tx_bind_def replay_invoice_def withLines_def created_as_def billingError_def)
  with same show ?thesis by blast
qed

theorem drafts_are_created_once_witness:
  "\<exists>x. createDraft bill0_cfg ''shop'' plan_order consumer_ctx settled = Inr ((x, False), settled\<lparr>b_xid := b_xid settled + 1\<rparr>)"
proof -
  obtain x where "createDraft bill0_cfg ''shop'' plan_order demo_ctx bill0 = Inr ((x, True), ordered)" using ordering by blast
  from drafts_are_created_once [OF bill0_reachable this ordered_to_settled] show ?thesis by blast
qed

end
