(* ===== verification/BillingLive.thy ===== *)
theory BillingLive
  imports BillingReplay
begin

text \<open>
  When a verified success settles: on an open invoice that grants nothing it always does, and on an organization's
  subscription it never does once the price was retired.
\<close>

section \<open>A success that pays\<close>

lemma decide_paying:
  "decidePaymentEvent e (Some q) (Some i) live = Applied R_paid to \<Longrightarrow> rf_status q = R_requested \<and> if_status i = I_open"
  unfolding decidePaymentEvent_def Let_def by (auto split: option.splits if_splits)

lemma decide_success:
  "decidePaymentEvent e q i live = Applied to ito \<Longrightarrow> ev_name e = Ev_succeeded \<Longrightarrow> to = R_paid \<and> ito = Some I_paid"
  unfolding decidePaymentEvent_def Let_def by (auto split: option.splits if_splits)

text \<open>The context fits its columns, and its actor is one the audit knows.\<close>

definition ctx_fits :: "transition_ctx \<Rightarrow> bool" where
  "ctx_fits ctx \<longleftrightarrow> opt_all (\<lambda>c. length c \<le> 128) (ac_id (tc_actor ctx)) \<and> opt_all (\<lambda>c. length c \<le> 128) (tc_causeId ctx) \<and>
     opt_all (\<lambda>c. length c \<le> 128) (tc_correlationId ctx) \<and> (case billingAuditActor ctx of Inl _ \<Rightarrow> False | Inr _ \<Rightarrow> True)"

lemma transition_written:
  assumes "ctx_fits ctx" and "n \<noteq> 0" and "\<forall>tr\<in>set (b_transitions u). tr_entity tr = en \<and> tr_entityId tr = i \<longrightarrow> tr_revision tr < n"
  obtains tr where "recordTransition en i (Some old) new n ctx u = Inr ((), u\<lparr>b_transitions := b_transitions u @ [tr]\<rparr>)"
    "tr_entity tr = en" "tr_entityId tr = i" "tr_to tr = new" "tr_revision tr = n"
proof -
  define tr where "tr = \<lparr>tr_entity = en, tr_entityId = i, tr_from = Some old, tr_to = new, tr_revision = n, tr_actorType = ac_type (tc_actor ctx),
       tr_actorId = ac_id (tc_actor ctx), tr_cause = tc_cause ctx, tr_causeId = tc_causeId ctx, tr_correlationId = tc_correlationId ctx\<rparr>"
  have "(en, i, n) \<notin> (\<lambda>x. (tr_entity x, tr_entityId x, tr_revision x)) ` set (b_transitions u)" using assms(3) by fastforce
  then have "recordTransition en i (Some old) new n ctx u = Inr ((), u\<lparr>b_transitions := b_transitions u @ [tr]\<rparr>)"
    using assms(1,2) by (simp add: recordTransition_def tr_def [symmetric] insert_transition_def) (simp add: tr_def ctx_fits_def)
  then show ?thesis by (rule that) (simp_all add: tr_def)
qed

lemma audit_written: "ctx_fits ctx \<Longrightarrow> \<exists>o'. record_audit cfg a g r c n ctx u = Inr ((), u\<lparr>b_outbox := o'\<rparr>)"
  by (cases u) (auto simp: record_audit_def ctx_fits_def tx_bind_def outbox_enqueue_def split: sum.splits prod.splits)

lemma request_paid:
  assumes q: "find_request (rq_id q) u = Some q" "rq_status q = R_requested" "request_ok_row q" "request_unique u q"
    and r: "map_option bi_status (find_invoice (rq_invoiceId q) u) = Some I_open"
    and none: "\<forall>x\<in>set (b_requests u). rq_invoiceId x = rq_invoiceId q \<longrightarrow> rq_status x \<noteq> R_paid"
  obtains q' where "update_request (rq_id q) (\<lambda>x. x\<lparr>rq_status := R_paid\<rparr>) u = Inr (Some q', u\<lparr>b_requests := set_row rq_id (rq_id q) q' (b_requests u),
      b_channels := follow_request u q', b_deferred := b_deferred u @ [Need_history E_request (rq_id q) (St_request R_paid) (rq_revision q + 1)]\<rparr>)"
    "rq_id q' = rq_id q" "rq_status q' = R_paid" "rq_invoiceId q' = rq_invoiceId q" "rq_amount q' = rq_amount q" "rq_revision q' = rq_revision q + 1"
proof -
  define q' where "q' = request_touched u q (q\<lparr>rq_status := R_paid\<rparr>)"
  have f: "rq_id q' = rq_id q" "rq_status q' = R_paid" "rq_invoiceId q' = rq_invoiceId q" "rq_amount q' = rq_amount q" "rq_revision q' = rq_revision q + 1"
    "rq_paymentId q' = rq_paymentId q"
    using q(2) by (simp_all add: q'_def request_touched_def Let_def)
  have "rq_closedAt q = None" using q(2,3) by (simp add: request_ok_row_def closed_status_def)
  then have "request_ok_row q'" using q(2,3) by (simp add: q'_def request_touched_def Let_def request_ok_row_def closed_status_def)
  moreover have "request_unique u q'"
    using q(4) none f unfolding request_unique_iff excludes_def by (auto simp: active_status_def)
  moreover have "request_lifecycle_ok u q (q\<lparr>rq_status := R_paid\<rparr>)" "request_same_facts q (q\<lparr>rq_status := R_paid\<rparr>)"
    using q(2) r \<open>rq_closedAt q = None\<close> by (simp_all add: request_lifecycle_ok_def request_same_facts_def request_trigger_moves_def)
  ultimately have "update_request (rq_id q) (\<lambda>x. x\<lparr>rq_status := R_paid\<rparr>) u = Inr (Some q', u\<lparr>b_requests := set_row rq_id (rq_id q) q' (b_requests u),
      b_channels := follow_request u q', b_deferred := b_deferred u @ [Need_history E_request (rq_id q) (St_request R_paid) (rq_revision q + 1)]\<rparr>)"
    unfolding update_request_def using q(1,2) f by (simp add: q'_def [symmetric])
  then show ?thesis by (rule that) (rule f)+
qed

lemma invoice_paid:
  assumes r: "find_invoice (bi_id r) u = Some r" "bi_status r = I_open" "invoice_facts_ok cfg u r" "invoice_state_ok r" "\<not> number_taken u r"
    and full: "paid_in_full u r"
  obtains r' where "update_invoice cfg (bi_id r) (\<lambda>b. b\<lparr>bi_status := I_paid, bi_paidAt := Some n\<rparr>) u = Inr (Some r', u\<lparr>b_invoices := set_row bi_id (bi_id r) r' (b_invoices u),
      b_deferred := b_deferred u @ [Need_history E_invoice (bi_id r) (St_invoice I_paid) (bi_revision r + 1), Need_checkout (bi_id r)]\<rparr>)"
    "bi_id r' = bi_id r" "bi_status r' = I_paid" "bi_revision r' = bi_revision r + 1" "bi_producer r' = bi_producer r"
proof -
  define r' where "r' = invoice_touched u r (r\<lparr>bi_status := I_paid, bi_paidAt := Some n\<rparr>) 0"
  have f: "bi_id r' = bi_id r" "bi_status r' = I_paid" "bi_revision r' = bi_revision r + 1" "bi_producer r' = bi_producer r"
    "bi_number r' = bi_number r" "bi_seller r' = bi_seller r"
    using r(2) by (simp_all add: r'_def invoice_touched_def Let_def)
  have "invoice_facts_ok cfg u r'" using r(2,3) by (simp add: r'_def invoice_touched_def Let_def invoice_facts_ok_def)
  moreover have "invoice_state_ok r'" using r(2,4) by (auto simp: r'_def invoice_touched_def Let_def invoice_state_ok_def)
  moreover have "\<not> number_taken u r'" using r(5) f by (simp add: number_taken_def)
  moreover have "invoice_same_facts r (r\<lparr>bi_status := I_paid, bi_paidAt := Some n\<rparr>)" by (cases r) (simp add: invoice_same_facts_def)
  moreover have "invoice_lifecycle_ok u r (r\<lparr>bi_status := I_paid, bi_paidAt := Some n\<rparr>)"
    using r(2) full by (simp add: invoice_lifecycle_ok_def invoice_trigger_moves_def Let_def paid_in_full_def)
  moreover have "invoice_deferred r r' = [Need_history E_invoice (bi_id r) (St_invoice I_paid) (bi_revision r + 1), Need_checkout (bi_id r)]"
    using r(2) f by (simp add: invoice_deferred_def)
  ultimately have "update_invoice cfg (bi_id r) (\<lambda>b. b\<lparr>bi_status := I_paid, bi_paidAt := Some n\<rparr>) u = Inr (Some r', u\<lparr>b_invoices := set_row bi_id (bi_id r) r' (b_invoices u),
      b_deferred := b_deferred u @ [Need_history E_invoice (bi_id r) (St_invoice I_paid) (bi_revision r + 1), Need_checkout (bi_id r)]\<rparr>)"
    unfolding update_invoice_def using r(1,2) by (simp add: tx_bind_def r'_def [symmetric] Let_def)
  then show ?thesis by (rule that) (rule f)+
qed

lemma no_effect:
  assumes "find_routing (bi_id r) u = Some x" and "en_purpose x = Non_entitlement"
  shows "linkSubscription cfg r i c at ctx u = Inr (None, u)"
proof -
  have "link_organization cfg r (Some x) i c at ctx u = Inr (None, u)"
    using assms(2) by (auto simp: link_organization_def tx_bind_def b_read_def split: option.splits list.splits)
  then show ?thesis using assms by (simp add: linkSubscription_def tx_bind_def b_read_def)
qed

lemma settle_pays:
  assumes ctx: "ctx_fits ctx" and r: "find_invoice (bi_id r) u = Some r" "bi_status r = I_open" "invoice_facts_ok cfg u r" "invoice_state_ok r"
      "\<not> number_taken u r" and full: "paid_in_full u r" and x: "find_routing (bi_id r) u = Some x" "en_purpose x = Non_entitlement"
    and history: "\<forall>tr\<in>set (b_transitions u). tr_entity tr = E_invoice \<and> tr_entityId tr = bi_id r \<longrightarrow> tr_revision tr < bi_revision r + 1"
  obtains r' tr o' where "settle_invoice cfg r i c at ctx u = Inr (None, u\<lparr>b_invoices := set_row bi_id (bi_id r) r' (b_invoices u),
      b_transitions := b_transitions u @ [tr], b_outbox := o',
      b_deferred := b_deferred u @ [Need_history E_invoice (bi_id r) (St_invoice I_paid) (bi_revision r + 1), Need_checkout (bi_id r)]\<rparr>)"
    "bi_id r' = bi_id r" "bi_status r' = I_paid" "bi_producer r' = bi_producer r"
    "tr_entity tr = E_invoice" "tr_entityId tr = bi_id r" "tr_to tr = St_invoice I_paid" "tr_revision tr = bi_revision r + 1"
proof -
  obtain r' where up: "update_invoice cfg (bi_id r) (\<lambda>b. b\<lparr>bi_status := I_paid, bi_paidAt := Some (b_now u)\<rparr>) u = Inr (Some r', u\<lparr>b_invoices := set_row bi_id (bi_id r) r' (b_invoices u),
      b_deferred := b_deferred u @ [Need_history E_invoice (bi_id r) (St_invoice I_paid) (bi_revision r + 1), Need_checkout (bi_id r)]\<rparr>)"
    and r': "bi_id r' = bi_id r" "bi_status r' = I_paid" "bi_revision r' = bi_revision r + 1" "bi_producer r' = bi_producer r"
    by (rule invoice_paid [OF r full])
  define v where "v = u\<lparr>b_invoices := set_row bi_id (bi_id r) r' (b_invoices u),
      b_deferred := b_deferred u @ [Need_history E_invoice (bi_id r) (St_invoice I_paid) (bi_revision r + 1), Need_checkout (bi_id r)]\<rparr>"
  obtain tr where tr: "recordTransition E_invoice (bi_id r) (Some (St_invoice I_open)) (St_invoice I_paid) (bi_revision r') ctx v = Inr ((), v\<lparr>b_transitions := b_transitions v @ [tr]\<rparr>)"
    "tr_entity tr = E_invoice" "tr_entityId tr = bi_id r" "tr_to tr = St_invoice I_paid" "tr_revision tr = bi_revision r'"
    by (rule transition_written [OF ctx, of "bi_revision r'" v E_invoice "bi_id r"]) (use history r'(3) in \<open>simp_all add: v_def\<close>)
  obtain o' where au: "record_audit cfg ''invoice.paid'' (bi_organizationId r) (''invoice'', bi_id r) [] [] ctx (v\<lparr>b_transitions := b_transitions v @ [tr]\<rparr>) =
      Inr ((), v\<lparr>b_transitions := b_transitions v @ [tr], b_outbox := o'\<rparr>)"
    using audit_written [OF ctx] by fastforce
  have "find_routing (bi_id r) (v\<lparr>b_transitions := b_transitions v @ [tr], b_outbox := o'\<rparr>) = Some x"
    using x(1) by (simp add: find_routing_def v_def)
  note link = no_effect [OF this x(2), of cfg i c at ctx]
  have "settle_invoice cfg r i c at ctx u = Inr (None, v\<lparr>b_transitions := b_transitions v @ [tr], b_outbox := o'\<rparr>)"
    unfolding settle_invoice_def by (simp add: tx_bind_def b_read_def b_the_def up [folded v_def] tr(1) au link)
  moreover have "v\<lparr>b_transitions := b_transitions v @ [tr], b_outbox := o'\<rparr> = u\<lparr>b_invoices := set_row bi_id (bi_id r) r' (b_invoices u),
      b_transitions := b_transitions u @ [tr], b_outbox := o',
      b_deferred := b_deferred u @ [Need_history E_invoice (bi_id r) (St_invoice I_paid) (bi_revision r + 1), Need_checkout (bi_id r)]\<rparr>"
    by (simp add: v_def)
  ultimately show ?thesis using that r' tr by simp
qed

lemma decide_and_apply_forward:
  assumes "lift_option request_facts_of request = Inr rf"
    and "lift_option (\<lambda>r. invoice_facts_of r (case found of Some r \<Rightarrow> find_routing (bi_id r) s | None \<Rightarrow> None)) found = Inr fi"
    and "d = decidePaymentEvent e rf fi (bc_isProduction cfg)"
    and "insert_receipt (event_receipt (bc_uuid cfg (b_next s)) ev e request d) (s\<lparr>b_next := b_next s + 1\<rparr>) = Inr (c, u)"
  shows "decide_and_apply cfg ev e ctx at request found s = after_receipt cfg request found d at ctx c u"
  using assms(4) unfolding decide_and_apply_def Let_def after_receipt_def event_receipt_def assms(3)
  by (simp add: tx_bind_def b_read_def b_fresh_def assms(1,2) split: option.split event_decision.split)

text \<open>The history of a row names no revision after its current one.\<close>

definition history_up_to :: "bill_db \<Rightarrow> entity \<Rightarrow> string \<Rightarrow> nat \<Rightarrow> bool" where
  "history_up_to s e i n \<longleftrightarrow> list_all (\<lambda>tr. tr_entity tr = e \<and> tr_entityId tr = i \<longrightarrow> tr_revision tr \<le> n) (b_transitions s)"

lemma receipt_written:
  assumes "applied_receipt ev s = None" and "i \<notin> rc_id ` set (b_receipts s)" and "0 \<le> ev_revision e" and "b_receipts u = b_receipts s"
  shows "insert_receipt (event_receipt i ev e q (Applied a b)) u = Inr (Some i, u\<lparr>b_receipts := b_receipts u @ [event_receipt i ev e q (Applied a b)]\<rparr>)"
  using assms by (auto simp: insert_receipt_def event_receipt_def applied_receipt_def find_None_iff list_ex_iff)

lemma db_tx_commit:
  "m (begin_tx s) = Inr (x, v) \<Longrightarrow> list_all (deferred_ok v) (b_deferred v) \<Longrightarrow> db_tx m s = Inr (x, v\<lparr>b_deferred := []\<rparr>)"
  by (simp add: db_tx_def tx_bind_def end_tx_def)

text \<open>C39: A success that Payment announces for a request in its hands always settles an open invoice that grants nothing: if the event
  fits the request and the invoice, no guard of the database and no check of COMMIT refuses it, the invoice and the
  request are paid, and the delivery is answered as the first. The new receipt needs a fresh id, the context a
  known actor, and the histories must not be ahead of their rows.\<close>

theorem verified_success_pays:
  assumes s: "bill_reachable cfg s" and q: "find_request (ev_paymentRequestId e) s = Some q" and r: "find_invoice (rq_invoiceId q) s = Some r"
    and x: "find_routing (bi_id r) s = Some x" "en_purpose x = Non_entitlement" and direct: "bi_producer r \<noteq> CHECKOUT_PRODUCER"
    and facts: "request_facts_of q = Inr rf" "invoice_facts_of r (Some x) = Inr fi"
      "decidePaymentEvent e (Some rf) (Some fi) (bc_isProduction cfg) = Applied R_paid to"
    and first: "applied_receipt ev s = None" "bc_uuid cfg (b_next s) \<notin> rc_id ` set (b_receipts s)" "0 \<le> ev_revision e"
    and history: "history_up_to s E_request (rq_id q) (rq_revision q)" "history_up_to s E_invoice (bi_id r) (bi_revision r)"
    and ctx: "ctx_fits ctx"
  shows "\<exists>a t. applyPaymentEvent cfg ev e ctx at s = Inr (a, t) \<and> ea_outcome a = O_applied \<and> ea_firstDelivery a \<and>
    map_option bi_status (find_invoice (bi_id r) t) = Some I_paid \<and> map_option rq_status (find_request (rq_id q) t) = Some R_paid"
proof -
  note p = reachable_parts [OF s]
  have to: "to = Some I_paid" and rf: "rf_status rf = R_requested" and fi: "if_status fi = I_open"
    using decide_paid decide_paying facts(3) by blast+
  have q_in: "q \<in> set (b_requests s)" and r_in: "r \<in> set (b_invoices s)"
    using q r by (auto simp: find_request_def find_invoice_def dest: get_row_SomeD)
  have ids: "rq_id q = ev_paymentRequestId e" "bi_id r = rq_invoiceId q"
    using q r by (auto simp: find_request_def find_invoice_def dest: get_row_SomeD)
  have st: "rq_status q = R_requested" "bi_status r = I_open"
    using facts(1,2) rf fi by (auto simp: request_facts_of_def invoice_facts_of_def err_bind_def split: sum.splits)
  have q_ok: "request_ok_row q" "request_unique s q" using p(3) q_in by (simp_all add: requests_ok_def)
  have total: "rq_amount q = bi_total r"
  proof -
    obtain r1 where "r1 \<in> set (b_invoices s)" "bi_id r1 = bi_id r" "bi_total r1 = rq_amount q"
      using p(3) q_in ids(2) by (auto simp: requests_ok_def payable_for_def)
    then show ?thesis using p(1) r_in unique_keysD [of bi_id "b_invoices s" r1 r] by (simp add: billing_keys_def)
  qed
  have none: "\<forall>y\<in>set (b_requests s). rq_invoiceId y = rq_invoiceId q \<longrightarrow> rq_status y \<noteq> R_paid"
  proof (intro ballI impI notI)
    fix y
    assume "y \<in> set (b_requests s)" "rq_invoiceId y = rq_invoiceId q" "rq_status y = R_paid"
    then obtain r1 where "r1 \<in> set (b_invoices s)" "bi_id r1 = bi_id r" "bi_status r1 = I_paid"
      using reachable_inv(2) [OF s] ids(2) by (auto simp: paid_proved_def proved_def)
    then show False using p(1) r_in st(2) unique_keysD [of bi_id "b_invoices s" r1 r] by (simp add: billing_keys_def)
  qed
  have r_ok: "invoice_facts_ok cfg s r" "invoice_state_ok r" "\<not> number_taken s r" using p(2) r_in by (simp_all add: invoices_ok_def)
  define d where "d = Applied R_paid (Some I_paid)"
  define i where "i = bc_uuid cfg (b_next s)"
  define u where "u = (begin_tx s)\<lparr>b_next := b_next s + 1, b_receipts := b_receipts s @ [event_receipt i ev e (Some q) d]\<rparr>"
  have u: "b_requests u = b_requests s" "b_invoices u = b_invoices s" "b_transitions u = b_transitions s" "b_routings u = b_routings s"
    "b_deferred u = []" "b_currencies u = b_currencies s"
    by (simp_all add: u_def begin_tx_def)
  have rc: "insert_receipt (event_receipt (bc_uuid cfg (b_next (begin_tx s))) ev e (Some q) d) ((begin_tx s)\<lparr>b_next := b_next (begin_tx s) + 1\<rparr>) = Inr (Some i, u)"
    using receipt_written [OF first(1) _ first(3), of i "(begin_tx s)\<lparr>b_next := b_next s + 1\<rparr>" "Some q" R_paid "Some I_paid"] first(2)
    by (simp add: i_def u_def d_def begin_tx_def)
  obtain q' where up: "update_request (rq_id q) (\<lambda>x. x\<lparr>rq_status := R_paid\<rparr>) u = Inr (Some q', u\<lparr>b_requests := set_row rq_id (rq_id q) q' (b_requests u),
      b_channels := follow_request u q', b_deferred := b_deferred u @ [Need_history E_request (rq_id q) (St_request R_paid) (rq_revision q + 1)]\<rparr>)"
    and q': "rq_id q' = rq_id q" "rq_status q' = R_paid" "rq_invoiceId q' = rq_invoiceId q" "rq_amount q' = rq_amount q" "rq_revision q' = rq_revision q + 1"
    by (rule request_paid [of q u]) (use q r st q_ok none ids in \<open>simp_all add: find_request_def find_invoice_def request_unique_def u\<close>)
  define v where "v = u\<lparr>b_requests := set_row rq_id (rq_id q) q' (b_requests u),
      b_channels := follow_request u q', b_deferred := b_deferred u @ [Need_history E_request (rq_id q) (St_request R_paid) (rq_revision q + 1)]\<rparr>"
  obtain tr where tr: "recordTransition E_request (rq_id q) (Some (St_request R_requested)) (St_request R_paid) (rq_revision q') ctx v = Inr ((), v\<lparr>b_transitions := b_transitions v @ [tr]\<rparr>)"
    "tr_entity tr = E_request" "tr_entityId tr = rq_id q" "tr_to tr = St_request R_paid" "tr_revision tr = rq_revision q'"
    by (rule transition_written [OF ctx, of "rq_revision q'" v E_request "rq_id q"])
      (use history(1) q'(5) in \<open>auto simp: v_def u history_up_to_def list_all_iff less_Suc_eq_le\<close>)
  define w where "w = v\<lparr>b_transitions := b_transitions v @ [tr]\<rparr>"
  have w: "b_invoices w = b_invoices s" "b_routings w = b_routings s" "b_requests w = set_row rq_id (rq_id q) q' (b_requests s)"
    "b_transitions w = b_transitions s @ [tr]" "b_currencies w = b_currencies s"
    "b_deferred w = [Need_history E_request (rq_id q) (St_request R_paid) (rq_revision q + 1)]"
    by (simp_all add: w_def v_def u)
  have "q' \<in> set (b_requests w)" using q_in by (auto simp: w(3) set_set_row)
  then have full: "paid_in_full w r" using q' ids total by (auto simp: paid_in_full_def list_ex_iff)
  obtain r' tr' o' where settle: "settle_invoice cfg r (rq_id q) i at ctx w = Inr (None, w\<lparr>b_invoices := set_row bi_id (bi_id r) r' (b_invoices w),
      b_transitions := b_transitions w @ [tr'], b_outbox := o',
      b_deferred := b_deferred w @ [Need_history E_invoice (bi_id r) (St_invoice I_paid) (bi_revision r + 1), Need_checkout (bi_id r)]\<rparr>)"
    and r': "bi_id r' = bi_id r" "bi_status r' = I_paid" "bi_producer r' = bi_producer r"
    and tr': "tr_entity tr' = E_invoice" "tr_entityId tr' = bi_id r" "tr_to tr' = St_invoice I_paid" "tr_revision tr' = bi_revision r + 1"
    by (rule settle_pays [OF ctx _ st(2) _ r_ok(2) _ full, of cfg x])
      (use r ids r_ok x history(2) tr(2) in \<open>auto simp: find_invoice_def find_routing_def invoice_facts_ok_def number_taken_def w history_up_to_def list_all_iff less_Suc_eq_le\<close>)
  define y where "y = w\<lparr>b_invoices := set_row bi_id (bi_id r) r' (b_invoices w), b_transitions := b_transitions w @ [tr'], b_outbox := o',
      b_deferred := b_deferred w @ [Need_history E_invoice (bi_id r) (St_invoice I_paid) (bi_revision r + 1), Need_checkout (bi_id r)]\<rparr>"
  have "transitionRequest q (\<lambda>x. x\<lparr>rq_status := R_paid\<rparr>) ctx u = Inr (q', w)"
    using tr(1) q' st(1) by (simp add: transitionRequest_def tx_bind_def up [folded v_def] b_the_def record_request_def w_def)
  then have "apply_decision cfg q r R_paid (Some I_paid) i at ctx u = Inr (None, y)"
    by (simp add: apply_decision_def tx_bind_def settle [folded y_def])
  then have "after_receipt cfg (Some q) (Some r) d at ctx (Some i) u = Inr (application d True None, y)"
    by (simp add: after_receipt_def d_def tx_bind_def)
  moreover have "decide_and_apply cfg ev e ctx at (Some q) (Some r) (begin_tx s) = after_receipt cfg (Some q) (Some r) d at ctx (Some i) u"
    by (rule decide_and_apply_forward [where rf = "Some rf" and fi = "Some fi", OF _ _ _ rc])
      (use facts x to in \<open>simp_all add: d_def begin_tx_def find_routing_def err_bind_def\<close>)
  ultimately have "applyPaymentEventIn cfg ev e ctx at (begin_tx s) = Inr (application d True None, y)"
    using q r first(1)
    by (simp add: applyPaymentEventIn_def tx_bind_def b_read_def begin_tx_def find_request_def find_invoice_def applied_receipt_def)
  moreover have found: "find_invoice (bi_id r) y = Some r'" using r_in r' by (auto simp: find_invoice_def y_def w get_row_set_row)
  have "list_all (deferred_ok y) (b_deferred y)"
    using found direct r'(3) tr tr' q'(5) by (simp add: y_def w has_history_def list_ex_iff)
  ultimately have "applyPaymentEvent cfg ev e ctx at s = Inr (application d True None, y\<lparr>b_deferred := []\<rparr>)"
    unfolding applyPaymentEvent_def by (rule db_tx_commit)
  moreover have "map_option rq_status (find_request (rq_id q) y) = Some R_paid" using q_in q' by (auto simp: find_request_def y_def w get_row_set_row)
  ultimately show ?thesis using found r'(2) by (auto simp: application_def d_def)
qed

definition demo_ready :: "string \<Rightarrow> event_facts \<Rightarrow> bill_db \<Rightarrow> bool" where
  "demo_ready ev e s \<longleftrightarrow>
     (case find_request (ev_paymentRequestId e) s of None \<Rightarrow> False | Some q \<Rightarrow>
     (case find_invoice (rq_invoiceId q) s of None \<Rightarrow> False | Some r \<Rightarrow>
     (case find_routing (bi_id r) s of None \<Rightarrow> False | Some x \<Rightarrow>
     (case request_facts_of q of Inl _ \<Rightarrow> False | Inr rf \<Rightarrow>
     (case invoice_facts_of r (Some x) of Inl _ \<Rightarrow> False | Inr fi \<Rightarrow>
        en_purpose x = Non_entitlement \<and> bi_producer r \<noteq> CHECKOUT_PRODUCER \<and>
        decidePaymentEvent e (Some rf) (Some fi) False = Applied R_paid (Some I_paid) \<and> applied_receipt ev s = None \<and>
        bc_uuid bill0_cfg (b_next s) \<notin> rc_id ` set (b_receipts s) \<and> 0 \<le> ev_revision e \<and>
        history_up_to s E_request (rq_id q) (rq_revision q) \<and> history_up_to s E_invoice (bi_id r) (bi_revision r))))))"

lemma item_ready: "demo_ready ''e2'' item_success waiting"
  by code_simp

lemma consumer_ctx_fits: "ctx_fits consumer_ctx"
  by code_simp

theorem verified_success_pays_witness:
  "\<exists>a t. applyPaymentEvent bill0_cfg ''e2'' item_success consumer_ctx 6000 waiting = Inr (a, t) \<and> ea_outcome a = O_applied \<and>
    map_option rq_status (find_request ''id5'' t) = Some R_paid"
proof -
  obtain q r x rf fi where f: "find_request (ev_paymentRequestId item_success) waiting = Some q" "find_invoice (rq_invoiceId q) waiting = Some r"
      "find_routing (bi_id r) waiting = Some x" "en_purpose x = Non_entitlement" "bi_producer r \<noteq> CHECKOUT_PRODUCER"
      "request_facts_of q = Inr rf" "invoice_facts_of r (Some x) = Inr fi"
      "decidePaymentEvent item_success (Some rf) (Some fi) (bc_isProduction bill0_cfg) = Applied R_paid (Some I_paid)"
      "applied_receipt ''e2'' waiting = None" "bc_uuid bill0_cfg (b_next waiting) \<notin> rc_id ` set (b_receipts waiting)" "0 \<le> ev_revision item_success"
      "history_up_to waiting E_request (rq_id q) (rq_revision q)" "history_up_to waiting E_invoice (bi_id r) (bi_revision r)"
    using item_ready unfolding demo_ready_def by (auto simp: bill0_cfg_def split: option.splits sum.splits)
  have "rq_id q = ''id5''" using f(1) by (auto simp: find_request_def item_success_def success_event_def dest: get_row_SomeD)
  with verified_success_pays [OF waiting_reachable f consumer_ctx_fits, of 6000] show ?thesis by auto
qed

section \<open>A success that cannot settle\<close>

text \<open>
  The order of the invoice is an organization's subscription, routed as its line says, and the line's price has
  been retired since.
\<close>

definition awaits_retired_price :: "bill_db \<Rightarrow> string \<Rightarrow> bool" where
  "awaits_retired_price s i \<longleftrightarrow>
     (case find_request i s of None \<Rightarrow> False | Some q \<Rightarrow>
     (case find_invoice (rq_invoiceId q) s of None \<Rightarrow> False | Some r \<Rightarrow>
     (case (find_routing (bi_id r) s, bi_organizationId r, filter (\<lambda>l. ln_invoiceId l = bi_id r \<and> ln_interval l = Recurring) (b_lines s)) of
        (Some x, Some org, [l]) \<Rightarrow> en_purpose x = Organization_subscription \<and> en_organizationId x = Some org \<and> en_productId x = Some (ln_productId l) \<and>
          (case find_price (ln_priceId l) s of Some p \<Rightarrow> pc_retiredAt p \<noteq> None | None \<Rightarrow> False)
      | _ \<Rightarrow> False)))"

definition same_orders :: "bill_db \<Rightarrow> bill_db \<Rightarrow> bool" where
  "same_orders s t \<longleftrightarrow> b_routings t = b_routings s \<and> b_lines t = b_lines s \<and> b_prices t = b_prices s"

interpretation orders: tx_relation same_orders
  by unfold_locales (simp_all add: same_orders_def)

lemma orders_receipt: "orders.keeps s (insert_receipt rc s)"
  unfolding orders.keeps_def by (auto elim: insert_receipt_cases simp: same_orders_def)

lemma orders_request: "orders.keeps s (update_request i f s)"
  unfolding orders.keeps_def by (auto elim!: update_request_cases dest!: request_changed_effect simp: same_orders_def)

lemma orders_invoice: "orders.keeps s (update_invoice cfg i f s)"
  unfolding orders.keeps_def by (auto elim!: update_invoice_cases dest!: invoice_changed_effect simp: same_orders_def)

lemma orders_transition: "orders.keeps s (recordTransition en i old new n ctx s)"
  unfolding orders.keeps_def recordTransition_def by (auto elim!: insert_transition_cases simp: same_orders_def)

lemma orders_audit: "orders.keeps s (record_audit cfg a g r c n ctx s)"
  unfolding record_audit_def
  by (intro orders.keeps_bind orders.keeps_lift) (auto simp: orders.keeps_def outbox_enqueue_def same_orders_def split: prod.splits)

lemma no_subscription:
  assumes "find_price price u = Some p" and "pc_retiredAt p \<noteq> None" and "sq_priceId x = price"
  shows "applySettlement cfg x ctx u = Inl (B_check ''subscription'')"
  using assms
  by (simp add: applySettlement_def createTx_def tx_bind_def b_fresh_def insert_subscription_def subscription_draft_def Let_def find_price_def)

lemma no_link:
  assumes w: "same_orders s u" and q: "find_request i s = Some q" "find_invoice (rq_invoiceId q) s = Some r" and a: "awaits_retired_price s i"
  shows "linkSubscription cfg r j c at ctx u = Inl (B_check ''subscription'')"
proof -
  obtain x org l p where f: "find_routing (bi_id r) u = Some x" "bi_organizationId r = Some org"
      "filter (\<lambda>l. ln_invoiceId l = bi_id r \<and> ln_interval l = Recurring) (b_lines u) = [l]" "en_purpose x = Organization_subscription"
      "en_organizationId x = Some org" "en_productId x = Some (ln_productId l)" "find_price (ln_priceId l) u = Some p" "pc_retiredAt p \<noteq> None"
    using a w q unfolding awaits_retired_price_def same_orders_def find_routing_def find_price_def
    by (auto split: option.splits list.splits)
  have "organization_settlement cfg y ctx u = Inl (B_check ''subscription'')" if "sq_priceId y = ln_priceId l" for y
    using no_subscription [OF f(7,8) that] by (simp add: organization_settlement_def)
  then have "link_organization cfg r (Some x) j c at ctx u = Inl (B_check ''subscription'')"
    using f by (simp add: link_organization_def tx_bind_def b_read_def)
  then show ?thesis using f(1,4) by (simp add: linkSubscription_def tx_bind_def b_read_def)
qed

lemma no_settlement:
  assumes "same_orders s u" and "find_request i s = Some q" "find_invoice (rq_invoiceId q) s = Some r" and "awaits_retired_price s i"
  shows "settle_invoice cfg r j c at ctx u \<noteq> Inr z"
proof
  assume "settle_invoice cfg r j c at ctx u = Inr z"
  then obtain x v where run: "tx_bind (b_read b_now) (\<lambda>t.
     tx_bind (update_invoice cfg (bi_id r) (\<lambda>b. b\<lparr>bi_status := I_paid, bi_paidAt := Some t\<rparr>)) (\<lambda>u.
     tx_bind (b_the u) (\<lambda>u.
     tx_bind (recordTransition E_invoice (bi_id r) (Some (St_invoice I_open)) (St_invoice I_paid) (bi_revision u) ctx) (\<lambda>_.
       record_audit cfg ''invoice.paid'' (bi_organizationId r) (''invoice'', bi_id r) [] [] ctx)))) u = Inr (x, v)"
    and link: "linkSubscription cfg r j c at ctx v = Inr z"
    unfolding settle_invoice_def by (auto simp: tx_bind_Inr_iff)
  have "orders.keeps u (tx_bind (b_read b_now) (\<lambda>t.
     tx_bind (update_invoice cfg (bi_id r) (\<lambda>b. b\<lparr>bi_status := I_paid, bi_paidAt := Some t\<rparr>)) (\<lambda>u.
     tx_bind (b_the u) (\<lambda>u.
     tx_bind (recordTransition E_invoice (bi_id r) (Some (St_invoice I_open)) (St_invoice I_paid) (bi_revision u) ctx) (\<lambda>_.
       record_audit cfg ''invoice.paid'' (bi_organizationId r) (''invoice'', bi_id r) [] [] ctx)))) u)"
    by (intro orders.keeps_bind orders_invoice orders_transition orders_audit)
      (auto simp: b_read_def b_the_def orders.keeps_def same_orders_def split: option.splits)
  then have "same_orders u v" using run by (rule orders.keeps_run)
  then have "same_orders s v" using assms(1) by (simp add: same_orders_def)
  then show False using no_link [OF _ assms(2-4)] link by simp
qed

lemma transition_orders: "orders.keeps s (transitionRequest q f ctx s)"
  unfolding transitionRequest_def record_request_def
  by (intro orders.keeps_bind orders_request orders_transition) (auto simp: b_the_def orders.keeps_def same_orders_def split: option.splits)

text \<open>C40: Once the price of an organization's unpaid subscription was retired, no success Payment announces for its request is ever
  applied: the guard of the subscription's insertion refuses the settlement, the whole transaction is rolled back,
  and the payment stays without effect.\<close>

theorem retired_price_blocks_settlement:
  assumes a: "awaits_retired_price s (ev_paymentRequestId e)"
  shows "\<not> (\<exists>x t. applyPaymentEvent cfg ev e ctx at s = Inr (x, t) \<and> ea_firstDelivery x \<and> ea_outcome x = O_applied \<and> ev_name e = Ev_succeeded)"
proof
  assume "\<exists>x t. applyPaymentEvent cfg ev e ctx at s = Inr (x, t) \<and> ea_firstDelivery x \<and> ea_outcome x = O_applied \<and> ev_name e = Ev_succeeded"
  then obtain x t where run: "applyPaymentEvent cfg ev e ctx at s = Inr (x, t)" and x: "ea_firstDelivery x" "ea_outcome x = O_applied" "ev_name e = Ev_succeeded"
    by blast
  obtain q r where q: "find_request (ev_paymentRequestId e) s = Some q" "find_invoice (rq_invoiceId q) s = Some r"
    using a unfolding awaits_retired_price_def by (auto split: option.splits)
  obtain v where v: "applyPaymentEventIn cfg ev e ctx at (begin_tx s) = Inr (x, v)" using run unfolding applyPaymentEvent_def by (rule db_tx_run)
  have "decide_and_apply cfg ev e ctx at (Some q) (Some r) (begin_tx s) = Inr (x, v)"
    using v x(1) q by (cases "applied_receipt ev (begin_tx s)")
      (auto simp: applyPaymentEventIn_def tx_bind_def b_read_def begin_tx_def find_request_def find_invoice_def)
  then obtain rf fi d c u where d: "d = decidePaymentEvent e rf fi (bc_isProduction cfg)"
    and rc: "insert_receipt (event_receipt (bc_uuid cfg (b_next (begin_tx s))) ev e (Some q) d) ((begin_tx s)\<lparr>b_next := b_next (begin_tx s) + 1\<rparr>) = Inr (c, u)"
    and rest: "after_receipt cfg (Some q) (Some r) d at ctx c u = Inr (x, v)"
    by (rule decide_and_apply_run)
  obtain to ito where applied: "d = Applied to ito"
    using after_receipt_outcome [OF rest] x(2) by (cases d) simp_all
  then have paying: "to = R_paid" "ito = Some I_paid"
    using decide_success [of e rf fi "bc_isProduction cfg" to ito] d x(3) by simp_all
  obtain i where c: "c = Some i" using rest x(1) by (cases c) (auto simp: after_receipt_def application_def)
  have "\<exists>z. apply_decision cfg q r R_paid (Some I_paid) i at ctx u = Inr z"
    using rest applied paying c by (auto simp: after_receipt_def tx_bind_Inr_iff)
  then obtain z y w where "transitionRequest q (\<lambda>x. x\<lparr>rq_status := R_paid\<rparr>) ctx u = Inr (y, w)"
    and settle: "settle_invoice cfg r (rq_id q) i at ctx w = Inr z"
    unfolding apply_decision_def by (auto simp: tx_bind_Inr_iff)
  from orders.keeps_run [OF transition_orders this(1)] have "same_orders u w" .
  moreover have "same_orders (begin_tx s) u" using orders.keeps_run [OF orders_receipt rc] by (simp add: same_orders_def)
  ultimately have "same_orders s w" by (simp add: same_orders_def begin_tx_def)
  then show False using no_settlement [OF _ q a] settle by blast
qed

definition retired :: bill_db where
  "retired = waiting\<lparr>b_prices := map (\<lambda>p. p\<lparr>pc_retiredAt := Some 2000\<rparr>) (b_prices waiting)\<rparr>"

lemma retired_waits: "awaits_retired_price retired ''id4''"
  by code_simp

theorem retired_price_blocks_settlement_witness:
  "\<not> (\<exists>x t. applyPaymentEvent bill0_cfg ''e1'' plan_success consumer_ctx 5000 retired = Inr (x, t) \<and> ea_firstDelivery x \<and> ea_outcome x = O_applied) \<and>
   (\<exists>x t. applyPaymentEvent bill0_cfg ''e1'' plan_success consumer_ctx 5000 waiting = Inr (x, t) \<and> ea_firstDelivery x \<and> ea_outcome x = O_applied)"
  using retired_price_blocks_settlement [of retired plan_success bill0_cfg "''e1''" consumer_ctx 5000] retired_waits
  by (simp add: plan_success_def success_event_def settling [unfolded plan_success_def success_event_def])

end
