(* ===== verification/Spec2Isabelle.thy ===== *)
theory Spec2Isabelle
  imports PaymentProps PaymentRequests HoldIntervals BillingPeriods BillingContract BillingLive
begin

text \<open>
  \<^bold>\<open>nawara-core: the payment and billing services\<close>

  The repository is a set of services around one shared kit. Two of them carry its money. The billing service
  (\<open>apps/billing-service/src\<close>) prices an order from its catalogue, issues an invoice, asks Payment to collect it and,
  when Payment announces the outcome, settles the invoice and moves the entitlement it sells. The payment service
  (\<open>apps/payment-service/src\<close>) takes such a request, lets its payer start attempts with a provider, learns from the
  provider (answer of the call, status read, webhook) what became of an attempt, and announces a final payment once.
  They share no table: Billing posts a creation request (dispatcher, reconciler), Payment publishes events. The state of each
  is a PostgreSQL database; every operation is one or several transactions on it, and the database's triggers, CHECKs,
  unique indexes and constraint triggers repeat or complete the rules of the code.

  \<^bold>\<open>How it is modelled.\<close> A database is a record (\<open>pdb\<close>, \<open>bill_db\<close>): one list of rows per table, the clock and a supply of
  identifiers. A transaction is a function \<open>'s \<Rightarrow> error + 'a \<times> 's\<close>; an error rolls it back (\<open>Inl\<close>). A statement of the model is the
  UPDATE or INSERT with the checks of the migrations. Billing's constraint triggers are deferred: a statement queues its
  check in \<open>b_deferred\<close> and \<open>commit\<close> refuses the transaction when one fails. Operations of several transactions (Payment's
  \<open>start\<close>, \<open>applyStatus\<close>, the workers) are written as the code composes them; what other transactions do between two of
  them is a parameter (\<open>others\<close>). Worker passes take their number of rounds from the list they scanned or from the batch
  size that bounds the query; no definition runs on fuel.

  \<^bold>\<open>Parameters.\<close> Code outside \<open>src\<close>, and configuration, is an argument: \<open>pay_config\<close>, \<open>pay_env\<close> and \<open>bill_cfg\<close> hold the
  settings, the digest of a request, the uuids and the date parser; the provider's calls, Organization Service and Payment's
  answers to Billing's client (\<open>call\<close>, \<open>get\<close>) are functions. No property assumes a law of them; those that need one name it
  (a fresh receipt id in C39).

  \<^bold>\<open>The payment service.\<close>
  \<^item> \<open>Prelude\<close>: transactions, tables, reachability, the locales \<open>transition_table\<close>,
    \<open>invariant_system\<close> and \<open>tx_relation\<close>, strings and numbers as JavaScript and PostgreSQL see them.
  \<^item> \<open>PaymentModel\<close>: the two status tables (\<open>payment-state-machine.ts\<close>, \<open>attempt-state-machine.ts\<close>),
    rows, contexts and the database. \<open>PaymentStore\<close>: guarded updates and inserts, the outbox, audit.
  \<^item> \<open>PaymentFinality\<close>: idempotency, late successes at finality, closing, cancel, the expiry sweeper.
  \<^item> \<open>Quarantine\<close>, \<open>PaymentAttempt\<close>: quarantined evidence; starting an attempt, capture facts,
    applying a provider's answer, the resolver. \<open>PaymentCreate\<close>: creation. \<open>CaptureRecovery\<close>: the
    capture reconciler. \<open>PaymentWebhook\<close>: webhook intake and the retrier.
  \<^item> \<open>PaymentInvariant\<close>: the invariant \<open>pinv\<close>. \<open>PaymentPreserve\<close>, \<open>PaymentSteps\<close>, \<open>PaymentSystem\<close>,
    \<open>PaymentReach\<close>: every transaction keeps it. \<open>PaymentMain\<close>: the step relation \<open>pay_step\<close>, one step
    for each committed transaction, and the reachable databases. \<open>PaymentEvolve\<close>: what one run may
    change (terms never, statuses along the tables). \<open>PaymentRuns\<close>: operations and workers are such runs.
  \<^item> \<open>PaymentSettle\<close>: no guard stops what the code decides. \<open>PaymentDemo\<close>: concrete runs for the witnesses.
  \<^item> Properties: \<open>PaymentProps\<close> (C1-C5: finality, one success, truthful events, late successes, uncertainty),
    \<open>PaymentOutcomes\<close> (C6-C8: settling, cancelling, expiring, on every branch), \<open>PaymentOps\<close> (C9-C13: operations
    are runs, evidence is append-only, bounded retries, redelivery), \<open>PaymentRequests\<close> (C14-C17: replays, authorisation, idempotent
    captures, tables against triggers).

  \<^bold>\<open>The billing service: calculations.\<close>
  \<^item> \<open>HoldIntervals\<close> (\<open>fraud-hold-intervals.ts\<close>; C18-C20), \<open>BillingMoney\<close> (\<open>money.ts\<close>, \<open>totals.ts\<close>; C21, C22),
    \<open>BillingPeriods\<close> (calendar of migration 0015, \<open>subscription-period.ts\<close>, \<open>entitlement.ts\<close>; C28-C30).
  \<^item> \<open>BillingDecisions\<close>: status tables, the decision on a Payment event, request mapping, routing, callers. \<open>BillingInput\<close>: the
    validators of invoices, prices, products and checkouts (C27). \<open>BillingContract\<close>: these decisions against
    Payment's own model (C23-C26): what Billing routes Payment accepts, and the loop from request to event closes.

  \<^bold>\<open>The billing service: state.\<close>
  \<^item> \<open>BillingModel\<close>: rows and database. \<open>BillingStore\<close>: the statements on the core tables (invoices, lines, numbers,
    routings, requests, receipts, history, subscriptions, settlements), each with its table's checks, and \<open>commit\<close>.
    \<open>BillingLedgers\<close>: subscriptions, purchases, assisted and recovery settlements. \<open>BillingInvoices\<close>: creation,
    issuing, discarding, reading, listing. \<open>BillingRequests\<close>: Payment requests, the application of Payment's
    outcomes, checkout. \<open>BillingWorkers\<close>: client, dispatcher, reconciler, event consumer.
  \<^item> \<open>BillingFrame\<close>, \<open>BillingOps\<close>: the locale \<open>billing_writes\<close> (extended by \<open>billing_events\<close>): a relation the core's statements respect
    is respected by every operation, proved once. \<open>BillingSystem\<close>: the step relations \<open>bill_write\<close>, \<open>bill_body\<close>,
    \<open>bill_step\<close> and the locales \<open>body_invariant\<close> and \<open>core_invariant\<close>, one a sublocale of the other. \<open>BillingEffects\<close>,
    \<open>BillingFootprint\<close>: what each statement changes, with the guards it passed.
  \<^item> \<open>BillingInvariant\<close>, \<open>BillingRows\<close>, \<open>BillingEvidence\<close>, \<open>BillingCommit\<close>: the parts of the invariant \<open>billing_inv\<close>, the last
    one for what only COMMIT checks. \<open>BillingSafety\<close>, \<open>BillingPaid\<close>: they hold of every reachable database, and a
    paid invoice is proved. \<open>BillingDemo\<close>: one concrete run for the witnesses.
  \<^item> Properties: \<open>BillingClaims\<close> (C31-C36: valid rows, proved payments, complete history, periods that move with
    settlements, gapless numbers, operations are runs), \<open>BillingReplay\<close> (C37, C38: final events, idempotent
    drafts), \<open>BillingLive\<close> (C39, C40: a verified success settles; a retired price blocks it).

  \<^bold>\<open>Bounds.\<close> Integers of the code are unbounded here; the code's own bounds (safe integers, 10000 units a line, 100 lines,
  8192 bytes of a snapshot, ten webhook retries, twelve recovery attempts) are written out where it tests them. Instants are
  milliseconds. String lengths count characters.

  \<^bold>\<open>Not modelled.\<close>
  \<^item> Payment: refunds, disputes, reconciliation findings, the simulation provider, re-emission. Their guards on
    the shared tables are modelled where a modelled operation meets them.
  \<^item> Billing: the services of refunds, disputes, fraud holds, late settlements, recovery obligations, assistance requests and the
    platform consumers. Their tables are read, and a statement outside the core may change them in any step of the
    system (\<open>bill_write\<close>), so that the properties do not depend on what they write there.
  \<^item> Controllers, guards, message texts, timers (a pass is modelled, not its schedule), broker and database glue of the kit;
    the other services of the repository, its frontend and its scripts.
\<close>

end
